(* ===== verification/Prelude.thy ===== *)
theory Prelude
  imports Main "HOL-Library.Word"
begin

text \<open>
  Shared vocabulary of the development: machine integers at the widths the C code uses,
  the byte image of a 32-bit memory cell on the little-endian x86 target the README names,
  the byte-swapping macros \<open>htonl\<close>/\<open>ntohl\<close>/\<open>cpu_to_be32\<close>, the grouping of bytes into XDR
  words that \<open>memcpy\<close> into a word-addressed reply performs, and the collections of rewrite
  rules that the component theories fill and use.
\<close>

unbundle bit_operations_syntax

named_theorems xdr_simps \<open>unfolding rules of the XDR wire primitives\<close>
named_theorems fh_simps \<open>rules for file-handle operations\<close>
named_theorems call_simps \<open>unfolding rules of calls into the kernel\<close>
named_theorems ledger_simps \<open>rules for the reference ledger\<close>
named_theorems refs_frame \<open>what an operation does to every count, as destruction rules\<close>
named_theorems faults_frame \<open>operations that do not fault, as destruction rules\<close>

section \<open>Machine integers\<close>

type_synonym u8 = "8 word"
type_synonym u16 = "16 word"
type_synonym u32 = "32 word"
type_synonym u64 = "64 word"

text \<open>A \<open>__be32\<close> is a 32-bit cell whose bytes are in network order, as it sits in memory.\<close>

type_synonym be32 = u32

section \<open>Bytes of a 32-bit cell\<close>

text \<open>The four bytes of a cell in the order of their addresses (little-endian host).\<close>

definition le_bytes :: "u32 \<Rightarrow> u8 list" where
  "le_bytes x = [ucast x, ucast (drop_bit 8 x), ucast (drop_bit 16 x), ucast (drop_bit 24 x)]"

definition le_word :: "u8 \<Rightarrow> u8 \<Rightarrow> u8 \<Rightarrow> u8 \<Rightarrow> u32" where
  "le_word a b c d =
     ucast a OR push_bit 8 (ucast b) OR push_bit 16 (ucast c) OR push_bit 24 (ucast d)"

lemma length_le_bytes [simp]: "length (le_bytes x) = 4"
  by (simp add: le_bytes_def)

lemma le_word_le_bytes [simp]:
  "le_word (ucast x) (ucast (drop_bit 8 x)) (ucast (drop_bit 16 x)) (ucast (drop_bit 24 x)) = x"
proof (rule bit_word_eqI)
  fix n assume n: "n < LENGTH(32)"
  consider "n < 8" | "8 \<le> n" "n < 16" | "16 \<le> n" "n < 24" | "24 \<le> n"
    by linarith
  then show "bit (le_word (ucast x) (ucast (drop_bit 8 x)) (ucast (drop_bit 16 x))
      (ucast (drop_bit 24 x))) n \<longleftrightarrow> bit x n"
    by cases (use n in \<open>auto simp: le_word_def bit_simps less_diff_conv2\<close>)
qed

lemma ucast_le_word:
  "(ucast (le_word a b c d) :: u8) = a"
  "(ucast (drop_bit 8 (le_word a b c d)) :: u8) = b"
  "(ucast (drop_bit 16 (le_word a b c d)) :: u8) = c"
  "(ucast (drop_bit 24 (le_word a b c d)) :: u8) = d"
proof -
  have high: "\<not> bit (w :: u8) (8 + n)" "\<not> bit w (16 + n)" "\<not> bit w (24 + n)" for w n
    using bit_imp_le_length [of w "8 + n"] bit_imp_le_length [of w "16 + n"]
      bit_imp_le_length [of w "24 + n"] by auto
  show "(ucast (le_word a b c d) :: u8) = a"
    by (rule bit_word_eqI) (simp add: le_word_def bit_simps)
  show "(ucast (drop_bit 8 (le_word a b c d)) :: u8) = b"
    by (rule bit_word_eqI) (simp add: le_word_def bit_simps high)
  show "(ucast (drop_bit 16 (le_word a b c d)) :: u8) = c"
    by (rule bit_word_eqI) (simp add: le_word_def bit_simps high)
  show "(ucast (drop_bit 24 (le_word a b c d)) :: u8) = d"
    by (rule bit_word_eqI) (simp add: le_word_def bit_simps high)
qed

lemma le_bytes_le_word [simp]: "le_bytes (le_word a b c d) = [a, b, c, d]"
  by (simp add: le_bytes_def ucast_le_word)

lemma le_bytes_eq_iff [simp]: "le_bytes x = le_bytes y \<longleftrightarrow> x = y"
proof
  assume "le_bytes x = le_bytes y"
  then have "le_word (ucast x) (ucast (drop_bit 8 x)) (ucast (drop_bit 16 x)) (ucast (drop_bit 24 x))
      = le_word (ucast y) (ucast (drop_bit 8 y)) (ucast (drop_bit 16 y)) (ucast (drop_bit 24 y))"
    by (simp only: le_bytes_def list.inject)
  then show "x = y" by (simp only: le_word_le_bytes)
qed simp

lemma le_word_zero [simp]: "le_word 0 0 0 0 = 0"
  by (simp add: le_word_def)

lemma le_word_eq_iff [simp]:
  "le_word a b c d = le_word a' b' c' d' \<longleftrightarrow> a = a' \<and> b = b' \<and> c = c' \<and> d = d'"
proof
  assume "le_word a b c d = le_word a' b' c' d'"
  then have "le_bytes (le_word a b c d) = le_bytes (le_word a' b' c' d')" by simp
  then show "a = a' \<and> b = b' \<and> c = c' \<and> d = d'" by simp
qed simp

section \<open>Network byte order\<close>

text \<open>
  \<open>htonl\<close>, \<open>ntohl\<close>, \<open>cpu_to_be32\<close> reverse the four bytes of a cell on a little-endian host.
\<close>

definition bswap32 :: "u32 \<Rightarrow> u32" where
  "bswap32 x = le_word (ucast (drop_bit 24 x)) (ucast (drop_bit 16 x)) (ucast (drop_bit 8 x)) (ucast x)"

definition htonl :: "u32 \<Rightarrow> be32" where
  "htonl x = bswap32 x"

definition ntohl :: "be32 \<Rightarrow> u32" where
  "ntohl x = bswap32 x"

definition cpu_to_be32 :: "u32 \<Rightarrow> be32" where
  "cpu_to_be32 x = bswap32 x"

lemma le_bytes_bswap32: "le_bytes (bswap32 x) = rev (le_bytes x)"
  by (simp add: bswap32_def) (simp add: le_bytes_def)

lemma bswap32_bswap32 [simp]: "bswap32 (bswap32 x) = x"
proof -
  have "le_bytes (bswap32 (bswap32 x)) = le_bytes x" by (simp add: le_bytes_bswap32)
  then show ?thesis by simp
qed

lemma bswap32_eq_iff [simp]: "bswap32 x = bswap32 y \<longleftrightarrow> x = y"
  by (metis bswap32_bswap32)

lemma bswap32_zero [simp]: "bswap32 0 = 0"
  by (simp add: bswap32_def)

lemma bswap32_eq_zero_iff [simp]: "bswap32 x = 0 \<longleftrightarrow> x = 0"
  by (metis bswap32_eq_iff bswap32_zero)

lemma zero_eq_bswap32_iff [simp]: "0 = bswap32 x \<longleftrightarrow> x = 0"
  by (metis bswap32_eq_zero_iff)

lemma ntohl_htonl [simp]: "ntohl (htonl x) = x"
  by (simp add: ntohl_def htonl_def)

lemma htonl_ntohl [simp]: "htonl (ntohl x) = x"
  by (simp add: ntohl_def htonl_def)

lemma htonl_eq_iff [simp]: "htonl x = htonl y \<longleftrightarrow> x = y"
  by (simp add: htonl_def)

lemma cpu_to_be32_eq_iff [simp]: "cpu_to_be32 x = cpu_to_be32 y \<longleftrightarrow> x = y"
  by (simp add: cpu_to_be32_def)

lemma cpu_to_be32_zero [simp]: "cpu_to_be32 0 = 0"
  by (simp add: cpu_to_be32_def)

lemma cpu_to_be32_eq_zero_iff [simp]: "cpu_to_be32 x = 0 \<longleftrightarrow> x = 0"
  by (simp add: cpu_to_be32_def)

lemma zero_eq_cpu_to_be32_iff [simp]: "0 = cpu_to_be32 x \<longleftrightarrow> x = 0"
  by (simp add: cpu_to_be32_def)

lemma ntohl_cpu_to_be32 [simp]: "ntohl (cpu_to_be32 x) = x"
  by (simp add: ntohl_def cpu_to_be32_def)

lemma htonl_zero [simp]: "htonl 0 = 0"
  by (simp add: htonl_def)

lemma ntohl_zero [simp]: "ntohl 0 = 0"
  by (simp add: ntohl_def)

lemma ntohl_eq_zero_iff [simp]: "ntohl x = 0 \<longleftrightarrow> x = 0"
  by (simp add: ntohl_def)

section \<open>Runs of bytes as runs of cells\<close>

text \<open>
  \<open>memcpy\<close> of a byte run over cells that were zero before: the bytes fill the cells in
  address order and the rest of the last cell stays zero, which is the XDR padding.
\<close>

fun words_of_bytes :: "u8 list \<Rightarrow> u32 list" where
  "words_of_bytes [] = []"
| "words_of_bytes [a] = [le_word a 0 0 0]"
| "words_of_bytes [a, b] = [le_word a b 0 0]"
| "words_of_bytes [a, b, c] = [le_word a b c 0]"
| "words_of_bytes (a # b # c # d # bs) = le_word a b c d # words_of_bytes bs"

definition bytes_of_words :: "u32 list \<Rightarrow> u8 list" where
  "bytes_of_words ws = concat (map le_bytes ws)"

lemma bytes_of_words_simps [simp]:
  "bytes_of_words [] = []"
  "bytes_of_words (w # ws) = le_bytes w @ bytes_of_words ws"
  by (simp_all add: bytes_of_words_def)

lemma length_bytes_of_words [simp]: "length (bytes_of_words ws) = 4 * length ws"
  by (induction ws) auto

lemma bytes_of_words_append [simp]:
  "bytes_of_words (xs @ ys) = bytes_of_words xs @ bytes_of_words ys"
  by (simp add: bytes_of_words_def)

lemma length_words_of_bytes [simp]: "length (words_of_bytes bs) = (length bs + 3) div 4"
  by (induction bs rule: words_of_bytes.induct) auto

lemma take_bytes_of_words_of_bytes [simp]:
  "take (length bs) (bytes_of_words (words_of_bytes bs)) = bs"
  by (induction bs rule: words_of_bytes.induct) auto

lemma words_of_bytes_of_words [simp]: "words_of_bytes (bytes_of_words ws) = ws"
proof (induction ws)
  case (Cons w ws)
  have "words_of_bytes (le_bytes w @ bs) = w # words_of_bytes bs" for bs
    by (simp add: le_bytes_def)
  with Cons.IH show ?case by simp
qed simp

section \<open>Overwriting a run of a list\<close>

text \<open>\<open>memcpy\<close> or a loop of stores at index \<open>n\<close> of an array.\<close>

definition overwrite :: "nat \<Rightarrow> 'a list \<Rightarrow> 'a list \<Rightarrow> 'a list" where
  "overwrite n ws xs = take n xs @ ws @ drop (n + length ws) xs"

lemma length_overwrite:
  "n + length ws \<le> length xs \<Longrightarrow> length (overwrite n ws xs) = length xs"
  by (simp add: overwrite_def)

lemma overwrite_Nil [simp]: "overwrite n [] xs = xs"
  by (simp add: overwrite_def)

lemma take_overwrite:
  "m \<le> n \<Longrightarrow> n \<le> length xs \<Longrightarrow> take m (overwrite n ws xs) = take m xs"
  by (simp add: overwrite_def min_def)

lemma take_drop_overwrite:
  "n \<le> length xs \<Longrightarrow> take (length ws) (drop n (overwrite n ws xs)) = ws"
  by (simp add: overwrite_def)

end
