(* ===== verification/Structs.thy ===== *)
theory Structs
  imports Prelude
begin

text \<open>
  The structures the components share. Objects the kernel owns and the module only points to
  (dentries, inodes, mounts, open files, authentication domains, cache entries) are pointers,
  modelled as natural numbers; a pointer that may be \<open>NULL\<close> is an option. Structures whose
  fields the module reads or writes are records with the fields the source uses. Numeric
  constants of the POSIX and Linux ABI and of RFC 1813 are abbreviations.
\<close>

section \<open>Pointers\<close>

type_synonym dentry_p = nat
type_synonym inode_p = nat
type_synonym mnt_p = nat
type_synonym file_p = nat
type_synonym domain_p = nat
type_synonym export_p = nat
type_synonym expkey_p = nat

text \<open>A \<open>char *\<close> is the memory it points to, read by offset.\<close>

type_synonym char_p = "nat \<Rightarrow> u8"

definition cstr :: "char_p \<Rightarrow> nat \<Rightarrow> u8 list" where
  "cstr name len = map name [0..<len]"

lemma length_cstr [simp]: "length (cstr name n) = n"
  by (simp add: cstr_def)

section \<open>Constants of the ABI\<close>

abbreviation (input) EPERM :: int where "EPERM \<equiv> 1"
abbreviation (input) ENOENT :: int where "ENOENT \<equiv> 2"
abbreviation (input) EINTR :: int where "EINTR \<equiv> 4"
abbreviation (input) EIO :: int where "EIO \<equiv> 5"
abbreviation (input) ENXIO :: int where "ENXIO \<equiv> 6"
abbreviation (input) E2BIG :: int where "E2BIG \<equiv> 7"
abbreviation (input) EAGAIN :: int where "EAGAIN \<equiv> 11"
abbreviation (input) EWOULDBLOCK :: int where "EWOULDBLOCK \<equiv> 11"
abbreviation (input) ENOMEM :: int where "ENOMEM \<equiv> 12"
abbreviation (input) EACCES :: int where "EACCES \<equiv> 13"
abbreviation (input) EEXIST :: int where "EEXIST \<equiv> 17"
abbreviation (input) EXDEV :: int where "EXDEV \<equiv> 18"
abbreviation (input) ENODEV :: int where "ENODEV \<equiv> 19"
abbreviation (input) ENOTDIR :: int where "ENOTDIR \<equiv> 20"
abbreviation (input) EISDIR :: int where "EISDIR \<equiv> 21"
abbreviation (input) EINVAL :: int where "EINVAL \<equiv> 22"
abbreviation (input) ENFILE :: int where "ENFILE \<equiv> 23"
abbreviation (input) ETXTBSY :: int where "ETXTBSY \<equiv> 26"
abbreviation (input) EFBIG :: int where "EFBIG \<equiv> 27"
abbreviation (input) ENOSPC :: int where "ENOSPC \<equiv> 28"
abbreviation (input) EROFS :: int where "EROFS \<equiv> 30"
abbreviation (input) EMLINK :: int where "EMLINK \<equiv> 31"
abbreviation (input) ENAMETOOLONG :: int where "ENAMETOOLONG \<equiv> 36"
abbreviation (input) ENOTEMPTY :: int where "ENOTEMPTY \<equiv> 39"
abbreviation (input) EOPNOTSUPP :: int where "EOPNOTSUPP \<equiv> 95"
abbreviation (input) ETIMEDOUT :: int where "ETIMEDOUT \<equiv> 110"
abbreviation (input) ESTALE :: int where "ESTALE \<equiv> 116"
abbreviation (input) EDQUOT :: int where "EDQUOT \<equiv> 122"
abbreviation (input) ERESTARTSYS :: int where "ERESTARTSYS \<equiv> 512"
abbreviation (input) ETOOSMALL :: int where "ETOOSMALL \<equiv> 525"
abbreviation (input) ESERVERFAULT :: int where "ESERVERFAULT \<equiv> 526"

abbreviation (input) S_IFMT :: u16 where "S_IFMT \<equiv> 0xF000"
abbreviation (input) S_IFSOCK :: u16 where "S_IFSOCK \<equiv> 0xC000"
abbreviation (input) S_IFLNK :: u16 where "S_IFLNK \<equiv> 0xA000"
abbreviation (input) S_IFREG :: u16 where "S_IFREG \<equiv> 0x8000"
abbreviation (input) S_IFBLK :: u16 where "S_IFBLK \<equiv> 0x6000"
abbreviation (input) S_IFDIR :: u16 where "S_IFDIR \<equiv> 0x4000"
abbreviation (input) S_IFCHR :: u16 where "S_IFCHR \<equiv> 0x2000"
abbreviation (input) S_IFIFO :: u16 where "S_IFIFO \<equiv> 0x1000"
abbreviation (input) S_ISUID :: u16 where "S_ISUID \<equiv> 0x800"
abbreviation (input) S_ISGID :: u16 where "S_ISGID \<equiv> 0x400"
abbreviation (input) S_IXGRP :: u16 where "S_IXGRP \<equiv> 0x008"
abbreviation (input) S_IALLUGO :: u16 where "S_IALLUGO \<equiv> 0xFFF"

definition S_ISDIR :: "u16 \<Rightarrow> bool" where "S_ISDIR m \<longleftrightarrow> m AND S_IFMT = S_IFDIR"
definition S_ISREG :: "u16 \<Rightarrow> bool" where "S_ISREG m \<longleftrightarrow> m AND S_IFMT = S_IFREG"
definition S_ISLNK :: "u16 \<Rightarrow> bool" where "S_ISLNK m \<longleftrightarrow> m AND S_IFMT = S_IFLNK"
definition special_file :: "u16 \<Rightarrow> bool" where
  "special_file m \<longleftrightarrow> m AND S_IFMT \<in> {S_IFCHR, S_IFBLK, S_IFIFO, S_IFSOCK}"

abbreviation (input) ATTR_MODE :: u32 where "ATTR_MODE \<equiv> 0x1"
abbreviation (input) ATTR_UID :: u32 where "ATTR_UID \<equiv> 0x2"
abbreviation (input) ATTR_GID :: u32 where "ATTR_GID \<equiv> 0x4"
abbreviation (input) ATTR_SIZE :: u32 where "ATTR_SIZE \<equiv> 0x8"
abbreviation (input) ATTR_ATIME :: u32 where "ATTR_ATIME \<equiv> 0x10"
abbreviation (input) ATTR_MTIME :: u32 where "ATTR_MTIME \<equiv> 0x20"
abbreviation (input) ATTR_CTIME :: u32 where "ATTR_CTIME \<equiv> 0x40"
abbreviation (input) ATTR_ATIME_SET :: u32 where "ATTR_ATIME_SET \<equiv> 0x80"
abbreviation (input) ATTR_MTIME_SET :: u32 where "ATTR_MTIME_SET \<equiv> 0x100"
abbreviation (input) ATTR_KILL_SUID :: u32 where "ATTR_KILL_SUID \<equiv> 0x800"
abbreviation (input) ATTR_KILL_SGID :: u32 where "ATTR_KILL_SGID \<equiv> 0x1000"
abbreviation (input) ATTR_KILL_PRIV :: u32 where "ATTR_KILL_PRIV \<equiv> 0x4000"

abbreviation (input) O_RDONLY :: u32 where "O_RDONLY \<equiv> 0"
abbreviation (input) O_WRONLY :: u32 where "O_WRONLY \<equiv> 1"
abbreviation (input) O_RDWR :: u32 where "O_RDWR \<equiv> 2"
abbreviation (input) O_NONBLOCK :: u32 where "O_NONBLOCK \<equiv> 0x800"
abbreviation (input) O_LARGEFILE :: u32 where "O_LARGEFILE \<equiv> 0x8000"

abbreviation (input) PAGE_SIZE :: nat where "PAGE_SIZE \<equiv> 4096"
abbreviation (input) NFS_OFFSET_MAX :: u64 where "NFS_OFFSET_MAX \<equiv> 0x7FFFFFFFFFFFFFFF"

text \<open>Values RFC 1813 fixes (\<open>src/rfc1813.txt\<close>) and the file-identifier types of exportfs.\<close>

abbreviation (input) NFS_FHSIZE :: u32 where "NFS_FHSIZE \<equiv> 32"
abbreviation (input) NFS3_FHSIZE :: u32 where "NFS3_FHSIZE \<equiv> 64"
abbreviation (input) NFS3_CREATE_UNCHECKED :: u32 where "NFS3_CREATE_UNCHECKED \<equiv> 0"
abbreviation (input) NFS3_CREATE_GUARDED :: u32 where "NFS3_CREATE_GUARDED \<equiv> 1"
abbreviation (input) NFS3_CREATE_EXCLUSIVE :: u32 where "NFS3_CREATE_EXCLUSIVE \<equiv> 2"
abbreviation (input) NFS_UNSTABLE :: u32 where "NFS_UNSTABLE \<equiv> 0"
abbreviation (input) FILEID_ROOT :: u8 where "FILEID_ROOT \<equiv> 0"
abbreviation (input) FILEID_INVALID :: u8 where "FILEID_INVALID \<equiv> 0xFF"
abbreviation (input) NFSEXP_READONLY :: u32 where "NFSEXP_READONLY \<equiv> 0x1"
abbreviation (input) NFSEXP_ROOTSQUASH :: u32 where "NFSEXP_ROOTSQUASH \<equiv> 0x4"
abbreviation (input) NFSEXP_ASYNC :: u32 where "NFSEXP_ASYNC \<equiv> 0x10"

section \<open>Kernel structures\<close>

record path =
  p_mnt :: mnt_p
  p_dentry :: dentry_p

record timespec =
  tv_sec :: u64
  tv_nsec :: u64

text \<open>The fields of an inode and of its superblock that the module reads.\<close>

record inode =
  i_mode :: u16
  i_ino :: u64
  i_size :: u64
  i_mtime :: timespec
  i_atime :: timespec
  i_ctime :: timespec
  i_fop :: bool
  i_op_lookup :: bool
  s_dev :: u32
  s_magic :: u64
  s_maxbytes :: u64
  s_export_op :: bool
  s_fh_to_dentry :: bool
  s_commit_metadata :: bool

record iattr =
  ia_valid :: u32
  ia_mode :: u16
  ia_uid :: u32
  ia_gid :: u32
  ia_size :: u64
  ia_atime :: timespec
  ia_mtime :: timespec

record kstat =
  st_mode :: u16
  st_nlink :: u32
  st_uid :: u32
  st_gid :: u32
  st_size :: u64
  st_blocks :: u64
  st_rdev :: u32
  st_ino :: u64
  st_atime :: timespec
  st_mtime :: timespec
  st_ctime :: timespec

record kstatfs =
  f_bsize :: u64
  f_blocks :: u64
  f_bfree :: u64
  f_bavail :: u64
  f_files :: u64
  f_ffree :: u64

text \<open>A directory entry as the file system offers it to a \<open>filldir\<close> callback.\<close>

record dirent =
  de_name :: "u8 list"
  de_off :: u64
  de_ino :: u64
  de_type :: u32

record cred =
  fsuid :: u32
  fsgid :: u32
  cap_effective :: u64

definition zero_time :: timespec where
  "zero_time = \<lparr>tv_sec = 0, tv_nsec = 0\<rparr>"

definition zero_iattr :: iattr where
  "zero_iattr = \<lparr>ia_valid = 0, ia_mode = 0, ia_uid = 0, ia_gid = 0, ia_size = 0,
     ia_atime = zero_time, ia_mtime = zero_time\<rparr>"

definition zero_inode :: inode where
  "zero_inode = \<lparr>i_mode = 0, i_ino = 0, i_size = 0, i_mtime = zero_time, i_atime = zero_time,
     i_ctime = zero_time, i_fop = False, i_op_lookup = False, s_dev = 0, s_magic = 0,
     s_maxbytes = 0, s_export_op = False, s_fh_to_dentry = False, s_commit_metadata = False\<rparr>"

definition zero_kstat :: kstat where
  "zero_kstat = \<lparr>st_mode = 0, st_nlink = 0, st_uid = 0, st_gid = 0, st_size = 0, st_blocks = 0,
     st_rdev = 0, st_ino = 0, st_atime = zero_time, st_mtime = zero_time, st_ctime = zero_time\<rparr>"

definition zero_kstatfs :: kstatfs where
  "zero_kstatfs = \<lparr>f_bsize = 0, f_blocks = 0, f_bfree = 0, f_bavail = 0, f_files = 0, f_ffree = 0\<rparr>"

section \<open>The RPC request\<close>

text \<open>
  The fields of \<open>struct svc_rqst\<close> the module uses. The argument head \<open>rq_arg.head[0]\<close> is the
  memory from \<open>iov_base\<close> on, read by cell index, and \<open>iov_len\<close> in bytes; cells beyond \<open>iov_len\<close>
  are whatever the page holds. The reply head \<open>rq_res.head[0]\<close> is the list of cells written
  from \<open>iov_base\<close> on, with its \<open>iov_len\<close>, so that a position \<open>p\<close> of the encoders is the length
  of that list. Pages are named by their index from \<open>rq_respages\<close> on: index 0 is the page of the
  reply head, the pages below \<open>rq_npages\<close> exist and the entries from there on are \<open>NULL\<close>;
  \<open>rq_page\<close> is their memory, by page and cell.
\<close>

record svc_rqst =
  rq_client :: "domain_p option"
  rq_cr_uid :: u32
  rq_cr_gid :: u32
  rq_local :: bool
  rq_dropme :: bool
  rq_proc :: u32
  rq_arg_head :: "nat \<Rightarrow> be32"
  rq_arg_head_len :: u64
  rq_arg_page_len :: u32
  rq_arg_tail_len :: u64
  rq_next_page :: nat
  rq_npages :: nat
  rq_page :: "nat \<Rightarrow> nat \<Rightarrow> be32"
  rq_vec :: "(nat \<times> u32) list"
  rq_res_head :: "be32 list"
  rq_res_head_len :: nat
  rq_res_page_len :: nat
  rq_res_tail :: "be32 list"
  rq_res_tail_len :: nat

section \<open>Exports and export keys (\<open>export.h\<close>)\<close>

text \<open>The flag bits of a \<open>cache_head\<close> and its expiry time.\<close>

record cache_head =
  cache_valid :: bool
  cache_negative :: bool
  expiry_time :: u64

record exp_flavor_info =
  pseudoflavor :: u32
  flavor_flags :: u32

record svc_export =
  ex_h :: cache_head
  ex_client :: domain_p
  ex_flags :: u32
  ex_path :: path
  ex_fsid :: u32
  ex_nflavors :: u32
  ex_flavors :: "exp_flavor_info list"

record svc_expkey =
  ek_h :: cache_head
  ek_client :: domain_p
  ek_fsidtype :: int
  ek_fsid :: "u32 list"
  ek_path :: path

definition EX_ISSYNC :: "u32 \<Rightarrow> bool" where
  "EX_ISSYNC flags \<longleftrightarrow> flags AND NFSEXP_ASYNC = 0"

end
