(* ===== verification/Kernel_API.thy ===== *)
theory Kernel_API
  imports Structs
begin

text \<open>
  The kernel services the module calls are not part of the repository, so they are a parameter:
  a record \<open>K :: kernel\<close> of answer functions. Every call is appended to a history (newest
  first) together with its result, and every answer may depend on the whole history, so the
  parameter covers any state the file systems, the caches and other threads may be in. A read
  of kernel-owned memory (\<open>d_inode\<close>, \<open>inode_at\<close>, \<open>export_flags\<close>, \dots) takes the history for
  the same reason. What the module does is then visible in two places: the values it returns
  and the sequence of calls it makes. Assertion failures and dereferences of \<open>NULL\<close> are calls
  of their own (\<open>Fault BUG\<close>, \<open>Fault WARN\<close>, \<open>Fault OOPS\<close>), so that their absence can be stated.
\<close>

section \<open>Calls\<close>

datatype cache_item = Export_item export_p | Expkey_item expkey_p

datatype fault_call = BUG | WARN | OOPS

text \<open>Calls that only move a reference count.\<close>

datatype ref_call =
    Dget dentry_p
  | Dget_parent dentry_p dentry_p
  | Dput dentry_p
  | Cache_lookup "cache_item option"
  | Cache_check cache_item int
  | Cache_get cache_item
  | Cache_put cache_item
  | Cache_update cache_item "cache_item option"
  | Domain_get domain_p
  | Domain_put domain_p
  | Path_get path
  | Path_put path
  | Want_write mnt_p int
  | Drop_write mnt_p

text \<open>Operations on names, directories and attributes.\<close>

datatype ns_call =
    Lookup_one_len "u8 list" dentry_p "int + dentry_p"
  | Vfs_create inode_p dentry_p u16 int
  | Vfs_mkdir inode_p dentry_p u16 int
  | Vfs_unlink inode_p dentry_p int
  | Vfs_rmdir inode_p dentry_p int
  | Notify_change dentry_p iattr int
  | Commit_metadata inode_p int
  | Sync_inode_metadata inode_p int
  | Vfs_getattr path "int + kstat"
  | Lease_get_mtime inode_p
  | Vfs_statfs path "int + kstatfs"
  | Kern_path "u8 list" "int + path"

text \<open>Operations on open files.\<close>

datatype file_call =
    Break_lease inode_p u32 int
  | Dentry_open path u32 "int + file_p"
  | Ima_file_check file_p u32 int
  | Fput file_p
  | Vfs_readv file_p u64 "u32 list" int
  | Fsnotify_access file_p
  | Vfs_writev file_p u64 "u32 list" int
  | Fsnotify_modify file_p
  | Vfs_fsync_range file_p u64 u64 int
  | Iterate_dir file_p nat int
  | Vfs_llseek file_p u64 bool int

text \<open>Credentials, handle encoding, reply space.\<close>

datatype sys_call =
    Revert_creds
  | Prepare_creds "cred option"
  | Override_creds cred
  | Encode_fh dentry_p u32 u32
  | Decode_fh mnt_p "u32 list" int u8 "int + dentry_p option"
  | Reserve_auth nat
  | Domain_find "u8 list" "domain_p option"
  | Cache_flush
  | Kmalloc bool
  | Kfree bool
  | Get_free_page bool
  | Free_page

datatype kcall =
    Fault fault_call
  | Ref ref_call
  | Ns ns_call
  | File file_call
  | Sys sys_call

type_synonym hist = "kcall list"

section \<open>Answers\<close>

record kernel =
  \<comment> \<open>kernel-owned memory\<close>
  d_inode :: "hist \<Rightarrow> dentry_p \<Rightarrow> inode_p option"
  inode_at :: "hist \<Rightarrow> inode_p \<Rightarrow> inode"
  d_parent :: "hist \<Rightarrow> dentry_p \<Rightarrow> dentry_p"
  is_root :: "hist \<Rightarrow> dentry_p \<Rightarrow> bool"
  d_mountpoint :: "hist \<Rightarrow> dentry_p \<Rightarrow> bool"
  \<comment> \<open>an export entry's path is written once, by \<open>svc_export_init\<close>, before the entry is shared\<close>
  export_path :: "export_p \<Rightarrow> path"
  export_flags :: "hist \<Rightarrow> export_p \<Rightarrow> u32"
  export_fsid :: "hist \<Rightarrow> export_p \<Rightarrow> u32"
  expkey_path :: "hist \<Rightarrow> expkey_p \<Rightarrow> path"
  \<comment> \<open>name lookup, directory and attribute operations\<close>
  lookup_one_len :: "hist \<Rightarrow> u8 list \<Rightarrow> dentry_p \<Rightarrow> int + dentry_p"
  vfs_create :: "hist \<Rightarrow> inode_p \<Rightarrow> dentry_p \<Rightarrow> u16 \<Rightarrow> int"
  vfs_mkdir :: "hist \<Rightarrow> inode_p \<Rightarrow> dentry_p \<Rightarrow> u16 \<Rightarrow> int"
  vfs_unlink :: "hist \<Rightarrow> inode_p \<Rightarrow> dentry_p \<Rightarrow> int"
  vfs_rmdir :: "hist \<Rightarrow> inode_p \<Rightarrow> dentry_p \<Rightarrow> int"
  notify_change :: "hist \<Rightarrow> dentry_p \<Rightarrow> iattr \<Rightarrow> int"
  commit_metadata_op :: "hist \<Rightarrow> inode_p \<Rightarrow> int"
  sync_inode_metadata :: "hist \<Rightarrow> inode_p \<Rightarrow> int"
  vfs_getattr :: "hist \<Rightarrow> path \<Rightarrow> int + kstat"
  lease_get_mtime :: "hist \<Rightarrow> inode_p \<Rightarrow> timespec \<Rightarrow> timespec"
  vfs_statfs :: "hist \<Rightarrow> path \<Rightarrow> int + kstatfs"
  \<comment> \<open>open files\<close>
  break_lease :: "hist \<Rightarrow> inode_p \<Rightarrow> u32 \<Rightarrow> int"
  dentry_open :: "hist \<Rightarrow> path \<Rightarrow> u32 \<Rightarrow> int + file_p"
  ima_file_check :: "hist \<Rightarrow> file_p \<Rightarrow> u32 \<Rightarrow> int"
  vfs_readv :: "hist \<Rightarrow> file_p \<Rightarrow> u64 \<Rightarrow> u32 list \<Rightarrow> int"
  vfs_writev :: "hist \<Rightarrow> file_p \<Rightarrow> u64 \<Rightarrow> u32 list \<Rightarrow> int"
  vfs_fsync_range :: "hist \<Rightarrow> file_p \<Rightarrow> u64 \<Rightarrow> u64 \<Rightarrow> int"
  \<comment> \<open>the entries a directory offers from its position on, and what the walk returns if not stopped\<close>
  iterate_dir :: "hist \<Rightarrow> file_p \<Rightarrow> dirent list \<times> int"
  \<comment> \<open>seek to an offset (\<open>True\<close>: from the start) or by one from the current position\<close>
  vfs_llseek :: "hist \<Rightarrow> file_p \<Rightarrow> u64 \<Rightarrow> bool \<Rightarrow> int"
  get_free_page :: "hist \<Rightarrow> bool"
  \<comment> \<open>mounts, credentials, handle encoding\<close>
  mnt_want_write :: "hist \<Rightarrow> mnt_p \<Rightarrow> int"
  prepare_creds :: "hist \<Rightarrow> cred option"
  cap_drop_nfsd_set :: "u64 \<Rightarrow> u64"
  current_fsuid :: "hist \<Rightarrow> u32"
  exportfs_encode_fh :: "hist \<Rightarrow> dentry_p \<Rightarrow> u32 \<Rightarrow> bool \<Rightarrow> u32 \<times> u32 \<times> u32 list"
  exportfs_decode_fh :: "hist \<Rightarrow> mnt_p \<Rightarrow> u32 list \<Rightarrow> int \<Rightarrow> u8 \<Rightarrow> int + dentry_p option"
  MAJOR :: "u32 \<Rightarrow> u32"
  MINOR :: "u32 \<Rightarrow> u32"
  huge_encode_dev :: "u32 \<Rightarrow> u64"
  \<comment> \<open>the sunrpc caches and the RPC server\<close>
  cache_lookup_export :: "hist \<Rightarrow> svc_export \<Rightarrow> u32 \<Rightarrow> export_p option"
  cache_lookup_expkey :: "hist \<Rightarrow> svc_expkey \<Rightarrow> u32 \<Rightarrow> expkey_p option"
  cache_check :: "hist \<Rightarrow> cache_item \<Rightarrow> bool \<Rightarrow> int"
  cache_update_export :: "hist \<Rightarrow> svc_export \<Rightarrow> export_p \<Rightarrow> u32 \<Rightarrow> export_p option"
  cache_update_expkey :: "hist \<Rightarrow> svc_expkey \<Rightarrow> expkey_p \<Rightarrow> u32 \<Rightarrow> expkey_p option"
  hash_mem :: "u8 list \<Rightarrow> nat \<Rightarrow> u32"
  hash_ptr :: "nat \<Rightarrow> nat \<Rightarrow> u32"
  svc_max_payload :: "hist \<Rightarrow> u32"
  \<comment> \<open>the vector laid over the data of a write: the rest of the head, then pages\<close>
  svc_fill_write_vector :: "hist \<Rightarrow> nat \<times> u64 \<Rightarrow> u64 \<Rightarrow> u32 list"
  xdr_argsize_check :: "nat \<Rightarrow> nat \<Rightarrow> bool"
  xdr_ressize_check :: "nat \<Rightarrow> bool \<times> nat"
  make_kuid :: "u32 \<Rightarrow> u32"
  make_kgid :: "u32 \<Rightarrow> u32"
  uid_valid :: "u32 \<Rightarrow> bool"
  gid_valid :: "u32 \<Rightarrow> bool"
  \<comment> \<open>allocation, path walking and the text helpers of the cache channel\<close>
  kmalloc :: "hist \<Rightarrow> bool"
  stack_export :: "hist \<Rightarrow> svc_export"
  stack_expkey :: "hist \<Rightarrow> svc_expkey"
  kern_path :: "hist \<Rightarrow> u8 list \<Rightarrow> int + path"
  auth_domain_find :: "hist \<Rightarrow> u8 list \<Rightarrow> domain_p option"
  unix_domain_find :: "hist \<Rightarrow> u8 list \<Rightarrow> domain_p option"
  qword_get :: "u8 list \<Rightarrow> nat \<Rightarrow> int \<times> u8 list \<times> u8 list"
  get_int :: "u8 list \<Rightarrow> int \<times> int \<times> u8 list"
  get_expiry :: "hist \<Rightarrow> u8 list \<Rightarrow> u64 \<times> u8 list"
  simple_strtoul :: "u8 list \<Rightarrow> int \<times> u8 list"
  seconds_since_boot :: "hist \<Rightarrow> u64"

end
