(* ===== verification/Ledger.thy ===== *)
theory Ledger
  imports Kernel_API
begin

text \<open>
  Calls into the kernel as state transformers on the history, and the reference ledger: what
  a history of calls adds to and takes from each counted resource. The ledger is a reading of
  the call sequence; the effect of each call on a count is the documented one (\<open>dget\<close> takes,
  \<open>dput\<close> drops, a successful lookup returns a counted dentry, \<open>cache_check\<close> drops the entry
  when it reports an error, \<open>mnt_want_write\<close> takes write access when it returns 0).
\<close>

section \<open>Calls that return a value\<close>

definition call_dget_parent :: "kernel \<Rightarrow> dentry_p \<Rightarrow> hist \<Rightarrow> dentry_p \<times> hist" where
  [call_simps]: "call_dget_parent K d h = (let p = d_parent K h d in (p, Ref (Dget_parent d p) # h))"

definition call_lookup_one_len ::
  "kernel \<Rightarrow> u8 list \<Rightarrow> dentry_p \<Rightarrow> hist \<Rightarrow> (int + dentry_p) \<times> hist" where
  [call_simps]: "call_lookup_one_len K name d h =
     (let r = lookup_one_len K h name d in (r, Ns (Lookup_one_len name d r) # h))"

definition call_mnt_want_write :: "kernel \<Rightarrow> mnt_p \<Rightarrow> hist \<Rightarrow> int \<times> hist" where
  [call_simps]: "call_mnt_want_write K m h =
     (let r = mnt_want_write K h m in (r, Ref (Want_write m r) # h))"

definition call_vfs_create :: "kernel \<Rightarrow> inode_p \<Rightarrow> dentry_p \<Rightarrow> u16 \<Rightarrow> hist \<Rightarrow> int \<times> hist" where
  [call_simps]: "call_vfs_create K i d m h =
     (let r = vfs_create K h i d m in (r, Ns (Vfs_create i d m r) # h))"

definition call_vfs_mkdir :: "kernel \<Rightarrow> inode_p \<Rightarrow> dentry_p \<Rightarrow> u16 \<Rightarrow> hist \<Rightarrow> int \<times> hist" where
  [call_simps]: "call_vfs_mkdir K i d m h =
     (let r = vfs_mkdir K h i d m in (r, Ns (Vfs_mkdir i d m r) # h))"

definition call_vfs_unlink :: "kernel \<Rightarrow> inode_p \<Rightarrow> dentry_p \<Rightarrow> hist \<Rightarrow> int \<times> hist" where
  [call_simps]: "call_vfs_unlink K i d h =
     (let r = vfs_unlink K h i d in (r, Ns (Vfs_unlink i d r) # h))"

definition call_vfs_rmdir :: "kernel \<Rightarrow> inode_p \<Rightarrow> dentry_p \<Rightarrow> hist \<Rightarrow> int \<times> hist" where
  [call_simps]: "call_vfs_rmdir K i d h =
     (let r = vfs_rmdir K h i d in (r, Ns (Vfs_rmdir i d r) # h))"

definition call_notify_change :: "kernel \<Rightarrow> dentry_p \<Rightarrow> iattr \<Rightarrow> hist \<Rightarrow> int \<times> hist" where
  [call_simps]: "call_notify_change K d a h =
     (let r = notify_change K h d a in (r, Ns (Notify_change d a r) # h))"

definition call_commit_metadata_op :: "kernel \<Rightarrow> inode_p \<Rightarrow> hist \<Rightarrow> int \<times> hist" where
  [call_simps]: "call_commit_metadata_op K i h =
     (let r = commit_metadata_op K h i in (r, Ns (Commit_metadata i r) # h))"

definition call_sync_inode_metadata :: "kernel \<Rightarrow> inode_p \<Rightarrow> hist \<Rightarrow> int \<times> hist" where
  [call_simps]: "call_sync_inode_metadata K i h =
     (let r = sync_inode_metadata K h i in (r, Ns (Sync_inode_metadata i r) # h))"

definition call_vfs_getattr :: "kernel \<Rightarrow> path \<Rightarrow> hist \<Rightarrow> (int + kstat) \<times> hist" where
  [call_simps]: "call_vfs_getattr K p h =
     (let r = vfs_getattr K h p in (r, Ns (Vfs_getattr p r) # h))"

definition call_lease_get_mtime ::
  "kernel \<Rightarrow> inode_p \<Rightarrow> timespec \<Rightarrow> hist \<Rightarrow> timespec \<times> hist" where
  [call_simps]: "call_lease_get_mtime K i t h = (lease_get_mtime K h i t, Ns (Lease_get_mtime i) # h)"

definition call_vfs_statfs :: "kernel \<Rightarrow> path \<Rightarrow> hist \<Rightarrow> (int + kstatfs) \<times> hist" where
  [call_simps]: "call_vfs_statfs K p h =
     (let r = vfs_statfs K h p in (r, Ns (Vfs_statfs p r) # h))"

definition call_break_lease :: "kernel \<Rightarrow> inode_p \<Rightarrow> u32 \<Rightarrow> hist \<Rightarrow> int \<times> hist" where
  [call_simps]: "call_break_lease K i m h =
     (let r = break_lease K h i m in (r, File (Break_lease i m r) # h))"

definition call_dentry_open :: "kernel \<Rightarrow> path \<Rightarrow> u32 \<Rightarrow> hist \<Rightarrow> (int + file_p) \<times> hist" where
  [call_simps]: "call_dentry_open K p fl h =
     (let r = dentry_open K h p fl in (r, File (Dentry_open p fl r) # h))"

definition call_ima_file_check :: "kernel \<Rightarrow> file_p \<Rightarrow> u32 \<Rightarrow> hist \<Rightarrow> int \<times> hist" where
  [call_simps]: "call_ima_file_check K f m h =
     (let r = ima_file_check K h f m in (r, File (Ima_file_check f m r) # h))"

definition call_vfs_readv :: "kernel \<Rightarrow> file_p \<Rightarrow> u64 \<Rightarrow> u32 list \<Rightarrow> hist \<Rightarrow> int \<times> hist" where
  [call_simps]: "call_vfs_readv K f off v h =
     (let r = vfs_readv K h f off v in (r, File (Vfs_readv f off v r) # h))"

definition call_vfs_writev :: "kernel \<Rightarrow> file_p \<Rightarrow> u64 \<Rightarrow> u32 list \<Rightarrow> hist \<Rightarrow> int \<times> hist" where
  [call_simps]: "call_vfs_writev K f off v h =
     (let r = vfs_writev K h f off v in (r, File (Vfs_writev f off v r) # h))"

definition call_vfs_fsync_range :: "kernel \<Rightarrow> file_p \<Rightarrow> u64 \<Rightarrow> u64 \<Rightarrow> hist \<Rightarrow> int \<times> hist" where
  [call_simps]: "call_vfs_fsync_range K f a b h =
     (let r = vfs_fsync_range K h f a b in (r, File (Vfs_fsync_range f a b r) # h))"

definition call_vfs_llseek :: "kernel \<Rightarrow> file_p \<Rightarrow> u64 \<Rightarrow> bool \<Rightarrow> hist \<Rightarrow> int \<times> hist" where
  [call_simps]: "call_vfs_llseek K f off from_start h =
     (let r = vfs_llseek K h f off from_start in (r, File (Vfs_llseek f off from_start r) # h))"

definition call_get_free_page :: "kernel \<Rightarrow> hist \<Rightarrow> bool \<times> hist" where
  [call_simps]: "call_get_free_page K h = (let r = get_free_page K h in (r, Sys (Get_free_page r) # h))"

definition call_prepare_creds :: "kernel \<Rightarrow> hist \<Rightarrow> cred option \<times> hist" where
  [call_simps]: "call_prepare_creds K h = (let r = prepare_creds K h in (r, Sys (Prepare_creds r) # h))"

definition call_exportfs_encode_fh ::
  "kernel \<Rightarrow> dentry_p \<Rightarrow> u32 \<Rightarrow> bool \<Rightarrow> hist \<Rightarrow> (u32 \<times> u32 \<times> u32 list) \<times> hist" where
  [call_simps]: "call_exportfs_encode_fh K d maxsize connectable h =
     (let r = exportfs_encode_fh K h d maxsize connectable
      in (r, Sys (Encode_fh d maxsize (fst r)) # h))"

definition call_exportfs_decode_fh ::
  "kernel \<Rightarrow> mnt_p \<Rightarrow> u32 list \<Rightarrow> int \<Rightarrow> u8 \<Rightarrow> hist \<Rightarrow> (int + dentry_p option) \<times> hist" where
  [call_simps]: "call_exportfs_decode_fh K m fid len t h =
     (let r = exportfs_decode_fh K h m fid len t in (r, Sys (Decode_fh m fid len t r) # h))"

definition call_cache_check :: "kernel \<Rightarrow> cache_item \<Rightarrow> bool \<Rightarrow> hist \<Rightarrow> int \<times> hist" where
  [call_simps]: "call_cache_check K i req h =
     (let r = cache_check K h i req in (r, Ref (Cache_check i r) # h))"

definition call_kmalloc :: "kernel \<Rightarrow> hist \<Rightarrow> bool \<times> hist" where
  [call_simps]: "call_kmalloc K h = (let r = kmalloc K h in (r, Sys (Kmalloc r) # h))"

definition call_kern_path :: "kernel \<Rightarrow> u8 list \<Rightarrow> hist \<Rightarrow> (int + path) \<times> hist" where
  [call_simps]: "call_kern_path K name h =
     (let r = kern_path K h name in (r, Ns (Kern_path name r) # h))"

definition call_auth_domain_find :: "kernel \<Rightarrow> u8 list \<Rightarrow> hist \<Rightarrow> domain_p option \<times> hist" where
  [call_simps]: "call_auth_domain_find K name h =
     (let r = auth_domain_find K h name in (r, Sys (Domain_find name r) # h))"

definition call_unix_domain_find :: "kernel \<Rightarrow> u8 list \<Rightarrow> hist \<Rightarrow> domain_p option \<times> hist" where
  [call_simps]: "call_unix_domain_find K name h =
     (let r = unix_domain_find K h name in (r, Sys (Domain_find name r) # h))"

section \<open>Pointers that may be null\<close>

text \<open>Reading through a null pointer is a fault; the value read is then immaterial.\<close>

definition deref :: "nat option \<Rightarrow> hist \<Rightarrow> nat \<times> hist" where
  "deref p h = (case p of Some x \<Rightarrow> (x, h) | None \<Rightarrow> (0, Fault OOPS # h))"

definition inode_of :: "kernel \<Rightarrow> dentry_p \<Rightarrow> hist \<Rightarrow> inode_p \<times> hist" where
  "inode_of K d h = deref (d_inode K h d) h"

lemma deref_Some [simp]: "deref (Some x) h = (x, h)"
  by (simp add: deref_def)

lemma deref_None [simp]: "deref None h = (0, Fault OOPS # h)"
  by (simp add: deref_def)

definition is_fault :: "kcall \<Rightarrow> bool" where
  "is_fault c \<longleftrightarrow> (case c of Fault _ \<Rightarrow> True | _ \<Rightarrow> False)"

definition faults :: "hist \<Rightarrow> kcall list" where
  "faults h = filter is_fault h"

lemma faults_simps [simp]:
  "faults [] = []"
  "faults (Fault f # h) = Fault f # faults h"
  "faults (Ref r # h) = faults h"
  "faults (Ns n # h) = faults h"
  "faults (File l # h) = faults h"
  "faults (Sys s # h) = faults h"
  by (simp_all add: faults_def is_fault_def)

section \<open>The ledger\<close>

datatype resource =
    Dentry_ref dentry_p
  | Item_ref cache_item
  | Write_ref mnt_p
  | File_ref file_p
  | Domain_ref domain_p
  | Mnt_ref mnt_p
  | Buf_ref

primrec ref_call_delta :: "resource \<Rightarrow> ref_call \<Rightarrow> int" where
  "ref_call_delta x (Dget d) = of_bool (x = Dentry_ref d)"
| "ref_call_delta x (Dget_parent d p) = of_bool (x = Dentry_ref p)"
| "ref_call_delta x (Dput d) = - of_bool (x = Dentry_ref d)"
| "ref_call_delta x (Cache_lookup i) = of_bool (\<exists>j\<in>set_option i. x = Item_ref j)"
| "ref_call_delta x (Cache_check i e) = - of_bool (x = Item_ref i \<and> e \<noteq> 0)"
| "ref_call_delta x (Cache_get i) = of_bool (x = Item_ref i)"
| "ref_call_delta x (Cache_put i) = - of_bool (x = Item_ref i)"
| "ref_call_delta x (Cache_update i r) =
     of_bool (\<exists>j\<in>set_option r. x = Item_ref j) - of_bool (x = Item_ref i)"
| "ref_call_delta x (Domain_get c) = of_bool (x = Domain_ref c)"
| "ref_call_delta x (Domain_put c) = - of_bool (x = Domain_ref c)"
| "ref_call_delta x (Path_get p) =
     of_bool (x = Dentry_ref (p_dentry p)) + of_bool (x = Mnt_ref (p_mnt p))"
| "ref_call_delta x (Path_put p) =
     - of_bool (x = Dentry_ref (p_dentry p)) - of_bool (x = Mnt_ref (p_mnt p))"
| "ref_call_delta x (Want_write m r) = of_bool (x = Write_ref m \<and> r = 0)"
| "ref_call_delta x (Drop_write m) = - of_bool (x = Write_ref m)"

definition delta :: "resource \<Rightarrow> kcall \<Rightarrow> int" where
  "delta x c = (case c of
     Ref r \<Rightarrow> ref_call_delta x r
   | Ns (Lookup_one_len _ _ (Inr d)) \<Rightarrow> of_bool (x = Dentry_ref d)
   | Ns (Kern_path _ (Inr p)) \<Rightarrow>
       of_bool (x = Dentry_ref (p_dentry p)) + of_bool (x = Mnt_ref (p_mnt p))
   | Sys (Decode_fh _ _ _ _ (Inr (Some d))) \<Rightarrow> of_bool (x = Dentry_ref d)
   | Sys (Domain_find _ (Some c)) \<Rightarrow> of_bool (x = Domain_ref c)
   | Sys (Kmalloc b) \<Rightarrow> of_bool (x = Buf_ref \<and> b)
   | Sys (Kfree b) \<Rightarrow> - of_bool (x = Buf_ref \<and> b)
   | File (Dentry_open _ _ (Inr f)) \<Rightarrow> of_bool (x = File_ref f)
   | File (Fput f) \<Rightarrow> - of_bool (x = File_ref f)
   | _ \<Rightarrow> 0)"

definition refs :: "resource \<Rightarrow> hist \<Rightarrow> int" where
  "refs x h = sum_list (map (delta x) h)"

lemma refs_Nil [simp]: "refs x [] = 0"
  by (simp add: refs_def)

lemma refs_Cons [simp]: "refs x (c # h) = delta x c + refs x h"
  by (simp add: refs_def)

lemma delta_simps [ledger_simps]:
  "delta x (Fault fc) = 0"
  "delta x (Ref rc) = ref_call_delta x rc"
  "delta x (Ns (Lookup_one_len n d (Inr d'))) = of_bool (x = Dentry_ref d')"
  "delta x (Ns (Lookup_one_len n d (Inl e))) = 0"
  "delta x (Ns (Vfs_create i d md r)) = 0"
  "delta x (Ns (Vfs_mkdir i d md r)) = 0"
  "delta x (Ns (Vfs_unlink i d r)) = 0"
  "delta x (Ns (Vfs_rmdir i d r)) = 0"
  "delta x (Ns (Notify_change d a r)) = 0"
  "delta x (Ns (Commit_metadata i r)) = 0"
  "delta x (Ns (Sync_inode_metadata i r)) = 0"
  "delta x (Ns (Vfs_getattr p g)) = 0"
  "delta x (Ns (Lease_get_mtime i)) = 0"
  "delta x (Ns (Vfs_statfs p sf)) = 0"
  "delta x (File (Break_lease i fl r)) = 0"
  "delta x (File (Dentry_open p fl (Inr f'))) = of_bool (x = File_ref f')"
  "delta x (File (Dentry_open p fl (Inl e))) = 0"
  "delta x (File (Ima_file_check f' fl r)) = 0"
  "delta x (File (Fput f')) = - of_bool (x = File_ref f')"
  "delta x (File (Vfs_readv f' off v r)) = 0"
  "delta x (File (Fsnotify_access f')) = 0"
  "delta x (File (Vfs_writev f' off v r)) = 0"
  "delta x (File (Fsnotify_modify f')) = 0"
  "delta x (File (Vfs_fsync_range f' off off' r)) = 0"
  "delta x (File (Iterate_dir f' n'' r)) = 0"
  "delta x (File (Vfs_llseek f' off st r)) = 0"
  "delta x (Sys (Get_free_page st)) = 0"
  "delta x (Sys Free_page) = 0"
  "delta x (Sys Revert_creds) = 0"
  "delta x (Sys (Prepare_creds c)) = 0"
  "delta x (Sys (Override_creds c')) = 0"
  "delta x (Sys (Encode_fh d fl t)) = 0"
  "delta x (Sys (Decode_fh m fid len ty (Inl e))) = 0"
  "delta x (Sys (Decode_fh m fid len ty (Inr None))) = 0"
  "delta x (Sys (Decode_fh m fid len ty (Inr (Some d')))) = of_bool (x = Dentry_ref d')"
  "delta x (Sys (Reserve_auth n')) = 0"
  "delta x (Sys (Domain_find n (Some c''))) = of_bool (x = Domain_ref c'')"
  "delta x (Sys (Domain_find n None)) = 0"
  "delta x (Sys Cache_flush) = 0"
  "delta x (Sys (Kmalloc st)) = of_bool (x = Buf_ref \<and> st)"
  "delta x (Sys (Kfree st)) = - of_bool (x = Buf_ref \<and> st)"
  "delta x (Ns (Kern_path n (Inl e))) = 0"
  "delta x (Ns (Kern_path n (Inr p))) =
     of_bool (x = Dentry_ref (p_dentry p)) + of_bool (x = Mnt_ref (p_mnt p))"
  by (simp_all add: delta_def)

lemma refs_deref [refs_frame]: "deref p h = (v, h') \<Longrightarrow> \<forall>x. refs x h' = refs x h"
  by (cases p) (auto simp: ledger_simps)

lemma refs_inode_of [refs_frame]: "inode_of K d h = (v, h') \<Longrightarrow> \<forall>x. refs x h' = refs x h"
  by (simp add: inode_of_def refs_deref)

end
