(* ===== verification/Fh_Struct.thy ===== *)
theory Fh_Struct
  imports Ledger
begin

text \<open>
  The file handle and its inline operations: \<open>nfsfh.h\<close> (\<open>struct svc_fh\<close>, \<open>mk_fsid\<close>,
  \<open>key_len\<close>, \<open>fh_copy\<close>, \<open>fh_init\<close>) and the handle operations of \<open>vfs.h\<close> (\<open>fh_want_write\<close>,
  \<open>fh_drop_write\<close>). A handle on the wire is the four type bytes and the words of
  \<open>fb_auth\<close>, which the source names \<open>fh_fsid\<close>; the union is the 128 bytes of \<open>fh_pad\<close>.
\<close>

section \<open>Structures\<close>

record knfsd_fh =
  fh_size :: u32
  fh_version :: u8
  fh_auth_type :: u8
  fh_fsid_type :: u8
  fh_fileid_type :: u8
  fh_fsid :: "u32 list"

record svc_fh =
  fh_handle :: knfsd_fh
  fh_maxsize :: u32
  fh_dentry :: "dentry_p option"
  fh_export :: "export_p option"
  fh_want_write :: bool

text \<open>The words of \<open>fh_base\<close> as \<open>memcpy\<close> and \<open>fh_pad\<close> see them.\<close>

definition fh_base_words :: "knfsd_fh \<Rightarrow> u32 list" where
  "fh_base_words fh =
     le_word (fh_version fh) (fh_auth_type fh) (fh_fsid_type fh) (fh_fileid_type fh) # fh_fsid fh"

definition fh_base_bytes :: "knfsd_fh \<Rightarrow> u8 list" where
  "fh_base_bytes fh = bytes_of_words (fh_base_words fh)"

definition zero_knfsd_fh :: knfsd_fh where
  "zero_knfsd_fh = \<lparr>fh_size = 0, fh_version = 0, fh_auth_type = 0, fh_fsid_type = 0,
     fh_fileid_type = 0, fh_fsid = replicate 31 0\<rparr>"

section \<open>File-system identifiers\<close>

abbreviation (input) FSID_DEV :: int where "FSID_DEV \<equiv> 0"
abbreviation (input) FSID_NUM :: int where "FSID_NUM \<equiv> 1"

definition ino_t_to_u32 :: "u64 \<Rightarrow> u32" where
  "ino_t_to_u32 ino = ucast ino"

definition u32_to_ino_t :: "u32 \<Rightarrow> u64" where
  "u32_to_ino_t uino = ucast uino"

definition mk_fsid ::
  "kernel \<Rightarrow> int \<Rightarrow> u32 list \<Rightarrow> u32 \<Rightarrow> u64 \<Rightarrow> u32 \<Rightarrow> hist \<Rightarrow> u32 list \<times> hist" where
  "mk_fsid K vers fsidv dev ino fsid h =
     (if vers = FSID_DEV then
        (fsidv[0 := htonl (push_bit 16 (MAJOR K dev) OR MINOR K dev), 1 := ino_t_to_u32 ino], h)
      else if vers = FSID_NUM then (fsidv[0 := fsid], h)
      else (fsidv, Fault BUG # h))"

definition key_len :: "int \<Rightarrow> nat" where
  "key_len type = (if type = FSID_DEV then 8 else if type = FSID_NUM then 4 else 0)"

lemma key_len_cases: "key_len t \<in> {0, 4, 8}"
  by (simp add: key_len_def)

section \<open>Copying and initialising\<close>

text \<open>\<open>fh_copy\<close> returns the copy; \<open>WARN_ON\<close> fires when the source handle is already verified.\<close>

definition fh_copy :: "svc_fh \<Rightarrow> hist \<Rightarrow> svc_fh \<times> hist" where
  "fh_copy src h = (src, if fh_dentry src \<noteq> None then Fault WARN # h else h)"

definition fh_copy_shallow :: "knfsd_fh \<Rightarrow> knfsd_fh \<Rightarrow> u32 \<times> u8 list" where
  "fh_copy_shallow dst src =
     (fh_size src,
      overwrite 0 (take (unat (fh_size src)) (fh_base_bytes src)) (fh_base_bytes dst))"

definition fh_init :: "u32 \<Rightarrow> svc_fh" where
  "fh_init maxsize = \<lparr>fh_handle = zero_knfsd_fh, fh_maxsize = maxsize, fh_dentry = None,
     fh_export = None, fh_want_write = False\<rparr>"

lemma fh_init_simps [simp]:
  "fh_handle (fh_init m) = zero_knfsd_fh" "fh_maxsize (fh_init m) = m"
  "fh_dentry (fh_init m) = None" "fh_export (fh_init m) = None"
  "\<not> fh_want_write (fh_init m)"
  by (simp_all add: fh_init_def)

section \<open>Write access to the export's mount (\<open>vfs.h\<close>)\<close>

definition fh_want_write_call :: "kernel \<Rightarrow> svc_fh \<Rightarrow> hist \<Rightarrow> int \<times> svc_fh \<times> hist" where
  "fh_want_write_call K fh h =
     (let (e, h) = deref (fh_export fh) h;
          (ret, h) = call_mnt_want_write K (p_mnt (export_path K e)) h
      in if ret = 0 then (ret, fh\<lparr>fh_want_write := True\<rparr>, h) else (ret, fh, h))"

definition fh_drop_write :: "kernel \<Rightarrow> svc_fh \<Rightarrow> hist \<Rightarrow> svc_fh \<times> hist" where
  "fh_drop_write K fh h =
     (if fh_want_write fh then
        let fh = fh\<lparr>fh_want_write := False\<rparr>;
            (e, h) = deref (fh_export fh) h
        in (fh, Ref (Drop_write (p_mnt (export_path K e))) # h)
      else (fh, h))"

section \<open>What a handle holds\<close>

text \<open>
  The references a handle owns: its dentry, its export entry, and write access to the mount of
  its export while \<open>fh_want_write\<close> is set. \<open>balance\<close> is the ledger less what the handle still
  owns; an operation that keeps it neither leaks nor over-releases.
\<close>

definition held :: "kernel \<Rightarrow> resource \<Rightarrow> svc_fh \<Rightarrow> int" where
  "held K x fh = (case x of
     Dentry_ref d \<Rightarrow> of_bool (fh_dentry fh = Some d)
   | Item_ref (Export_item e) \<Rightarrow> of_bool (fh_export fh = Some e)
   | Item_ref (Expkey_item _) \<Rightarrow> 0
   | Write_ref m \<Rightarrow>
       of_bool (fh_want_write fh \<and> (\<exists>e\<in>set_option (fh_export fh). p_mnt (export_path K e) = m))
   | _ \<Rightarrow> 0)"

definition balance :: "kernel \<Rightarrow> resource \<Rightarrow> svc_fh \<Rightarrow> hist \<Rightarrow> int" where
  "balance K x fh h = refs x h - held K x fh"

text \<open>
  Well-formed handles: verified means both pointers are set, and write access is only held
  through an export.
\<close>

definition fh_wf :: "svc_fh \<Rightarrow> bool" where
  "fh_wf fh \<longleftrightarrow> (fh_dentry fh = None \<longleftrightarrow> fh_export fh = None) \<and>
     (fh_want_write fh \<longrightarrow> fh_export fh \<noteq> None)"

lemma fh_wf_init [simp]: "fh_wf (fh_init m)"
  by (simp add: fh_wf_def)

lemma held_fh_init [simp]: "held K x (fh_init m) = 0"
  by (simp add: held_def split: resource.split cache_item.split)

lemma held_split:
  "P (held K x fh) \<longleftrightarrow>
    (\<forall>d. x = Dentry_ref d \<longrightarrow> P (of_bool (fh_dentry fh = Some d))) \<and>
    (\<forall>e. x = Item_ref (Export_item e) \<longrightarrow> P (of_bool (fh_export fh = Some e))) \<and>
    (\<forall>k. x = Item_ref (Expkey_item k) \<longrightarrow> P 0) \<and>
    (\<forall>m. x = Write_ref m \<longrightarrow> P (of_bool (fh_want_write fh \<and>
        (\<exists>e\<in>set_option (fh_export fh). p_mnt (export_path K e) = m)))) \<and>
    (\<forall>f. x = File_ref f \<longrightarrow> P 0) \<and> (\<forall>c. x = Domain_ref c \<longrightarrow> P 0) \<and> (\<forall>m. x = Mnt_ref m \<longrightarrow> P 0) \<and>
    (x = Buf_ref \<longrightarrow> P 0)"
  by (auto simp: held_def split: resource.split cache_item.split)

lemma held_handle_update [simp]: "held K x (fh\<lparr>fh_handle := fhb\<rparr>) = held K x fh"
  by (simp add: held_def split: resource.split cache_item.split)

lemma fh_wf_handle_update [simp]: "fh_wf (fh\<lparr>fh_handle := fhb\<rparr>) = fh_wf fh"
  by (simp add: fh_wf_def)

lemma fh_drop_write_fields [simp]:
  "fh_dentry (fst (fh_drop_write K fh h)) = fh_dentry fh"
  "fh_export (fst (fh_drop_write K fh h)) = fh_export fh"
  "\<not> fh_want_write (fst (fh_drop_write K fh h))"
  by (simp_all add: fh_drop_write_def Let_def split: prod.split)

lemma fh_drop_write_wf: "fh_wf fh \<Longrightarrow> fh_wf (fst (fh_drop_write K fh h))"
  by (simp add: fh_wf_def)

lemma fh_drop_write_balance:
  assumes "fh_drop_write K fh h = (fh', h')" and "fh_wf fh"
  shows "balance K x fh' h' = balance K x fh h"
  using assms
  by (auto simp: fh_drop_write_def balance_def fh_wf_def ledger_simps split: if_splits)
     (auto split: held_split)

lemma fh_want_write_balance:
  assumes "fh_want_write_call K fh h = (r, fh', h')" and "fh_export fh \<noteq> None"
    and "\<not> fh_want_write fh"
  shows "balance K x fh' h' = balance K x fh h"
  using assms
  by (auto simp: fh_want_write_call_def balance_def call_simps Let_def ledger_simps
      split: if_splits)
     (auto split: held_split)

end
