(* ===== verification/Sample_Kernel.thy ===== *)
theory Sample_Kernel
  imports Ledger
begin

text \<open>
  One concrete kernel, used by the witnesses to show that the hypotheses on the kernel parameter
  can hold together. It has one exported directory (dentry 1, inode 11, the root of mount 7)
  that holds a regular file \<open>a\<close> (dentry 2, inode 12) and, under the name \<open>b\<close>, a negative dentry 3
  that becomes inode 13 once a create or mkdir on it has succeeded.
\<close>

definition sample_inode :: "u16 \<Rightarrow> u64 \<Rightarrow> inode" where
  "sample_inode mode ino = zero_inode\<lparr>i_mode := mode, i_ino := ino, i_size := 100, i_fop := True,
     i_op_lookup := S_ISDIR mode, s_dev := 0x00800001, s_maxbytes := NFS_OFFSET_MAX,
     s_export_op := True, s_fh_to_dentry := True\<rparr>"

definition sample_created :: "hist \<Rightarrow> dentry_p \<Rightarrow> bool" where
  "sample_created h d \<longleftrightarrow> list_ex (\<lambda>c. case c of
      Ns (Vfs_create _ d' _ r) \<Rightarrow> d' = d \<and> r = 0
    | Ns (Vfs_mkdir _ d' _ r) \<Rightarrow> d' = d \<and> r = 0
    | _ \<Rightarrow> False) h"

definition sample_d_inode :: "hist \<Rightarrow> dentry_p \<Rightarrow> inode_p option" where
  "sample_d_inode h d =
     (if d = 1 then Some 11 else if d = 2 then Some 12
      else if d = 3 \<and> sample_created h 3 then Some 13 else None)"

definition sample_path :: path where
  "sample_path = \<lparr>p_mnt = 7, p_dentry = 1\<rparr>"

definition sample_head :: cache_head where
  "sample_head = \<lparr>cache_valid = True, cache_negative = False, expiry_time = 0\<rparr>"

definition sample_export :: svc_export where
  "sample_export = \<lparr>ex_h = sample_head, ex_client = 9, ex_flags = 0, ex_path = sample_path,
     ex_fsid = 0, ex_nflavors = 0, ex_flavors = []\<rparr>"

definition sample_expkey :: svc_expkey where
  "sample_expkey = \<lparr>ek_h = sample_head, ek_client = 9, ek_fsidtype = 0,
     ek_fsid = replicate 6 0, ek_path = sample_path\<rparr>"

definition sample_kernel :: kernel where
  "sample_kernel = \<lparr>
     d_inode = sample_d_inode,
     inode_at = (\<lambda>h i. if i = 11 then sample_inode 0x41ED 11 else sample_inode 0x81A4 (of_nat i)),
     d_parent = (\<lambda>h d. 1),
     is_root = (\<lambda>h d. d = 1),
     d_mountpoint = (\<lambda>h d. False),
     export_path = (\<lambda>e. sample_path),
     export_flags = (\<lambda>h e. 0),
     export_fsid = (\<lambda>h e. 0),
     expkey_path = (\<lambda>h k. sample_path),
     lookup_one_len = (\<lambda>h name d. if name = [0x61] then Inr 2 else if name = [0x62] then Inr 3
                                  else Inl (- EACCES)),
     vfs_create = (\<lambda>h i d m. 0),
     vfs_mkdir = (\<lambda>h i d m. 0),
     vfs_unlink = (\<lambda>h i d. 0),
     vfs_rmdir = (\<lambda>h i d. - ENOTDIR),
     notify_change = (\<lambda>h d a. 0),
     commit_metadata_op = (\<lambda>h i. 0),
     sync_inode_metadata = (\<lambda>h i. 0),
     vfs_getattr = (\<lambda>h p. Inr zero_kstat),
     lease_get_mtime = (\<lambda>h i t. t),
     vfs_statfs = (\<lambda>h p. Inr zero_kstatfs),
     break_lease = (\<lambda>h i m. 0),
     dentry_open = (\<lambda>h p fl. Inr 21),
     ima_file_check = (\<lambda>h f m. 0),
     vfs_readv = (\<lambda>h f off v. int (unat (sum_list v))),
     vfs_writev = (\<lambda>h f off v. int (unat (sum_list v))),
     vfs_fsync_range = (\<lambda>h f a b. 0),
     iterate_dir = (\<lambda>h f. if list_ex (\<lambda>c. case c of File (Iterate_dir _ _ _) \<Rightarrow> True | _ \<Rightarrow> False) h then ([], 0)
        else ([\<lparr>de_name = [0x61], de_off = 1, de_ino = 12, de_type = 8\<rparr>], 0)),
     vfs_llseek = (\<lambda>h f off s. if s then uint off else 1),
     get_free_page = (\<lambda>h. True),
     mnt_want_write = (\<lambda>h m. 0),
     prepare_creds = (\<lambda>h. Some \<lparr>fsuid = 0, fsgid = 0, cap_effective = 0\<rparr>),
     cap_drop_nfsd_set = (\<lambda>c. c),
     current_fsuid = (\<lambda>h. 0),
     exportfs_encode_fh = (\<lambda>h d maxsize c.
        if d < 4 \<and> 2 \<le> maxsize then (1, 2, [of_nat d, 0]) else (0xFF, 2, [])),
     exportfs_decode_fh = (\<lambda>h m fid len t.
        if t = 1 \<and> fid \<noteq> [] \<and> sample_d_inode h (unat (fid ! 0)) \<noteq> None
        then Inr (Some (unat (fid ! 0))) else Inl (- ESTALE)),
     MAJOR = (\<lambda>dev. drop_bit 20 dev),
     MINOR = (\<lambda>dev. dev AND 0xFFFFF),
     huge_encode_dev = (\<lambda>dev. ucast dev),
     cache_lookup_export = (\<lambda>h e hash. Some 5),
     cache_lookup_expkey = (\<lambda>h k hash. Some 6),
     cache_check = (\<lambda>h i req. 0),
     cache_update_export = (\<lambda>h new old hash. Some old),
     cache_update_expkey = (\<lambda>h new old hash. Some old),
     hash_mem = (\<lambda>bs n. 3),
     hash_ptr = (\<lambda>p n. of_nat (p mod 2 ^ n)),
     svc_max_payload = (\<lambda>h. 0x100000),
     svc_fill_write_vector = (\<lambda>h first total. [ucast total]),
     xdr_argsize_check = (\<lambda>p len. 4 * p \<le> len),
     xdr_ressize_check = (\<lambda>p. (4 * p \<le> PAGE_SIZE, 4 * p)),
     make_kuid = (\<lambda>u. u),
     make_kgid = (\<lambda>g. g),
     uid_valid = (\<lambda>u. u \<noteq> - 1),
     gid_valid = (\<lambda>g. g \<noteq> - 1),
     kmalloc = (\<lambda>h. True),
     stack_export = (\<lambda>h. sample_export),
     stack_expkey = (\<lambda>h. sample_expkey),
     kern_path = (\<lambda>h name. Inr sample_path),
     auth_domain_find = (\<lambda>h name. Some 9),
     unix_domain_find = (\<lambda>h name. Some 9),
     qword_get = (\<lambda>s n. (int (length s), s, [])),
     get_int = (\<lambda>s. (0, 0, [])),
     get_expiry = (\<lambda>h s. (1, [])),
     simple_strtoul = (\<lambda>s. (0, [])),
     seconds_since_boot = (\<lambda>h. 0)\<rparr>"

definition sample_rqst :: svc_rqst where
  "sample_rqst = \<lparr>rq_client = Some 9, rq_cr_uid = 1000, rq_cr_gid = 1000, rq_local = False,
     rq_dropme = False, rq_proc = 1, rq_arg_head = (\<lambda>_. 0), rq_arg_head_len = 64,
     rq_arg_page_len = 0, rq_arg_tail_len = 0, rq_next_page = 1, rq_npages = 8,
     rq_page = (\<lambda>_ _. 0), rq_vec = [],
     rq_res_head = replicate 6 0, rq_res_head_len = 24, rq_res_page_len = 0, rq_res_tail = [],
     rq_res_tail_len = 0\<rparr>"

end
