(* ===== verification/Export.thy ===== *)
theory Export
  imports Fh_Struct Sample_Kernel
begin

text \<open>
  Exports and export keys (\<open>export.c\<close>): the callbacks the two sunrpc caches are built from,
  the lookups the request path uses, the walk to the nearest exported ancestor, the check that
  an inode can be exported and the text form of the export flags. The contract between a cache
  and its callbacks is the locale \<open>cache_ops\<close>; both callback sets are proved to satisfy it.
\<close>

section \<open>Export keys\<close>

abbreviation EXPKEY_HASHBITS :: nat where "EXPKEY_HASHBITS \<equiv> 8"
abbreviation EXPKEY_HASHMASK :: u32 where "EXPKEY_HASHMASK \<equiv> 0xFF"
abbreviation EXPORT_HASHBITS :: nat where "EXPORT_HASHBITS \<equiv> 8"

text \<open>The bytes of \<open>ek_fsid\<close> that take part in a key of the given type.\<close>

definition fsid_bytes :: "int \<Rightarrow> u32 list \<Rightarrow> u8 list" where
  "fsid_bytes t ws = take (key_len t) (bytes_of_words ws)"

definition expkey_put :: "svc_expkey \<Rightarrow> hist \<Rightarrow> hist" where
  "expkey_put key h =
     (let h = (if cache_valid (ek_h key) \<and> \<not> cache_negative (ek_h key)
               then Ref (Path_put (ek_path key)) # h else h)
      in Ref (Domain_put (ek_client key)) # h)"

definition expkey_match :: "svc_expkey \<Rightarrow> svc_expkey \<Rightarrow> bool" where
  "expkey_match orig new \<longleftrightarrow>
     \<not> (ek_fsidtype orig \<noteq> ek_fsidtype new \<or> ek_client orig \<noteq> ek_client new \<or>
        fsid_bytes (ek_fsidtype orig) (ek_fsid orig) \<noteq> fsid_bytes (ek_fsidtype orig) (ek_fsid new))"

definition expkey_init :: "svc_expkey \<Rightarrow> svc_expkey \<Rightarrow> hist \<Rightarrow> svc_expkey \<times> hist" where
  "expkey_init new item h =
     (new\<lparr>ek_client := ek_client item, ek_fsidtype := ek_fsidtype item, ek_fsid := ek_fsid item\<rparr>,
      Ref (Domain_get (ek_client item)) # h)"

definition expkey_update :: "svc_expkey \<Rightarrow> svc_expkey \<Rightarrow> hist \<Rightarrow> svc_expkey \<times> hist" where
  "expkey_update new item h = (new\<lparr>ek_path := ek_path item\<rparr>, Ref (Path_get (ek_path item)) # h)"

definition svc_expkey_hash :: "kernel \<Rightarrow> svc_expkey \<Rightarrow> u32" where
  "svc_expkey_hash K item =
     ((word_of_int (ek_fsidtype item) XOR
       hash_mem K (fsid_bytes (ek_fsidtype item) (ek_fsid item)) EXPKEY_HASHBITS) XOR
       hash_ptr K (ek_client item) EXPKEY_HASHBITS) AND EXPKEY_HASHMASK"

definition svc_expkey_lookup :: "kernel \<Rightarrow> svc_expkey \<Rightarrow> hist \<Rightarrow> expkey_p option \<times> hist" where
  "svc_expkey_lookup K item h =
     (let r = cache_lookup_expkey K h item (svc_expkey_hash K item)
      in (r, Ref (Cache_lookup (map_option Expkey_item r)) # h))"

definition svc_expkey_update ::
  "kernel \<Rightarrow> svc_expkey \<Rightarrow> expkey_p \<Rightarrow> hist \<Rightarrow> expkey_p option \<times> hist" where
  "svc_expkey_update K new old h =
     (let r = cache_update_expkey K h new old (svc_expkey_hash K new)
      in (r, Ref (Cache_update (Expkey_item old) (map_option Expkey_item r)) # h))"

section \<open>Exports\<close>

definition svc_export_put :: "svc_export \<Rightarrow> hist \<Rightarrow> hist" where
  "svc_export_put exp h = Ref (Domain_put (ex_client exp)) # Ref (Path_put (ex_path exp)) # h"

definition svc_export_match :: "svc_export \<Rightarrow> svc_export \<Rightarrow> bool" where
  "svc_export_match orig new \<longleftrightarrow>
     ex_client orig = ex_client new \<and>
     p_mnt (ex_path orig) = p_mnt (ex_path new) \<and> p_dentry (ex_path orig) = p_dentry (ex_path new)"

definition svc_export_init :: "svc_export \<Rightarrow> svc_export \<Rightarrow> hist \<Rightarrow> svc_export \<times> hist" where
  "svc_export_init new item h =
     (new\<lparr>ex_client := ex_client item, ex_path := ex_path item\<rparr>,
      Ref (Path_get (ex_path item)) # Ref (Domain_get (ex_client item)) # h)"

definition export_update :: "svc_export \<Rightarrow> svc_export \<Rightarrow> svc_export" where
  "export_update new item =
     new\<lparr>ex_flags := ex_flags item, ex_fsid := ex_fsid item, ex_nflavors := ex_nflavors item,
         ex_flavors := ex_flavors item\<rparr>"

definition svc_export_hash :: "kernel \<Rightarrow> svc_export \<Rightarrow> u32" where
  "svc_export_hash K exp =
     (hash_ptr K (ex_client exp) EXPORT_HASHBITS XOR
      hash_ptr K (p_dentry (ex_path exp)) EXPORT_HASHBITS) XOR
      hash_ptr K (p_mnt (ex_path exp)) EXPORT_HASHBITS"

definition svc_export_lookup :: "kernel \<Rightarrow> svc_export \<Rightarrow> hist \<Rightarrow> export_p option \<times> hist" where
  "svc_export_lookup K exp h =
     (let r = cache_lookup_export K h exp (svc_export_hash K exp)
      in (r, Ref (Cache_lookup (map_option Export_item r)) # h))"

text \<open>\<open>svc_export_update\<close> hashes the entry it replaces; the model reads that entry's key fields.\<close>

definition svc_export_update ::
  "kernel \<Rightarrow> svc_export \<Rightarrow> svc_export \<Rightarrow> export_p \<Rightarrow> hist \<Rightarrow> export_p option \<times> hist" where
  "svc_export_update K new old_entry old h =
     (let r = cache_update_export K h new old (svc_export_hash K old_entry)
      in (r, Ref (Cache_update (Export_item old) (map_option Export_item r)) # h))"

definition check_export :: "inode \<Rightarrow> int" where
  "check_export ino =
     (if \<not> S_ISDIR (i_mode ino) \<and> \<not> S_ISLNK (i_mode ino) \<and> \<not> S_ISREG (i_mode ino) then - ENOTDIR
      else if \<not> s_export_op ino \<or> \<not> s_fh_to_dentry ino then - EINVAL
      else 0)"

section \<open>References to export entries (\<open>export.h\<close>)\<close>

definition exp_get :: "export_p \<Rightarrow> hist \<Rightarrow> hist" where
  [call_simps]: "exp_get e h = Ref (Cache_get (Export_item e)) # h"

definition exp_put :: "export_p \<Rightarrow> hist \<Rightarrow> hist" where
  [call_simps]: "exp_put e h = Ref (Cache_put (Export_item e)) # h"

section \<open>Finding an export for a request\<close>

definition exp_find_key ::
  "kernel \<Rightarrow> domain_p option \<Rightarrow> int \<Rightarrow> u32 list \<Rightarrow> bool \<Rightarrow> hist \<Rightarrow> (int + expkey_p) \<times> hist" where
  "exp_find_key K clp fsid_type fsidv reqp h =
     (case clp of None \<Rightarrow> (Inl (- ENOENT), h)
      | Some c \<Rightarrow>
        let junk = stack_expkey K h;
            key = junk\<lparr>ek_client := c, ek_fsidtype := fsid_type,
                       ek_fsid := overwrite 0 (take (key_len fsid_type div 4) fsidv) (ek_fsid junk)\<rparr>;
            (ek, h) = svc_expkey_lookup K key h
        in (case ek of None \<Rightarrow> (Inl (- ENOMEM), h)
            | Some ek \<Rightarrow>
              let (err, h) = call_cache_check K (Expkey_item ek) reqp h
              in if err \<noteq> 0 then (Inl err, h) else (Inr ek, h)))"

definition exp_get_by_name ::
  "kernel \<Rightarrow> domain_p option \<Rightarrow> path \<Rightarrow> bool \<Rightarrow> hist \<Rightarrow> (int + export_p) \<times> hist" where
  "exp_get_by_name K clp path reqp h =
     (case clp of None \<Rightarrow> (Inl (- ENOENT), h)
      | Some c \<Rightarrow>
        let key = (stack_export K h)\<lparr>ex_client := c, ex_path := path\<rparr>;
            (exp, h) = svc_export_lookup K key h
        in (case exp of None \<Rightarrow> (Inl (- ENOMEM), h)
            | Some exp \<Rightarrow>
              let (err, h) = call_cache_check K (Export_item exp) reqp h
              in if err \<noteq> 0 then (Inl err, h) else (Inr exp, h)))"

definition exp_find ::
  "kernel \<Rightarrow> domain_p option \<Rightarrow> int \<Rightarrow> u32 list \<Rightarrow> bool \<Rightarrow> hist \<Rightarrow> (int + export_p) \<times> hist" where
  "exp_find K clp fsid_type fsidv reqp h =
     (let (ek, h) = exp_find_key K clp fsid_type fsidv reqp h
      in case ek of Inl e \<Rightarrow> (Inl e, h)
         | Inr ek \<Rightarrow>
           let (exp, h) = exp_get_by_name K clp (expkey_path K h ek) reqp h
           in (exp, Ref (Cache_put (Expkey_item ek)) # h))"

definition rqst_exp_get_by_name :: "kernel \<Rightarrow> svc_rqst \<Rightarrow> path \<Rightarrow> hist \<Rightarrow> (int + export_p) \<times> hist" where
  "rqst_exp_get_by_name K rqstp path h = exp_get_by_name K (rq_client rqstp) path True h"

definition rqst_exp_find ::
  "kernel \<Rightarrow> svc_rqst \<Rightarrow> int \<Rightarrow> u32 list \<Rightarrow> hist \<Rightarrow> (int + export_p) \<times> hist" where
  "rqst_exp_find K rqstp fsid_type fsidv h = exp_find K (rq_client rqstp) fsid_type fsidv True h"

definition rqst_find_fsidzero_export :: "kernel \<Rightarrow> svc_rqst \<Rightarrow> u32 list \<Rightarrow> hist \<Rightarrow> (int + export_p) \<times> hist" where
  "rqst_find_fsidzero_export K rqstp junk h =
     (let (fsidv, h) = mk_fsid K FSID_NUM (take 2 junk) 0 0 0 h
      in rqst_exp_find K rqstp FSID_NUM fsidv h)"

section \<open>The nearest exported ancestor\<close>

text \<open>
  The loop shared by \<open>exp_parent\<close> and \<open>rqst_exp_parent\<close>: while the lookup says \<open>ENOENT\<close> and the
  dentry is not a root, move to the parent. It is bounded by fuel; \<open>None\<close> is running out of it.
\<close>

fun walk_up ::
  "kernel \<Rightarrow> (path \<Rightarrow> hist \<Rightarrow> (int + export_p) \<times> hist) \<Rightarrow> nat \<Rightarrow> path \<Rightarrow> (int + export_p) \<Rightarrow> hist
    \<Rightarrow> ((int + export_p) \<times> path \<times> hist) option" where
  "walk_up K look 0 p exp h = None"
| "walk_up K look (Suc n) p exp h =
     (if exp = Inl (- ENOENT) \<and> \<not> is_root K h (p_dentry p) then
        let (parent, h) = call_dget_parent K (p_dentry p) h;
            h = Ref (Dput (p_dentry p)) # h;
            p = p\<lparr>p_dentry := parent\<rparr>;
            (exp, h) = look p h
        in walk_up K look n p exp h
      else Some (exp, p, h))"

definition exp_parent ::
  "kernel \<Rightarrow> nat \<Rightarrow> domain_p option \<Rightarrow> path \<Rightarrow> hist \<Rightarrow> ((int + export_p) \<times> hist) option" where
  "exp_parent K fuel clp path h =
     (let h = Ref (Dget (p_dentry path)) # h;
          (exp, h) = exp_get_by_name K clp path False h
      in case walk_up K (\<lambda>p. exp_get_by_name K clp p False) fuel path exp h of
           None \<Rightarrow> None
         | Some (exp, p, h) \<Rightarrow> Some (exp, Ref (Dput (p_dentry p)) # h))"

definition rqst_exp_parent ::
  "kernel \<Rightarrow> nat \<Rightarrow> svc_rqst \<Rightarrow> path \<Rightarrow> hist \<Rightarrow> ((int + export_p) \<times> hist) option" where
  "rqst_exp_parent K fuel rqstp path h =
     (let h = Ref (Dget (p_dentry path)) # h;
          (exp, h) = rqst_exp_get_by_name K rqstp path h
      in case walk_up K (rqst_exp_get_by_name K rqstp) fuel path exp h of
           None \<Rightarrow> None
         | Some (exp, p, h) \<Rightarrow> Some (exp, Ref (Dput (p_dentry p)) # h))"

section \<open>Flags as text\<close>

definition expflags :: "(u32 \<times> string \<times> string) list" where
  "expflags = [(NFSEXP_READONLY, ''ro'', ''rw''),
     (NFSEXP_ROOTSQUASH, ''root_squash'', ''no_root_squash''),
     (NFSEXP_ASYNC, ''async'', ''sync''),
     (0, '''', '''')]"

fun show_expflags_from :: "(u32 \<times> string \<times> string) list \<Rightarrow> u32 \<Rightarrow> u32 \<Rightarrow> bool \<Rightarrow> string" where
  "show_expflags_from [] flags msk first = []"
| "show_expflags_from ((flag, name0, name1) # flgs) flags msk first =
     (if flag = 0 then []
      else if flag AND NOT msk \<noteq> 0 then show_expflags_from flgs flags msk first
      else let name = (if flag AND flags \<noteq> 0 then name0 else name1)
           in if name \<noteq> [] then (if first then [] else '','') @ name @ show_expflags_from flgs flags msk False
              else show_expflags_from flgs flags msk first)"

definition show_expflags :: "u32 \<Rightarrow> u32 \<Rightarrow> string" where
  "show_expflags flags msk = show_expflags_from expflags flags msk True"


section \<open>The contract of a cache's callbacks\<close>

text \<open>
  What the sunrpc cache relies on: matching is an equivalence, matching entries hash alike, a
  new entry matches the item it was made from, and updating an entry's content leaves its key
  alone, so the entry stays in its bucket. A cache that keeps entries in buckets by hash then
  finds the entry it inserted.
\<close>

locale cache_ops =
  fixes matches :: "'e \<Rightarrow> 'e \<Rightarrow> bool"
    and init_entry :: "'e \<Rightarrow> 'e \<Rightarrow> 'e"
    and update_entry :: "'e \<Rightarrow> 'e \<Rightarrow> 'e"
    and hash :: "'e \<Rightarrow> u32"
  assumes match_refl: "matches a a"
    and match_sym: "matches a b \<Longrightarrow> matches b a"
    and match_trans: "matches a b \<Longrightarrow> matches b c \<Longrightarrow> matches a c"
    and match_hash: "matches a b \<Longrightarrow> hash a = hash b"
    and init_match: "matches item (init_entry new item)"
    and update_match: "matches (update_entry new item) new"
begin

lemma init_hash: "hash (init_entry new item) = hash item"
  using match_hash [OF init_match] by simp

lemma update_hash: "hash (update_entry new item) = hash new"
  by (rule match_hash) (rule update_match)

lemma update_key: "matches item new \<Longrightarrow> matches item (update_entry new content)"
  by (meson match_sym match_trans update_match)

lemma bucket_lookup:
  assumes "\<forall>e \<in> set bucket. \<not> matches item e"
  shows "find (matches item) (bucket @ [update_entry (init_entry new item) content]) =
    Some (update_entry (init_entry new item) content)"
  using assms update_key [OF init_match, of item new content]
  by (induction bucket) auto

end

lemma expkey_match_iff:
  "expkey_match a b \<longleftrightarrow> ek_fsidtype a = ek_fsidtype b \<and> ek_client a = ek_client b \<and>
     fsid_bytes (ek_fsidtype a) (ek_fsid a) = fsid_bytes (ek_fsidtype b) (ek_fsid b)"
  by (auto simp: expkey_match_def)

interpretation expkey_cache: cache_ops expkey_match
    "\<lambda>new item. fst (expkey_init new item h)" "\<lambda>new item. fst (expkey_update new item h)"
    "svc_expkey_hash K" for K h
  by unfold_locales
     (auto simp: expkey_match_iff expkey_init_def expkey_update_def svc_expkey_hash_def)

interpretation export_cache: cache_ops svc_export_match
    "\<lambda>new item. fst (svc_export_init new item h)" export_update "svc_export_hash K" for K h
  by unfold_locales
     (auto simp: svc_export_match_def svc_export_init_def export_update_def svc_export_hash_def)


section \<open>What the lookups do to the ledger\<close>

lemma exp_get_by_name_refs [refs_frame]:
  "exp_get_by_name K clp p req h = (r, h') \<Longrightarrow>
   \<forall>x. refs x h' = refs x h + of_bool (\<exists>e. r = Inr e \<and> x = Item_ref (Export_item e))"
  by (auto simp: exp_get_by_name_def svc_export_lookup_def call_simps Let_def ledger_simps
      split: option.splits if_splits prod.splits)

lemma exp_get_by_name_faults [faults_frame]:
  "exp_get_by_name K clp p req h = (r, h') \<Longrightarrow> faults h' = faults h"
  by (auto simp: exp_get_by_name_def svc_export_lookup_def call_simps Let_def
      split: option.splits if_splits prod.splits)

lemma exp_find_key_refs [refs_frame]:
  "exp_find_key K clp t fsidv req h = (r, h') \<Longrightarrow>
   \<forall>x. refs x h' = refs x h + of_bool (\<exists>k. r = Inr k \<and> x = Item_ref (Expkey_item k))"
  by (auto simp: exp_find_key_def svc_expkey_lookup_def call_simps Let_def ledger_simps
      split: option.splits if_splits prod.splits)

lemma exp_find_key_faults [faults_frame]:
  "exp_find_key K clp t fsidv req h = (r, h') \<Longrightarrow> faults h' = faults h"
  by (auto simp: exp_find_key_def svc_expkey_lookup_def call_simps Let_def
      split: option.splits if_splits prod.splits)

lemma exp_find_refs [refs_frame]:
  "exp_find K clp t fsidv req h = (r, h') \<Longrightarrow>
   \<forall>x. refs x h' = refs x h + of_bool (\<exists>e. r = Inr e \<and> x = Item_ref (Export_item e))"
  by (auto simp: exp_find_def Let_def ledger_simps split: sum.splits prod.splits dest!: refs_frame)

lemma exp_find_faults [faults_frame]:
  "exp_find K clp t fsidv req h = (r, h') \<Longrightarrow> faults h' = faults h"
  by (auto simp: exp_find_def Let_def split: sum.splits prod.splits
      dest!: faults_frame)

lemma walk_up_refs:
  assumes "walk_up K look n p exp h = Some (exp', p', h')"
    and look: "\<And>q g r g'. look q g = (r, g') \<Longrightarrow>
      refs x g' = refs x g + of_bool (\<exists>e. r = Inr e \<and> x = Item_ref (Export_item e))"
  shows "refs x h' + of_bool (\<exists>e. exp = Inr e \<and> x = Item_ref (Export_item e)) +
      of_bool (x = Dentry_ref (p_dentry p)) =
    refs x h + of_bool (\<exists>e. exp' = Inr e \<and> x = Item_ref (Export_item e)) +
      of_bool (x = Dentry_ref (p_dentry p'))"
  using assms(1)
proof (induction n arbitrary: p exp h)
  case (Suc n)
  show ?case
  proof (cases "exp = Inl (- ENOENT) \<and> \<not> is_root K h (p_dentry p)")
    case True
    define q where "q = p\<lparr>p_dentry := d_parent K h (p_dentry p)\<rparr>"
    define g where "g = Ref (Dput (p_dentry p)) #
      Ref (Dget_parent (p_dentry p) (d_parent K h (p_dentry p))) # h"
    obtain r g' where rg: "look q g = (r, g')" by fastforce
    have "walk_up K look n q r g' = Some (exp', p', h')"
      using Suc.prems True rg by (simp add: call_simps Let_def q_def g_def)
    from Suc.IH [OF this] look [OF rg] True show ?thesis
      by (simp add: g_def q_def ledger_simps)
  next
    case False
    with Suc.prems show ?thesis by (simp split: if_splits)
  qed
qed simp

lemma walk_up_root:
  "walk_up K look n p exp h = Some (exp', p', h') \<Longrightarrow>
   exp' = Inl (- ENOENT) \<Longrightarrow> is_root K h' (p_dentry p')"
  by (induction K look n p exp h rule: walk_up.induct)
     (auto simp: Let_def split: if_splits prod.splits)

lemma walk_up_terminates:
  assumes "\<And>h d. \<not> is_root K h d \<Longrightarrow> depth (d_parent K h d) < depth d"
  shows "depth (p_dentry p) < n \<Longrightarrow> \<exists>r. walk_up K look n p exp h = Some r"
proof (induction n arbitrary: p exp h)
  case (Suc n)
  show ?case
  proof (cases "exp = Inl (- ENOENT) \<and> \<not> is_root K h (p_dentry p)")
    case True
    with assms [of h "p_dentry p"] Suc.prems
    have "depth (d_parent K h (p_dentry p)) < n" by simp
    then show ?thesis
      using Suc.IH [of "p\<lparr>p_dentry := d_parent K h (p_dentry p)\<rparr>"] True
      by (auto simp: call_simps Let_def split: prod.split)
  qed auto
qed simp

lemma walk_up_faults:
  assumes "walk_up K look n p exp h = Some (exp', p', h')"
    and look: "\<And>q g r g'. look q g = (r, g') \<Longrightarrow> faults g' = faults g"
  shows "faults h' = faults h"
  using assms(1)
  by (induction n arbitrary: p exp h)
     (auto simp: Let_def call_simps split: if_splits prod.splits dest: look)

section \<open>Properties\<close>

text \<open>
  C22: Both caches find what they inserted: after the cache makes an entry from an item with the
  init callback, fills it with the update callback and appends it to the bucket of the item's
  hash, searching that bucket for the item returns exactly that entry, and the entry's own hash
  is the item's, so updating never moves an entry to another bucket.
\<close>

theorem cache_lookup_after_insert:
  assumes "\<forall>e \<in> set ekeys. \<not> expkey_match kitem e"
    and "\<forall>e \<in> set exports. \<not> svc_export_match eitem e"
  shows "find (expkey_match kitem) (ekeys @ [fst (expkey_update (fst (expkey_init k kitem h)) kcontent h)])
      = Some (fst (expkey_update (fst (expkey_init k kitem h)) kcontent h)) \<and>
    svc_expkey_hash K (fst (expkey_update (fst (expkey_init k kitem h)) kcontent h))
      = svc_expkey_hash K kitem \<and>
    find (svc_export_match eitem) (exports @ [export_update (fst (svc_export_init e eitem h)) econtent])
      = Some (export_update (fst (svc_export_init e eitem h)) econtent) \<and>
    svc_export_hash K (export_update (fst (svc_export_init e eitem h)) econtent)
      = svc_export_hash K eitem"
  using expkey_cache.bucket_lookup [OF assms(1)] export_cache.bucket_lookup [OF assms(2)]
  by (auto simp: expkey_cache.update_hash expkey_cache.init_hash
      export_cache.update_hash export_cache.init_hash)

theorem cache_lookup_after_insert_witness:
  "find (svc_export_match sample_export)
     ([sample_export\<lparr>ex_client := 8\<rparr>] @ [export_update (fst (svc_export_init sample_export sample_export [])) sample_export])
   = Some (export_update (fst (svc_export_init sample_export sample_export [])) sample_export)"
proof -
  have k: "\<forall>e \<in> set [sample_expkey\<lparr>ek_client := 8\<rparr>]. \<not> expkey_match sample_expkey e"
    by (simp add: expkey_match_def sample_expkey_def)
  have e: "\<forall>e \<in> set [sample_export\<lparr>ex_client := 8\<rparr>]. \<not> svc_export_match sample_export e"
    by (simp add: svc_export_match_def sample_export_def)
  show ?thesis using cache_lookup_after_insert [OF k e] by blast
qed

text \<open>
  C21: The search for the nearest exported ancestor returns within as many steps as the dentry is
  deep, gives back every dentry reference it takes, keeps exactly one reference on the export
  it returns, faults nowhere, and reports "no entry" only from a file-system root.
\<close>

theorem exp_parent_total_balanced:
  assumes tree: "\<And>h d. \<not> is_root K h d \<Longrightarrow> depth (d_parent K h d) < depth d"
    and fuel: "depth (p_dentry path) < fuel"
  shows "\<exists>r h'. exp_parent K fuel clp path h = Some (r, h') \<and>
    (\<forall>x. refs x h' = refs x h + of_bool (\<exists>e. r = Inr e \<and> x = Item_ref (Export_item e))) \<and>
    faults h' = faults h \<and>
    (r = Inl (- ENOENT) \<longrightarrow> (\<exists>d g. h' = Ref (Dput d) # g \<and> is_root K g d))"
proof -
  let ?look = "\<lambda>p. exp_get_by_name K clp p False"
  define h1 where "h1 = Ref (Dget (p_dentry path)) # h"
  obtain e1 h2 where e1: "?look path h1 = (e1, h2)" by fastforce
  obtain r p' h3 where w: "walk_up K ?look fuel path e1 h2 = Some (r, p', h3)"
    using walk_up_terminates [of K depth path fuel ?look e1 h2, OF tree fuel] by auto
  have look: "refs x g' = refs x g + of_bool (\<exists>e. q' = Inr e \<and> x = Item_ref (Export_item e))"
    if "?look q g = (q', g')" for q g q' g' x
    using exp_get_by_name_refs [OF that] by simp
  have "exp_parent K fuel clp path h = Some (r, Ref (Dput (p_dentry p')) # h3)"
    using e1 w by (simp add: exp_parent_def h1_def Let_def)
  moreover have "refs x (Ref (Dput (p_dentry p')) # h3) =
      refs x h + of_bool (\<exists>e. r = Inr e \<and> x = Item_ref (Export_item e))" for x
    using walk_up_refs [where x = x, OF w look] look [where x = x, OF e1] by (simp add: h1_def ledger_simps)
  moreover have "faults (Ref (Dput (p_dentry p')) # h3) = faults h"
    using walk_up_faults [OF w exp_get_by_name_faults] exp_get_by_name_faults [OF e1] by (simp add: h1_def)
  moreover have "r = Inl (- ENOENT) \<Longrightarrow> is_root K h3 (p_dentry p')"
    using walk_up_root [OF w] by simp
  ultimately show ?thesis by blast
qed

theorem exp_parent_total_balanced_witness:
  "\<exists>r h'. exp_parent sample_kernel 2 (Some 9) \<lparr>p_mnt = 7, p_dentry = 2\<rparr> [] = Some (r, h') \<and>
     refs (Dentry_ref 2) h' = 0"
proof -
  have t: "\<not> is_root sample_kernel h d \<Longrightarrow>
      (if d_parent sample_kernel h d = 1 then 0 else 1) < (if d = 1 then 0 else (1::nat))" for h d
    by (simp add: sample_kernel_def)
  have f: "(if p_dentry \<lparr>p_mnt = 7, p_dentry = 2\<rparr> = 1 then 0 else 1) < (2::nat)" by simp
  show ?thesis
    using exp_parent_total_balanced [where depth = "\<lambda>d. if d = 1 then 0 else 1", OF t f, of "Some 9" "[]"]
    by fastforce
qed

end
