(* ===== verification/Nfserr.thy ===== *)
theory Nfserr
  imports Structs
begin

text \<open>
  NFS status codes: the pre-encoded values of \<open>nfsd.h\<close> and the map from kernel error numbers
  to them, \<open>nfserrno\<close> of \<open>proc.c\<close>. A status is a network-order cell, ready for the wire.
\<close>

section \<open>Status values (\<open>nfsd.h\<close>)\<close>

definition nfs_ok :: be32 where "nfs_ok = cpu_to_be32 0"
definition nfserr_perm :: be32 where "nfserr_perm = cpu_to_be32 1"
definition nfserr_noent :: be32 where "nfserr_noent = cpu_to_be32 2"
definition nfserr_io :: be32 where "nfserr_io = cpu_to_be32 5"
definition nfserr_nxio :: be32 where "nfserr_nxio = cpu_to_be32 6"
definition nfserr_acces :: be32 where "nfserr_acces = cpu_to_be32 13"
definition nfserr_exist :: be32 where "nfserr_exist = cpu_to_be32 17"
definition nfserr_xdev :: be32 where "nfserr_xdev = cpu_to_be32 18"
definition nfserr_nodev :: be32 where "nfserr_nodev = cpu_to_be32 19"
definition nfserr_notdir :: be32 where "nfserr_notdir = cpu_to_be32 20"
definition nfserr_isdir :: be32 where "nfserr_isdir = cpu_to_be32 21"
definition nfserr_inval :: be32 where "nfserr_inval = cpu_to_be32 22"
definition nfserr_fbig :: be32 where "nfserr_fbig = cpu_to_be32 27"
definition nfserr_nospc :: be32 where "nfserr_nospc = cpu_to_be32 28"
definition nfserr_rofs :: be32 where "nfserr_rofs = cpu_to_be32 30"
definition nfserr_mlink :: be32 where "nfserr_mlink = cpu_to_be32 31"
definition nfserr_opnotsupp :: be32 where "nfserr_opnotsupp = cpu_to_be32 45"
definition nfserr_nametoolong :: be32 where "nfserr_nametoolong = cpu_to_be32 63"
definition nfserr_notempty :: be32 where "nfserr_notempty = cpu_to_be32 66"
definition nfserr_dquot :: be32 where "nfserr_dquot = cpu_to_be32 69"
definition nfserr_stale :: be32 where "nfserr_stale = cpu_to_be32 70"
definition nfserr_badhandle :: be32 where "nfserr_badhandle = cpu_to_be32 10001"
definition nfserr_notsync :: be32 where "nfserr_notsync = cpu_to_be32 10002"
definition nfserr_notsupp :: be32 where "nfserr_notsupp = cpu_to_be32 10004"
definition nfserr_toosmall :: be32 where "nfserr_toosmall = cpu_to_be32 10005"
definition nfserr_serverfault :: be32 where "nfserr_serverfault = cpu_to_be32 10006"
definition nfserr_jukebox :: be32 where "nfserr_jukebox = cpu_to_be32 10008"
definition nfserr_wrongsec :: be32 where "nfserr_wrongsec = cpu_to_be32 10016"
definition nfserr_dropit :: be32 where "nfserr_dropit = cpu_to_be32 30000"
definition nfserr_eof :: be32 where "nfserr_eof = cpu_to_be32 30001"

lemmas nfserr_defs =
  nfs_ok_def nfserr_perm_def nfserr_noent_def nfserr_io_def nfserr_nxio_def nfserr_acces_def
  nfserr_exist_def nfserr_xdev_def nfserr_nodev_def nfserr_notdir_def nfserr_isdir_def
  nfserr_inval_def nfserr_fbig_def nfserr_nospc_def nfserr_rofs_def nfserr_mlink_def
  nfserr_opnotsupp_def nfserr_nametoolong_def nfserr_notempty_def nfserr_dquot_def
  nfserr_stale_def nfserr_badhandle_def nfserr_notsync_def nfserr_notsupp_def
  nfserr_toosmall_def nfserr_serverfault_def nfserr_jukebox_def nfserr_wrongsec_def
  nfserr_dropit_def nfserr_eof_def

section \<open>From error numbers to status values (\<open>proc.c\<close>)\<close>

definition nfs_errtbl :: "(be32 \<times> int) list" where
  "nfs_errtbl =
    [(nfs_ok, 0),
     (nfserr_perm, - EPERM),
     (nfserr_noent, - ENOENT),
     (nfserr_io, - EIO),
     (nfserr_nxio, - ENXIO),
     (nfserr_fbig, - E2BIG),
     (nfserr_acces, - EACCES),
     (nfserr_exist, - EEXIST),
     (nfserr_xdev, - EXDEV),
     (nfserr_mlink, - EMLINK),
     (nfserr_nodev, - ENODEV),
     (nfserr_notdir, - ENOTDIR),
     (nfserr_isdir, - EISDIR),
     (nfserr_inval, - EINVAL),
     (nfserr_fbig, - EFBIG),
     (nfserr_nospc, - ENOSPC),
     (nfserr_rofs, - EROFS),
     (nfserr_mlink, - EMLINK),
     (nfserr_nametoolong, - ENAMETOOLONG),
     (nfserr_notempty, - ENOTEMPTY),
     (nfserr_dquot, - EDQUOT),
     (nfserr_stale, - ESTALE),
     (nfserr_jukebox, - ETIMEDOUT),
     (nfserr_jukebox, - ERESTARTSYS),
     (nfserr_jukebox, - EAGAIN),
     (nfserr_jukebox, - EWOULDBLOCK),
     (nfserr_jukebox, - ENOMEM),
     (nfserr_io, - ETXTBSY),
     (nfserr_notsupp, - EOPNOTSUPP),
     (nfserr_toosmall, - ETOOSMALL),
     (nfserr_serverfault, - ESERVERFAULT),
     (nfserr_serverfault, - ENFILE)]"

text \<open>The search loop: the first entry with the error number, \<open>nfserr_io\<close> after the last.\<close>

fun errtbl_search :: "(be32 \<times> int) list \<Rightarrow> int \<Rightarrow> be32" where
  "errtbl_search [] errno = nfserr_io"
| "errtbl_search ((nfserr, syserr) # tbl) errno =
     (if syserr = errno then nfserr else errtbl_search tbl errno)"

definition nfserrno :: "int \<Rightarrow> be32" where
  "nfserrno errno = errtbl_search nfs_errtbl errno"

text \<open>The values RFC 1813 allows in an \<open>nfsstat3\<close> (section 2.6 of \<open>src/rfc1813.txt\<close>).\<close>

definition nfsstat3 :: "u32 list" where
  "nfsstat3 = [0, 1, 2, 5, 6, 13, 17, 18, 19, 20, 21, 22, 27, 28, 30, 31, 63, 66, 69, 70, 71,
     10001, 10002, 10003, 10004, 10005, 10006, 10007, 10008]"

lemma errtbl_search_in: "errtbl_search tbl e \<in> insert nfserr_io (fst ` set tbl)"
  by (induction tbl e rule: errtbl_search.induct) auto

lemma errtbl_search_zero:
  "\<forall>(s, e) \<in> set tbl. s = 0 \<longleftrightarrow> e = 0 \<Longrightarrow> 0 \<in> snd ` set tbl \<Longrightarrow>
   errtbl_search tbl e = 0 \<longleftrightarrow> e = 0"
proof (induction tbl e rule: errtbl_search.induct)
  case (2 nfserr syserr tbl errno)
  then show ?case
  proof (cases "syserr = errno")
    case True
    with 2(2) show ?thesis by auto
  next
    case False
    show ?thesis
    proof (cases "0 \<in> snd ` set tbl")
      case True
      with 2 False show ?thesis by auto
    next
      case nz: False
      with 2(3) have "syserr = 0" by auto
      have "errtbl_search tbl errno \<noteq> 0"
        using errtbl_search_in [of tbl errno] 2(2) nz
        by (force simp: nfserr_io_def)
      with \<open>syserr = 0\<close> False show ?thesis by auto
    qed
  qed
qed simp

lemma nfserrno_eq_zero_iff [simp]: "nfserrno e = 0 \<longleftrightarrow> e = 0"
  unfolding nfserrno_def
  by (rule errtbl_search_zero) (auto simp: nfs_errtbl_def nfserr_defs)

lemma nfserrno_zero [simp]: "nfserrno 0 = 0"
  by simp

lemma nfserrno_status: "ntohl (nfserrno e) \<in> set nfsstat3"
proof -
  have "nfserrno e \<in> insert nfserr_io (fst ` set nfs_errtbl)"
    unfolding nfserrno_def by (rule errtbl_search_in)
  moreover have "\<forall>s \<in> insert nfserr_io (fst ` set nfs_errtbl). ntohl s \<in> set nfsstat3"
    by (simp add: nfs_errtbl_def nfsstat3_def nfserr_defs)
  ultimately show ?thesis by blast
qed

text \<open>
  \<open>nfserrno\<close> answers success exactly for error number 0, and whatever the error number, known
  or not, its answer is a status code that RFC 1813 allows in a reply.
\<close>

theorem nfserrno_sound:
  "(nfserrno e = nfs_ok \<longleftrightarrow> e = 0) \<and> ntohl (nfserrno e) \<in> set nfsstat3"
  by (simp add: nfserrno_status nfs_ok_def)

end
