(* ===== verification/Nfsfh.thy ===== *)
theory Nfsfh
  imports Export Nfserr
begin

text \<open>
  File-handle treatment (\<open>nfsfh.c\<close>): verifying a handle that came over the wire (\<open>fh_verify\<close>),
  composing one for a reply (\<open>fh_compose\<close>, \<open>fh_update\<close>) and releasing one (\<open>fh_put\<close>), with
  the effect of each on the balance between the reference ledger and what the handle holds.
\<close>

section \<open>Releasing a handle\<close>

definition fh_put :: "kernel \<Rightarrow> svc_fh \<Rightarrow> hist \<Rightarrow> svc_fh \<times> hist" where
  "fh_put K fhp h =
     (let dentry = fh_dentry fhp;
          exp = fh_export fhp;
          (fhp, h) = (case dentry of
             Some d \<Rightarrow> (fhp\<lparr>fh_dentry := None\<rparr>, Ref (Dput d) # h)
           | None \<Rightarrow> (fhp, h));
          (fhp, h) = fh_drop_write K fhp h
      in case exp of
           Some e \<Rightarrow> (fhp\<lparr>fh_export := None\<rparr>, exp_put e h)
         | None \<Rightarrow> (fhp, h))"

section \<open>Verifying a handle\<close>

definition nfsd_acceptable :: "dentry_p \<Rightarrow> bool" where
  "nfsd_acceptable dentry = True"

definition nfsd_setuser :: "kernel \<Rightarrow> svc_rqst \<Rightarrow> export_p \<Rightarrow> hist \<Rightarrow> int \<times> hist" where
  "nfsd_setuser K rqstp exp h =
     (let h = Sys Revert_creds # h;
          (new, h) = call_prepare_creds K h
      in case new of
           None \<Rightarrow> (- ENOMEM, h)
         | Some new \<Rightarrow>
             (0, Sys (Override_creds (new\<lparr>fsuid := rq_cr_uid rqstp, fsgid := rq_cr_gid rqstp,
                   cap_effective := cap_drop_nfsd_set K (cap_effective new)\<rparr>)) # h))"

definition nfsd_set_fh_dentry ::
  "kernel \<Rightarrow> svc_rqst \<Rightarrow> svc_fh \<Rightarrow> hist \<Rightarrow> be32 \<times> svc_fh \<times> hist" where
  "nfsd_set_fh_dentry K rqstp fhp h =
     (let fh = fh_handle fhp;
          data_left = int (unat (fh_size fh) div 4) - 1
      in if data_left < 0 then (nfserr_badhandle, fhp, h)
         else if fh_auth_type fh \<noteq> 0 then (nfserr_badhandle, fhp, h)
         else
           let len = key_len (uint (fh_fsid_type fh)) div 4
           in if len = 0 then (nfserr_badhandle, fhp, h)
              else
                let data_left = data_left - int len
                in if data_left < 0 then (nfserr_badhandle, fhp, h)
                   else
                     let (exp, h) = rqst_exp_find K rqstp (uint (fh_fsid_type fh)) (fh_fsid fh) h;
                         fid = drop len (fh_fsid fh)
                     in (case exp of
                           Inl e \<Rightarrow>
                             if e = - ENOENT then (nfserr_stale, fhp, h) else (nfserrno e, fhp, h)
                         | Inr exp \<Rightarrow>
                             let (error, h) = nfsd_setuser K rqstp exp h
                             in if error \<noteq> 0 then (word_of_int error, fhp, exp_put exp h)
                                else
                                  let (dentry, h) =
                                        (if fh_fileid_type fh = FILEID_ROOT then
                                           (Inr (Some (p_dentry (export_path K exp))),
                                            Ref (Dget (p_dentry (export_path K exp))) # h)
                                         else call_exportfs_decode_fh K (p_mnt (export_path K exp))
                                                fid data_left (fh_fileid_type fh) h)
                                  in (case dentry of
                                        Inr None \<Rightarrow> (nfserr_badhandle, fhp, exp_put exp h)
                                      | Inl e \<Rightarrow>
                                          (if e \<noteq> - EINVAL then nfserrno e else nfserr_badhandle,
                                           fhp, exp_put exp h)
                                      | Inr (Some dentry) \<Rightarrow>
                                          let (ino, h) = inode_of K dentry h
                                          in (0, fhp\<lparr>fh_dentry := Some dentry, fh_export := Some exp\<rparr>, h))))"

definition fh_verify :: "kernel \<Rightarrow> svc_rqst \<Rightarrow> svc_fh \<Rightarrow> hist \<Rightarrow> be32 \<times> svc_fh \<times> hist" where
  "fh_verify K rqstp fhp h =
     (if fh_dentry fhp = None then nfsd_set_fh_dentry K rqstp fhp h else (0, fhp, h))"

section \<open>Composing a handle\<close>

definition fh_update_fileid :: "kernel \<Rightarrow> svc_fh \<Rightarrow> export_p \<Rightarrow> dentry_p \<Rightarrow> hist \<Rightarrow> svc_fh \<times> hist" where
  "fh_update_fileid K fhp exp dentry h =
     (let fh = fh_handle fhp
      in if dentry \<noteq> p_dentry (export_path K exp) then
           let off = unat (fh_size fh) div 4 - 1;
               maxsize = (fh_maxsize fhp - fh_size fh) div 4;
               ((t, maxsize, fid), h) = call_exportfs_encode_fh K dentry maxsize True h
           in (fhp\<lparr>fh_handle := fh\<lparr>fh_fsid := overwrite off fid (fh_fsid fh),
                     fh_fileid_type := ucast t, fh_size := fh_size fh + maxsize * 4\<rparr>\<rparr>, h)
         else (fhp\<lparr>fh_handle := fh\<lparr>fh_fileid_type := FILEID_ROOT\<rparr>\<rparr>, h))"

text \<open>The reference handle of \<open>fh_compose\<close>: null, the handle being composed, or another one.\<close>

datatype ref_fh = Ref_null | Ref_self | Ref_other svc_fh

definition exp_sb_dev :: "kernel \<Rightarrow> export_p \<Rightarrow> hist \<Rightarrow> u32 \<times> hist" where
  "exp_sb_dev K exp h =
     (let (ino, h) = inode_of K (p_dentry (export_path K exp)) h in (s_dev (inode_at K h ino), h))"

definition fh_compose ::
  "kernel \<Rightarrow> svc_fh \<Rightarrow> export_p \<Rightarrow> dentry_p \<Rightarrow> ref_fh \<Rightarrow> hist \<Rightarrow> be32 \<times> svc_fh \<times> hist" where
  "fh_compose K fhp exp dentry ref_fh h =
     (let inode = d_inode K h dentry;
          (ex_dev, h) = exp_sb_dev K exp h;
          fhp = fhp\<lparr>fh_handle := (fh_handle fhp)\<lparr>fh_version := 1\<rparr>\<rparr>;
          (fhp, h) = (if ref_fh = Ref_self then fh_put K fhp h else (fhp, h));
          h = Ref (Dget dentry) # h;
          h = exp_get exp h;
          fhp = fhp\<lparr>fh_dentry := Some dentry, fh_export := Some exp\<rparr>;
          fh = fh_handle fhp;
          fh = fh\<lparr>fh_size := of_nat (key_len (uint (fh_fsid_type fh))) + 4, fh_auth_type := 0\<rparr>;
          (ino, h) = inode_of K (p_dentry (export_path K exp)) h;
          (fsid, h) = mk_fsid K (uint (fh_fsid_type fh)) (fh_fsid fh) ex_dev
                        (i_ino (inode_at K h ino)) (export_fsid K h exp) h;
          fhp = fhp\<lparr>fh_handle := fh\<lparr>fh_fsid := fsid\<rparr>\<rparr>;
          (fhp, h) = (if inode \<noteq> None then fh_update_fileid K fhp exp dentry h else (fhp, h))
      in if fh_fileid_type (fh_handle fhp) = FILEID_INVALID then
           let (fhp, h) = fh_put K fhp h in (nfserr_opnotsupp, fhp, h)
         else (0, fhp, h))"

definition fh_update :: "kernel \<Rightarrow> svc_fh \<Rightarrow> hist \<Rightarrow> be32 \<times> svc_fh \<times> hist" where
  "fh_update K fhp h =
     (case fh_dentry fhp of
        None \<Rightarrow> (nfserr_serverfault, fhp, h)
      | Some dentry \<Rightarrow>
          if d_inode K h dentry = None then (nfserr_serverfault, fhp, h)
          else if fh_fileid_type (fh_handle fhp) \<noteq> FILEID_ROOT then (0, fhp, h)
          else
            let (e, h) = deref (fh_export fhp) h;
                (fhp, h) = fh_update_fileid K fhp e dentry h
            in if fh_fileid_type (fh_handle fhp) = FILEID_INVALID then (nfserr_opnotsupp, fhp, h)
               else (0, fhp, h))"

section \<open>Balance of the operations\<close>

lemma fh_put_released:
  assumes "fh_put K fhp h = (fhp', h')" and "fh_wf fhp"
  shows "fh_dentry fhp' = None" "fh_export fhp' = None" "\<not> fh_want_write fhp'"
    "refs x h' = balance K x fhp h"
  using assms
  by (auto simp: fh_put_def fh_drop_write_def balance_def held_def fh_wf_def call_simps Let_def
      ledger_simps split: option.splits if_splits resource.split cache_item.split)

lemma fh_put_handle [simp]: "fh_handle (fst (fh_put K fhp h)) = fh_handle fhp"
  by (simp add: fh_put_def fh_drop_write_def Let_def split: option.split prod.split)

lemma nfsd_setuser_refs [refs_frame]:
  "nfsd_setuser K rqstp exp h = (r, h') \<Longrightarrow> \<forall>x. refs x h' = refs x h"
  by (auto simp: nfsd_setuser_def call_simps Let_def ledger_simps split: option.splits)

lemma nfsd_set_fh_dentry_error_frame:
  "nfsd_set_fh_dentry K rqstp fhp h = (err, fhp', h') \<Longrightarrow> err \<noteq> 0 \<Longrightarrow> fhp' = fhp"
  by (auto simp: nfsd_set_fh_dentry_def Let_def
      split: if_splits sum.splits option.splits prod.splits)


lemma fh_wf_unverified:
  "fh_wf fh \<Longrightarrow> fh_dentry fh = None \<Longrightarrow> fh_export fh = None \<and> \<not> fh_want_write fh"
  by (auto simp: fh_wf_def)

lemma held_unverified: "fh_wf fh \<Longrightarrow> fh_dentry fh = None \<Longrightarrow> held K x fh = 0"
  by (auto dest!: fh_wf_unverified split: held_split)

lemma nfsd_set_fh_dentry_balance:
  assumes "nfsd_set_fh_dentry K rqstp fhp h = (err, fhp', h')"
    and "fh_wf fhp" and "fh_dentry fhp = None"
  shows "balance K x fhp' h' = balance K x fhp h" and "fh_wf fhp'"
proof -
  have ex: "fh_export fhp = None" and ww: "\<not> fh_want_write fhp"
    using fh_wf_unverified assms by auto
  show "fh_wf fhp'"
    using assms(1,2) ex ww
    by (auto simp: nfsd_set_fh_dentry_def Let_def fh_wf_def
        split: if_splits sum.splits option.splits prod.splits)
  show "balance K x fhp' h' = balance K x fhp h"
    using assms(1) ex ww assms(3)
    by (auto simp: nfsd_set_fh_dentry_def Let_def rqst_exp_find_def call_simps ledger_simps balance_def
        split: if_splits sum.splits option.splits prod.splits
        dest!: refs_frame)
       (auto split: held_split)
qed

lemma fh_update_fileid_frame [simp]:
  "fh_update_fileid K fhp exp d h = (fhp', h') \<Longrightarrow> held K x fhp' = held K x fhp"
  "fh_update_fileid K fhp exp d h = (fhp', h') \<Longrightarrow> refs x h' = refs x h"
  "fh_update_fileid K fhp exp d h = (fhp', h') \<Longrightarrow> fh_dentry fhp' = fh_dentry fhp"
  "fh_update_fileid K fhp exp d h = (fhp', h') \<Longrightarrow> fh_export fhp' = fh_export fhp"
  "fh_update_fileid K fhp exp d h = (fhp', h') \<Longrightarrow> fh_want_write fhp' = fh_want_write fhp"
  "fh_update_fileid K fhp exp d h = (fhp', h') \<Longrightarrow> fh_wf fhp' = fh_wf fhp"
  "fh_update_fileid K fhp exp d h = (fhp', h') \<Longrightarrow> faults h' = faults h"
  by (auto simp: fh_update_fileid_def call_simps Let_def ledger_simps split: if_splits prod.splits)

lemma mk_fsid_refs [refs_frame]: "mk_fsid K t v dev ino f h = (r, h') \<Longrightarrow> \<forall>x. refs x h' = refs x h"
  by (auto simp: mk_fsid_def ledger_simps split: if_splits)

lemma exp_sb_dev_refs [refs_frame]: "exp_sb_dev K e h = (r, h') \<Longrightarrow> \<forall>x. refs x h' = refs x h"
  by (auto simp: exp_sb_dev_def Let_def split: prod.splits dest!: refs_frame)

lemma fh_put_unverified: "fh_wf fh \<Longrightarrow> fh_dentry fh = None \<Longrightarrow> fh_put K fh h = (fh, h)"
  by (auto simp: fh_put_def fh_drop_write_def dest!: fh_wf_unverified)

text \<open>
  Composing into an unverified handle takes one reference on the dentry and one on the export,
  then either keeps both in the handle or, for an invalid file identifier, puts the handle.
\<close>

lemma fh_compose_cases:
  assumes "fh_compose K fhp exp dentry ref_fh h = (err, fhp', h')"
    and wf: "fh_wf fhp" "fh_dentry fhp = None"
  obtains fh2 h2 where
    "\<And>x. refs x h2 = refs x h + of_bool (x = Dentry_ref dentry) + of_bool (x = Item_ref (Export_item exp))"
    "fh_dentry fh2 = Some dentry" "fh_export fh2 = Some exp" "\<not> fh_want_write fh2"
    "(if fh_fileid_type (fh_handle fh2) = FILEID_INVALID
      then (nfserr_opnotsupp, fh_put K fh2 h2) else (0, fh2, h2)) = (err, fhp', h')"
proof -
  have p: "fh_put K (fhp\<lparr>fh_handle := b\<rparr>) g = (fhp\<lparr>fh_handle := b\<rparr>, g)" for b g
    using wf fh_wf_unverified [OF wf] by (intro fh_put_unverified) (simp_all add: fh_wf_def)
  have ww: "\<not> fh_want_write fhp" using wf by (auto simp: fh_wf_def)
  obtain dev h3 where e3: "exp_sb_dev K exp h = (dev, h3)" by fastforce
  obtain ino h4 where e4: "inode_of K (p_dentry (export_path K exp))
      (exp_get exp (Ref (Dget dentry) # h3)) = (ino, h4)" by fastforce
  obtain fsid h5 where e5: "mk_fsid K (uint (fh_fsid_type (fh_handle fhp))) (fh_fsid (fh_handle fhp)) dev
      (i_ino (inode_at K h4 ino)) (export_fsid K h4 exp) h4 = (fsid, h5)" by fastforce
  define fh1 where "fh1 = fhp\<lparr>fh_dentry := Some dentry, fh_export := Some exp,
     fh_handle := (fh_handle fhp)\<lparr>fh_version := 1,
       fh_size := of_nat (key_len (uint (fh_fsid_type (fh_handle fhp)))) + 4, fh_auth_type := 0, fh_fsid := fsid\<rparr>\<rparr>"
  obtain fh2 h2 where e2: "(if d_inode K h dentry \<noteq> None then fh_update_fileid K fh1 exp dentry h5
      else (fh1, h5)) = (fh2, h2)" by fastforce
  have r1: "refs x h5 = refs x h + of_bool (x = Dentry_ref dentry) + of_bool (x = Item_ref (Export_item exp))" for x
    using mk_fsid_refs [OF e5] refs_inode_of [OF e4] exp_sb_dev_refs [OF e3]
    by (simp add: call_simps ledger_simps)
  have f2: "fh_dentry fh2 = Some dentry" "fh_export fh2 = Some exp" "\<not> fh_want_write fh2"
      "refs x h2 = refs x h5" for x
    using e2 ww by (auto simp: fh1_def split: if_splits)
  have main: "(if fh_fileid_type (fh_handle fh2) = FILEID_INVALID
      then (nfserr_opnotsupp, fh_put K fh2 h2) else (0, fh2, h2)) = (err, fhp', h')"
    using assms(1) e2 e3 e4 e5 p
    by (cases "ref_fh = Ref_self"; simp add: fh_compose_def Let_def fh1_def split: if_splits prod.splits)
  show ?thesis
    by (rule that [of h2 fh2]) (use r1 f2 main in auto)
qed

lemma fh_compose_balance:
  assumes "fh_compose K fhp exp dentry ref_fh h = (err, fhp', h')"
    and wf: "fh_wf fhp" "fh_dentry fhp = None"
  shows "balance K x fhp' h' = balance K x fhp h" and "fh_wf fhp'"
    and "err = 0 \<Longrightarrow> fh_dentry fhp' = Some dentry \<and> fh_export fhp' = Some exp \<and> \<not> fh_want_write fhp'"
    and "err \<noteq> 0 \<Longrightarrow> fh_dentry fhp' = None"
proof -
  have "balance K x fhp' h' = balance K x fhp h \<and> fh_wf fhp' \<and>
    (err = 0 \<longrightarrow> fh_dentry fhp' = Some dentry \<and> fh_export fhp' = Some exp \<and> \<not> fh_want_write fhp') \<and>
    (err \<noteq> 0 \<longrightarrow> fh_dentry fhp' = None)"
  proof (rule fh_compose_cases [OF assms])
    fix fh2 h2
    assume 1: "\<And>x. refs x h2 = refs x h + of_bool (x = Dentry_ref dentry) + of_bool (x = Item_ref (Export_item exp))"
      and 2: "fh_dentry fh2 = Some dentry" "fh_export fh2 = Some exp" "\<not> fh_want_write fh2"
      and 3: "(if fh_fileid_type (fh_handle fh2) = FILEID_INVALID
        then (nfserr_opnotsupp, fh_put K fh2 h2) else (0, fh2, h2)) = (err, fhp', h')"
    have wf2: "fh_wf fh2" using 2 by (simp add: fh_wf_def)
    have b2: "balance K x fh2 h2 = refs x h"
      using 1 [of x] 2 by (auto simp: balance_def split: held_split)
    show ?thesis
    proof (cases "fh_fileid_type (fh_handle fh2) = FILEID_INVALID")
      case True
      with 3 have put: "fh_put K fh2 h2 = (fhp', h')" and err: "err \<noteq> 0"
        by (auto simp: nfserr_opnotsupp_def)
      note rel = fh_put_released [OF put wf2]
      have "fh_wf fhp'" using rel by (simp add: fh_wf_def)
      then show ?thesis
        using rel(1) rel(4) [of x] b2 err held_unverified [OF wf] held_unverified [of fhp' K x]
        by (simp add: balance_def)
    next
      case False
      with 3 2 wf2 b2 held_unverified [OF wf] show ?thesis by (auto simp: balance_def)
    qed
  qed
  then show "balance K x fhp' h' = balance K x fhp h" and "fh_wf fhp'"
    and "err = 0 \<Longrightarrow> fh_dentry fhp' = Some dentry \<and> fh_export fhp' = Some exp \<and> \<not> fh_want_write fhp'"
    and "err \<noteq> 0 \<Longrightarrow> fh_dentry fhp' = None"
    by auto
qed

lemma fh_verify_balance:
  assumes "fh_verify K rqstp fhp h = (err, fhp', h')" and "fh_wf fhp"
  shows "balance K x fhp' h' = balance K x fhp h" and "fh_wf fhp'"
    and "fh_want_write fhp' = fh_want_write fhp"
    and "fh_dentry fhp \<noteq> None \<Longrightarrow> err = 0 \<and> fhp' = fhp \<and> h' = h"
proof -
  have "balance K x fhp' h' = balance K x fhp h \<and> fh_wf fhp'"
    using assms nfsd_set_fh_dentry_balance [of K rqstp fhp h err fhp' h']
    by (auto simp: fh_verify_def split: if_splits)
  then show "balance K x fhp' h' = balance K x fhp h" and "fh_wf fhp'" by auto
  show "fh_want_write fhp' = fh_want_write fhp"
    using assms(1)
    by (auto simp: fh_verify_def nfsd_set_fh_dentry_def Let_def
        split: if_splits sum.splits option.splits prod.splits)
  show "fh_dentry fhp \<noteq> None \<Longrightarrow> err = 0 \<and> fhp' = fhp \<and> h' = h"
    using assms(1) by (auto simp: fh_verify_def)
qed

lemma fh_update_balance:
  assumes "fh_update K fhp h = (err, fhp', h')"
  shows "balance K x fhp' h' = balance K x fhp h" and "fh_wf fhp' = fh_wf fhp"
    and "fh_dentry fhp' = fh_dentry fhp" and "fh_export fhp' = fh_export fhp"
    and "fh_want_write fhp' = fh_want_write fhp"
  using assms
  by (auto simp: fh_update_def balance_def Let_def ledger_simps
      split: option.splits if_splits prod.splits dest!: refs_frame)

end
