(* ===== verification/Handle_Contract.thy ===== *)
theory Handle_Contract
  imports Nfsfh Sample_Kernel
begin

text \<open>
  What the file-handle component promises and what it relies on. The locale \<open>fh_op\<close> is the
  contract every operation on a handle keeps: it preserves the balance between the ledger and
  what the handle holds, so releasing the handle afterwards leaves every reference count as it
  was. The second part states the documented behaviour of exportfs as predicates on the kernel
  parameter and shows that a composed handle fits its buffer and verifies back to its file.
\<close>

section \<open>What the module relies on from exportfs and the export table\<close>

text \<open>Error pointers carry a negative error number.\<close>

definition err_ptr_ok :: "kernel \<Rightarrow> bool" where
  "err_ptr_ok K \<longleftrightarrow>
     (\<forall>h m fid len t e. exportfs_decode_fh K h m fid len t = Inl e \<longrightarrow> e < 0) \<and>
     (\<forall>h name d e. lookup_one_len K h name d = Inl e \<longrightarrow> e < 0) \<and>
     (\<forall>h p fl e. dentry_open K h p fl = Inl e \<longrightarrow> e < 0) \<and>
     (\<forall>h p e. vfs_getattr K h p = Inl e \<longrightarrow> e < 0)"

lemma err_ptr_okD:
  assumes "err_ptr_ok K"
  shows "exportfs_decode_fh K h m fid len t = Inl e \<Longrightarrow> e < 0"
    and "lookup_one_len K h name d = Inl e \<Longrightarrow> e < 0"
    and "dentry_open K h p fl = Inl e \<Longrightarrow> e < 0"
    and "vfs_getattr K h p = Inl e \<Longrightarrow> e < 0"
  using assms unfolding err_ptr_ok_def by blast+

text \<open>Export roots and the dentries that exportfs decodes have inodes.\<close>

definition positive_dentries :: "kernel \<Rightarrow> bool" where
  "positive_dentries K \<longleftrightarrow>
     (\<forall>h e. d_inode K h (p_dentry (export_path K e)) \<noteq> None) \<and>
     (\<forall>h m fid len t d. exportfs_decode_fh K h m fid len t = Inr (Some d) \<longrightarrow>
        d_inode K (Sys (Decode_fh m fid len t (Inr (Some d))) # h) d \<noteq> None)"

text \<open>
  \<open>exportfs_encode_fh\<close> writes as many words as it reports, never more than the space it was
  given, and keeps identifier type 0 for export roots, which it never sees.
\<close>

definition encode_fh_ok :: "kernel \<Rightarrow> bool" where
  "encode_fh_ok K \<longleftrightarrow>
     (\<forall>h d maxsize t n ws. exportfs_encode_fh K h d maxsize True = (t, n, ws) \<longrightarrow>
        (ucast t :: u8) \<noteq> FILEID_INVALID \<longrightarrow>
        n \<le> maxsize \<and> length ws = unat n \<and> (ucast t :: u8) \<noteq> FILEID_ROOT)"

text \<open>
  Decoding what was encoded, with the words possibly followed by others, gives the dentry as long
  as its file exists.
\<close>

definition fh_codec_ok :: "kernel \<Rightarrow> bool" where
  "fh_codec_ok K \<longleftrightarrow>
     (\<forall>h d maxsize t n ws h' m fid. exportfs_encode_fh K h d maxsize True = (t, n, ws) \<longrightarrow>
        (ucast t :: u8) \<noteq> FILEID_INVALID \<longrightarrow> take (unat n) fid = ws \<longrightarrow> d_inode K h' d \<noteq> None \<longrightarrow>
        exportfs_decode_fh K h' m fid (int (unat n)) (ucast t) = Inr (Some d))"

section \<open>The contract of an operation on a handle\<close>

text \<open>
  An operation that keeps the balance of its handle. Running it on a handle fresh from the wire
  and then putting the handle gives every reference back.
\<close>

locale fh_op =
  fixes K :: kernel
    and run :: "svc_fh \<Rightarrow> hist \<Rightarrow> 'r \<times> svc_fh \<times> hist"
  assumes run_balance: "err_ptr_ok K \<Longrightarrow> fh_wf fh \<Longrightarrow> \<not> fh_want_write fh \<Longrightarrow> run fh h = (r, fh', h') \<Longrightarrow>
      balance K x fh' h' = balance K x fh h"
    and run_wf: "err_ptr_ok K \<Longrightarrow> fh_wf fh \<Longrightarrow> \<not> fh_want_write fh \<Longrightarrow> run fh h = (r, fh', h') \<Longrightarrow> fh_wf fh'"
begin

lemma released:
  assumes ok: "err_ptr_ok K" and "fh_wf fh" "fh_dentry fh = None" "run fh h = (r, fh', h')"
    and "fh_put K fh' h' = (fh'', h'')"
  shows "refs x h'' = refs x h"
proof -
  have w: "\<not> fh_want_write fh" using assms(2,3) fh_wf_unverified by blast
  have "refs x h'' = balance K x fh' h'"
    using assms(5) run_wf [OF ok assms(2) w assms(4)] by (rule fh_put_released)
  also have "\<dots> = balance K x fh h" using ok assms(2) w assms(4) by (rule run_balance)
  also have "\<dots> = refs x h" using held_unverified [OF assms(2,3)] by (simp add: balance_def)
  finally show ?thesis .
qed

end

text \<open>
  The same for an operation on a directory handle and a result handle that it composes: putting
  both gives every reference back.
\<close>

definition balance2 :: "kernel \<Rightarrow> resource \<Rightarrow> svc_fh \<Rightarrow> svc_fh \<Rightarrow> hist \<Rightarrow> int" where
  "balance2 K x a b h = refs x h - held K x a - held K x b"

lemma balance2_fst: "balance2 K x a b h = balance K x a h - held K x b"
  by (simp add: balance2_def balance_def)

lemma balance2_snd: "balance2 K x a b h = balance K x b h - held K x a"
  by (simp add: balance2_def balance_def)

locale fh2_op =
  fixes K :: kernel
    and run :: "svc_fh \<Rightarrow> svc_fh \<Rightarrow> hist \<Rightarrow> 'r \<times> svc_fh \<times> svc_fh \<times> hist"
  assumes run_balance: "err_ptr_ok K \<Longrightarrow> fh_wf a \<Longrightarrow> \<not> fh_want_write a \<Longrightarrow> fh_wf b \<Longrightarrow> fh_dentry b = None \<Longrightarrow>
      run a b h = (r, a', b', h') \<Longrightarrow> balance2 K x a' b' h' = balance2 K x a b h"
    and run_wf: "err_ptr_ok K \<Longrightarrow> fh_wf a \<Longrightarrow> \<not> fh_want_write a \<Longrightarrow> fh_wf b \<Longrightarrow> fh_dentry b = None \<Longrightarrow>
      run a b h = (r, a', b', h') \<Longrightarrow> fh_wf a' \<and> fh_wf b'"
begin

lemma released:
  assumes ok: "err_ptr_ok K" and a: "fh_wf a" "fh_dentry a = None" and b: "fh_wf b" "fh_dentry b = None"
    and run: "run a b h = (r, a', b', h')"
    and put: "fh_put K a' h' = (a'', h1)" "fh_put K b' h1 = (b'', h'')"
  shows "refs x h'' = refs x h"
proof -
  have w: "\<not> fh_want_write a" using a fh_wf_unverified by blast
  note wf = run_wf [OF ok a(1) w b run]
  have "refs x h'' = refs x h1 - held K x b'"
    using fh_put_released(4) [OF put(2)] wf by (simp add: balance_def)
  also have "\<dots> = balance2 K x a' b' h'"
    using fh_put_released(4) [OF put(1)] wf by (simp add: balance2_fst)
  also have "\<dots> = balance2 K x a b h" using ok a(1) w b run by (rule run_balance)
  also have "\<dots> = refs x h"
    using held_unverified [OF a] held_unverified [OF b] by (simp add: balance2_def)
  finally show ?thesis .
qed

end

interpretation verify_op: fh_op K "fh_verify K rqstp" for K rqstp
  by unfold_locales (auto dest: fh_verify_balance)

lemma nfsd_set_fh_dentry_success:
  assumes "err_ptr_ok K" "nfsd_set_fh_dentry K rqstp fhp h = (0, fhp', h')"
  shows "\<exists>d e. fhp' = fhp\<lparr>fh_dentry := Some d, fh_export := Some e\<rparr>"
proof -
  have nz: "exp_find K clp t fsidv req g \<noteq> (Inl 0, g')" for clp t fsidv req g g'
    by (auto simp: exp_find_def exp_find_key_def exp_get_by_name_def Let_def
        split: option.split prod.split sum.split if_splits)
  have nd: "exportfs_decode_fh K g m fid len t \<noteq> Inl 0" for g m fid len t
    using err_ptr_okD(1) [OF assms(1), of g m fid len t 0] by auto
  show ?thesis
    using assms(2) nz nd
    by (auto simp: nfsd_set_fh_dentry_def Let_def rqst_exp_find_def call_simps
          nfserr_defs nfsd_setuser_def
        split: if_splits sum.splits option.splits prod.splits)
qed

lemma fh_verify_success:
  assumes "err_ptr_ok K" "fh_verify K rqstp fhp h = (0, fhp', h')" "fh_wf fhp"
  shows "\<exists>d e. fh_dentry fhp' = Some d \<and> fh_export fhp' = Some e"
  using assms nfsd_set_fh_dentry_success [OF assms(1), of rqstp fhp h fhp' h']
  by (auto simp: fh_verify_def fh_wf_def split: if_splits)

section \<open>The composed handle\<close>

text \<open>The device part of a composed handle, before the file identifier.\<close>

definition export_handle :: "kernel \<Rightarrow> u32 \<Rightarrow> u64 \<Rightarrow> knfsd_fh" where
  "export_handle K dev ino = zero_knfsd_fh\<lparr>fh_size := 12, fh_version := 1,
     fh_fsid := (replicate 31 0)[0 := htonl (push_bit 16 (MAJOR K dev) OR MINOR K dev),
                                 1 := ino_t_to_u32 ino]\<rparr>"

lemma export_handle_simps [fh_simps]:
  "fh_size (export_handle K dev ino) = 12" "fh_version (export_handle K dev ino) = 1"
  "fh_auth_type (export_handle K dev ino) = 0" "fh_fsid_type (export_handle K dev ino) = 0"
  "fh_fileid_type (export_handle K dev ino) = 0" "length (fh_fsid (export_handle K dev ino)) = 31"
  by (simp_all add: export_handle_def zero_knfsd_fh_def)

lemma fh_compose_init:
  assumes c: "fh_compose K (fh_init NFS3_FHSIZE) exp dentry r h = (0, fhp', h')"
    and p: "d_inode K h dentry \<noteq> None"
  obtains (at_root) dev ino where "dentry = p_dentry (export_path K exp)"
      "fh_handle fhp' = export_handle K dev ino"
  | (at_file) dev ino g t n ws where "dentry \<noteq> p_dentry (export_path K exp)"
      "exportfs_encode_fh K g dentry 13 True = (t, n, ws)" "(ucast t :: u8) \<noteq> FILEID_INVALID"
      "fh_handle fhp' = (export_handle K dev ino)\<lparr>fh_fsid := overwrite 2 ws
          (fh_fsid (export_handle K dev ino)), fh_fileid_type := ucast t, fh_size := 12 + n * 4\<rparr>"
proof -
  have put: "fh_put K ((fh_init m)\<lparr>fh_handle := b\<rparr>) g = ((fh_init m)\<lparr>fh_handle := b\<rparr>, g)" for m b g
    by (rule fh_put_unverified) simp_all
  show thesis
  proof (cases "dentry = p_dentry (export_path K exp)")
    case True
    have "\<exists>dev ino. fh_handle fhp' = export_handle K dev ino"
      using c p True
      by (auto simp: fh_compose_def Let_def put zero_knfsd_fh_def key_len_def mk_fsid_def
           fh_update_fileid_def nfserr_opnotsupp_def export_handle_def split: prod.splits if_splits)
         blast+
    with True at_root show thesis by blast
  next
    case False
    with c p show thesis
      by (auto simp: fh_compose_def Let_def put zero_knfsd_fh_def key_len_def mk_fsid_def call_simps
           fh_update_fileid_def nfserr_opnotsupp_def export_handle_def
           split: prod.splits if_splits intro: at_file)
  qed
qed

text \<open>The handle as it comes back over the wire: the same bytes, nothing verified.\<close>

definition wire_fh :: "knfsd_fh \<Rightarrow> svc_fh" where
  "wire_fh fh = (fh_init NFS3_FHSIZE)\<lparr>fh_handle := fh\<rparr>"

lemma wire_fh_simps [fh_simps]:
  "fh_handle (wire_fh fh) = fh" "fh_dentry (wire_fh fh) = None" "fh_export (wire_fh fh) = None"
  "\<not> fh_want_write (wire_fh fh)" "fh_maxsize (wire_fh fh) = NFS3_FHSIZE" "fh_wf (wire_fh fh)"
  by (simp_all add: wire_fh_def)

lemma unat_words_size: "n \<le> (13 :: u32) \<Longrightarrow> unat (12 + n * 4) = 12 + 4 * unat n"
proof -
  assume "n \<le> 13"
  then have "unat n \<le> 13" by (simp add: word_le_nat_alt)
  then show ?thesis by (simp add: unat_word_ariths mod_if)
qed

lemma fh_compose_fits:
  assumes "fh_compose K (fh_init NFS3_FHSIZE) exp dentry r h = (0, fhp', h')"
    and "d_inode K h dentry \<noteq> None" and "encode_fh_ok K"
  shows "fh_size (fh_handle fhp') \<le> NFS3_FHSIZE" "4 dvd unat (fh_size (fh_handle fhp'))"
    "12 \<le> unat (fh_size (fh_handle fhp'))" "length (fh_fsid (fh_handle fhp')) = 31"
    "fh_version (fh_handle fhp') = 1" "fh_auth_type (fh_handle fhp') = 0"
    "fh_fsid_type (fh_handle fhp') = 0"
proof -
  have "fh_size (fh_handle fhp') \<le> NFS3_FHSIZE \<and> 4 dvd unat (fh_size (fh_handle fhp')) \<and>
    12 \<le> unat (fh_size (fh_handle fhp')) \<and> length (fh_fsid (fh_handle fhp')) = 31 \<and>
    fh_version (fh_handle fhp') = 1 \<and> fh_auth_type (fh_handle fhp') = 0 \<and>
    fh_fsid_type (fh_handle fhp') = 0"
    using assms(1,2)
  proof (cases rule: fh_compose_init)
    case (at_file dev ino g t n ws)
    then have n: "n \<le> 13" and l: "length ws = unat n"
      using assms(3) unfolding encode_fh_ok_def by blast+
    have "unat n \<le> 13" using n by (simp add: word_le_nat_alt)
    then show ?thesis using at_file l unat_words_size [OF n]
      by (simp add: fh_simps length_overwrite word_le_nat_alt)
  qed (simp add: fh_simps)
  then show "fh_size (fh_handle fhp') \<le> NFS3_FHSIZE" "4 dvd unat (fh_size (fh_handle fhp'))"
    "12 \<le> unat (fh_size (fh_handle fhp'))" "length (fh_fsid (fh_handle fhp')) = 31"
    "fh_version (fh_handle fhp') = 1" "fh_auth_type (fh_handle fhp') = 0"
    "fh_fsid_type (fh_handle fhp') = 0" by auto
qed

text \<open>
  The export caches hold \<open>exp\<close> for a client and a device key: both the key and the export are
  found, valid, and lead to each other.
\<close>

definition exported :: "kernel \<Rightarrow> domain_p \<Rightarrow> u32 list \<Rightarrow> export_p \<Rightarrow> bool" where
  "exported K c dev_key exp \<longleftrightarrow>
     (\<forall>h key hash. ek_client key = c \<longrightarrow> ek_fsidtype key = FSID_DEV \<longrightarrow> take 2 (ek_fsid key) = dev_key \<longrightarrow>
        (\<exists>k. cache_lookup_expkey K h key hash = Some k \<and>
             (\<forall>g. cache_check K g (Expkey_item k) True = 0 \<and> expkey_path K g k = export_path K exp))) \<and>
     (\<forall>h key hash. ex_client key = c \<longrightarrow> ex_path key = export_path K exp \<longrightarrow>
        cache_lookup_export K h key hash = Some exp) \<and>
     (\<forall>g. cache_check K g (Export_item exp) True = 0)"

lemma exp_find_exported:
  assumes "exported K c (take 2 fsidv) exp" and "2 \<le> length fsidv"
  shows "\<exists>g'. exp_find K (Some c) FSID_DEV fsidv True g = (Inr exp, g')"
proof -
  define key where "key = (stack_expkey K g)\<lparr>ek_client := c, ek_fsidtype := FSID_DEV,
     ek_fsid := overwrite 0 (take 2 fsidv) (ek_fsid (stack_expkey K g))\<rparr>"
  have "take 2 (ek_fsid key) = take 2 fsidv" "ek_client key = c" "ek_fsidtype key = FSID_DEV"
    using assms(2) by (simp_all add: key_def overwrite_def)
  then obtain k where k: "cache_lookup_expkey K g key (svc_expkey_hash K key) = Some k"
      "\<And>g. cache_check K g (Expkey_item k) True = 0" "\<And>g. expkey_path K g k = export_path K exp"
    using assms(1) unfolding exported_def by blast
  have "cache_lookup_export K g' ek hash = Some exp"
    if "ex_client ek = c" "ex_path ek = export_path K exp" for g' ek hash
    using that assms(1) unfolding exported_def by blast
  moreover have "cache_check K g (Export_item exp) True = 0" for g
    using assms(1) unfolding exported_def by blast
  ultimately show ?thesis
    using k
    by (simp add: exp_find_def exp_find_key_def exp_get_by_name_def svc_expkey_lookup_def
        svc_export_lookup_def key_len_def call_simps Let_def flip: key_def)
qed

text \<open>Verifying a wire handle of a known export, once the credentials are set.\<close>

lemma fh_verify_exported:
  assumes fh: "fh_auth_type fh = 0" "fh_fsid_type fh = 0" "12 \<le> unat (fh_size fh)" "2 \<le> length (fh_fsid fh)"
    and exp: "rq_client rqstp = Some c" "exported K c (take 2 (fh_fsid fh)) exp"
    and cred: "\<And>g. prepare_creds K g \<noteq> None"
    and dec: "if fh_fileid_type fh = FILEID_ROOT then d = p_dentry (export_path K exp)
      else \<forall>g. exportfs_decode_fh K g (p_mnt (export_path K exp)) (drop 2 (fh_fsid fh))
        (int (unat (fh_size fh) div 4) - 3) (fh_fileid_type fh) = Inr (Some d)"
  shows "\<exists>g'. fh_verify K rqstp (wire_fh fh) g =
    (0, (wire_fh fh)\<lparr>fh_dentry := Some d, fh_export := Some exp\<rparr>, g')"
proof -
  obtain g1 where f: "exp_find K (Some c) FSID_DEV (fh_fsid fh) True g = (Inr exp, g1)"
    using exp_find_exported [OF exp(2) fh(4)] by blast
  obtain new where "prepare_creds K (Sys Revert_creds # g1) = Some new"
    using cred by blast
  moreover have "3 \<le> unat (fh_size fh) div 4" using fh(3) by presburger
  ultimately show ?thesis
    using fh f exp(1) dec
    by (auto simp: fh_verify_def nfsd_set_fh_dentry_def fh_simps key_len_def rqst_exp_find_def
        nfsd_setuser_def call_simps Let_def split: if_splits prod.split)
qed

lemma fh_compose_verifies:
  assumes c: "fh_compose K (fh_init NFS3_FHSIZE) exp dentry r h = (0, fhp', h')"
    and pos: "\<And>g. d_inode K g dentry \<noteq> None"
    and ok: "encode_fh_ok K" "fh_codec_ok K"
    and exp: "rq_client rqstp = Some cl" "exported K cl (take 2 (fh_fsid (fh_handle fhp'))) exp"
    and cred: "\<And>g. prepare_creds K g \<noteq> None"
    and same: "fh_base = fh_handle fhp'"
  shows "\<exists>g'. fh_verify K rqstp (wire_fh fh_base) g =
    (0, (wire_fh fh_base)\<lparr>fh_dentry := Some dentry, fh_export := Some exp\<rparr>, g')"
proof -
  note fits = fh_compose_fits [OF c pos ok(1)]
  have "if fh_fileid_type (fh_handle fhp') = FILEID_ROOT then dentry = p_dentry (export_path K exp)
    else \<forall>g. exportfs_decode_fh K g (p_mnt (export_path K exp)) (drop 2 (fh_fsid (fh_handle fhp')))
        (int (unat (fh_size (fh_handle fhp')) div 4) - 3) (fh_fileid_type (fh_handle fhp')) = Inr (Some dentry)"
    using c pos
  proof (cases rule: fh_compose_init)
    case (at_file dev ino g t n ws)
    then have n: "n \<le> 13" and l: "length ws = unat n" and t: "(ucast t :: u8) \<noteq> FILEID_ROOT"
      using ok(1) unfolding encode_fh_ok_def by blast+
    have w: "take (unat n) (drop 2 (fh_fsid (fh_handle fhp'))) = ws"
      using take_drop_overwrite [of 2 "fh_fsid (export_handle K dev ino)" ws] at_file(4) l
      by (simp add: fh_simps)
    have "exportfs_decode_fh K g' m (drop 2 (fh_fsid (fh_handle fhp'))) (int (unat n)) (ucast t) = Inr (Some dentry)"
      for g' m
      by (rule ok(2) [unfolded fh_codec_ok_def, rule_format, OF at_file(2,3) w pos])
    then show ?thesis
      using at_file(4) t unat_words_size [OF n] by simp
  qed (simp add: fh_simps)
  then show ?thesis
    unfolding same using fits exp cred by (intro fh_verify_exported) simp_all
qed

section \<open>Properties\<close>

text \<open>
  C18: \<open>fh_verify\<close> on a well-formed handle either succeeds, and then the handle has a dentry and an
  export, or returns a non-zero status and leaves the handle as it was. It never changes the handle
  bytes, keeps the handle well formed, and whatever it returned, \<open>fh_put\<close> afterwards leaves every
  reference count as it was before the handle was first verified.
\<close>

theorem fh_verify_contract:
  assumes "fh_wf fhp" and "err_ptr_ok K" and "fh_verify K rqstp fhp h = (err, fhp', h')"
  shows "(err = 0 \<longrightarrow> fh_dentry fhp' \<noteq> None \<and> fh_export fhp' \<noteq> None) \<and> (err \<noteq> 0 \<longrightarrow> fhp' = fhp) \<and>
    fh_handle fhp' = fh_handle fhp \<and> fh_wf fhp' \<and>
    refs x (snd (fh_put K fhp' h')) = refs x h - held K x fhp"
proof -
  note bal = fh_verify_balance [OF assms(3,1)]
  have "refs x (snd (fh_put K fhp' h')) = balance K x fhp' h'"
    using fh_put_released(4) [OF _ bal(2)] by (metis prod.collapse)
  moreover have "err \<noteq> 0 \<longrightarrow> fhp' = fhp"
    using assms(3) nfsd_set_fh_dentry_error_frame by (auto simp: fh_verify_def split: if_splits)
  moreover have "err = 0 \<longrightarrow> (\<exists>d e. fh_dentry fhp' = Some d \<and> fh_export fhp' = Some e)"
    using fh_verify_success [OF assms(2) _ assms(1)] assms(3) by blast
  moreover have "fh_handle fhp' = fh_handle fhp"
    using assms(3) by (auto simp: fh_verify_def nfsd_set_fh_dentry_def Let_def
        split: if_splits sum.splits option.splits prod.splits)
  ultimately show ?thesis using bal(1) [of x] bal(2) by (auto simp: balance_def)
qed

lemma sample_kernel_ok:
  "err_ptr_ok sample_kernel" "encode_fh_ok sample_kernel" "fh_codec_ok sample_kernel"
  "exported sample_kernel 9 dev_key 5"
proof -
  show "err_ptr_ok sample_kernel"
    by (auto simp: err_ptr_ok_def sample_kernel_def split: if_splits)
  show "encode_fh_ok sample_kernel"
    by (auto simp: encode_fh_ok_def sample_kernel_def split: if_splits)
  show "exported sample_kernel 9 dev_key 5"
    by (simp add: exported_def sample_kernel_def)
  show "fh_codec_ok sample_kernel"
    unfolding fh_codec_ok_def
  proof (intro allI impI)
    fix h d maxsize t n ws h' m fid
    assume "exportfs_encode_fh sample_kernel h d maxsize True = (t, n, ws)" "(ucast t :: u8) \<noteq> FILEID_INVALID"
    then have e: "d < 4" "t = 1" "n = 2" "ws = [of_nat d, 0]"
      by (auto simp: sample_kernel_def split: if_splits)
    assume "take (unat n) fid = ws"
    with e have "fid \<noteq> []" "fid ! 0 = of_nat d"
      using nth_take [of 0 2 fid] by auto
    moreover have "unat (word_of_nat d :: u32) = d"
      using e(1) by (simp add: unat_of_nat)
    moreover assume "d_inode sample_kernel h' d \<noteq> None"
    ultimately show "exportfs_decode_fh sample_kernel h' m fid (int (unat n)) (ucast t) = Inr (Some d)"
      using e(2) by (simp add: sample_kernel_def)
  qed
qed

theorem fh_verify_contract_witness:
  "case fh_verify sample_kernel sample_rqst (wire_fh (export_handle sample_kernel 0x00800001 11)) [] of
     (err, fhp, h) \<Rightarrow> err = 0 \<and> fh_dentry fhp = Some 1 \<and>
       refs (Dentry_ref 1) (snd (fh_put sample_kernel fhp h)) = 0"
proof -
  obtain err fhp h where r: "fh_verify sample_kernel sample_rqst
      (wire_fh (export_handle sample_kernel 0x00800001 11)) [] = (err, fhp, h)"
    by (metis prod_cases3)
  have "case fh_verify sample_kernel sample_rqst (wire_fh (export_handle sample_kernel 0x00800001 11)) [] of
      (err, fhp, h) \<Rightarrow> err = 0 \<and> fh_dentry fhp = Some 1"
    by code_simp
  then show ?thesis
    using r fh_verify_contract [OF _ sample_kernel_ok(1) r, of "Dentry_ref 1"]
    by (simp add: fh_simps held_def)
qed

text \<open>
  C19: a handle that \<open>fh_compose\<close> builds into a fresh 64-byte buffer for an existing file never
  overruns the buffer: its size is a multiple of four between 12 and 64 bytes, it announces version
  1, no authentication and a device-number file-system identifier, and success means the handle
  holds the dentry and the export it was built for, with the reference counts to match.
\<close>

theorem fh_compose_bounded:
  assumes "encode_fh_ok K" and "d_inode K h dentry \<noteq> None"
    and "fh_compose K (fh_init NFS3_FHSIZE) exp dentry ref_fh h = (0, fhp', h')"
  shows "12 \<le> unat (fh_size (fh_handle fhp')) \<and> unat (fh_size (fh_handle fhp')) \<le> 64 \<and>
    4 dvd unat (fh_size (fh_handle fhp')) \<and> length (fh_fsid (fh_handle fhp')) = 31 \<and>
    fh_version (fh_handle fhp') = 1 \<and> fh_auth_type (fh_handle fhp') = 0 \<and>
    fh_fsid_type (fh_handle fhp') = 0 \<and>
    fh_dentry fhp' = Some dentry \<and> fh_export fhp' = Some exp \<and>
    refs x h' = refs x h + of_bool (x = Dentry_ref dentry) + of_bool (x = Item_ref (Export_item exp))"
proof -
  note bal = fh_compose_balance [OF assms(3) fh_wf_init fh_init_simps(3)]
  have held: "held K x fhp' = of_bool (x = Dentry_ref dentry) + of_bool (x = Item_ref (Export_item exp))"
    using bal(3) by (auto split: held_split)
  show ?thesis
    using fh_compose_fits [OF assms(3,2,1)] bal(1) [of x] bal(3) held
    by (simp add: balance_def word_le_nat_alt)
qed

theorem fh_compose_bounded_witness:
  "case fh_compose sample_kernel (fh_init NFS3_FHSIZE) 5 2 Ref_null [] of
     (err, fhp, h) \<Rightarrow> err = 0 \<and> unat (fh_size (fh_handle fhp)) = 20 \<and> fh_dentry fhp = Some 2 \<and>
       refs (Dentry_ref 2) h = 1"
proof -
  obtain err fhp h where r: "fh_compose sample_kernel (fh_init NFS3_FHSIZE) 5 2 Ref_null [] = (err, fhp, h)"
    by (metis prod_cases3)
  have e: "case fh_compose sample_kernel (fh_init NFS3_FHSIZE) 5 2 Ref_null [] of
      (err, fhp, h) \<Rightarrow> err = 0 \<and> fh_size (fh_handle fhp) = 20"
    by code_simp
  have "d_inode sample_kernel [] 2 \<noteq> None" by code_simp
  then show ?thesis
    using e r fh_compose_bounded [OF sample_kernel_ok(2), of "[]" 2 5 Ref_null fhp h "Dentry_ref 2"]
    by simp
qed

text \<open>
  C1: a handle the server composed and a client sends back verifies to the same file and the same
  export: with a kernel whose exportfs decodes what it encoded, an export table that still has the
  export, and a file that still exists, \<open>fh_verify\<close> on the bytes \<open>fh_compose\<close> built returns success
  with that dentry and that export, for the export root as for any other file.
\<close>

theorem handle_roundtrip:
  assumes "fh_compose K (fh_init NFS3_FHSIZE) exp dentry ref_fh h = (0, fhp', h')"
    and "\<And>g. d_inode K g dentry \<noteq> None"
    and "encode_fh_ok K" and "fh_codec_ok K"
    and "rq_client rqstp = Some cl" and "exported K cl (take 2 (fh_fsid (fh_handle fhp'))) exp"
    and "\<And>g. prepare_creds K g \<noteq> None"
  shows "\<exists>fhq g'. fh_verify K rqstp (wire_fh (fh_handle fhp')) g = (0, fhq, g') \<and>
    fh_dentry fhq = Some dentry \<and> fh_export fhq = Some exp \<and> fh_handle fhq = fh_handle fhp'"
  using fh_compose_verifies [OF assms refl, of g] by (auto simp: fh_simps)

theorem handle_roundtrip_witness:
  "case fh_compose sample_kernel (fh_init NFS3_FHSIZE) 5 2 Ref_null [] of
     (err, fhp, h) \<Rightarrow> err = 0 \<and>
       (\<exists>fhq g'. fh_verify sample_kernel sample_rqst (wire_fh (fh_handle fhp)) [] = (0, fhq, g') \<and>
          fh_dentry fhq = Some 2 \<and> fh_export fhq = Some 5)"
proof -
  obtain err fhp h where r: "fh_compose sample_kernel (fh_init NFS3_FHSIZE) 5 2 Ref_null [] = (err, fhp, h)"
    by (metis prod_cases3)
  have e: "case fh_compose sample_kernel (fh_init NFS3_FHSIZE) 5 2 Ref_null [] of (err, fhp, h) \<Rightarrow> err = 0"
    by code_simp
  have 1: "d_inode sample_kernel g 2 \<noteq> None" "prepare_creds sample_kernel g \<noteq> None" for g
    by (simp_all add: sample_kernel_def sample_d_inode_def)
  have 2: "rq_client sample_rqst = Some 9" by (simp add: sample_rqst_def)
  from r e have "fh_compose sample_kernel (fh_init NFS3_FHSIZE) 5 2 Ref_null [] = (0, fhp, h)" by simp
  from handle_roundtrip [OF this 1(1) sample_kernel_ok(2,3) 2 sample_kernel_ok(4) 1(2), of "[]"]
  show ?thesis using r e by auto
qed

text \<open>
  C33: the status \<open>fh_verify\<close> returns is one RFC 1813 allows, with a single exception: when
  \<open>prepare_creds\<close> runs out of memory the negative error number itself (-12) is returned as the
  status, unlike every other error, and that value is no status of the protocol.
\<close>

theorem fh_verify_status:
  assumes "fh_verify K rqstp fhp h = (err, fhp', h')"
  shows "(ntohl err \<in> set nfsstat3 \<or> err = - 12 \<and> Sys (Prepare_creds None) \<in> set h') \<and>
    ntohl (- 12) \<notin> set nfsstat3"
proof -
  have bad: "ntohl nfserr_badhandle \<in> set nfsstat3" "ntohl nfserr_stale \<in> set nfsstat3"
      "ntohl 0 \<in> set nfsstat3" "ntohl (- 12) \<notin> set nfsstat3"
    by (simp_all add: nfserr_defs nfsstat3_def) code_simp
  show ?thesis
    using assms bad
    by (auto simp: fh_verify_def nfsd_set_fh_dentry_def nfsd_setuser_def call_simps Let_def nfserrno_status
        split: if_splits sum.splits option.splits prod.splits)
qed

theorem fh_verify_status_witness:
  "case fh_verify (sample_kernel\<lparr>prepare_creds := (\<lambda>h. None)\<rparr>) sample_rqst
      (wire_fh (export_handle sample_kernel 0x00800001 11)) [] of (err, fhp, h) \<Rightarrow> err = - 12 \<and>
      ntohl err \<notin> set nfsstat3"
proof -
  obtain err fhp h where r: "fh_verify (sample_kernel\<lparr>prepare_creds := (\<lambda>h. None)\<rparr>) sample_rqst
      (wire_fh (export_handle sample_kernel 0x00800001 11)) [] = (err, fhp, h)"
    by (metis prod_cases3)
  have "case fh_verify (sample_kernel\<lparr>prepare_creds := (\<lambda>h. None)\<rparr>) sample_rqst
      (wire_fh (export_handle sample_kernel 0x00800001 11)) [] of (err, fhp, h) \<Rightarrow> err = - 12"
    by code_simp
  then show ?thesis using r fh_verify_status [OF r] by simp
qed

end
