(* ===== verification/Vfs.thy ===== *)
theory Vfs
  imports Handle_Contract
begin

text \<open>
  File operations (\<open>vfs.c\<close>, except the directory reader, which is in \<open>Readdir\<close>): lookup, attribute
  changes, open, read, write, create, mkdir, unlink, rmdir, statfs. Each takes the handles it is
  given and returns them updated, with the status, its out-parameters and the history. A
  \<open>const char *\<close> that may be \<open>NULL\<close> is an option; reading through it then is a fault.
\<close>

section \<open>Names\<close>

abbreviation (input) NFSD_MAY_WRITE :: u32 where "NFSD_MAY_WRITE \<equiv> 0x2"
abbreviation (input) NFSD_MAY_READ :: u32 where "NFSD_MAY_READ \<equiv> 0x4"

text \<open>The macro \<open>isdotent\<close> reads the name only when the length is below 3.\<close>

definition isdotent :: "char_p option \<Rightarrow> int \<Rightarrow> hist \<Rightarrow> bool \<times> hist" where
  "isdotent name l h =
     (if l < 3 then
        (case name of
           None \<Rightarrow> (False, Fault OOPS # h)
         | Some n \<Rightarrow> (n 0 = 0x2E \<and> (l = 1 \<or> n 1 = 0x2E), h))
      else (False, h))"

text \<open>The bytes of a name handed to a lookup.\<close>

definition name_bytes :: "char_p option \<Rightarrow> u32 \<Rightarrow> hist \<Rightarrow> u8 list \<times> hist" where
  "name_bytes name len h =
     (case name of
        None \<Rightarrow> ([], if len = 0 then h else Fault OOPS # h)
      | Some n \<Rightarrow> (cstr n (unat len), h))"

section \<open>Lookup\<close>

definition nfsd_lookup_dentry ::
  "kernel \<Rightarrow> svc_rqst \<Rightarrow> svc_fh \<Rightarrow> char_p option \<Rightarrow> u32 \<Rightarrow> hist \<Rightarrow>
   (be32 + export_p \<times> dentry_p) \<times> hist" where
  "nfsd_lookup_dentry K rqstp fhp name len h =
     (let (dparent, h) = deref (fh_dentry fhp) h;
          (exp, h) = deref (fh_export fhp) h;
          h = exp_get exp h;
          (dot, h) = isdotent name (uint len) h
      in if dot then
           if len = 1 then (Inr (exp, dparent), Ref (Dget dparent) # h)
           else if dparent \<noteq> p_dentry (export_path K exp) then
             let (dentry, h) = call_dget_parent K dparent h in (Inr (exp, dentry), h)
           else (Inr (exp, dparent), Ref (Dget dparent) # h)
         else
           let (bytes, h) = name_bytes name len h;
               (dentry, h) = call_lookup_one_len K bytes dparent h
           in (case dentry of
                 Inl host_err \<Rightarrow> (Inl (nfserrno host_err), exp_put exp h)
               | Inr dentry \<Rightarrow> (Inr (exp, dentry), h)))"

definition nfsd_lookup ::
  "kernel \<Rightarrow> svc_rqst \<Rightarrow> svc_fh \<Rightarrow> char_p option \<Rightarrow> u32 \<Rightarrow> svc_fh \<Rightarrow> hist \<Rightarrow>
   be32 \<times> svc_fh \<times> svc_fh \<times> hist" where
  "nfsd_lookup K rqstp fhp name len resfh h =
     (let (err, fhp, h) = fh_verify K rqstp fhp h
      in if err \<noteq> 0 then (err, fhp, resfh, h)
         else
           let (r, h) = nfsd_lookup_dentry K rqstp fhp name len h
           in (case r of
                 Inl err \<Rightarrow> (err, fhp, resfh, h)
               | Inr (exp, dentry) \<Rightarrow>
                   let (err, resfh, h) = fh_compose K resfh exp dentry (Ref_other fhp) h;
                       err = (if err = 0 \<and> d_inode K h dentry = None then nfserr_noent else err)
                   in (err, fhp, resfh, exp_put exp (Ref (Dput dentry) # h))))"

section \<open>Attributes\<close>

definition commit_metadata :: "kernel \<Rightarrow> svc_fh \<Rightarrow> hist \<Rightarrow> int \<times> hist" where
  "commit_metadata K fhp h =
     (let (dentry, h) = deref (fh_dentry fhp) h;
          (ino, h) = inode_of K dentry h;
          (exp, h) = deref (fh_export fhp) h
      in if \<not> EX_ISSYNC (export_flags K h exp) then (0, h)
         else
           let h = (if s_export_op (inode_at K h ino) then h else Fault OOPS # h)
           in if s_commit_metadata (inode_at K h ino) then call_commit_metadata_op K ino h
              else call_sync_inode_metadata K ino h)"

definition nfsd_sanitize_attrs :: "inode \<Rightarrow> iattr \<Rightarrow> iattr" where
  "nfsd_sanitize_attrs ino iap =
     (let iap = (if ia_valid iap AND ATTR_MODE \<noteq> 0 then
                   iap\<lparr>ia_mode := (ia_mode iap AND S_IALLUGO) OR (i_mode ino AND NOT S_IALLUGO)\<rparr>
                 else iap)
      in if \<not> S_ISDIR (i_mode ino) \<and>
            (ia_valid iap AND ATTR_UID \<noteq> 0 \<or> ia_valid iap AND ATTR_GID \<noteq> 0) then
           let iap = iap\<lparr>ia_valid := ia_valid iap OR ATTR_KILL_PRIV\<rparr>
           in if ia_valid iap AND ATTR_MODE \<noteq> 0 then
                let iap = iap\<lparr>ia_mode := ia_mode iap AND NOT S_ISUID\<rparr>
                in if ia_mode iap AND S_IXGRP \<noteq> 0 then iap\<lparr>ia_mode := ia_mode iap AND NOT S_ISGID\<rparr>
                   else iap
              else iap\<lparr>ia_valid := ia_valid iap OR (ATTR_KILL_SUID OR ATTR_KILL_SGID)\<rparr>
         else iap)"

text \<open>The label \<open>out\<close> of \<open>nfsd_setattr\<close>, and the call that precedes it.\<close>

definition nfsd_setattr_out :: "kernel \<Rightarrow> svc_fh \<Rightarrow> int \<Rightarrow> hist \<Rightarrow> be32 \<times> svc_fh \<times> hist" where
  "nfsd_setattr_out K fhp host_err h =
     (if host_err = 0 then let (host_err, h) = commit_metadata K fhp h in (nfserrno host_err, fhp, h)
      else (nfserrno host_err, fhp, h))"

definition nfsd_setattr_notify ::
  "kernel \<Rightarrow> svc_fh \<Rightarrow> dentry_p \<Rightarrow> iattr \<Rightarrow> hist \<Rightarrow> be32 \<times> svc_fh \<times> hist" where
  "nfsd_setattr_notify K fhp dentry iap h =
     (let iap = iap\<lparr>ia_valid := ia_valid iap OR ATTR_CTIME\<rparr>;
          (host_err, h) = call_notify_change K dentry iap h
      in nfsd_setattr_out K fhp host_err h)"

definition nfsd_setattr ::
  "kernel \<Rightarrow> svc_rqst \<Rightarrow> svc_fh \<Rightarrow> iattr \<Rightarrow> bool \<Rightarrow> u64 \<Rightarrow> hist \<Rightarrow> be32 \<times> svc_fh \<times> hist" where
  "nfsd_setattr K rqstp fhp iap check_guard guardtime h =
     (let size_change = (ia_valid iap AND ATTR_SIZE \<noteq> 0);
          get_write_count = (fh_dentry fhp = None);
          (err, fhp, h) = fh_verify K rqstp fhp h
      in if err \<noteq> 0 then (err, fhp, h)
         else
           let (host_err, fhp, h) = (if get_write_count then fh_want_write_call K fhp h else (0, fhp, h))
           in if host_err \<noteq> 0 then nfsd_setattr_out K fhp host_err h
              else
                let (dentry, h) = deref (fh_dentry fhp) h;
                    (ino, h) = inode_of K dentry h;
                    inode = inode_at K h ino;
                    iap = (if S_ISLNK (i_mode inode) then iap\<lparr>ia_valid := ia_valid iap AND NOT ATTR_MODE\<rparr>
                           else iap)
                in if ia_valid iap = 0 then (0, fhp, h)
                   else
                     let iap = nfsd_sanitize_attrs inode iap
                     in if check_guard \<and> guardtime \<noteq> tv_sec (i_ctime inode) then (nfserr_notsync, fhp, h)
                        else if size_change then
                          let size_attr = zero_iattr\<lparr>ia_valid := ATTR_SIZE OR ATTR_CTIME OR ATTR_MTIME,
                                                     ia_size := ia_size iap\<rparr>;
                              (host_err, h) = call_notify_change K dentry size_attr h
                          in if host_err \<noteq> 0 then nfsd_setattr_out K fhp host_err h
                             else
                               let iap = iap\<lparr>ia_valid := ia_valid iap AND NOT ATTR_SIZE\<rparr>
                               in if ia_valid iap AND NOT ATTR_MTIME = 0 then nfsd_setattr_out K fhp 0 h
                                  else nfsd_setattr_notify K fhp dentry iap h
                        else nfsd_setattr_notify K fhp dentry iap h)"

definition fh_getattr :: "kernel \<Rightarrow> svc_fh \<Rightarrow> kstat \<Rightarrow> hist \<Rightarrow> be32 \<times> kstat \<times> hist" where
  "fh_getattr K fh stat h =
     (let (exp, h) = deref (fh_export fh) h;
          (dentry, h) = deref (fh_dentry fh) h;
          (r, h) = call_vfs_getattr K \<lparr>p_mnt = p_mnt (export_path K exp), p_dentry = dentry\<rparr> h
      in (case r of Inl e \<Rightarrow> (nfserrno e, stat, h) | Inr stat \<Rightarrow> (nfserrno 0, stat, h)))"

definition nfsd_statfs ::
  "kernel \<Rightarrow> svc_rqst \<Rightarrow> svc_fh \<Rightarrow> kstatfs \<Rightarrow> hist \<Rightarrow> be32 \<times> svc_fh \<times> kstatfs \<times> hist" where
  "nfsd_statfs K rqstp fhp stat h =
     (let (err, fhp, h) = fh_verify K rqstp fhp h
      in if err \<noteq> 0 then (err, fhp, stat, h)
         else
           let (exp, h) = deref (fh_export fhp) h;
               (dentry, h) = deref (fh_dentry fhp) h;
               (r, h) = call_vfs_statfs K \<lparr>p_mnt = p_mnt (export_path K exp), p_dentry = dentry\<rparr> h
           in (case r of Inl _ \<Rightarrow> (nfserr_io, fhp, stat, h) | Inr stat \<Rightarrow> (err, fhp, stat, h)))"

section \<open>Open, read, write\<close>

definition nfsd_open_break_lease :: "kernel \<Rightarrow> inode_p \<Rightarrow> u32 \<Rightarrow> hist \<Rightarrow> int \<times> hist" where
  "nfsd_open_break_lease K ino access h =
     (let mode = (if access AND NFSD_MAY_WRITE \<noteq> 0 then O_WRONLY else O_RDONLY)
      in call_break_lease K ino (mode OR O_NONBLOCK) h)"

text \<open>The file is set exactly on the path that opened it; the requested type is not looked at.\<close>

definition nfsd_open ::
  "kernel \<Rightarrow> svc_rqst \<Rightarrow> svc_fh \<Rightarrow> u16 \<Rightarrow> u32 \<Rightarrow> hist \<Rightarrow> be32 \<times> file_p option \<times> svc_fh \<times> hist" where
  "nfsd_open K rqstp fhp type may_flags h =
     (let (err, fhp, h) = fh_verify K rqstp fhp h
      in if err \<noteq> 0 then (err, None, fhp, h)
         else
           let (exp, h) = deref (fh_export fhp) h;
               (dentry, h) = deref (fh_dentry fhp) h;
               path = \<lparr>p_mnt = p_mnt (export_path K exp), p_dentry = dentry\<rparr>;
               (ino, h) = inode_of K dentry h
           in if \<not> i_fop (inode_at K h ino) then (nfserr_perm, None, fhp, h)
              else
                let (host_err, h) = nfsd_open_break_lease K ino may_flags h
                in if host_err \<noteq> 0 then (nfserrno host_err, None, fhp, h)
                   else
                     let flags = (if may_flags AND NFSD_MAY_WRITE \<noteq> 0 then
                                    if may_flags AND NFSD_MAY_READ \<noteq> 0 then O_RDWR OR O_LARGEFILE
                                    else O_WRONLY OR O_LARGEFILE
                                  else O_RDONLY OR O_LARGEFILE);
                         (file, h) = call_dentry_open K path flags h
                     in (case file of
                           Inl host_err \<Rightarrow> (nfserrno host_err, None, fhp, h)
                         | Inr file \<Rightarrow>
                             let (host_err, h) = call_ima_file_check K file may_flags h
                             in if host_err \<noteq> 0 then (nfserrno host_err, None, fhp, File (Fput file) # h)
                                else (nfserrno 0, Some file, fhp, h)))"

definition nfsd_finish_read :: "file_p \<Rightarrow> u64 \<Rightarrow> int \<Rightarrow> hist \<Rightarrow> be32 \<times> u64 \<times> hist" where
  "nfsd_finish_read file count host_err h =
     (if host_err \<ge> 0 then (0, word_of_int host_err, File (Fsnotify_access file) # h)
      else (nfserrno host_err, count, h))"

definition nfsd_readv :: "kernel \<Rightarrow> file_p \<Rightarrow> u64 \<Rightarrow> u32 list \<Rightarrow> u64 \<Rightarrow> hist \<Rightarrow> be32 \<times> u64 \<times> hist" where
  "nfsd_readv K file offset vec count h =
     (let (host_err, h) = call_vfs_readv K file offset vec h
      in nfsd_finish_read file count host_err h)"

definition nfsd_vfs_read ::
  "kernel \<Rightarrow> svc_rqst \<Rightarrow> file_p \<Rightarrow> u64 \<Rightarrow> u32 list \<Rightarrow> u64 \<Rightarrow> hist \<Rightarrow> be32 \<times> u64 \<times> hist" where
  "nfsd_vfs_read K rqstp file offset vec count h = nfsd_readv K file offset vec count h"

definition nfsd_vfs_write ::
  "kernel \<Rightarrow> svc_rqst \<Rightarrow> svc_fh \<Rightarrow> file_p \<Rightarrow> u64 \<Rightarrow> u32 list \<Rightarrow> u64 \<Rightarrow> u32 \<Rightarrow> hist \<Rightarrow>
   be32 \<times> u64 \<times> hist" where
  "nfsd_vfs_write K rqstp fhp file offset vec cnt stbl h =
     (let (exp, h) = deref (fh_export fhp) h;
          stbl = (if EX_ISSYNC (export_flags K h exp) then stbl else NFS_UNSTABLE);
          (host_err, h) = call_vfs_writev K file offset vec h
      in if host_err < 0 then (nfserrno host_err, cnt, h)
         else
           let cnt = word_of_int host_err;
               h = File (Fsnotify_modify file) # h;
               (host_err, h) =
                 (if stbl \<noteq> 0 then
                    let end = (if cnt \<noteq> 0 then offset + cnt - 1 else NFS_OFFSET_MAX)
                    in call_vfs_fsync_range K file offset end h
                  else (host_err, h))
           in (if host_err \<ge> 0 then 0 else nfserrno host_err, cnt, h))"

definition nfsd_read ::
  "kernel \<Rightarrow> svc_rqst \<Rightarrow> svc_fh \<Rightarrow> u64 \<Rightarrow> u32 list \<Rightarrow> u64 \<Rightarrow> hist \<Rightarrow> be32 \<times> u64 \<times> svc_fh \<times> hist" where
  "nfsd_read K rqstp fhp offset vec count h =
     (let (err, file, fhp, h) = nfsd_open K rqstp fhp S_IFREG NFSD_MAY_READ h
      in if err \<noteq> 0 then (err, count, fhp, h)
         else
           let (file, h) = deref file h;
               (err, count, h) = nfsd_vfs_read K rqstp file offset vec count h
           in (err, count, fhp, File (Fput file) # h))"

definition nfsd_write ::
  "kernel \<Rightarrow> svc_rqst \<Rightarrow> svc_fh \<Rightarrow> u64 \<Rightarrow> u32 list \<Rightarrow> u64 \<Rightarrow> u32 \<Rightarrow> hist \<Rightarrow>
   be32 \<times> u64 \<times> svc_fh \<times> hist" where
  "nfsd_write K rqstp fhp offset vec cnt stbl h =
     (let (err, file, fhp, h) = nfsd_open K rqstp fhp S_IFREG NFSD_MAY_WRITE h
      in if err \<noteq> 0 then (err, cnt, fhp, h)
         else
           let (file, h) = deref file h;
               (err, cnt, h) = nfsd_vfs_write K rqstp fhp file offset vec cnt stbl h
           in (err, cnt, fhp, File (Fput file) # h))"

definition nfsd_eof_on_read :: "u64 \<Rightarrow> u64 \<Rightarrow> u64 \<Rightarrow> u64 \<Rightarrow> bool" where
  "nfsd_eof_on_read requested rd offset fsize \<longleftrightarrow>
     sint requested > sint rd \<or> sint (offset + rd) \<ge> sint fsize"

section \<open>Creating\<close>

definition nfsd_create_setattr ::
  "kernel \<Rightarrow> svc_rqst \<Rightarrow> svc_fh \<Rightarrow> iattr \<Rightarrow> hist \<Rightarrow> be32 \<times> svc_fh \<times> hist" where
  "nfsd_create_setattr K rqstp resfhp iap h =
     (let iap = iap\<lparr>ia_valid := ia_valid iap AND NOT ATTR_MODE\<rparr>;
          iap = (if current_fsuid K h \<noteq> 0 then iap\<lparr>ia_valid := ia_valid iap AND NOT (ATTR_UID OR ATTR_GID)\<rparr>
                 else iap)
      in if ia_valid iap \<noteq> 0 then nfsd_setattr K rqstp resfhp iap False 0 h
         else let (host_err, h) = commit_metadata K resfhp h in (nfserrno host_err, resfhp, h))"

text \<open>\<open>nfsd_create\<close> from the check that the child is still negative to the label \<open>out\<close>.\<close>

definition nfsd_create_child ::
  "kernel \<Rightarrow> svc_rqst \<Rightarrow> svc_fh \<Rightarrow> inode_p \<Rightarrow> dentry_p \<Rightarrow> iattr \<Rightarrow> u16 \<Rightarrow> svc_fh \<Rightarrow> hist \<Rightarrow>
   be32 \<times> svc_fh \<times> hist" where
  "nfsd_create_child K rqstp fhp dirp dchild iap type resfhp h =
     (if d_inode K h dchild \<noteq> None then (nfserr_exist, resfhp, h)
      else
        let iap = (if ia_valid iap AND ATTR_MODE = 0 then iap\<lparr>ia_mode := 0\<rparr> else iap);
            iap = iap\<lparr>ia_mode := (ia_mode iap AND S_IALLUGO) OR type\<rparr>
        in if \<not> S_ISREG type \<and> \<not> S_ISDIR type \<and> \<not> special_file type then (nfserr_inval, resfhp, h)
           else
             let (host_err, h) =
                   (if type = S_IFREG then call_vfs_create K dirp dchild (ia_mode iap) h
                    else if type = S_IFDIR then call_vfs_mkdir K dirp dchild (ia_mode iap) h
                    else (0, h))
             in if host_err < 0 then (nfserrno host_err, resfhp, h)
                else
                  let (err, resfhp, h) = nfsd_create_setattr K rqstp resfhp iap h;
                      (host_err, h) = commit_metadata K fhp h;
                      err2 = nfserrno host_err;
                      err = (if err2 \<noteq> 0 then err2 else err)
                  in if err = 0 then fh_update K resfhp h else (err, resfhp, h))"

definition nfsd_create ::
  "kernel \<Rightarrow> svc_rqst \<Rightarrow> svc_fh \<Rightarrow> char_p option \<Rightarrow> u32 \<Rightarrow> iattr \<Rightarrow> u16 \<Rightarrow> svc_fh \<Rightarrow> hist \<Rightarrow>
   be32 \<times> svc_fh \<times> svc_fh \<times> hist" where
  "nfsd_create K rqstp fhp fname flen iap type resfhp h =
     (if flen = 0 then (nfserr_perm, fhp, resfhp, h)
      else
        let (dot, h) = isdotent fname (sint flen) h
        in if dot then (nfserr_exist, fhp, resfhp, h)
           else
             let (err, fhp, h) = fh_verify K rqstp fhp h
             in if err \<noteq> 0 then (err, fhp, resfhp, h)
                else
                  let (dentry, h) = deref (fh_dentry fhp) h;
                      (dirp, h) = inode_of K dentry h
                  in if \<not> i_op_lookup (inode_at K h dirp) then (nfserr_notdir, fhp, resfhp, h)
                     else (case fh_dentry resfhp of
                       Some d \<Rightarrow>
                         let h = Ref (Dget d) # h;
                             (err, resfhp, h) = nfsd_create_child K rqstp fhp dirp d iap type resfhp h
                         in (err, fhp, resfhp, Ref (Dput d) # h)
                     | None \<Rightarrow>
                         let (host_err, fhp, h) = fh_want_write_call K fhp h
                         in if host_err \<noteq> 0 then (nfserrno host_err, fhp, resfhp, h)
                            else
                              let (bytes, h) = name_bytes fname flen h;
                                  (dchild, h) = call_lookup_one_len K bytes dentry h
                              in (case dchild of
                                    Inl host_err \<Rightarrow> (nfserrno host_err, fhp, resfhp, h)
                                  | Inr dchild \<Rightarrow>
                                      let (exp, h) = deref (fh_export fhp) h;
                                          (err, resfhp, h) = fh_compose K resfhp exp dchild (Ref_other fhp) h
                                      in if err \<noteq> 0 then (err, fhp, resfhp, Ref (Dput dchild) # h)
                                         else
                                           let (err, resfhp, h) =
                                                 nfsd_create_child K rqstp fhp dirp dchild iap type resfhp h
                                           in (err, fhp, resfhp, Ref (Dput dchild) # h))))"

text \<open>
  \<open>do_nfsd_create\<close>: the label \<open>set_attr\<close>, the branch for a name that exists, and the function. The
  flags \<open>truncp\<close> and \<open>created\<close> are the pointed-to values, absent for a null pointer; the verifier is
  not used by the code.
\<close>

definition do_create_set_attr ::
  "kernel \<Rightarrow> svc_rqst \<Rightarrow> svc_fh \<Rightarrow> iattr \<Rightarrow> svc_fh \<Rightarrow> hist \<Rightarrow> be32 \<times> svc_fh \<times> hist" where
  "do_create_set_attr K rqstp fhp iap resfhp h =
     (let (err, resfhp, h) = nfsd_create_setattr K rqstp resfhp iap h;
          (err, h) = (if err = 0 then let (host_err, h) = commit_metadata K fhp h in (nfserrno host_err, h)
                      else (err, h))
      in if err = 0 then fh_update K resfhp h else (err, resfhp, h))"

definition do_create_exists ::
  "kernel \<Rightarrow> svc_rqst \<Rightarrow> svc_fh \<Rightarrow> inode_p \<Rightarrow> iattr \<Rightarrow> svc_fh \<Rightarrow> u32 \<Rightarrow> bool option \<Rightarrow> bool option \<Rightarrow> hist \<Rightarrow>
   be32 \<times> svc_fh \<times> svc_fh \<times> bool option \<times> bool option \<times> hist" where
  "do_create_exists K rqstp fhp ino iap resfhp createmode truncp created h =
     (if createmode = NFS3_CREATE_UNCHECKED then
        if \<not> S_ISREG (i_mode (inode_at K h ino)) then (0, fhp, resfhp, truncp, created, h)
        else (case truncp of
                Some _ \<Rightarrow>
                  let truncp = Some (ia_valid iap AND ATTR_SIZE \<noteq> 0 \<and> ia_size iap = 0);
                      (fhp, h) = fh_drop_write K fhp h
                  in (0, fhp, resfhp, truncp, created, h)
              | None \<Rightarrow>
                  let iap = iap\<lparr>ia_valid := ia_valid iap AND ATTR_SIZE\<rparr>;
                      (err, resfhp, h) = do_create_set_attr K rqstp fhp iap resfhp h
                  in (err, fhp, resfhp, truncp, created, h))
      else if createmode = NFS3_CREATE_EXCLUSIVE \<and>
              tv_sec (i_mtime (inode_at K h ino)) = 0 \<and> tv_sec (i_atime (inode_at K h ino)) = 0 \<and>
              i_size (inode_at K h ino) = 0 then
        let (fhp, h) = fh_drop_write K fhp h
        in (0, fhp, resfhp, truncp, map_option (\<lambda>_. True) created, h)
      else
        let (fhp, h) = fh_drop_write K fhp h
        in (if createmode = NFS3_CREATE_EXCLUSIVE \<or> createmode = NFS3_CREATE_GUARDED then nfserr_exist
            else 0, fhp, resfhp, truncp, created, h))"

definition do_create_child ::
  "kernel \<Rightarrow> svc_rqst \<Rightarrow> svc_fh \<Rightarrow> inode_p \<Rightarrow> dentry_p \<Rightarrow> iattr \<Rightarrow> svc_fh \<Rightarrow> u32 \<Rightarrow> bool option \<Rightarrow> bool option \<Rightarrow>
   hist \<Rightarrow> be32 \<times> svc_fh \<times> svc_fh \<times> bool option \<times> bool option \<times> hist" where
  "do_create_child K rqstp fhp dirp dchild iap resfhp createmode truncp created h =
     (case d_inode K h dchild of
        Some ino \<Rightarrow> do_create_exists K rqstp fhp ino iap resfhp createmode truncp created h
      | None \<Rightarrow>
          let (host_err, h) = call_vfs_create K dirp dchild (ia_mode iap) h
          in if host_err < 0 then
               let (fhp, h) = fh_drop_write K fhp h
               in (nfserrno host_err, fhp, resfhp, truncp, created, h)
             else
               let created = map_option (\<lambda>_. True) created;
                   (err, resfhp, h) = do_create_set_attr K rqstp fhp iap resfhp h
               in (err, fhp, resfhp, truncp, created, h))"

text \<open>The label \<open>out\<close>: release the child dentry, if there is one, and the write access.\<close>

definition do_create_out ::
  "kernel \<Rightarrow> be32 \<Rightarrow> svc_fh \<Rightarrow> svc_fh \<Rightarrow> bool option \<Rightarrow> bool option \<Rightarrow> dentry_p option \<Rightarrow> hist \<Rightarrow>
   be32 \<times> svc_fh \<times> svc_fh \<times> bool option \<times> bool option \<times> hist" where
  "do_create_out K err fhp resfhp truncp created dchild h =
     (let h = (case dchild of Some d \<Rightarrow> Ref (Dput d) # h | None \<Rightarrow> h);
          (fhp, h) = fh_drop_write K fhp h
      in (err, fhp, resfhp, truncp, created, h))"

definition do_nfsd_create ::
  "kernel \<Rightarrow> svc_rqst \<Rightarrow> svc_fh \<Rightarrow> char_p option \<Rightarrow> u32 \<Rightarrow> iattr \<Rightarrow> svc_fh \<Rightarrow> u32 \<Rightarrow> bool option \<Rightarrow>
   bool option \<Rightarrow> hist \<Rightarrow> be32 \<times> svc_fh \<times> svc_fh \<times> bool option \<times> bool option \<times> hist" where
  "do_nfsd_create K rqstp fhp fname flen iap resfhp createmode truncp created h =
     (if flen = 0 then do_create_out K nfserr_perm fhp resfhp truncp created None h
      else
        let (dot, h) = isdotent fname (sint flen) h
        in if dot then do_create_out K nfserr_exist fhp resfhp truncp created None h
           else
             let iap = (if ia_valid iap AND ATTR_MODE = 0 then iap\<lparr>ia_mode := 0\<rparr> else iap);
                 (err, fhp, h) = fh_verify K rqstp fhp h
             in if err \<noteq> 0 then do_create_out K err fhp resfhp truncp created None h
                else
                  let (dentry, h) = deref (fh_dentry fhp) h;
                      (dirp, h) = inode_of K dentry h
                  in if \<not> i_op_lookup (inode_at K h dirp) then
                       do_create_out K nfserr_notdir fhp resfhp truncp created None h
                     else
                       let (host_err, fhp, h) = fh_want_write_call K fhp h
                       in if host_err \<noteq> 0 then
                            do_create_out K (nfserrno host_err) fhp resfhp truncp created None h
                          else
                            let (bytes, h) = name_bytes fname flen h;
                                (dchild, h) = call_lookup_one_len K bytes dentry h
                            in (case dchild of
                                  Inl host_err \<Rightarrow>
                                    do_create_out K (nfserrno host_err) fhp resfhp truncp created None h
                                | Inr dchild \<Rightarrow>
                                    let (err, fhp, h) = (if d_inode K h dchild = None then fh_verify K rqstp fhp h
                                                         else (0, fhp, h))
                                    in if err \<noteq> 0 then do_create_out K err fhp resfhp truncp created (Some dchild) h
                                       else
                                         let (exp, h) = deref (fh_export fhp) h;
                                             (err, resfhp, h) = fh_compose K resfhp exp dchild (Ref_other fhp) h
                                         in if err \<noteq> 0 then
                                              do_create_out K err fhp resfhp truncp created (Some dchild) h
                                            else
                                              let (err, fhp, resfhp, truncp, created, h) =
                                                    do_create_child K rqstp fhp dirp dchild iap resfhp createmode
                                                      truncp created h
                                              in do_create_out K err fhp resfhp truncp created (Some dchild) h))"

section \<open>Removing\<close>

text \<open>\<open>type\<close> is \<open>S_IFDIR\<close> for a directory and its negation otherwise.\<close>

definition nfsd_unlink ::
  "kernel \<Rightarrow> svc_rqst \<Rightarrow> svc_fh \<Rightarrow> int \<Rightarrow> char_p option \<Rightarrow> u32 \<Rightarrow> hist \<Rightarrow> be32 \<times> svc_fh \<times> hist" where
  "nfsd_unlink K rqstp fhp type fname flen h =
     (let (dot, h) = (if flen = 0 then (True, h) else isdotent fname (sint flen) h)
      in if dot then (nfserr_acces, fhp, h)
         else
           let (err, fhp, h) = fh_verify K rqstp fhp h
           in if err \<noteq> 0 then (err, fhp, h)
              else
                let (host_err, fhp, h) = fh_want_write_call K fhp h
                in if host_err \<noteq> 0 then (nfserrno host_err, fhp, h)
                   else
                     let (dentry, h) = deref (fh_dentry fhp) h;
                         (dirp, h) = inode_of K dentry h;
                         (bytes, h) = name_bytes fname flen h;
                         (rdentry, h) = call_lookup_one_len K bytes dentry h
                     in (case rdentry of
                           Inl host_err \<Rightarrow> (nfserrno host_err, fhp, h)
                         | Inr rdentry \<Rightarrow>
                             if d_inode K h rdentry = None then (nfserr_noent, fhp, Ref (Dput rdentry) # h)
                             else
                               let (host_err, h) =
                                     (if type \<noteq> 0x4000 then call_vfs_unlink K dirp rdentry h
                                      else call_vfs_rmdir K dirp rdentry h);
                                   (host_err, h) = (if host_err = 0 then commit_metadata K fhp h
                                                    else (host_err, h))
                               in (nfserrno host_err, fhp, Ref (Dput rdentry) # h)))"

end
