(* ===== verification/Vfs_Contract.thy ===== *)
theory Vfs_Contract
  imports Vfs
begin

text \<open>
  The contracts of the file operations: each keeps the balance of its handles (interpretations of
  \<open>fh_op\<close> and \<open>fh2_op\<close>), and the functional properties of setattr, create, write and unlink.
\<close>

section \<open>Calls that move no reference\<close>

lemma isdotent_refs [refs_frame]: "isdotent name l h = (b, h') \<Longrightarrow> \<forall>x. refs x h' = refs x h"
  by (auto simp: isdotent_def ledger_simps split: if_splits option.splits)

lemma name_bytes_refs [refs_frame]: "name_bytes name len h = (b, h') \<Longrightarrow> \<forall>x. refs x h' = refs x h"
  by (auto simp: name_bytes_def ledger_simps split: if_splits option.splits)

lemma commit_metadata_refs [refs_frame]: "commit_metadata K fhp h = (r, h') \<Longrightarrow> \<forall>x. refs x h' = refs x h"
  by (auto simp: commit_metadata_def Let_def call_simps ledger_simps split: if_splits prod.splits
      dest!: refs_frame)

lemma nfsd_open_break_lease_refs [refs_frame]:
  "nfsd_open_break_lease K ino access h = (r, h') \<Longrightarrow> \<forall>x. refs x h' = refs x h"
  by (auto simp: nfsd_open_break_lease_def Let_def call_simps ledger_simps)

lemma nfsd_vfs_read_refs [refs_frame]:
  "nfsd_vfs_read K rqstp file offset vec count h = (r, c, h') \<Longrightarrow> \<forall>x. refs x h' = refs x h"
  by (auto simp: nfsd_vfs_read_def nfsd_readv_def nfsd_finish_read_def Let_def call_simps ledger_simps
      split: if_splits prod.splits)

lemma nfsd_vfs_write_refs [refs_frame]:
  "nfsd_vfs_write K rqstp fhp file offset vec cnt stbl h = (r, c, h') \<Longrightarrow> \<forall>x. refs x h' = refs x h"
  by (cases "deref (fh_export fhp) h", simp only: nfsd_vfs_write_def Let_def call_simps prod.case,
      simp only: split: if_splits) (auto simp: ledger_simps dest!: refs_frame)

lemma fh_want_write_frame:
  assumes "fh_want_write_call K fh h = (r, fh', h')"
  shows "fh_dentry fh' = fh_dentry fh" "fh_export fh' = fh_export fh" "fh_handle fh' = fh_handle fh"
    "fh_wf fh \<Longrightarrow> fh_export fh \<noteq> None \<Longrightarrow> fh_wf fh'" "r \<noteq> 0 \<Longrightarrow> fh' = fh"
  using assms by (auto simp: fh_want_write_call_def fh_wf_def Let_def split: if_splits prod.splits)

text \<open>A verified handle with what its verification established.\<close>

lemma fh_verify_ready:
  assumes ok: "err_ptr_ok K" and wf: "fh_wf fhp" and v: "fh_verify K rqstp fhp h = (0, fhp', h')"
  shows "fh_wf fhp'" "fh_dentry fhp' \<noteq> None" "fh_export fhp' \<noteq> None"
    "fh_want_write fhp' = fh_want_write fhp" "balance K x fhp' h' = balance K x fhp h"
  using fh_verify_balance [OF v wf] fh_verify_success [OF ok v wf] by auto

section \<open>Balance of the operations\<close>

lemma nfsd_lookup_dentry_refs:
  assumes "nfsd_lookup_dentry K rqstp fhp name len h = (r, h')"
  shows "refs x h' = refs x h + (case r of Inl _ \<Rightarrow> 0 | Inr (e, d) \<Rightarrow>
    of_bool (x = Dentry_ref d) + of_bool (x = Item_ref (Export_item e)))"
  using assms
  by (auto simp: nfsd_lookup_dentry_def Let_def call_simps ledger_simps
      split: if_splits prod.splits sum.splits
      dest!: refs_frame)

lemma nfsd_lookup_balance:
  assumes "nfsd_lookup K rqstp fhp name len resfh h = (err, fhp', resfh', h')"
    and wf: "fh_wf fhp" "fh_wf resfh" "fh_dentry resfh = None"
  shows "balance2 K x fhp' resfh' h' = balance2 K x fhp resfh h \<and> fh_wf fhp' \<and> fh_wf resfh'"
proof -
  obtain e1 f1 h1 where v: "fh_verify K rqstp fhp h = (e1, f1, h1)" by (metis prod_cases3)
  note b1 = fh_verify_balance(1,2) [OF v wf(1)]
  show ?thesis
  proof (cases "e1 = 0")
    case False
    with assms(1) v b1 wf show ?thesis by (auto simp: nfsd_lookup_def balance2_fst)
  next
    case True
    obtain r h2 where l: "nfsd_lookup_dentry K rqstp f1 name len h1 = (r, h2)" by fastforce
    note r2 = nfsd_lookup_dentry_refs [OF l, of x]
    show ?thesis
    proof (cases r)
      case (Inl e)
      with assms(1) v l True b1(1) [of x] b1(2) r2 wf show ?thesis
        by (auto simp: nfsd_lookup_def balance2_def balance_def)
    next
      case (Inr q)
      obtain e d where q: "q = (e, d)" by fastforce
      obtain e3 f3 h3 where c: "fh_compose K resfh e d (Ref_other f1) h2 = (e3, f3, h3)"
        by (metis prod_cases3)
      note b3 = fh_compose_balance(1,2) [OF c wf(2,3)]
      show ?thesis
        using assms(1) v l True Inr q c b1(1) [of x] b1(2) r2 b3(1) [of x] b3(2)
        by (auto simp: nfsd_lookup_def balance2_def balance_def call_simps ledger_simps Let_def)
    qed
  qed
qed

lemma nfsd_setattr_out_frame:
  "nfsd_setattr_out K fhp e h = (err, fhp', h') \<Longrightarrow> fhp' = fhp \<and> refs x h' = refs x h"
  "nfsd_setattr_notify K fhp d iap h = (err, fhp', h') \<Longrightarrow> fhp' = fhp \<and> refs x h' = refs x h"
  by (auto simp: nfsd_setattr_out_def nfsd_setattr_notify_def Let_def call_simps ledger_simps
      split: if_splits prod.splits dest!: refs_frame)

text \<open>\<open>nfsd_setattr\<close> after verification and write access: no handle changes, no reference moves.\<close>

lemma nfsd_setattr_cases:
  assumes "nfsd_setattr K rqstp fhp iap cg gt h = (err, fhp', h')"
  obtains (bad_handle) "fh_verify K rqstp fhp h = (err, fhp', h')" "err \<noteq> 0"
  | (tried) f1 h1 e2 h2 where "fh_verify K rqstp fhp h = (0, f1, h1)"
      "(if fh_dentry fhp = None then fh_want_write_call K f1 h1 else (0, f1, h1)) = (e2, fhp', h2)"
      "\<And>x. refs x h' = refs x h2"
proof -
  obtain e1 f1 h1 where v: "fh_verify K rqstp fhp h = (e1, f1, h1)" by (metis prod_cases3)
  obtain e2 f2 h2 where w: "(if fh_dentry fhp = None then fh_want_write_call K f1 h1 else (0, f1, h1)) = (e2, f2, h2)"
    by (metis prod_cases3)
  show thesis
  proof (cases "e1 = 0")
    case False
    with assms v show thesis by (intro bad_handle) (auto simp: nfsd_setattr_def)
  next
    case True
    have "fhp' = f2 \<and> refs x h' = refs x h2" for x
      using assms v w True
      by (auto simp: nfsd_setattr_def Let_def call_simps split: if_splits prod.splits
          dest!: nfsd_setattr_out_frame [where x = x] refs_frame
          simp: ledger_simps)
    then show thesis using v w True by (intro tried [of f1 h1 e2 h2]) auto
  qed
qed

lemma nfsd_setattr_balance:
  assumes s: "nfsd_setattr K rqstp fhp iap cg gt h = (err, fhp', h')"
    and ok: "err_ptr_ok K" and wf: "fh_wf fhp"
  shows "balance K x fhp' h' = balance K x fhp h \<and> fh_wf fhp' \<and> (fh_dentry fhp \<noteq> None \<longrightarrow> fhp' = fhp)"
  using s
proof (cases rule: nfsd_setattr_cases)
  case bad_handle
  with fh_verify_balance [OF bad_handle(1) wf] show ?thesis by auto
next
  case (tried f1 h1 e2 h2)
  note r = fh_verify_ready [OF ok wf tried(1)]
  show ?thesis
  proof (cases "fh_dentry fhp = None")
    case True
    then have w: "fh_want_write_call K f1 h1 = (e2, fhp', h2)" using tried by simp
    have "\<not> fh_want_write f1" using r(4) True wf fh_wf_unverified by auto
    with fh_want_write_balance [OF w r(3), of x] fh_want_write_frame(4) [OF w r(1,3)] r(5) [of x] tried(3) [of x]
    show ?thesis using True by (simp add: balance_def)
  next
    case False
    with tried r fh_verify_balance(4) [OF tried(1) wf] show ?thesis by (auto simp: balance_def)
  qed
qed

lemma nfsd_open_balance:
  assumes o: "nfsd_open K rqstp fhp type fl h = (err, file, fhp', h')"
    and ok: "err_ptr_ok K" and wf: "fh_wf fhp"
  shows "balance K x fhp' h' = balance K x fhp h + of_bool (\<exists>f\<in>set_option file. x = File_ref f)"
    and "fh_wf fhp'" and "err = 0 \<longleftrightarrow> file \<noteq> None"
proof -
  obtain e1 f1 h1 where v: "fh_verify K rqstp fhp h = (e1, f1, h1)" by (metis prod_cases3)
  note b1 = fh_verify_balance(1,2) [OF v wf]
  have nz: "dentry_open K g p m \<noteq> Inl 0" for g p m
    using err_ptr_okD(3) [OF ok, of g p m 0] by auto
  have f1: "fhp' = f1"
    using o v by (auto simp: nfsd_open_def Let_def split: if_splits prod.splits sum.splits)
  then show "fh_wf fhp'" using b1(2) by simp
  show "err = 0 \<longleftrightarrow> file \<noteq> None"
    using o v nz by (auto simp: nfsd_open_def Let_def call_simps nfserr_perm_def
        split: if_splits prod.splits sum.splits)
  have "refs x h' = refs x h1 + of_bool (\<exists>f\<in>set_option file. x = File_ref f)"
    using o v
    by (auto simp: nfsd_open_def Let_def call_simps ledger_simps split: if_splits prod.splits sum.splits
        dest!: refs_frame)
  then show "balance K x fhp' h' = balance K x fhp h + of_bool (\<exists>f\<in>set_option file. x = File_ref f)"
    using b1(1) [of x] f1 by (simp add: balance_def)
qed

lemma nfsd_read_balance:
  assumes r: "nfsd_read K rqstp fhp offset vec count h = (err, c, fhp', h')"
    and ok: "err_ptr_ok K" and wf: "fh_wf fhp"
  shows "balance K x fhp' h' = balance K x fhp h \<and> fh_wf fhp'"
proof -
  obtain e f fh1 h1 where o: "nfsd_open K rqstp fhp S_IFREG NFSD_MAY_READ h = (e, f, fh1, h1)"
    by (metis prod_cases4)
  note b = nfsd_open_balance [OF o ok wf]
  show ?thesis
    using r o b(1) [of x] b(2,3)
    by (cases f) (auto simp: nfsd_read_def balance_def ledger_simps split: prod.splits dest!: refs_frame)
qed

lemma nfsd_write_balance:
  assumes r: "nfsd_write K rqstp fhp offset vec cnt stbl h = (err, c, fhp', h')"
    and ok: "err_ptr_ok K" and wf: "fh_wf fhp"
  shows "balance K x fhp' h' = balance K x fhp h \<and> fh_wf fhp'"
proof -
  obtain e f fh1 h1 where o: "nfsd_open K rqstp fhp S_IFREG NFSD_MAY_WRITE h = (e, f, fh1, h1)"
    by (metis prod_cases4)
  note b = nfsd_open_balance [OF o ok wf]
  show ?thesis
    using r o b(1) [of x] b(2,3)
    by (cases f) (auto simp: nfsd_write_def balance_def ledger_simps split: prod.splits dest!: refs_frame)
qed

lemma nfsd_statfs_balance:
  assumes s: "nfsd_statfs K rqstp fhp stat h = (err, fhp', stat', h')" and wf: "fh_wf fhp"
  shows "balance K x fhp' h' = balance K x fhp h \<and> fh_wf fhp'"
proof -
  obtain e1 f1 h1 where v: "fh_verify K rqstp fhp h = (e1, f1, h1)" by (metis prod_cases3)
  note b1 = fh_verify_balance(1,2) [OF v wf]
  have "fhp' = f1 \<and> refs x h' = refs x h1"
    using s v
    by (auto simp: nfsd_statfs_def Let_def call_simps ledger_simps split: if_splits prod.splits sum.splits
        dest!: refs_frame)
  then show ?thesis using b1(1) [of x] b1(2) by (simp add: balance_def)
qed

lemma fh_update_frame:
  "fh_update K fh h = (err, fh', h') \<Longrightarrow>
   (\<forall>x. refs x h' - held K x fh' = refs x h - held K x fh) \<and> fh_wf fh' = fh_wf fh"
  using fh_update_balance [of K fh h err fh' h'] by (simp add: balance_def)

text \<open>Setting attributes of, and committing, a created file: its handle is verified, so nothing moves.\<close>

lemma nfsd_create_setattr_frame:
  assumes s: "nfsd_create_setattr K rqstp resfhp iap h = (err, resfhp', h')"
    and ok: "err_ptr_ok K" and wf: "fh_wf resfhp" "fh_dentry resfhp \<noteq> None"
  shows "resfhp' = resfhp \<and> refs x h' = refs x h"
proof -
  have key: "resfhp' = resfhp \<and> refs x h' = refs x h"
    if "nfsd_setattr K rqstp resfhp iap' False 0 h = (err, resfhp', h')" for iap'
    using nfsd_setattr_balance [where x = x, OF that ok wf(1)] wf(2) by (auto simp: balance_def)
  then show ?thesis
    using s
    by (auto simp: nfsd_create_setattr_def Let_def split: if_splits prod.splits dest: key dest!: refs_frame)
qed

lemma nfsd_create_child_balance:
  assumes c: "nfsd_create_child K rqstp fhp dirp d iap type resfhp h = (err, resfhp', h')"
    and ok: "err_ptr_ok K" and wf: "fh_wf resfhp" "fh_dentry resfhp \<noteq> None"
  shows "balance K x resfhp' h' = balance K x resfhp h \<and> fh_wf resfhp'"
  using c wf
  by (auto simp: nfsd_create_child_def Let_def call_simps ledger_simps balance_def
      split: if_splits prod.splits
      dest!: nfsd_create_setattr_frame [where x = x, OF _ ok] commit_metadata_refs
        fh_update_frame)

lemma do_create_set_attr_balance:
  assumes c: "do_create_set_attr K rqstp fhp iap resfhp h = (err, resfhp', h')"
    and ok: "err_ptr_ok K" and wf: "fh_wf resfhp" "fh_dentry resfhp \<noteq> None"
  shows "balance K x resfhp' h' = balance K x resfhp h \<and> fh_wf resfhp'"
  using c wf
  by (auto simp: do_create_set_attr_def Let_def balance_def split: if_splits prod.splits
      dest!: nfsd_create_setattr_frame [where x = x, OF _ ok] commit_metadata_refs
        fh_update_frame)

text \<open>
  The common opening of the operations that change a directory: verify its handle, take write
  access and look the name up. What a successful lookup leaves to account for is the dentry.
\<close>

lemma want_write_ready:
  assumes ok: "err_ptr_ok K" and wf: "fh_wf a" "\<not> fh_want_write a"
    and v: "fh_verify K rqstp a h = (0, a1, h1)" and r: "\<forall>x. refs x h2 = refs x h1"
    and w: "fh_want_write_call K a1 h2 = (e, a2, h3)"
  shows "fh_wf a2 \<and> fh_dentry a2 \<noteq> None \<and> fh_export a2 \<noteq> None \<and>
    balance K x a2 h3 = balance K x a h"
proof -
  note b = fh_verify_ready [OF ok wf(1) v]
  have "balance K x a2 h3 = balance K x a1 h2"
    using fh_want_write_balance [OF w b(3)] b(4) wf(2) by simp
  then show ?thesis
    using b fh_want_write_frame [OF w] r by (simp add: balance_def)
qed

lemma fh_compose_onto:
  assumes c: "fh_compose K b e d ref_fh h = (err, b', h')" and wf: "fh_wf b" "fh_dentry b = None"
  shows "refs x h' - held K x b' = refs x h - held K x b \<and> fh_wf b' \<and> (err = 0 \<longrightarrow> fh_dentry b' \<noteq> None)"
  using fh_compose_balance(1) [OF c wf, of x] fh_compose_balance(2,3) [OF c wf] by (auto simp: balance_def)

lemma nfsd_create_balance:
  assumes c: "nfsd_create K rqstp a fname flen iap type b h = (err, a', b', h')"
    and ok: "err_ptr_ok K" and wf: "fh_wf a" "\<not> fh_want_write a" "fh_wf b" "fh_dentry b = None"
  shows "balance2 K x a' b' h' = balance2 K x a b h \<and> fh_wf a' \<and> fh_wf b'"
proof -
  obtain dot h0 where d: "isdotent fname (sint flen) h = (dot, h0)" by fastforce
  obtain e1 a1 h1 where v: "fh_verify K rqstp a h0 = (e1, a1, h1)" by (metis prod_cases3)
  obtain dn h2 where dn: "deref (fh_dentry a1) h1 = (dn, h2)" by fastforce
  obtain di h3 where di: "inode_of K dn h2 = (di, h3)" by fastforce
  obtain e4 a4 h4 where w: "fh_want_write_call K a1 h3 = (e4, a4, h4)" by (metis prod_cases3)
  obtain ns h5 where nb: "name_bytes fname flen h4 = (ns, h5)" by fastforce
  note r = isdotent_refs [OF d] refs_deref [OF dn] refs_inode_of [OF di] name_bytes_refs [OF nb]
  note b1 = fh_verify_balance(1,2) [OF v wf(1)]
  show ?thesis
  proof (cases "flen = 0 \<or> dot \<or> e1 \<noteq> 0 \<or> \<not> i_op_lookup (inode_at K h3 di) \<or> e4 \<noteq> 0")
    case True
    have "balance K x a4 h4 = balance K x a h0 \<and> fh_wf a4" if "e1 = 0"
      using want_write_ready [OF ok wf(1,2) v [unfolded that] _ w] r by simp
    with True c d v dn di w r b1(1) [of x] b1(2) wf show ?thesis
      by (auto simp: nfsd_create_def balance2_def balance_def split: if_splits)
  next
    case False
    then have e1: "e1 = 0" by simp
    have b4: "fh_wf a4" "fh_export a4 \<noteq> None" "balance K x a4 h4 = balance K x a h0"
      using want_write_ready [OF ok wf(1,2) v [unfolded e1] _ w, of x] r by simp_all
    show ?thesis
    proof (cases "lookup_one_len K h5 ns dn")
      case (Inl e)
      with False c d v dn di w nb r b4 wf show ?thesis
        by (auto simp: nfsd_create_def balance2_def balance_def call_simps ledger_simps Let_def)
    next
      case (Inr dc)
      define h6 where "h6 = Ns (Lookup_one_len ns dn (Inr dc)) # h5"
      obtain ex where ex: "fh_export a4 = Some ex" using b4(2) by auto
      obtain e7 b7 h7 where co: "fh_compose K b ex dc (Ref_other a4) h6 = (e7, b7, h7)" by (metis prod_cases3)
      note cb = fh_compose_onto [OF co wf(3,4), of x]
      obtain e8 b8 h8 where ch: "nfsd_create_child K rqstp a4 di dc iap type b7 h7 = (e8, b8, h8)"
        by (metis prod_cases3)
      have chb: "refs x h8 - held K x b8 = refs x h7 - held K x b7 \<and> fh_wf b8" if "e7 = 0"
        using nfsd_create_child_balance [OF ch ok, of x] cb that by (auto simp: balance_def)
      have "(err, a', b', h') = (if e7 \<noteq> 0 then (e7, a4, b7, Ref (Dput dc) # h7) else (e8, a4, b8, Ref (Dput dc) # h8))"
        using False c d v dn di w nb Inr ex co ch wf(4)
        by (simp add: nfsd_create_def call_simps h6_def Let_def split: if_splits)
      then show ?thesis
        using cb chb b4 r wf by (auto simp: balance2_def balance_def ledger_simps h6_def split: if_splits)
    qed
  qed
qed

lemma do_create_out_balance:
  assumes o: "do_create_out K e a b t c dc h = (err, a', b', t', c', h')" and wf: "fh_wf a" "fh_wf b"
  shows "balance2 K x a' b' h' = balance2 K x a b h - of_bool (\<exists>d\<in>set_option dc. x = Dentry_ref d) \<and>
    fh_wf a' \<and> fh_wf b' \<and> \<not> fh_want_write a'"
proof -
  define g where "g = (case dc of Some d \<Rightarrow> Ref (Dput d) # h | None \<Rightarrow> h)"
  obtain a1 h1 where dw: "fh_drop_write K a g = (a1, h1)" by fastforce
  have "balance K x a1 h1 = balance K x a g" using dw wf(1) by (rule fh_drop_write_balance)
  moreover have "refs x g = refs x h - of_bool (\<exists>d\<in>set_option dc. x = Dentry_ref d)"
    by (cases dc) (auto simp: g_def ledger_simps)
  moreover have "fh_wf a1" "\<not> fh_want_write a1"
    using fh_drop_write_wf [OF wf(1), of K g] fh_drop_write_fields(3) [of K a g] dw by simp_all
  ultimately show ?thesis
    using o dw wf(2) by (auto simp: do_create_out_def g_def balance2_fst balance2_def balance_def)
qed

lemma do_create_child_balance:
  assumes o: "do_create_child K rqstp a dirp d iap b cm t c h = (err, a', b', t', c', h')"
    and ok: "err_ptr_ok K" and wf: "fh_wf a" "fh_wf b" "fh_dentry b \<noteq> None"
  shows "balance2 K x a' b' h' = balance2 K x a b h \<and> fh_wf a' \<and> fh_wf b'"
proof -
  have dw: "refs x h2 - held K x a2 = refs x h1 - held K x a \<and> fh_wf a2"
    if "fh_drop_write K a h1 = (a2, h2)" for h1 a2 h2
    using fh_drop_write_balance [OF that wf(1), of x] fh_drop_write_wf [OF wf(1), of K h1] that
    by (simp add: balance_def)
  have sa: "refs x h2 - held K x b2 = refs x h1 - held K x b \<and> fh_wf b2"
    if "do_create_set_attr K rqstp a1 iap1 b h1 = (e, b2, h2)" for a1 iap1 h1 e b2 h2
    using do_create_set_attr_balance [OF that ok wf(2,3), of x] by (simp add: balance_def)
  show ?thesis
    using o wf
    by (auto simp: do_create_child_def do_create_exists_def Let_def call_simps ledger_simps balance2_def
        split: option.splits if_splits prod.splits dest!: dw sa)
qed

lemma do_nfsd_create_balance:
  assumes c: "do_nfsd_create K rqstp a fname flen iap b cm t cr h = (err, a', b', t', cr', h')"
    and ok: "err_ptr_ok K" and wf: "fh_wf a" "\<not> fh_want_write a" "fh_wf b" "fh_dentry b = None"
  shows "balance2 K x a' b' h' = balance2 K x a b h \<and> fh_wf a' \<and> fh_wf b' \<and> \<not> fh_want_write a'"
proof -
  obtain dot h0 where d: "isdotent fname (sint flen) h = (dot, h0)" by fastforce
  obtain e1 a1 h1 where v: "fh_verify K rqstp a h0 = (e1, a1, h1)" by (metis prod_cases3)
  obtain dn h2 where dn: "deref (fh_dentry a1) h1 = (dn, h2)" by fastforce
  obtain di h3 where di: "inode_of K dn h2 = (di, h3)" by fastforce
  obtain e4 a4 h4 where w: "fh_want_write_call K a1 h3 = (e4, a4, h4)" by (metis prod_cases3)
  obtain ns h5 where nb: "name_bytes fname flen h4 = (ns, h5)" by fastforce
  note r = isdotent_refs [OF d] refs_deref [OF dn] refs_inode_of [OF di] name_bytes_refs [OF nb]
  note b1 = fh_verify_balance(1,2) [OF v wf(1)]
  note out = do_create_out_balance [where x = x]
  show ?thesis
  proof (cases "flen = 0 \<or> dot \<or> e1 \<noteq> 0 \<or> \<not> i_op_lookup (inode_at K h3 di) \<or> e4 \<noteq> 0")
    case True
    have "balance K x a4 h4 = balance K x a h0 \<and> fh_wf a4" if "e1 = 0"
      using want_write_ready [OF ok wf(1,2) v [unfolded that] _ w] r by simp
    with True c d v dn di w r b1(1) [of x] b1(2) wf show ?thesis
      by (auto simp: do_nfsd_create_def balance2_def balance_def split: if_splits
          dest!: out [unfolded balance2_def])
  next
    case False
    then have e1: "e1 = 0" by simp
    have b4: "fh_wf a4" "fh_dentry a4 \<noteq> None" "fh_export a4 \<noteq> None" "balance K x a4 h4 = balance K x a h0"
      using want_write_ready [OF ok wf(1,2) v [unfolded e1] _ w, of x] r by simp_all
    show ?thesis
    proof (cases "lookup_one_len K h5 ns dn")
      case (Inl e)
      have "do_create_out K (nfserrno e) a4 b t cr None (Ns (Lookup_one_len ns dn (Inl e)) # h5) =
          (err, a', b', t', cr', h')"
        using Inl False c d v dn di w nb by (simp add: do_nfsd_create_def call_simps Let_def)
      from out [OF this b4(1) wf(3)] show ?thesis
        using b4 r by (simp add: balance2_def balance_def ledger_simps)
    next
      case (Inr dc)
      define h6 where "h6 = Ns (Lookup_one_len ns dn (Inr dc)) # h5"
      obtain ex where ex: "fh_export a4 = Some ex" using b4(3) by auto
      have re: "fh_verify K rqstp a4 h6 = (0, a4, h6)" using b4(2) by (auto simp: fh_verify_def)
      obtain e7 b7 h7 where co: "fh_compose K b ex dc (Ref_other a4) h6 = (e7, b7, h7)" by (metis prod_cases3)
      note cb = fh_compose_onto [OF co wf(3,4), of x]
      obtain e8 a8 b8 t8 c8 h8 where
        ch: "do_create_child K rqstp a4 di dc iap8 b7 cm t cr h7 = (e8, a8, b8, t8, c8, h8)"
        if "iap8 = (if ia_valid iap AND ATTR_MODE = 0 then iap\<lparr>ia_mode := 0\<rparr> else iap)" for iap8
        by (metis prod_cases6)
      have chb: "balance2 K x a8 b8 h8 = balance2 K x a4 b7 h7 \<and> fh_wf a8 \<and> fh_wf b8" if "e7 = 0"
        using do_create_child_balance [OF ch [OF refl] ok b4(1), of x] cb that by auto
      have "(if e7 \<noteq> 0 then do_create_out K e7 a4 b7 t cr (Some dc) h7
             else do_create_out K e8 a8 b8 t8 c8 (Some dc) h8) = (err, a', b', t', cr', h')"
        using False c d v dn di w nb Inr ex co ch [OF refl] re
        by (simp add: do_nfsd_create_def call_simps h6_def Let_def split: if_splits)
      then show ?thesis
        using cb chb b4 r wf do_create_out_balance [of K e7 a4 b7 t cr "Some dc" h7 err a' b' t' cr' h' x]
          do_create_out_balance [of K e8 a8 b8 t8 c8 "Some dc" h8 err a' b' t' cr' h' x]
        by (cases "e7 = 0") (auto simp: balance2_def balance_def ledger_simps h6_def)
    qed
  qed
qed

lemma nfsd_unlink_balance:
  assumes c: "nfsd_unlink K rqstp a type fname flen h = (err, a', h')"
    and ok: "err_ptr_ok K" and wf: "fh_wf a" "\<not> fh_want_write a"
  shows "balance K x a' h' = balance K x a h \<and> fh_wf a'"
proof -
  obtain dot h0 where d: "(if flen = 0 then (True, h) else isdotent fname (sint flen) h) = (dot, h0)" by fastforce
  have r0: "\<forall>x. refs x h0 = refs x h" using d by (auto split: if_splits dest!: refs_frame)
  obtain e1 a1 h1 where v: "fh_verify K rqstp a h0 = (e1, a1, h1)" by (metis prod_cases3)
  obtain e4 a4 h4 where w: "fh_want_write_call K a1 h1 = (e4, a4, h4)" by (metis prod_cases3)
  obtain dn h2 where dn: "deref (fh_dentry a4) h4 = (dn, h2)" by fastforce
  obtain di h3 where di: "inode_of K dn h2 = (di, h3)" by fastforce
  obtain ns h5 where nb: "name_bytes fname flen h3 = (ns, h5)" by fastforce
  note r = refs_deref [OF dn] refs_inode_of [OF di] name_bytes_refs [OF nb]
  note b1 = fh_verify_balance(1,2) [OF v wf(1)]
  have b4: "balance K x a4 h4 = balance K x a h0 \<and> fh_wf a4" if "e1 = 0"
    using want_write_ready [OF ok wf v [unfolded that] _ w] by simp
  show ?thesis
  proof (cases "dot \<or> e1 \<noteq> 0 \<or> e4 \<noteq> 0")
    case True
    with c d v w r0 b1(1) [of x] b1(2) b4 wf show ?thesis
      by (auto simp: nfsd_unlink_def balance_def split: if_splits)
  next
    case False
    have "a' = a4 \<and> refs x h' = refs x h4"
      using c d v w dn di nb r False
      by (auto simp: nfsd_unlink_def Let_def call_simps ledger_simps split: if_splits sum.splits prod.splits
          dest!: commit_metadata_refs)
    with False b4 r0 show ?thesis by (simp add: balance_def)
  qed
qed

section \<open>The contract, for every operation\<close>

interpretation setattr_op: fh_op K "\<lambda>fh h. nfsd_setattr K rqstp fh iap cg gt h" for K rqstp iap cg gt
  by unfold_locales (auto dest!: nfsd_setattr_balance)

interpretation read_op: fh_op K "\<lambda>fh h. case nfsd_read K rqstp fh off vec cnt h of (err, c, fh, h) \<Rightarrow> ((err, c), fh, h)"
  for K rqstp off vec cnt
  by unfold_locales (auto split: prod.splits dest!: nfsd_read_balance)

interpretation write_op: fh_op K
  "\<lambda>fh h. case nfsd_write K rqstp fh off vec cnt stbl h of (err, c, fh, h) \<Rightarrow> ((err, c), fh, h)"
  for K rqstp off vec cnt stbl
  by unfold_locales (auto split: prod.splits dest!: nfsd_write_balance)

interpretation statfs_op: fh_op K
  "\<lambda>fh h. case nfsd_statfs K rqstp fh st h of (err, fh, st, h) \<Rightarrow> ((err, st), fh, h)" for K rqstp st
  by unfold_locales (auto split: prod.splits dest!: nfsd_statfs_balance)

interpretation unlink_op: fh_op K "\<lambda>fh h. nfsd_unlink K rqstp fh type name len h" for K rqstp type name len
  by unfold_locales (auto dest!: nfsd_unlink_balance)

interpretation lookup_op: fh2_op K "\<lambda>a b h. nfsd_lookup K rqstp a name len b h" for K rqstp name len
  by unfold_locales (auto dest!: nfsd_lookup_balance)

interpretation mkdir_op: fh2_op K "\<lambda>a b h. nfsd_create K rqstp a name len iap type b h"
  for K rqstp name len iap type
  by unfold_locales (auto dest!: nfsd_create_balance)

interpretation create_op: fh2_op K
  "\<lambda>a b h. case do_nfsd_create K rqstp a name len iap b cm t c h of (err, a, b, t, c, h) \<Rightarrow> ((err, t, c), a, b, h)"
  for K rqstp name len iap cm t c
  by unfold_locales (auto split: prod.splits dest!: do_nfsd_create_balance)

end
