(* ===== verification/Vfs_Properties.thy ===== *)
theory Vfs_Properties
  imports Vfs_Contract
begin

text \<open>
  What the file operations do to the file system: the changes an operation makes, read off the
  history of calls, and the functional properties of the operations of \<open>vfs.c\<close>.
\<close>

section \<open>Changes to the file system\<close>

text \<open>The calls that change a file system, in the order of the history.\<close>

definition is_change :: "kcall \<Rightarrow> bool" where
  "is_change c \<longleftrightarrow> (case c of
     Ns (Vfs_create _ _ _ _) \<Rightarrow> True | Ns (Vfs_mkdir _ _ _ _) \<Rightarrow> True
   | Ns (Vfs_unlink _ _ _) \<Rightarrow> True | Ns (Vfs_rmdir _ _ _) \<Rightarrow> True
   | Ns (Notify_change _ _ _) \<Rightarrow> True | File (Vfs_writev _ _ _ _) \<Rightarrow> True
   | _ \<Rightarrow> False)"

definition changes :: "hist \<Rightarrow> kcall list" where
  "changes h = filter is_change h"

lemma changes_simps [simp]:
  "changes [] = []"
  "changes (Fault f # h) = changes h"
  "changes (Ref r # h) = changes h"
  "changes (Sys s # h) = changes h"
  "changes (Ns (Lookup_one_len n d r') # h) = changes h"
  "changes (Ns (Vfs_create i d m e) # h) = Ns (Vfs_create i d m e) # changes h"
  "changes (Ns (Vfs_mkdir i d m e) # h) = Ns (Vfs_mkdir i d m e) # changes h"
  "changes (Ns (Vfs_unlink i d e) # h) = Ns (Vfs_unlink i d e) # changes h"
  "changes (Ns (Vfs_rmdir i d e) # h) = Ns (Vfs_rmdir i d e) # changes h"
  "changes (Ns (Notify_change d a e) # h) = Ns (Notify_change d a e) # changes h"
  "changes (Ns (Commit_metadata i e) # h) = changes h"
  "changes (Ns (Sync_inode_metadata i e) # h) = changes h"
  "changes (Ns (Vfs_getattr p g) # h) = changes h"
  "changes (Ns (Lease_get_mtime i) # h) = changes h"
  "changes (Ns (Vfs_statfs p sf) # h) = changes h"
  "changes (File (Break_lease i fl e) # h) = changes h"
  "changes (File (Dentry_open p fl o') # h) = changes h"
  "changes (File (Ima_file_check fi fl e) # h) = changes h"
  "changes (File (Fput fi) # h) = changes h"
  "changes (File (Vfs_readv fi off v e) # h) = changes h"
  "changes (File (Fsnotify_access fi) # h) = changes h"
  "changes (File (Vfs_writev fi off v e) # h) = File (Vfs_writev fi off v e) # changes h"
  "changes (File (Fsnotify_modify fi) # h) = changes h"
  "changes (File (Vfs_fsync_range fi off off' e) # h) = changes h"
  "changes (File (Iterate_dir fi n' e) # h) = changes h"
  "changes (File (Vfs_llseek fi off st e) # h) = changes h"
  by (simp_all add: changes_def is_change_def)

named_theorems changes_frame \<open>operations that change nothing, as destruction rules\<close>

lemma deref_changes [changes_frame]: "deref p h = (v, h') \<Longrightarrow> changes h' = changes h"
  by (cases p) auto

lemma inode_of_changes [changes_frame]: "inode_of K d h = (v, h') \<Longrightarrow> changes h' = changes h"
  by (auto simp: inode_of_def dest!: deref_changes)

lemma fh_want_write_changes [changes_frame]: "fh_want_write_call K fh h = (r, fh', h') \<Longrightarrow> changes h' = changes h"
  by (auto simp: fh_want_write_call_def Let_def call_simps split: if_splits prod.splits dest!: changes_frame)

lemma isdotent_changes [changes_frame]: "isdotent name l h = (b, h') \<Longrightarrow> changes h' = changes h"
  by (auto simp: isdotent_def split: if_splits option.splits)

lemma name_bytes_changes [changes_frame]: "name_bytes name len h = (b, h') \<Longrightarrow> changes h' = changes h"
  by (auto simp: name_bytes_def split: if_splits option.splits)

lemma commit_metadata_changes [changes_frame]: "commit_metadata K fhp h = (r, h') \<Longrightarrow> changes h' = changes h"
  by (auto simp: commit_metadata_def Let_def call_simps split: if_splits prod.splits dest!: changes_frame)

lemma exp_find_changes [changes_frame]: "exp_find K clp t fsidv req h = (r, h') \<Longrightarrow> changes h' = changes h"
  by (auto simp: exp_find_def exp_find_key_def exp_get_by_name_def svc_export_lookup_def svc_expkey_lookup_def
      call_simps Let_def split: sum.splits option.splits if_splits prod.splits)

lemma nfsd_setuser_changes [changes_frame]: "nfsd_setuser K rqstp e h = (r, h') \<Longrightarrow> changes h' = changes h"
  by (auto simp: nfsd_setuser_def call_simps Let_def split: option.splits)

lemma fh_verify_changes [changes_frame]: "fh_verify K rqstp fh h = (r, fh', h') \<Longrightarrow> changes h' = changes h"
  by (auto simp: fh_verify_def nfsd_set_fh_dentry_def rqst_exp_find_def Let_def call_simps
      split: if_splits sum.splits option.splits prod.splits dest!: changes_frame)

section \<open>Properties\<close>

text \<open>
  C32: \<open>nfsd_sanitize_attrs\<close> never lets a client change the type bits of a file through its mode, and a
  change of owner or group of anything but a directory drops privileges: either the new mode is
  clear of set-user-id and of set-group-id on group-executable files, or the kernel is asked to
  kill both bits.
\<close>

theorem sanitize_attrs_safe:
  assumes "nfsd_sanitize_attrs ino iap = iap'"
  shows "(ia_valid iap AND ATTR_MODE \<noteq> 0 \<longrightarrow> ia_mode iap' AND S_IFMT = i_mode ino AND S_IFMT) \<and>
    (\<not> S_ISDIR (i_mode ino) \<and> ia_valid iap AND (ATTR_UID OR ATTR_GID) \<noteq> 0 \<longrightarrow>
      ia_valid iap' AND ATTR_KILL_PRIV = ATTR_KILL_PRIV \<and>
      (if ia_valid iap AND ATTR_MODE \<noteq> 0
       then ia_mode iap' AND S_ISUID = 0 \<and> (ia_mode iap' AND S_IXGRP = 0 \<or> ia_mode iap' AND S_ISGID = 0)
       else ia_valid iap' AND (ATTR_KILL_SUID OR ATTR_KILL_SGID) = ATTR_KILL_SUID OR ATTR_KILL_SGID)) \<and>
    ia_uid iap' = ia_uid iap \<and> ia_gid iap' = ia_gid iap \<and> ia_size iap' = ia_size iap"
proof -
  have mask: "(x AND y) AND z = x AND (y AND z)" "(x OR y) AND z = (x AND z) OR (y AND z)" for x y z :: "'a::len word"
    by (simp_all add: and.assoc bit.conj_disj_distrib2)
  have "v AND 6 = (v AND 2) OR (v AND 4)" for v :: u32
    by (simp flip: bit.conj_disj_distrib)
  then have valid: "v AND 6 = 0 \<longleftrightarrow> v AND 2 = 0 \<and> v AND 4 = 0" for v :: u32
    by (simp only: or_eq_0_iff)
  show ?thesis
    unfolding assms [symmetric] nfsd_sanitize_attrs_def Let_def
    by (cases "ia_valid iap AND ATTR_MODE \<noteq> 0"; cases "S_ISDIR (i_mode ino)";
        cases "ia_valid iap AND ATTR_UID \<noteq> 0 \<or> ia_valid iap AND ATTR_GID \<noteq> 0")
       (simp_all add: mask valid)
qed

theorem sanitize_attrs_safe_witness:
  "nfsd_sanitize_attrs (sample_inode 0x8DED 12) (zero_iattr\<lparr>ia_valid := ATTR_UID OR ATTR_MODE, ia_mode := 0x4DED\<rparr>) =
     zero_iattr\<lparr>ia_valid := ATTR_UID OR ATTR_MODE OR ATTR_KILL_PRIV, ia_mode := 0x81ED\<rparr> \<and>
   (0x81ED :: u16) AND S_IFMT = S_IFREG \<and> (0x81ED :: u16) AND S_ISUID = 0"
proof -
  have r: "nfsd_sanitize_attrs (sample_inode 0x8DED 12) (zero_iattr\<lparr>ia_valid := ATTR_UID OR ATTR_MODE, ia_mode := 0x4DED\<rparr>) =
     zero_iattr\<lparr>ia_valid := ATTR_UID OR ATTR_MODE OR ATTR_KILL_PRIV, ia_mode := 0x81ED\<rparr>"
    by (simp add: nfsd_sanitize_attrs_def sample_inode_def zero_iattr_def zero_inode_def S_ISDIR_def)
  have "(0x81ED :: u16) AND S_IFMT = S_IFREG \<and> (0x81ED :: u16) AND S_ISUID = 0"
    using sanitize_attrs_safe [OF r] by (simp add: sample_inode_def zero_iattr_def zero_inode_def S_ISDIR_def)
  with r show ?thesis by (rule conjI)
qed



text \<open>
  C6: a write that asked for stable storage on an export that is not asynchronous is synced before
  the reply: after the data and before anything else the file is synced over exactly the range that
  was written (to the end of the file when nothing was), the count reported is the number of bytes
  the file system took, and success means that the sync succeeded.
\<close>

theorem stable_write_synced:
  assumes "nfsd_vfs_write K rqstp fhp file offset vec cnt stbl h = (err, cnt', h')"
    and "fh_export fhp = Some e" and "EX_ISSYNC (export_flags K h e)" and "stbl \<noteq> 0"
    and "vfs_writev K h file offset vec = n" and "0 \<le> n"
  shows "\<exists>end r. h' = [File (Vfs_fsync_range file offset end r), File (Fsnotify_modify file),
      File (Vfs_writev file offset vec n)] @ h \<and>
    cnt' = word_of_int n \<and> end = (if cnt' \<noteq> 0 then offset + cnt' - 1 else NFS_OFFSET_MAX) \<and>
    (err = 0 \<longleftrightarrow> 0 \<le> r)"
proof -
  obtain cnt2 end2 where d: "cnt2 = (word_of_int n :: u64)"
    "end2 = (if cnt2 \<noteq> 0 then offset + cnt2 - 1 else NFS_OFFSET_MAX)" by blast
  define g where "g = File (Fsnotify_modify file) # File (Vfs_writev file offset vec n) # h"
  have "cnt' = cnt2 \<and> h' = File (Vfs_fsync_range file offset end2 (vfs_fsync_range K g file offset end2)) # g \<and>
      err = (if 0 \<le> vfs_fsync_range K g file offset end2 then 0
             else nfserrno (vfs_fsync_range K g file offset end2))"
    using assms(1-4,6) unfolding nfsd_vfs_write_def Let_def call_simps d g_def assms(5) [symmetric]
    by auto
  then show ?thesis
    by (intro exI [of _ end2] exI [of _ "vfs_fsync_range K g file offset end2"]) (auto simp: d g_def)
qed

theorem stable_write_synced_witness:
  "\<exists>end r. snd (snd (nfsd_vfs_write sample_kernel sample_rqst
       ((fh_init NFS3_FHSIZE)\<lparr>fh_dentry := Some 2, fh_export := Some 5\<rparr>) 21 10 [4] 4 2 [])) =
      [File (Vfs_fsync_range 21 10 end r), File (Fsnotify_modify 21), File (Vfs_writev 21 10 [4] 4)] \<and> end = 13"
proof -
  let ?fh = "(fh_init NFS3_FHSIZE)\<lparr>fh_dentry := Some 2, fh_export := Some 5\<rparr>"
  obtain err cnt h where r: "nfsd_vfs_write sample_kernel sample_rqst ?fh 21 10 [4] 4 2 [] = (err, cnt, h)"
    by (metis prod_cases3)
  have s: "EX_ISSYNC (export_flags sample_kernel [] 5)" "vfs_writev sample_kernel [] 21 10 [4] = 4"
    by (simp_all add: sample_kernel_def EX_ISSYNC_def)
  from stable_write_synced [OF r _ s(1) _ s(2)] r show ?thesis by auto
qed

lemma commit_metadata_extends: "commit_metadata K fhp h = (r, h') \<Longrightarrow> set h \<subseteq> set h'"
  by (auto simp: commit_metadata_def inode_of_def deref_def Let_def call_simps
      split: if_splits prod.splits option.splits)

text \<open>What \<open>nfsd_unlink\<close> has done when it has found the entry.\<close>

lemma nfsd_unlink_found:
  assumes ok: "err_ptr_ok K" and call: "nfsd_unlink K rqstp a type (Some name) flen h = (err, a', h')"
  obtains (refused) "err \<noteq> 0" "changes h' = changes h"
  | (found) di p x g r c a4 e5 h5 where "changes g = changes h" "Ns (Lookup_one_len (cstr name (unat flen)) p (Inr x)) \<in> set g"
      "c = (if type = 0x4000 then Ns (Vfs_rmdir di x r) else Ns (Vfs_unlink di x r))"
      "commit_metadata K a4 (c # g) = (e5, h5)"
      "err = nfserrno (if r = 0 then e5 else r)" "h' = Ref (Dput x) # (if r = 0 then h5 else c # g)"
proof -
  obtain dot h0 where d: "isdotent (Some name) (sint flen) h = (dot, h0)" by fastforce
  obtain e1 a1 h1 where v: "fh_verify K rqstp a h0 = (e1, a1, h1)" by (metis prod_cases3)
  obtain e4 a4 h4 where w: "fh_want_write_call K a1 h1 = (e4, a4, h4)" by (metis prod_cases3)
  obtain dn h2 where dn: "deref (fh_dentry a4) h4 = (dn, h2)" by fastforce
  obtain di h3 where di: "inode_of K dn h2 = (di, h3)" by fastforce
  have c3: "changes h3 = changes h" and c4: "changes h4 = changes h" "changes h1 = changes h" "changes h0 = changes h"
    using d v w dn di by (auto split: if_splits dest!: changes_frame)
  note def = nfsd_unlink_def name_bytes_def call_simps Let_def
  consider (early) "flen = 0 \<or> flen \<noteq> 0 \<and> dot" | (verify) "flen \<noteq> 0" "\<not> dot" "e1 \<noteq> 0"
    | (no_write) "flen \<noteq> 0" "\<not> dot" "e1 = 0" "e4 \<noteq> 0"
    | (no) e where "flen \<noteq> 0" "\<not> dot" "e1 = 0" "e4 = 0" "lookup_one_len K h3 (cstr name (unat flen)) dn = Inl e"
    | (yes) x where "flen \<noteq> 0" "\<not> dot" "e1 = 0" "e4 = 0" "lookup_one_len K h3 (cstr name (unat flen)) dn = Inr x"
    by (cases "lookup_one_len K h3 (cstr name (unat flen)) dn") blast+
  then show thesis
  proof cases
    case (yes x)
    define g where "g = Ns (Lookup_one_len (cstr name (unat flen)) dn (Inr x)) # h3"
    define r where "r = (if type \<noteq> 0x4000 then vfs_unlink K g di x else vfs_rmdir K g di x)"
    define c where "c = (if type = 0x4000 then Ns (Vfs_rmdir di x r) else Ns (Vfs_unlink di x r))"
    obtain e5 h5 where cm: "commit_metadata K a4 (c # g) = (e5, h5)" by fastforce
    have cg: "changes g = changes h" using c3 by (simp add: g_def)
    show thesis
    proof (cases "d_inode K g x")
      case None
      with yes call d v w dn di c3 show thesis
        by (intro refused) (auto simp: def g_def nfserr_noent_def)
    next
      case (Some ino)
      have "Ns (Lookup_one_len (cstr name (unat flen)) dn (Inr x)) \<in> set g" by (simp add: g_def)
      then show thesis
        by (rule found [OF cg _ c_def cm])
           (use yes call d v w dn di cm Some in \<open>simp_all add: def g_def r_def c_def split: if_splits\<close>)
    qed
  next
    case (no e)
    with call d v w dn di c3 err_ptr_okD(2) [OF ok no(5)] show thesis by (intro refused) (auto simp: def)
  qed (use call d v w dn di c3 c4 in \<open>auto intro!: refused simp: def nfserr_acces_def\<close>)
qed

text \<open>
  C10: \<open>nfsd_unlink\<close> removes at most the one entry that the lookup of the given name found, with
  \<open>vfs_rmdir\<close> when a directory was asked for and \<open>vfs_unlink\<close> otherwise. When it removes nothing its
  status is an error, and a removal that failed is reported with that failure.
\<close>

theorem unlink_effect:
  assumes "err_ptr_ok K" and "nfsd_unlink K rqstp a type (Some name) flen h = (err, a', h')"
  shows "changes h' = changes h \<and> err \<noteq> 0 \<or>
    (\<exists>dir p d r. changes h' = (if type = 0x4000 then Ns (Vfs_rmdir dir d r) else Ns (Vfs_unlink dir d r)) # changes h \<and>
      Ns (Lookup_one_len (cstr name (unat flen)) p (Inr d)) \<in> set h' \<and> (r \<noteq> 0 \<longrightarrow> err = nfserrno r))"
  using assms
proof (cases rule: nfsd_unlink_found)
  case (found di p x g r c a4 e5 h5)
  have "Ns (Lookup_one_len (cstr name (unat flen)) p (Inr x)) \<in> set h5"
    using found(2) commit_metadata_extends [OF found(4)] by auto
  moreover have "changes (c # g) = c # changes h" using found(1,3) by simp
  ultimately have "changes h' = c # changes h \<and>
      Ns (Lookup_one_len (cstr name (unat flen)) p (Inr x)) \<in> set h' \<and> (r \<noteq> 0 \<longrightarrow> err = nfserrno r)"
    using found(2,5,6) commit_metadata_changes [OF found(4)] by simp
  then show ?thesis unfolding found(3) by blast
qed simp

theorem unlink_effect_witness:
  "case nfsd_unlink sample_kernel sample_rqst (wire_fh (export_handle sample_kernel 0x00800001 11))
      (- 0x4000) (Some (\<lambda>_. 0x61)) 1 [] of (err, fhp, h) \<Rightarrow>
    (changes h = [] \<and> err \<noteq> 0 \<or> (\<exists>dir p d r. changes h = [Ns (Vfs_unlink dir d r)] \<and>
      Ns (Lookup_one_len [0x61] p (Inr d)) \<in> set h \<and> (r \<noteq> 0 \<longrightarrow> err = nfserrno r)))"
proof -
  obtain err fhp h where r: "nfsd_unlink sample_kernel sample_rqst
      (wire_fh (export_handle sample_kernel 0x00800001 11)) (- 0x4000) (Some (\<lambda>_. 0x61)) 1 [] = (err, fhp, h)"
    by (metis prod_cases3)
  from unlink_effect [OF sample_kernel_ok(1) r] r show ?thesis
    by (simp add: cstr_def)
qed

lemma fh_drop_write_changes [changes_frame]: "fh_drop_write K fh h = (fh', h') \<Longrightarrow> changes h' = changes h"
  by (auto simp: fh_drop_write_def Let_def split: if_splits prod.splits dest!: changes_frame)

lemma fh_put_changes [changes_frame]: "fh_put K fh h = (fh', h') \<Longrightarrow> changes h' = changes h"
  by (auto simp: fh_put_def exp_put_def Let_def split: option.splits prod.splits dest!: changes_frame)

lemma mk_fsid_changes [changes_frame]: "mk_fsid K t v dev ino f h = (r, h') \<Longrightarrow> changes h' = changes h"
  by (auto simp: mk_fsid_def split: if_splits)

lemma fh_update_fileid_changes [changes_frame]:
  "fh_update_fileid K fh e d h = (fh', h') \<Longrightarrow> changes h' = changes h"
  by (auto simp: fh_update_fileid_def call_simps Let_def split: if_splits prod.splits)

lemma fh_compose_changes [changes_frame]:
  "fh_compose K fh e d r h = (err, fh', h') \<Longrightarrow> changes h' = changes h"
  by (auto simp: fh_compose_def exp_sb_dev_def exp_get_def Let_def split: if_splits prod.splits
      dest!: changes_frame)

lemma do_create_out_result:
  "do_create_out K e a b t c d h = (err, a', b', t', c', h') \<Longrightarrow> err = e \<and> changes h' = changes h"
  by (auto simp: do_create_out_def Let_def split: prod.splits option.splits dest!: changes_frame)

text \<open>What is left of a create once the name has been found to exist.\<close>

lemma do_nfsd_create_found:
  assumes ok: "err_ptr_ok K" and call: "do_nfsd_create K rqstp a fname flen iap b mode tr cr h = (err, a', b', t, c, h')"
    and old: "\<forall>g name p d. lookup_one_len K g name p = Inr d \<longrightarrow> (\<forall>g. d_inode K g d \<noteq> None)"
  obtains (refused) "err \<noteq> 0" "changes h' = changes h"
  | (found) a4 di x iap' ex g e b7 h7 where "\<forall>g. d_inode K g x \<noteq> None" "changes g = changes h"
      "fh_compose K b ex x (Ref_other a4) g = (e, b7, h7)"
      "(if e \<noteq> 0 then do_create_out K e a4 b7 tr cr (Some x) h7
        else case do_create_child K rqstp a4 di x iap' b7 mode tr cr h7 of
          (e8, a8, b8, t8, c8, h8) \<Rightarrow> do_create_out K e8 a8 b8 t8 c8 (Some x) h8) = (err, a', b', t, c, h')"
proof -
  obtain dot h0 where d: "isdotent fname (sint flen) h = (dot, h0)" by fastforce
  obtain e1 a1 h1 where v: "fh_verify K rqstp a h0 = (e1, a1, h1)" by (metis prod_cases3)
  obtain dn h2 where dn: "deref (fh_dentry a1) h1 = (dn, h2)" by fastforce
  obtain di h3 where di: "inode_of K dn h2 = (di, h3)" by fastforce
  obtain e4 a4 h4 where w: "fh_want_write_call K a1 h3 = (e4, a4, h4)" by (metis prod_cases3)
  obtain ns h5 where nb: "name_bytes fname flen h4 = (ns, h5)" by fastforce
  note ch = isdotent_changes [OF d] fh_verify_changes [OF v] deref_changes [OF dn]
    inode_of_changes [OF di] fh_want_write_changes [OF w] name_bytes_changes [OF nb]
  note def = do_nfsd_create_def call_simps Let_def
  consider (early) "flen = 0 \<or> flen \<noteq> 0 \<and> dot"
    | (late) "flen \<noteq> 0" "\<not> dot" "e1 \<noteq> 0 \<or> \<not> i_op_lookup (inode_at K h3 di) \<or> e4 \<noteq> 0"
    | (no) e where "flen \<noteq> 0" "\<not> dot" "e1 = 0" "i_op_lookup (inode_at K h3 di)" "e4 = 0"
        "lookup_one_len K h5 ns dn = Inl e"
    | (yes) x where "flen \<noteq> 0" "\<not> dot" "e1 = 0" "i_op_lookup (inode_at K h3 di)" "e4 = 0"
        "lookup_one_len K h5 ns dn = Inr x"
    by (cases "lookup_one_len K h5 ns dn") blast+
  then show thesis
  proof cases
    case early
    then show thesis using call d ch
      by (intro refused) (auto simp: do_nfsd_create_def nfserr_defs dest!: do_create_out_result)
  next
    case late
    then show thesis using call d v dn di w ch
      by (intro refused) (auto simp: def nfserr_defs split: if_splits dest!: do_create_out_result)
  next
    case no
    then show thesis using call d v dn di w nb ch err_ptr_okD(2) [OF ok no(6)]
      by (intro refused) (auto simp: def dest!: do_create_out_result)
  next
    case (yes x)
    have pos: "\<forall>g. d_inode K g x \<noteq> None" using old yes(6) by blast
    define g where "g = Ns (Lookup_one_len ns dn (Inr x)) # h5"
    define iap' where "iap' = (if ia_valid iap AND ATTR_MODE = 0 then iap\<lparr>ia_mode := 0\<rparr> else iap)"
    obtain ex h6 where ex: "deref (fh_export a4) g = (ex, h6)" by fastforce
    obtain e7 b7 h7 where co: "fh_compose K b ex x (Ref_other a4) h6 = (e7, b7, h7)" by (metis prod_cases3)
    have h6: "changes h6 = changes h" using ch deref_changes [OF ex] by (simp add: g_def)
    have "d_inode K g x \<noteq> None" using pos by blast
    then show thesis
      by (intro found [OF pos h6 co, of di iap'])
         (use yes call d v dn di w nb ex co in \<open>simp add: def g_def iap'_def split: if_splits\<close>)
  qed
qed


definition sample_old_file :: kernel where
  "sample_old_file = sample_kernel\<lparr>lookup_one_len := (\<lambda>h name d. Inr 2),
     inode_at := (\<lambda>h i. (sample_inode (if i = 11 then 0x41ED else 0x81A4) (of_nat i))\<lparr>i_mtime := \<lparr>tv_sec = 7, tv_nsec = 0\<rparr>\<rparr>)\<rparr>"




text \<open>
  C4: \<open>do_nfsd_create\<close>, whatever happens on the way, returns with the write access it took given
  back, and putting its two handles afterwards restores every reference count: no path leaks or
  over-releases a dentry, an export or the write access of a mount.
\<close>

theorem create_releases_everything:
  assumes "err_ptr_ok K" and "fh_wf a" and "fh_dentry a = None" and "fh_wf b" and "fh_dentry b = None"
    and "do_nfsd_create K rqstp a fname flen iap b createmode truncp created h = (err, a', b', t, c, h')"
    and "fh_put K a' h' = (a'', h1)" and "fh_put K b' h1 = (b'', h2)"
  shows "\<not> fh_want_write a' \<and> refs x h2 = refs x h"
proof -
  note wa = fh_wf_unverified [OF assms(2,3)]
  have "\<not> fh_want_write a'"
    using do_nfsd_create_balance [OF assms(6,1,2) wa [THEN conjunct2] assms(4,5)] by blast
  then show ?thesis
    using create_op.released [of K a b rqstp fname flen iap createmode truncp created h "(err, t, c)" a' b' h' a'' h1 b'' h2 x]
      assms by simp
qed

theorem create_releases_everything_witness:
  "case do_nfsd_create sample_kernel sample_rqst (wire_fh (export_handle sample_kernel 0x00800001 11))
      (Some (\<lambda>_. 0x62)) 1 zero_iattr (fh_init NFS3_FHSIZE) NFS3_CREATE_GUARDED None None [] of
      (err, a, b, t, c, h) \<Rightarrow> \<not> fh_want_write a \<and>
      refs (Dentry_ref 3) (snd (fh_put sample_kernel b (snd (fh_put sample_kernel a h)))) = 0"
proof -
  let ?run = "do_nfsd_create sample_kernel sample_rqst (wire_fh (export_handle sample_kernel 0x00800001 11))
      (Some (\<lambda>_. 0x62)) 1 zero_iattr (fh_init NFS3_FHSIZE) NFS3_CREATE_GUARDED None None []"
  obtain err a b t c h where r: "?run = (err, a, b, t, c, h)" by (metis prod_cases6)
  obtain a1 h1 where p1: "fh_put sample_kernel a h = (a1, h1)" by fastforce
  obtain b1 h2 where p2: "fh_put sample_kernel b h1 = (b1, h2)" by fastforce
  from create_releases_everything [OF sample_kernel_ok(1) _ _ _ _ r p1 p2, of "Dentry_ref 3"] r p1 p2
  show ?thesis by (simp add: fh_simps)
qed

end
