(* ===== verification/Xdr_Wire.thy ===== *)
theory Xdr_Wire
  imports Vfs
begin

text \<open>
  The XDR wire format as the module reads and writes it: 32-bit cells, 64-bit hypers, opaque data
  with a byte count and zero padding, file handles, and the settable attributes (\<open>decode_time3\<close>,
  \<open>decode_sattr3\<close> and \<open>encode_fh\<close> of \<open>xdr.c\<close>). A decoder reads a cell memory from a position; an
  encoder appends cells. The locale \<open>xdr_codec\<close> is the contract between the two sides of the wire.
\<close>

section \<open>Cells in memory\<close>

text \<open>The request memory holds the cells \<open>ws\<close> from position \<open>p\<close> on.\<close>

definition holds_at :: "(nat \<Rightarrow> be32) \<Rightarrow> nat \<Rightarrow> be32 list \<Rightarrow> bool" where
  "holds_at mem p ws \<longleftrightarrow> (\<forall>i<length ws. mem (p + i) = ws ! i)"

lemma holds_at_Nil [simp]: "holds_at mem p []"
  by (simp add: holds_at_def)

lemma holds_at_Cons [simp]: "holds_at mem p (w # ws) \<longleftrightarrow> mem p = w \<and> holds_at mem (Suc p) ws"
  by (auto simp: holds_at_def less_Suc_eq_0_disj)

lemma holds_at_append [simp]:
  "holds_at mem p (ws @ vs) \<longleftrightarrow> holds_at mem p ws \<and> holds_at mem (p + length ws) vs"
  by (induction ws arbitrary: p) auto

text \<open>The bytes of the cells from a position on, and the cells of a list as a memory.\<close>

definition char_at :: "(nat \<Rightarrow> be32) \<Rightarrow> nat \<Rightarrow> char_p" where
  "char_at mem p = (\<lambda>i. le_bytes (mem (p + i div 4)) ! (i mod 4))"

definition mem_of :: "be32 list \<Rightarrow> nat \<Rightarrow> be32" where
  "mem_of ws i = (if i < length ws then ws ! i else 0)"

lemma holds_at_mem_of [simp]: "holds_at (mem_of ws) 0 ws"
  by (simp add: holds_at_def mem_of_def)

lemma nth_bytes_of_words:
  "i < 4 * length ws \<Longrightarrow> bytes_of_words ws ! i = le_bytes (ws ! (i div 4)) ! (i mod 4)"
proof (induction ws arbitrary: i)
  case (Cons w ws)
  show ?case
  proof (cases "i < 4")
    case False
    then have "i div 4 = Suc ((i - 4) div 4)" "i mod 4 = (i - 4) mod 4" by presburger+
    with Cons False show ?thesis by (simp add: nth_append)
  qed (simp add: nth_append)
qed simp

lemma cstr_char_at:
  assumes "holds_at mem p ws" and "n \<le> 4 * length ws"
  shows "cstr (char_at mem p) n = take n (bytes_of_words ws)"
proof (rule nth_equalityI)
  fix i assume "i < length (cstr (char_at mem p) n)"
  then have i: "i < n" "i < 4 * length ws" using assms(2) by simp_all
  then have "mem (p + i div 4) = ws ! (i div 4)"
    using assms(1) unfolding holds_at_def by (metis div_less_iff_less_mult mult.commute zero_less_numeral)
  then show "cstr (char_at mem p) n ! i = take n (bytes_of_words ws) ! i"
    using i by (simp add: cstr_def char_at_def nth_bytes_of_words)
qed (use assms(2) in simp)

section \<open>Primitives\<close>

definition XDR_QUADLEN :: "u32 \<Rightarrow> u32" where
  "XDR_QUADLEN l = drop_bit 2 (l + 3)"

definition xdr_decode_hyper :: "(nat \<Rightarrow> be32) \<Rightarrow> nat \<Rightarrow> u64 \<times> nat" where
  "xdr_decode_hyper mem p = (push_bit 32 (ucast (ntohl (mem p))) OR ucast (ntohl (mem (p + 1))), p + 2)"

definition xdr_encode_hyper :: "u64 \<Rightarrow> be32 list" where
  "xdr_encode_hyper v = [htonl (ucast (drop_bit 32 v)), htonl (ucast v)]"

definition xdr_encode_array :: "u8 list \<Rightarrow> be32 list" where
  "xdr_encode_array bs = htonl (of_nat (length bs)) # words_of_bytes bs"

abbreviation (input) xdr_one :: be32 where "xdr_one \<equiv> htonl 1"
abbreviation (input) xdr_zero :: be32 where "xdr_zero \<equiv> 0"

lemma XDR_QUADLEN_unat:
  assumes "unat l < 2 ^ 32 - 3"
  shows "unat (XDR_QUADLEN l) = (unat l + 3) div 4"
proof -
  have "unat (l + 3) = unat l + 3"
    using assms by (simp add: unat_word_ariths)
  then show ?thesis by (simp add: XDR_QUADLEN_def unat_drop_bit_eq drop_bit_eq_div unat_div)
qed

lemma length_xdr_encode_hyper [simp]: "length (xdr_encode_hyper v) = 2"
  by (simp add: xdr_encode_hyper_def)

lemma length_xdr_encode_array [simp]: "length (xdr_encode_array bs) = Suc ((length bs + 3) div 4)"
  by (simp add: xdr_encode_array_def)

lemma hyper_halves: "push_bit 32 (ucast (ucast (drop_bit 32 v) :: u32)) OR ucast (ucast v :: u32) = (v :: u64)"
  by (rule bit_word_eqI) (auto simp: bit_simps)

section \<open>The contract of a codec\<close>

locale xdr_codec =
  fixes enc :: "'a \<Rightarrow> be32 list"
    and dec :: "(nat \<Rightarrow> be32) \<Rightarrow> nat \<Rightarrow> 'a \<times> nat"
    and ok :: "'a \<Rightarrow> bool"
  assumes decode_encode: "ok x \<Longrightarrow> holds_at mem p (enc x) \<Longrightarrow> dec mem p = (x, p + length (enc x))"
begin

lemma decode_own: "ok x \<Longrightarrow> dec (mem_of (enc x @ ws)) 0 = (x, length (enc x))"
  using decode_encode [of x "mem_of (enc x @ ws)" 0] holds_at_mem_of [of "enc x @ ws"] by simp

lemma prefix_free: "ok x \<Longrightarrow> ok y \<Longrightarrow> enc x @ ws = enc y @ vs \<Longrightarrow> x = y \<and> ws = vs"
  using decode_own [of x ws] decode_own [of y vs] by simp

end

interpretation u32_codec: xdr_codec "\<lambda>x. [htonl x]" "\<lambda>mem p. (ntohl (mem p), p + 1)" "\<lambda>_. True"
  by unfold_locales simp

interpretation hyper_codec: xdr_codec xdr_encode_hyper xdr_decode_hyper "\<lambda>_. True"
  by unfold_locales (simp add: xdr_encode_hyper_def xdr_decode_hyper_def hyper_halves)

section \<open>Times and file handles\<close>

definition decode_time3 :: "(nat \<Rightarrow> be32) \<Rightarrow> nat \<Rightarrow> timespec \<times> nat" where
  "decode_time3 mem p = (\<lparr>tv_sec = ucast (ntohl (mem p)), tv_nsec = ucast (ntohl (mem (p + 1)))\<rparr>, p + 2)"

text \<open>\<open>nfstime3\<close> on the wire: two 32-bit counts.\<close>

definition time3_words :: "timespec \<Rightarrow> be32 list" where
  "time3_words t = [htonl (ucast (tv_sec t)), htonl (ucast (tv_nsec t))]"

definition time3_ok :: "timespec \<Rightarrow> bool" where
  "time3_ok t \<longleftrightarrow> tv_sec t < 2 ^ 32 \<and> tv_nsec t < 2 ^ 32"

lemma ucast_down_up: "v < 2 ^ 32 \<Longrightarrow> ucast (ucast v :: u32) = (v :: u64)"
proof -
  assume "v < 2 ^ 32"
  then have "unat v < 2 ^ 32" by (simp add: word_less_nat_alt)
  then have "unat (take_bit 32 v) = unat v" by (simp only: unsigned_take_bit_eq take_bit_nat_eq_self)
  moreover have "ucast (ucast v :: u32) = take_bit 32 v"
    by (rule bit_word_eqI) (simp only: bit_simps, auto)
  ultimately show ?thesis by (simp only: word_unat_eq_iff)
qed

interpretation time3_codec: xdr_codec time3_words decode_time3 time3_ok
  by unfold_locales (simp add: time3_words_def decode_time3_def time3_ok_def ucast_down_up)

text \<open>
  \<open>encode_fh\<close>: the size, then that many bytes of the handle; the last cell was cleared first, so the
  padding is zero. A size beyond the 128 bytes of the union is outside the model; no composed
  handle has one.
\<close>

definition encode_fh :: "be32 list \<Rightarrow> svc_fh \<Rightarrow> be32 list" where
  "encode_fh p fhp = p @ htonl (fh_size (fh_handle fhp)) #
     words_of_bytes (take (unat (fh_size (fh_handle fhp))) (fh_base_bytes (fh_handle fhp)))"

section \<open>Settable attributes\<close>

text \<open>The two times, which come last.\<close>

definition decode_sattr3_times :: "(nat \<Rightarrow> be32) \<Rightarrow> nat \<Rightarrow> iattr \<Rightarrow> iattr \<times> nat" where
  "decode_sattr3_times mem p iap =
     (let tmp = ntohl (mem p);
          (iap, p) = (if tmp = 1 then (iap\<lparr>ia_valid := ia_valid iap OR ATTR_ATIME\<rparr>, p + 1)
           else if tmp = 2 then
             (iap\<lparr>ia_valid := ia_valid iap OR (ATTR_ATIME OR ATTR_ATIME_SET),
                  ia_atime := \<lparr>tv_sec = ucast (ntohl (mem (p + 1))), tv_nsec = ucast (ntohl (mem (p + 2)))\<rparr>\<rparr>, p + 3)
           else (iap, p + 1));
          tmp = ntohl (mem p);
          (iap, p) = (if tmp = 1 then (iap\<lparr>ia_valid := ia_valid iap OR ATTR_MTIME\<rparr>, p + 1)
           else if tmp = 2 then
             (iap\<lparr>ia_valid := ia_valid iap OR (ATTR_MTIME OR ATTR_MTIME_SET),
                  ia_mtime := \<lparr>tv_sec = ucast (ntohl (mem (p + 1))), tv_nsec = ucast (ntohl (mem (p + 2)))\<rparr>\<rparr>, p + 3)
           else (iap, p + 1))
      in (iap, p))"

definition decode_sattr3 :: "kernel \<Rightarrow> (nat \<Rightarrow> be32) \<Rightarrow> nat \<Rightarrow> iattr \<Rightarrow> iattr \<times> nat" where
  "decode_sattr3 K mem p iap =
     (let iap = iap\<lparr>ia_valid := 0\<rparr>;
          (iap, p) = (if mem p \<noteq> 0 then
             (iap\<lparr>ia_valid := ia_valid iap OR ATTR_MODE, ia_mode := ucast (ntohl (mem (p + 1)))\<rparr>, p + 2)
           else (iap, p + 1));
          (iap, p) = (if mem p \<noteq> 0 then
             let iap = iap\<lparr>ia_uid := make_kuid K (ntohl (mem (p + 1)))\<rparr>
             in (if uid_valid K (ia_uid iap) then iap\<lparr>ia_valid := ia_valid iap OR ATTR_UID\<rparr> else iap, p + 2)
           else (iap, p + 1));
          (iap, p) = (if mem p \<noteq> 0 then
             let iap = iap\<lparr>ia_gid := make_kgid K (ntohl (mem (p + 1)))\<rparr>
             in (if gid_valid K (ia_gid iap) then iap\<lparr>ia_valid := ia_valid iap OR ATTR_GID\<rparr> else iap, p + 2)
           else (iap, p + 1));
          (iap, p) = (if mem p \<noteq> 0 then
             let (newsize, q) = xdr_decode_hyper mem (p + 1)
             in (iap\<lparr>ia_valid := ia_valid iap OR ATTR_SIZE, ia_size := min newsize NFS_OFFSET_MAX\<rparr>, q)
           else (iap, p + 1))
      in decode_sattr3_times mem p iap)"

text \<open>
  The reference: the \<open>sattr3\<close> of RFC 1813 (section 2.6) as a value, its XDR representation, and the
  attributes it asks for.
\<close>

datatype set_time = Dont_change | Server_time | Client_time u32 u32

record sattr3 =
  s3_mode :: "u32 option"
  s3_uid :: "u32 option"
  s3_gid :: "u32 option"
  s3_size :: "u64 option"
  s3_atime :: set_time
  s3_mtime :: set_time

definition opt_words :: "('a \<Rightarrow> be32 list) \<Rightarrow> 'a option \<Rightarrow> be32 list" where
  "opt_words f v = (case v of None \<Rightarrow> [xdr_zero] | Some x \<Rightarrow> xdr_one # f x)"

definition set_time_words :: "set_time \<Rightarrow> be32 list" where
  "set_time_words t = (case t of
     Dont_change \<Rightarrow> [htonl 0] | Server_time \<Rightarrow> [htonl 1] | Client_time s n \<Rightarrow> [htonl 2, htonl s, htonl n])"

definition set_time_bits :: "set_time \<Rightarrow> u32 \<Rightarrow> u32 \<Rightarrow> u32" where
  "set_time_bits t touch given = (case t of
     Dont_change \<Rightarrow> 0 | Server_time \<Rightarrow> touch | Client_time _ _ \<Rightarrow> touch OR given)"

definition set_time_value :: "set_time \<Rightarrow> timespec \<Rightarrow> timespec" where
  "set_time_value t old = (case t of
     Client_time s n \<Rightarrow> \<lparr>tv_sec = ucast s, tv_nsec = ucast n\<rparr> | _ \<Rightarrow> old)"

definition sattr3_words :: "sattr3 \<Rightarrow> be32 list" where
  "sattr3_words s = opt_words (\<lambda>x. [htonl x]) (s3_mode s) @ opt_words (\<lambda>x. [htonl x]) (s3_uid s) @
     opt_words (\<lambda>x. [htonl x]) (s3_gid s) @ opt_words xdr_encode_hyper (s3_size s) @
     set_time_words (s3_atime s) @ set_time_words (s3_mtime s)"

text \<open>The bits of \<open>ia_valid\<close> that a \<open>sattr3\<close> sets.\<close>

definition sattr3_valid :: "kernel \<Rightarrow> sattr3 \<Rightarrow> u32" where
  "sattr3_valid K s =
     (if s3_mode s \<noteq> None then ATTR_MODE else 0) OR
     (case s3_uid s of Some u \<Rightarrow> if uid_valid K (make_kuid K u) then ATTR_UID else 0 | None \<Rightarrow> 0) OR
     (case s3_gid s of Some g \<Rightarrow> if gid_valid K (make_kgid K g) then ATTR_GID else 0 | None \<Rightarrow> 0) OR
     (if s3_size s \<noteq> None then ATTR_SIZE else 0) OR
     set_time_bits (s3_atime s) ATTR_ATIME ATTR_ATIME_SET OR
     set_time_bits (s3_mtime s) ATTR_MTIME ATTR_MTIME_SET"

definition sattr3_iattr :: "kernel \<Rightarrow> sattr3 \<Rightarrow> iattr \<Rightarrow> iattr" where
  "sattr3_iattr K s iap = iap\<lparr>ia_valid := sattr3_valid K s,
     ia_mode := (case s3_mode s of Some m \<Rightarrow> ucast m | None \<Rightarrow> ia_mode iap),
     ia_uid := (case s3_uid s of Some u \<Rightarrow> make_kuid K u | None \<Rightarrow> ia_uid iap),
     ia_gid := (case s3_gid s of Some g \<Rightarrow> make_kgid K g | None \<Rightarrow> ia_gid iap),
     ia_size := (case s3_size s of Some n \<Rightarrow> min n NFS_OFFSET_MAX | None \<Rightarrow> ia_size iap),
     ia_atime := set_time_value (s3_atime s) (ia_atime iap),
     ia_mtime := set_time_value (s3_mtime s) (ia_mtime iap)\<rparr>"

lemma decode_sattr3_times_reads:
  assumes "holds_at mem p (set_time_words a @ set_time_words m)"
  shows "decode_sattr3_times mem p iap =
    (iap\<lparr>ia_valid := ia_valid iap OR
       set_time_bits a ATTR_ATIME ATTR_ATIME_SET OR
       set_time_bits m ATTR_MTIME ATTR_MTIME_SET,
     ia_atime := set_time_value a (ia_atime iap),
     ia_mtime := set_time_value m (ia_mtime iap)\<rparr>,
     p + length (set_time_words a @ set_time_words m))"
  using assms
  by (cases a; cases m)
     (simp_all add: decode_sattr3_times_def set_time_words_def set_time_bits_def set_time_value_def Let_def numeral_3_eq_3 numeral_2_eq_2 or.assoc)

lemma decode_sattr3_reads:
  assumes "holds_at mem p (sattr3_words s)"
  shows "decode_sattr3 K mem p iap = (sattr3_iattr K s iap, p + length (sattr3_words s))"
proof -
  have nz: "htonl 1 \<noteq> 0" by (simp add: htonl_def)
  define ws where "ws = set_time_words (s3_atime s) @ set_time_words (s3_mtime s)"
  show ?thesis
    using assms unfolding sattr3_words_def ws_def [symmetric]
    by (cases "s3_mode s"; cases "s3_uid s"; cases "s3_gid s"; cases "s3_size s")
       (simp_all add: decode_sattr3_def sattr3_iattr_def sattr3_valid_def opt_words_def or.assoc [symmetric]
          xdr_decode_hyper_def xdr_encode_hyper_def hyper_halves nz ws_def
          decode_sattr3_times_reads [where a = "s3_atime s" and m = "s3_mtime s"])
qed

end
