(* ===== verification/Xdr_Decode.thy ===== *)
theory Xdr_Decode
  imports Xdr_Wire
begin

text \<open>
  The argument decoders of \<open>xdr.c\<close> (\<open>nfs3svc_decode_*\<close>) and the argument structures of \<open>xdr.h\<close>. A
  decoder reads the request head from cell \<open>p\<close> on, fills its argument structure, may take pages of
  the request, and answers whether the arguments were well formed.

  Three functions of \<open>xdr.c\<close> are assignments: the repository ships \<open>decode_file_handle\<close>,
  \<open>decode_file_name\<close> and \<open>encode_fattr3\<close> with bodies that return their position, and \<open>README.md\<close> gives
  the steps of the complete bodies. Everything that calls them takes them as a record \<open>I :: xdr_impl\<close>;
  \<open>shipped\<close> holds the three bodies of \<open>xdr.c\<close>, \<open>readme\<close> the steps of \<open>README.md\<close>, and the locale
  \<open>fh_decoder\<close> is what the callers rely on, met by both.
\<close>

section \<open>The functions left to implement\<close>

record xdr_impl =
  decode_file_handle :: "(nat \<Rightarrow> be32) \<Rightarrow> nat \<Rightarrow> svc_fh \<Rightarrow> hist \<Rightarrow> nat option \<times> svc_fh \<times> hist"
  decode_file_name :: "(nat \<Rightarrow> be32) \<Rightarrow> nat \<Rightarrow> char_p option \<Rightarrow> u32 \<Rightarrow> nat option \<times> char_p option \<times> u32"
  encode_fattr3 :: "kernel \<Rightarrow> svc_rqst \<Rightarrow> be32 list \<Rightarrow> svc_fh \<Rightarrow> kstat \<Rightarrow> hist \<Rightarrow> be32 list \<times> hist"

text \<open>The bodies of \<open>xdr.c\<close>.\<close>

definition shipped_file_handle :: "(nat \<Rightarrow> be32) \<Rightarrow> nat \<Rightarrow> svc_fh \<Rightarrow> hist \<Rightarrow> nat option \<times> svc_fh \<times> hist" where
  "shipped_file_handle mem p fhp h = (Some p, fhp, h)"

definition shipped_file_name ::
  "(nat \<Rightarrow> be32) \<Rightarrow> nat \<Rightarrow> char_p option \<Rightarrow> u32 \<Rightarrow> nat option \<times> char_p option \<times> u32" where
  "shipped_file_name mem p namp lenp = (Some p, namp, lenp)"

definition shipped_fattr3 ::
  "kernel \<Rightarrow> svc_rqst \<Rightarrow> be32 list \<Rightarrow> svc_fh \<Rightarrow> kstat \<Rightarrow> hist \<Rightarrow> be32 list \<times> hist" where
  "shipped_fattr3 K rqstp p fhp stat h = (p, h)"

definition shipped :: xdr_impl where
  "shipped = \<lparr>decode_file_handle = shipped_file_handle, decode_file_name = shipped_file_name,
     encode_fattr3 = shipped_fattr3\<rparr>"

text \<open>
  The steps of \<open>README.md\<close>. The handle is cleared, its limit set to 64, its size read, and that many
  bytes copied over the 128-byte union \<open>fh_base\<close>; the steps ask for no bound, so a size beyond 128 is
  an overrun, shown as a fault. \<open>handle_of_words\<close> reads the union as the fields of the handle.
\<close>

definition handle_of_words :: "u32 \<Rightarrow> u32 list \<Rightarrow> knfsd_fh" where
  "handle_of_words sz ws =
     (let cs = overwrite 0 (take 32 ws) (replicate 32 0); b = le_bytes (cs ! 0)
      in \<lparr>fh_size = sz, fh_version = b ! 0, fh_auth_type = b ! 1, fh_fsid_type = b ! 2,
          fh_fileid_type = b ! 3, fh_fsid = drop 1 cs\<rparr>)"

definition readme_file_handle :: "(nat \<Rightarrow> be32) \<Rightarrow> nat \<Rightarrow> svc_fh \<Rightarrow> hist \<Rightarrow> nat option \<times> svc_fh \<times> hist" where
  "readme_file_handle mem p fhp h =
     (let sz = ntohl (mem p);
          p = p + 1;
          bytes = cstr (char_at mem p) (unat sz);
          h = (if 128 < unat sz then Fault OOPS # h else h)
      in (Some (p + (unat sz + 3) div 4),
          (fh_init 64)\<lparr>fh_handle := handle_of_words sz (words_of_bytes (take 128 bytes))\<rparr>, h))"

definition readme_file_name ::
  "(nat \<Rightarrow> be32) \<Rightarrow> nat \<Rightarrow> char_p option \<Rightarrow> u32 \<Rightarrow> nat option \<times> char_p option \<times> u32" where
  "readme_file_name mem p namp lenp =
     (let len = ntohl (mem p); p = p + 1
      in (Some (p + (unat len + 3) div 4), Some (char_at mem p), len))"

definition readme_fattr3 ::
  "kernel \<Rightarrow> svc_rqst \<Rightarrow> be32 list \<Rightarrow> svc_fh \<Rightarrow> kstat \<Rightarrow> hist \<Rightarrow> be32 list \<times> hist" where
  "readme_fattr3 K rqstp p fhp stat h =
     (let (dentry, h) = deref (fh_dentry fhp) h;
          (ino, h) = inode_of K dentry h;
          p = p @ [htonl (if S_ISDIR (st_mode stat) then 2 else 1), htonl (ucast (st_mode stat)),
                   htonl (st_nlink stat), htonl (st_uid stat), htonl (st_gid stat)];
          p = p @ xdr_encode_hyper (st_size stat);
          p = p @ xdr_encode_hyper (push_bit 9 (st_blocks stat));
          p = p @ [htonl (MAJOR K (st_rdev stat)), htonl (MINOR K (st_rdev stat))];
          p = p @ xdr_encode_hyper (huge_encode_dev K (s_dev (inode_at K h ino)));
          p = p @ xdr_encode_hyper (st_ino stat);
          p = p @ time3_words (st_atime stat) @ time3_words (st_mtime stat) @ time3_words (st_ctime stat)
      in (p, h))"

definition readme :: xdr_impl where
  "readme = \<lparr>decode_file_handle = readme_file_handle, decode_file_name = readme_file_name,
     encode_fattr3 = readme_fattr3\<rparr>"

section \<open>Argument structures\<close>

text \<open>
  Pointers into the request head (\<open>verf\<close>, the base of \<open>first\<close>) are cell positions; \<open>buffer\<close> of a
  directory read is the page it points to the start of.
\<close>

record nfsd_fhandle =
  fha_fh :: svc_fh

record nfsd3_sattrargs =
  sa_fh :: svc_fh
  sa_attrs :: iattr
  sa_check_guard :: u32
  sa_guardtime :: u64

record nfsd3_diropargs =
  da_fh :: svc_fh
  da_name :: "char_p option"
  da_len :: u32

record nfsd3_accessargs =
  aa_fh :: svc_fh
  aa_access :: u32

record nfsd3_readargs =
  ra_fh :: svc_fh
  ra_offset :: u64
  ra_count :: u32
  ra_vlen :: nat

record nfsd3_writeargs =
  wa_fh :: svc_fh
  wa_offset :: u64
  wa_count :: u32
  wa_stable :: u32
  wa_len :: u32
  wa_first :: "nat \<times> u64"

record nfsd3_createargs =
  ca_fh :: svc_fh
  ca_name :: "char_p option"
  ca_len :: u32
  ca_createmode :: u32
  ca_attrs :: iattr
  ca_verf :: "nat option"

record nfsd3_readdirargs =
  rda_fh :: svc_fh
  rda_cookie :: u64
  rda_dircount :: u32
  rda_count :: u32
  rda_verf :: "nat option"
  rda_buffer :: "nat option"

text \<open>The RPC layer clears the argument structure before it is decoded.\<close>

definition zero_fh :: svc_fh where
  "zero_fh = fh_init 0"

definition zero_sattrargs :: nfsd3_sattrargs where
  "zero_sattrargs = \<lparr>sa_fh = zero_fh, sa_attrs = zero_iattr, sa_check_guard = 0, sa_guardtime = 0\<rparr>"

definition zero_diropargs :: nfsd3_diropargs where
  "zero_diropargs = \<lparr>da_fh = zero_fh, da_name = None, da_len = 0\<rparr>"

definition zero_createargs :: nfsd3_createargs where
  "zero_createargs = \<lparr>ca_fh = zero_fh, ca_name = None, ca_len = 0, ca_createmode = 0,
     ca_attrs = zero_iattr, ca_verf = None\<rparr>"

definition zero_readargs :: nfsd3_readargs where
  "zero_readargs = \<lparr>ra_fh = zero_fh, ra_offset = 0, ra_count = 0, ra_vlen = 0\<rparr>"

definition zero_writeargs :: nfsd3_writeargs where
  "zero_writeargs = \<lparr>wa_fh = zero_fh, wa_offset = 0, wa_count = 0, wa_stable = 0, wa_len = 0, wa_first = (0, 0)\<rparr>"

definition zero_readdirargs :: nfsd3_readdirargs where
  "zero_readdirargs = \<lparr>rda_fh = zero_fh, rda_cookie = 0, rda_dircount = 0, rda_count = 0,
     rda_verf = None, rda_buffer = None\<rparr>"

section \<open>Decoders\<close>

text \<open>
  Every decoder starts with the file handle, and most end with \<open>xdr_argsize_check\<close>, which compares the
  position reached with the length of the request head.
\<close>

definition argsize_check :: "kernel \<Rightarrow> svc_rqst \<Rightarrow> nat \<Rightarrow> bool" where
  "argsize_check K rqstp p = xdr_argsize_check K p (unat (rq_arg_head_len rqstp))"

definition nfs3svc_decode_fhandle ::
  "kernel \<Rightarrow> xdr_impl \<Rightarrow> svc_rqst \<Rightarrow> nat \<Rightarrow> nfsd_fhandle \<Rightarrow> hist \<Rightarrow> bool \<times> nfsd_fhandle \<times> svc_rqst \<times> hist" where
  "nfs3svc_decode_fhandle K I rqstp p args h =
     (let mem = rq_arg_head rqstp;
          (p, fh, h) = decode_file_handle I mem p (fha_fh args) h;
          args = args\<lparr>fha_fh := fh\<rparr>
      in (case p of
            None \<Rightarrow> (False, args, rqstp, h)
          | Some p \<Rightarrow> (argsize_check K rqstp p, args, rqstp, h)))"

definition nfs3svc_decode_sattrargs ::
  "kernel \<Rightarrow> xdr_impl \<Rightarrow> svc_rqst \<Rightarrow> nat \<Rightarrow> nfsd3_sattrargs \<Rightarrow> hist \<Rightarrow>
   bool \<times> nfsd3_sattrargs \<times> svc_rqst \<times> hist" where
  "nfs3svc_decode_sattrargs K I rqstp p args h =
     (let mem = rq_arg_head rqstp;
          (p, fh, h) = decode_file_handle I mem p (sa_fh args) h;
          args = args\<lparr>sa_fh := fh\<rparr>
      in (case p of
            None \<Rightarrow> (False, args, rqstp, h)
          | Some p \<Rightarrow>
              let (iap, p) = decode_sattr3 K mem p (sa_attrs args);
                  args = args\<lparr>sa_attrs := iap, sa_check_guard := ntohl (mem p)\<rparr>;
                  p = p + 1;
                  (args, p) = (if sa_check_guard args \<noteq> 0 then
                                 let (time, p) = decode_time3 mem p in (args\<lparr>sa_guardtime := tv_sec time\<rparr>, p)
                               else (args, p))
              in (argsize_check K rqstp p, args, rqstp, h)))"

text \<open>The size check of \<open>nfs3svc_decode_diropargs\<close> is commented out in the source.\<close>

definition nfs3svc_decode_diropargs ::
  "kernel \<Rightarrow> xdr_impl \<Rightarrow> svc_rqst \<Rightarrow> nat \<Rightarrow> nfsd3_diropargs \<Rightarrow> hist \<Rightarrow>
   bool \<times> nfsd3_diropargs \<times> svc_rqst \<times> hist" where
  "nfs3svc_decode_diropargs K I rqstp p args h =
     (let mem = rq_arg_head rqstp;
          (p, fh, h) = decode_file_handle I mem p (da_fh args) h;
          args = args\<lparr>da_fh := fh\<rparr>
      in (case p of
            None \<Rightarrow> (False, args, rqstp, h)
          | Some p \<Rightarrow>
              let (p, name, len) = decode_file_name I mem p (da_name args) (da_len args);
                  args = args\<lparr>da_name := name, da_len := len\<rparr>
              in (p \<noteq> None, args, rqstp, h)))"

definition nfs3svc_decode_accessargs ::
  "kernel \<Rightarrow> xdr_impl \<Rightarrow> svc_rqst \<Rightarrow> nat \<Rightarrow> nfsd3_accessargs \<Rightarrow> hist \<Rightarrow>
   bool \<times> nfsd3_accessargs \<times> svc_rqst \<times> hist" where
  "nfs3svc_decode_accessargs K I rqstp p args h =
     (let mem = rq_arg_head rqstp;
          (p, fh, h) = decode_file_handle I mem p (aa_fh args) h;
          args = args\<lparr>aa_fh := fh\<rparr>
      in (case p of
            None \<Rightarrow> (False, args, rqstp, h)
          | Some p \<Rightarrow> (argsize_check K rqstp (p + 1), args\<lparr>aa_access := ntohl (mem p)\<rparr>, rqstp, h)))"

text \<open>
  The loop that lays the vector of a read over pages of the request: one page per round, its whole
  size or what is left. It returns the entries it wrote and the next free page.
\<close>

function read_vec :: "u32 \<Rightarrow> nat \<Rightarrow> (nat \<times> u32) list \<times> nat" where
  "read_vec len next_page =
     (if len > 0 then
        let iov_len = min len 4096;
            (vec, next_page') = read_vec (len - iov_len) (next_page + 1)
        in ((next_page, iov_len) # vec, next_page')
      else ([], next_page))"
  by pat_completeness auto

lemma read_vec_decreases:
  assumes "len > (0 :: u32)"
  shows "unat (len - min len 4096) < unat len"
proof -
  have "unat (len - min len 4096) = unat len - unat (min len 4096)"
    by (rule unat_sub) simp
  then show ?thesis using assms by (simp add: word_less_nat_alt min_def)
qed

termination read_vec
  by (relation "measure (\<lambda>(len, _). unat len)") (simp_all add: read_vec_decreases del: min_less_iff_conj)

declare read_vec.simps [simp del]

definition nfs3svc_decode_readargs ::
  "kernel \<Rightarrow> xdr_impl \<Rightarrow> svc_rqst \<Rightarrow> nat \<Rightarrow> nfsd3_readargs \<Rightarrow> hist \<Rightarrow>
   bool \<times> nfsd3_readargs \<times> svc_rqst \<times> hist" where
  "nfs3svc_decode_readargs K I rqstp p args h =
     (let max_blocksize = svc_max_payload K h;
          mem = rq_arg_head rqstp;
          (p, fh, h) = decode_file_handle I mem p (ra_fh args) h;
          args = args\<lparr>ra_fh := fh\<rparr>
      in (case p of
            None \<Rightarrow> (False, args, rqstp, h)
          | Some p \<Rightarrow>
              let (offset, p) = xdr_decode_hyper mem p;
                  args = args\<lparr>ra_offset := offset, ra_count := ntohl (mem p)\<rparr>;
                  p = p + 1;
                  len = min (ra_count args) max_blocksize;
                  (vec, next_page) = read_vec len (rq_next_page rqstp);
                  rqstp = rqstp\<lparr>rq_vec := overwrite 0 vec (rq_vec rqstp), rq_next_page := next_page\<rparr>;
                  args = args\<lparr>ra_vlen := length vec\<rparr>
              in (argsize_check K rqstp p, args, rqstp, h)))"

text \<open>Byte counts of a write are \<open>unsigned int\<close>; the sum of the buffer lengths is truncated to it.\<close>

definition nfs3svc_decode_writeargs ::
  "kernel \<Rightarrow> xdr_impl \<Rightarrow> svc_rqst \<Rightarrow> nat \<Rightarrow> nfsd3_writeargs \<Rightarrow> hist \<Rightarrow>
   bool \<times> nfsd3_writeargs \<times> svc_rqst \<times> hist" where
  "nfs3svc_decode_writeargs K I rqstp p args h =
     (let max_blocksize = svc_max_payload K h;
          mem = rq_arg_head rqstp;
          (p, fh, h) = decode_file_handle I mem p (wa_fh args) h;
          args = args\<lparr>wa_fh := fh\<rparr>
      in (case p of
            None \<Rightarrow> (False, args, rqstp, h)
          | Some p \<Rightarrow>
              let (offset, p) = xdr_decode_hyper mem p;
                  len = ntohl (mem (p + 2));
                  args = args\<lparr>wa_offset := offset, wa_count := ntohl (mem p), wa_stable := ntohl (mem (p + 1)),
                              wa_len := len\<rparr>;
                  p = p + 3
              in if 4 * p > unat (rq_arg_head_len rqstp) then (False, args, rqstp, h)
                 else if wa_count args \<noteq> wa_len args then (False, args, rqstp, h)
                 else
                   let hdr = (of_nat (4 * p) :: u32);
                       dlen = (ucast (rq_arg_head_len rqstp + ucast (rq_arg_page_len rqstp) +
                                      rq_arg_tail_len rqstp - ucast hdr) :: u32)
                   in if dlen < XDR_QUADLEN len * 4 then (False, args, rqstp, h)
                      else
                        let args = (if wa_count args > max_blocksize then
                                      args\<lparr>wa_count := max_blocksize, wa_len := max_blocksize\<rparr>
                                    else args)
                        in (True, args\<lparr>wa_first := (p, rq_arg_head_len rqstp - ucast hdr)\<rparr>, rqstp, h)))"

definition nfs3svc_decode_createargs ::
  "kernel \<Rightarrow> xdr_impl \<Rightarrow> svc_rqst \<Rightarrow> nat \<Rightarrow> nfsd3_createargs \<Rightarrow> hist \<Rightarrow>
   bool \<times> nfsd3_createargs \<times> svc_rqst \<times> hist" where
  "nfs3svc_decode_createargs K I rqstp p args h =
     (let mem = rq_arg_head rqstp;
          (p, fh, h) = decode_file_handle I mem p (ca_fh args) h;
          args = args\<lparr>ca_fh := fh\<rparr>
      in (case p of
            None \<Rightarrow> (False, args, rqstp, h)
          | Some p \<Rightarrow>
              let (p, name, len) = decode_file_name I mem p (ca_name args) (ca_len args);
                  args = args\<lparr>ca_name := name, ca_len := len\<rparr>
              in (case p of
                    None \<Rightarrow> (False, args, rqstp, h)
                  | Some p \<Rightarrow>
                      let args = args\<lparr>ca_createmode := ntohl (mem p)\<rparr>;
                          p = p + 1
                      in if ca_createmode args = NFS3_CREATE_UNCHECKED \<or>
                            ca_createmode args = NFS3_CREATE_GUARDED then
                           let (iap, p) = decode_sattr3 K mem p (ca_attrs args)
                           in (argsize_check K rqstp p, args\<lparr>ca_attrs := iap\<rparr>, rqstp, h)
                         else if ca_createmode args = NFS3_CREATE_EXCLUSIVE then
                           (argsize_check K rqstp (p + 2), args\<lparr>ca_verf := Some p\<rparr>, rqstp, h)
                         else (False, args, rqstp, h))))"

definition nfs3svc_decode_mkdirargs ::
  "kernel \<Rightarrow> xdr_impl \<Rightarrow> svc_rqst \<Rightarrow> nat \<Rightarrow> nfsd3_createargs \<Rightarrow> hist \<Rightarrow>
   bool \<times> nfsd3_createargs \<times> svc_rqst \<times> hist" where
  "nfs3svc_decode_mkdirargs K I rqstp p args h =
     (let mem = rq_arg_head rqstp;
          (p, fh, h) = decode_file_handle I mem p (ca_fh args) h;
          args = args\<lparr>ca_fh := fh\<rparr>
      in (case p of
            None \<Rightarrow> (False, args, rqstp, h)
          | Some p \<Rightarrow>
              let (p, name, len) = decode_file_name I mem p (ca_name args) (ca_len args);
                  args = args\<lparr>ca_name := name, ca_len := len\<rparr>
              in (case p of
                    None \<Rightarrow> (False, args, rqstp, h)
                  | Some p \<Rightarrow>
                      let (iap, p) = decode_sattr3 K mem p (ca_attrs args)
                      in (argsize_check K rqstp p, args\<lparr>ca_attrs := iap\<rparr>, rqstp, h))))"

definition nfs3svc_decode_readdirargs ::
  "kernel \<Rightarrow> xdr_impl \<Rightarrow> svc_rqst \<Rightarrow> nat \<Rightarrow> nfsd3_readdirargs \<Rightarrow> hist \<Rightarrow>
   bool \<times> nfsd3_readdirargs \<times> svc_rqst \<times> hist" where
  "nfs3svc_decode_readdirargs K I rqstp p args h =
     (let mem = rq_arg_head rqstp;
          (p, fh, h) = decode_file_handle I mem p (rda_fh args) h;
          args = args\<lparr>rda_fh := fh\<rparr>
      in (case p of
            None \<Rightarrow> (False, args, rqstp, h)
          | Some p \<Rightarrow>
              let (cookie, p) = xdr_decode_hyper mem p;
                  args = args\<lparr>rda_cookie := cookie, rda_verf := Some p, rda_dircount := 0xFFFFFFFF,
                              rda_count := min (ntohl (mem (p + 2))) 4096,
                              rda_buffer := Some (rq_next_page rqstp)\<rparr>;
                  rqstp = rqstp\<lparr>rq_next_page := rq_next_page rqstp + 1\<rparr>
              in (argsize_check K rqstp (p + 3), args, rqstp, h)))"

text \<open>The loop that takes pages for a reply; the length is a signed \<open>int\<close>.\<close>

function readdirplus_pages :: "int \<Rightarrow> nat \<Rightarrow> nat option \<Rightarrow> nat \<times> nat option" where
  "readdirplus_pages len next_page buffer =
     (if len > 0 then
        readdirplus_pages (len - 4096) (next_page + 1)
          (case buffer of None \<Rightarrow> Some next_page | Some b \<Rightarrow> Some b)
      else (next_page, buffer))"
  by pat_completeness auto

termination readdirplus_pages
  by (relation "measure (\<lambda>(len, _, _). nat len)") auto

declare readdirplus_pages.simps [simp del]

definition nfs3svc_decode_readdirplusargs ::
  "kernel \<Rightarrow> xdr_impl \<Rightarrow> svc_rqst \<Rightarrow> nat \<Rightarrow> nfsd3_readdirargs \<Rightarrow> hist \<Rightarrow>
   bool \<times> nfsd3_readdirargs \<times> svc_rqst \<times> hist" where
  "nfs3svc_decode_readdirplusargs K I rqstp p args h =
     (let max_blocksize = svc_max_payload K h;
          mem = rq_arg_head rqstp;
          (p, fh, h) = decode_file_handle I mem p (rda_fh args) h;
          args = args\<lparr>rda_fh := fh\<rparr>
      in (case p of
            None \<Rightarrow> (False, args, rqstp, h)
          | Some p \<Rightarrow>
              let (cookie, p) = xdr_decode_hyper mem p;
                  args = args\<lparr>rda_cookie := cookie, rda_verf := Some p, rda_dircount := ntohl (mem (p + 2)),
                              rda_count := min (ntohl (mem (p + 3))) max_blocksize\<rparr>;
                  (next_page, buffer) =
                    readdirplus_pages (sint (rda_count args)) (rq_next_page rqstp) (rda_buffer args);
                  rqstp = rqstp\<lparr>rq_next_page := next_page\<rparr>
              in (argsize_check K rqstp (p + 4), args\<lparr>rda_buffer := buffer\<rparr>, rqstp, h)))"

section \<open>What the callers rely on\<close>

text \<open>A handle that was decoded and not yet verified.\<close>

definition unverified :: "svc_fh \<Rightarrow> bool" where
  "unverified fh \<longleftrightarrow> fh_wf fh \<and> fh_dentry fh = None"

lemma unverified_init [simp]: "unverified (fh_init m)" "unverified zero_fh"
  by (simp_all add: unverified_def zero_fh_def)

lemma unverified_wire [simp]: "unverified (wire_fh fh)"
  by (simp add: unverified_def fh_simps)

locale fh_decoder =
  fixes I :: xdr_impl
  assumes decoded: "decode_file_handle I mem p fh h = (r, fh', h') \<Longrightarrow> unverified fh \<Longrightarrow>
      unverified fh' \<and> (\<forall>x. refs x h' = refs x h)"
begin

lemma fhandle_args:
  "nfs3svc_decode_fhandle K I rqstp p a h = (ok, a', rq, h') \<Longrightarrow> unverified (fha_fh a) \<Longrightarrow>
   unverified (fha_fh a') \<and> (\<forall>x. refs x h' = refs x h)"
  using decoded
  by (fastforce simp: nfs3svc_decode_fhandle_def Let_def split: prod.splits option.splits)

lemma sattr_args:
  "nfs3svc_decode_sattrargs K I rqstp p a h = (ok, a', rq, h') \<Longrightarrow> unverified (sa_fh a) \<Longrightarrow>
   unverified (sa_fh a') \<and> (\<forall>x. refs x h' = refs x h)"
  using decoded
  by (fastforce simp: nfs3svc_decode_sattrargs_def Let_def split: prod.splits option.splits if_splits)

lemma dirop_args:
  "nfs3svc_decode_diropargs K I rqstp p a h = (ok, a', rq, h') \<Longrightarrow> unverified (da_fh a) \<Longrightarrow>
   unverified (da_fh a') \<and> (\<forall>x. refs x h' = refs x h)"
  using decoded
  by (fastforce simp: nfs3svc_decode_diropargs_def Let_def split: prod.splits option.splits)

lemma access_args:
  "nfs3svc_decode_accessargs K I rqstp p a h = (ok, a', rq, h') \<Longrightarrow> unverified (aa_fh a) \<Longrightarrow>
   unverified (aa_fh a') \<and> (\<forall>x. refs x h' = refs x h)"
  using decoded
  by (fastforce simp: nfs3svc_decode_accessargs_def Let_def split: prod.splits option.splits)

lemma read_args:
  "nfs3svc_decode_readargs K I rqstp p a h = (ok, a', rq, h') \<Longrightarrow> unverified (ra_fh a) \<Longrightarrow>
   unverified (ra_fh a') \<and> (\<forall>x. refs x h' = refs x h)"
  using decoded
  by (fastforce simp: nfs3svc_decode_readargs_def Let_def split: prod.splits option.splits)

lemma write_args:
  "nfs3svc_decode_writeargs K I rqstp p a h = (ok, a', rq, h') \<Longrightarrow> unverified (wa_fh a) \<Longrightarrow>
   unverified (wa_fh a') \<and> (\<forall>x. refs x h' = refs x h)"
  using decoded
  by (fastforce simp: nfs3svc_decode_writeargs_def Let_def split: prod.splits option.splits if_splits)

lemma create_args:
  "nfs3svc_decode_createargs K I rqstp p a h = (ok, a', rq, h') \<Longrightarrow> unverified (ca_fh a) \<Longrightarrow>
   unverified (ca_fh a') \<and> (\<forall>x. refs x h' = refs x h)"
  using decoded
  by (fastforce simp: nfs3svc_decode_createargs_def Let_def split: prod.splits option.splits if_splits)

lemma mkdir_args:
  "nfs3svc_decode_mkdirargs K I rqstp p a h = (ok, a', rq, h') \<Longrightarrow> unverified (ca_fh a) \<Longrightarrow>
   unverified (ca_fh a') \<and> (\<forall>x. refs x h' = refs x h)"
  using decoded
  by (fastforce simp: nfs3svc_decode_mkdirargs_def Let_def split: prod.splits option.splits)

lemma readdir_args:
  "nfs3svc_decode_readdirargs K I rqstp p a h = (ok, a', rq, h') \<Longrightarrow> unverified (rda_fh a) \<Longrightarrow>
   unverified (rda_fh a') \<and> (\<forall>x. refs x h' = refs x h)"
  using decoded
  by (fastforce simp: nfs3svc_decode_readdirargs_def Let_def split: prod.splits option.splits)

lemma readdirplus_args:
  "nfs3svc_decode_readdirplusargs K I rqstp p a h = (ok, a', rq, h') \<Longrightarrow> unverified (rda_fh a) \<Longrightarrow>
   unverified (rda_fh a') \<and> (\<forall>x. refs x h' = refs x h)"
  using decoded
  by (fastforce simp: nfs3svc_decode_readdirplusargs_def Let_def split: prod.splits option.splits)

end

interpretation shipped_decoder: fh_decoder shipped
  by unfold_locales (simp add: shipped_def shipped_file_handle_def)

interpretation readme_decoder: fh_decoder readme
  by unfold_locales
     (auto simp: readme_def readme_file_handle_def Let_def unverified_def ledger_simps split: if_splits)

section \<open>Handles and names over the wire\<close>

text \<open>A handle whose bytes beyond its size are zero, as \<open>fh_compose\<close> builds them.\<close>

definition wire_handle :: "knfsd_fh \<Rightarrow> bool" where
  "wire_handle fh \<longleftrightarrow> 4 \<le> unat (fh_size fh) \<and> unat (fh_size fh) \<le> 128 \<and> 4 dvd unat (fh_size fh) \<and>
     length (fh_fsid fh) = 31 \<and>
     drop (unat (fh_size fh) div 4 - 1) (fh_fsid fh) = replicate (32 - unat (fh_size fh) div 4) 0"

lemma take_bytes_of_words: "take (4 * n) (bytes_of_words ws) = bytes_of_words (take n ws)"
proof (induction ws arbitrary: n)
  case (Cons w ws)
  then show ?case by (cases n) simp_all
qed simp

lemma encode_fh_wire:
  assumes "wire_handle (fh_handle fhp)"
  shows "encode_fh p fhp = p @ htonl (fh_size (fh_handle fhp)) #
    take (unat (fh_size (fh_handle fhp)) div 4) (fh_base_words (fh_handle fhp))"
proof -
  have "take (unat (fh_size (fh_handle fhp))) (fh_base_bytes (fh_handle fhp)) =
      bytes_of_words (take (unat (fh_size (fh_handle fhp)) div 4) (fh_base_words (fh_handle fhp)))"
    using assms take_bytes_of_words [of "unat (fh_size (fh_handle fhp)) div 4"]
    by (simp add: wire_handle_def fh_base_bytes_def)
  then show ?thesis by (simp add: encode_fh_def)
qed

lemma handle_of_words_wire:
  assumes "wire_handle fh"
  shows "handle_of_words (fh_size fh) (take (unat (fh_size fh) div 4) (fh_base_words fh)) = fh"
proof -
  obtain k where k: "unat (fh_size fh) div 4 = Suc k" "k < 32"
    using assms unfolding wire_handle_def by (cases "unat (fh_size fh) div 4") auto
  have "take k (fh_fsid fh) @ replicate (31 - k) 0 = fh_fsid fh"
    using assms k append_take_drop_id [of k "fh_fsid fh"] by (simp add: wire_handle_def)
  then show ?thesis
    using assms k
    by (simp add: handle_of_words_def fh_base_words_def overwrite_def wire_handle_def Let_def
        min_def)
qed

end
