(* ===== verification/Xdr_Decode_Properties.thy ===== *)
theory Xdr_Decode_Properties
  imports Xdr_Decode
begin

text \<open>
  What the argument decoders guarantee: handles, names and attributes are read as RFC 1813 encodes
  them, a read never asks for more than the server's block size, and a write is accepted only when
  its data arrived, up to one wrap-around of the length check.
\<close>

section \<open>Reading handles and names\<close>

lemma readme_file_handle_reads:
  assumes "holds_at mem p (encode_fh [] fhp)" and "wire_handle (fh_handle fhp)"
  shows "decode_file_handle readme mem p fh0 h =
    (Some (p + length (encode_fh [] fhp)), wire_fh (fh_handle fhp), h)"
proof -
  let ?fh = "fh_handle fhp"
  define ws where "ws = take (unat (fh_size ?fh) div 4) (fh_base_words ?fh)"
  have len: "4 * length ws = unat (fh_size ?fh)" "unat (fh_size ?fh) \<le> 128"
    using assms(2) by (auto simp: ws_def wire_handle_def fh_base_words_def)
  have mem: "mem p = htonl (fh_size ?fh)" "holds_at mem (Suc p) ws"
    using assms(1) by (simp_all add: encode_fh_wire [OF assms(2)] ws_def)
  have "words_of_bytes (cstr (char_at mem (Suc p)) (unat (fh_size ?fh))) = ws"
    using cstr_char_at [OF mem(2), of "unat (fh_size ?fh)"] len by simp
  moreover have "handle_of_words (fh_size ?fh) ws = ?fh"
    using handle_of_words_wire [OF assms(2)] by (simp add: ws_def)
  moreover have "(unat (fh_size ?fh) + 3) div 4 = length ws" using len by presburger
  ultimately show ?thesis
    using mem len encode_fh_wire [OF assms(2), of "[]"]
    by (simp add: readme_def readme_file_handle_def Let_def wire_fh_def flip: ws_def)
qed

lemma readme_file_name_reads:
  assumes "holds_at mem p (xdr_encode_array name)" and "length name < 2 ^ 32"
  shows "decode_file_name readme mem p namp lenp =
    (Some (p + length (xdr_encode_array name)), Some (char_at mem (Suc p)), of_nat (length name))"
    "cstr (char_at mem (Suc p)) (length name) = name"
proof -
  have mem: "mem p = htonl (of_nat (length name))" "holds_at mem (Suc p) (words_of_bytes name)"
    using assms(1) by (simp_all add: xdr_encode_array_def)
  have "unat (of_nat (length name) :: u32) = length name"
    using assms(2) by (simp add: unat_of_nat)
  then show "decode_file_name readme mem p namp lenp =
      (Some (p + length (xdr_encode_array name)), Some (char_at mem (Suc p)), of_nat (length name))"
    using mem by (simp add: readme_def readme_file_name_def Let_def)
  show "cstr (char_at mem (Suc p)) (length name) = name"
    using cstr_char_at [OF mem(2), of "length name"] by simp
qed

lemma fh_compose_wire:
  assumes c: "fh_compose K (fh_init NFS3_FHSIZE) exp dentry r h = (0, fhp', h')"
    and p: "d_inode K h dentry \<noteq> None" and ok: "encode_fh_ok K"
  shows "wire_handle (fh_handle fhp')"
proof -
  have tail: "drop (2 + k) (fh_fsid (export_handle K dev ino)) = replicate (29 - k) 0" for dev ino k
    by (simp add: export_handle_def)
  show ?thesis
    using c p
  proof (cases rule: fh_compose_init)
    case (at_root dev ino)
    then show ?thesis using tail [of 0 dev ino] by (simp add: wire_handle_def fh_simps)
  next
    case (at_file dev ino g t n ws)
    then have n: "n \<le> 13" and l: "length ws = unat n"
      using ok unfolding encode_fh_ok_def by blast+
    have "unat n \<le> 13" using n by (simp add: word_le_nat_alt)
    then show ?thesis using at_file l unat_words_size [OF n] tail [of "unat n" dev ino]
      by (simp add: wire_handle_def fh_simps overwrite_def)
  qed
qed

section \<open>Properties\<close>

text \<open>\<open>xdr_argsize_check\<close> compares the position reached with the bytes received.\<close>

definition argsize_ok :: "kernel \<Rightarrow> bool" where
  "argsize_ok K \<longleftrightarrow> (\<forall>p len. xdr_argsize_check K p len \<longleftrightarrow> 4 * p \<le> len)"

lemma argsize_check_iff: "argsize_ok K \<Longrightarrow> argsize_check K rqstp p \<longleftrightarrow> 4 * p \<le> unat (rq_arg_head_len rqstp)"
  by (simp add: argsize_ok_def argsize_check_def)

lemma sample_argsize_ok: "argsize_ok sample_kernel"
  by (simp add: argsize_ok_def sample_kernel_def)





text \<open>The optional guard of \<open>SETATTR\<close>.\<close>

definition guard_words :: "timespec option \<Rightarrow> be32 list" where
  "guard_words = opt_words time3_words"

text \<open>
  C28: the arguments of \<open>SETATTR\<close>. From the RFC 1813 encoding of a handle, settable attributes and an
  optional guard, \<open>nfs3svc_decode_sattrargs\<close> reads exactly what they mean: the handle, the attribute
  mask and values, and the guard time. It accepts them exactly when the received bytes reach the end
  of the encoding.
\<close>

theorem sattrargs_reads:
  assumes "argsize_ok K" and "wire_handle (fh_handle fhp)"
    and "holds_at (rq_arg_head rqstp) p ws" and "ws = encode_fh [] fhp @ sattr3_words s @ guard_words guard"
    and "\<forall>t\<in>set_option guard. time3_ok t"
  shows "nfs3svc_decode_sattrargs K readme rqstp p args h =
    (4 * (p + length ws) \<le> unat (rq_arg_head_len rqstp),
     \<lparr>sa_fh = wire_fh (fh_handle fhp), sa_attrs = sattr3_iattr K s (sa_attrs args),
      sa_check_guard = of_bool (guard \<noteq> None),
      sa_guardtime = (case guard of None \<Rightarrow> sa_guardtime args | Some t \<Rightarrow> tv_sec t)\<rparr>, rqstp, h)"
proof -
  let ?mem = "rq_arg_head rqstp"
  define p1 where "p1 = p + length (encode_fh [] fhp)"
  define p2 where "p2 = p1 + length (sattr3_words s)"
  have m: "holds_at ?mem p (encode_fh [] fhp)" "holds_at ?mem p1 (sattr3_words s)"
    "holds_at ?mem p2 (guard_words guard)"
    using assms(3,4) by (simp_all add: p1_def p2_def add.assoc)
  note fh = readme_file_handle_reads [OF m(1) assms(2), folded p1_def]
  note at = decode_sattr3_reads [OF m(2), folded p2_def]
  have len: "p + length ws = p2 + length (guard_words guard)"
    using assms(4) by (simp add: p1_def p2_def)
  have nz: "htonl 1 \<noteq> 0" by (simp add: htonl_def)
  show ?thesis
  proof (cases guard)
    case None
    then show ?thesis using m(3) fh at len assms(1)
      by (cases args) (simp add: nfs3svc_decode_sattrargs_def argsize_check_iff guard_words_def opt_words_def Let_def)
  next
    case (Some t)
    then have g: "?mem p2 = htonl 1" "holds_at ?mem (Suc p2) (time3_words t)" and ok: "time3_ok t"
      using m(3) assms(5) by (simp_all add: guard_words_def opt_words_def)
    then show ?thesis using Some fh at len assms(1) time3_codec.decode_encode [OF ok g(2)]
      by (cases args) (simp add: nfs3svc_decode_sattrargs_def argsize_check_iff guard_words_def opt_words_def Let_def nz)
  qed
qed

definition sample_sattr3 :: sattr3 where
  "sample_sattr3 = \<lparr>s3_mode = Some 0x1A4, s3_uid = None, s3_gid = None, s3_size = Some 0,
     s3_atime = Dont_change, s3_mtime = Client_time 7 0\<rparr>"

theorem sattrargs_reads_witness:
  "\<exists>args'. nfs3svc_decode_sattrargs sample_kernel readme
      (sample_rqst\<lparr>rq_arg_head := mem_of (encode_fh [] (wire_fh (export_handle sample_kernel 1 2)) @
         sattr3_words sample_sattr3 @ guard_words (Some \<lparr>tv_sec = 5, tv_nsec = 0\<rparr>)), rq_arg_head_len := 72\<rparr>) 0 zero_sattrargs [] =
      (True, args', sample_rqst\<lparr>rq_arg_head := mem_of (encode_fh [] (wire_fh (export_handle sample_kernel 1 2)) @
         sattr3_words sample_sattr3 @ guard_words (Some \<lparr>tv_sec = 5, tv_nsec = 0\<rparr>)), rq_arg_head_len := 72\<rparr>, []) \<and>
    sa_guardtime args' = 5 \<and> sa_fh args' = wire_fh (export_handle sample_kernel 1 2)"
proof -
  have w: "wire_handle (fh_handle (wire_fh (export_handle sample_kernel 1 2)))"
    by (simp add: wire_handle_def fh_simps) (simp add: export_handle_def)
  have t: "\<forall>t\<in>set_option (Some \<lparr>tv_sec = 5, tv_nsec = 0\<rparr>). time3_ok t" by (simp add: time3_ok_def)
  have l: "length (sattr3_words sample_sattr3) = 11" "length (guard_words (Some \<lparr>tv_sec = 5, tv_nsec = 0\<rparr>)) = 3"
    "length (encode_fh [] (wire_fh (export_handle sample_kernel 1 2))) = 4"
    by code_simp+
  from sattrargs_reads [OF sample_argsize_ok w _ refl t, of "sample_rqst\<lparr>rq_arg_head :=
      mem_of (encode_fh [] (wire_fh (export_handle sample_kernel 1 2)) @ sattr3_words sample_sattr3 @
        guard_words (Some \<lparr>tv_sec = 5, tv_nsec = 0\<rparr>)), rq_arg_head_len := 72\<rparr>" 0 sample_sattr3 zero_sattrargs "[]"]
  show ?thesis by (simp add: fh_simps l del: holds_at_append)
qed

section \<open>Reads and writes\<close>

lemma read_vec_sound:
  "read_vec len pg = (vec, pg') \<Longrightarrow>
     map fst vec = [pg..<pg'] \<and> pg' = pg + (unat len + 4095) div 4096 \<and>
     sum_list (map (unat \<circ> snd) vec) = unat len \<and> (\<forall>(i, n)\<in>set vec. 0 < n \<and> n \<le> 4096)"
proof (induction len pg arbitrary: vec pg' rule: read_vec.induct)
  case (1 len pg)
  show ?case
  proof (cases "len > 0")
    case False
    then show ?thesis using "1.prems" by (simp add: read_vec.simps word_less_nat_alt)
  next
    case True
    define n where "n = min len 4096"
    obtain v q where r: "read_vec (len - n) (pg + 1) = (v, q)" by fastforce
    have un: "unat n = min (unat len) 4096" by (simp add: n_def min_def word_le_nat_alt)
    have ul: "unat (len - n) = unat len - unat n" by (rule unat_sub) (simp add: n_def)
    have pos: "0 < unat len" using True by (simp add: word_less_nat_alt)
    have v: "vec = (pg, n) # v" "pg' = q"
      using "1.prems" True r read_vec.simps [of len pg] by (auto simp: Let_def n_def)
    note ih = "1.IH" [OF True n_def r]
    have "q = pg + (unat len + 4095) div 4096"
      using ih ul un pos by (cases "unat len \<le> 4096") (auto simp: min_def)
    moreover have "pg < q" using calculation pos by (simp add: div_greater_zero_iff)
    ultimately show ?thesis
      using ih v ul un pos upt_conv_Cons [of pg q]
      by (auto simp: n_def word_less_nat_alt word_le_nat_alt min_def)
  qed
qed

text \<open>
  C30: the buffer of a \<open>READ\<close>. \<open>nfs3svc_decode_readargs\<close> lays it over as many consecutive free pages of
  the request as the smaller of the requested count and the server's largest payload needs, each
  filled to at most a page, and together exactly that many bytes.
\<close>

theorem readargs_vector:
  assumes "nfs3svc_decode_readargs K I rqstp p args h = (ok, args', rqstp', h')"
    and "decode_file_handle I (rq_arg_head rqstp) p (ra_fh args) h = (Some q, fh, g)"
  shows "let vec = take (ra_vlen args') (rq_vec rqstp'); len = min (ra_count args') (svc_max_payload K h)
    in ra_vlen args' = (unat len + 4095) div 4096 \<and>
       map fst vec = [rq_next_page rqstp..<rq_next_page rqstp'] \<and> length vec = ra_vlen args' \<and>
       sum_list (map (unat \<circ> snd) vec) = unat len \<and> (\<forall>(i, n)\<in>set vec. 0 < n \<and> n \<le> 4096)"
proof -
  define len where "len = min (ntohl (rq_arg_head rqstp (q + 2))) (svc_max_payload K h)"
  obtain vec pg where r: "read_vec len (rq_next_page rqstp) = (vec, pg)" by fastforce
  have a: "ra_vlen args' = length vec" "rq_vec rqstp' = overwrite 0 vec (rq_vec rqstp)"
    "rq_next_page rqstp' = pg" "min (ra_count args') (svc_max_payload K h) = len"
    using assms r by (auto simp: nfs3svc_decode_readargs_def xdr_decode_hyper_def Let_def len_def)
  note s = read_vec_sound [OF r]
  have "length vec = length (map fst vec)" by simp
  also have "\<dots> = (unat len + 4095) div 4096" using s by (metis add_diff_cancel_left' length_upt)
  finally show ?thesis using a s by (simp add: Let_def overwrite_def)
qed

theorem readargs_vector_witness:
  "case nfs3svc_decode_readargs sample_kernel readme
      (sample_rqst\<lparr>rq_arg_head := mem_of (encode_fh [] (wire_fh (export_handle sample_kernel 1 2)) @
         xdr_encode_hyper 0 @ [htonl 5000])\<rparr>) 0 zero_readargs [] of
     (ok, args', rqstp', h') \<Rightarrow> ra_count args' = 5000 \<and> ra_vlen args' = 2"
proof -
  let ?rq = "sample_rqst\<lparr>rq_arg_head := mem_of (encode_fh [] (wire_fh (export_handle sample_kernel 1 2)) @
         xdr_encode_hyper 0 @ [htonl 5000])\<rparr>"
  obtain ok args' rqstp' h' where r: "nfs3svc_decode_readargs sample_kernel readme ?rq 0 zero_readargs [] =
      (ok, args', rqstp', h')" by (metis prod_cases4)
  have "case nfs3svc_decode_readargs sample_kernel readme ?rq 0 zero_readargs [] of
      (ok, args', rqstp', h') \<Rightarrow> ra_count args' = 5000"
    by code_simp
  then have c: "ra_count args' = 5000" using r by simp
  obtain q fh g where f: "decode_file_handle readme (rq_arg_head ?rq) 0 (ra_fh zero_readargs) [] = (Some q, fh, g)"
    by (auto simp: readme_def readme_file_handle_def Let_def)
  have "svc_max_payload sample_kernel [] = 0x100000" by (simp add: sample_kernel_def)
  then show ?thesis using readargs_vector [OF r f] r c by (simp add: Let_def)
qed

text \<open>The bytes of a request, in the three parts of its buffer.\<close>

definition received :: "svc_rqst \<Rightarrow> nat" where
  "received rqstp = unat (rq_arg_head_len rqstp) + unat (rq_arg_page_len rqstp) + unat (rq_arg_tail_len rqstp)"

lemma unat_ucast_up: "unat (ucast (w :: u32) :: u64) = unat w"
  by (simp only: unsigned_ucast_eq) (rule take_bit_nat_eq_self, rule less_le_trans, rule unsigned_less, simp)

lemma write_dlen:
  assumes "received rqstp < 2 ^ 32" and "4 * p \<le> unat (rq_arg_head_len rqstp)"
  shows "unat (ucast (rq_arg_head_len rqstp + ucast (rq_arg_page_len rqstp) + rq_arg_tail_len rqstp -
      ucast (of_nat (4 * p) :: u32)) :: u32) = received rqstp - 4 * p"
    and "unat (rq_arg_head_len rqstp - ucast (of_nat (4 * p) :: u32)) = unat (rq_arg_head_len rqstp) - 4 * p"
proof -
  let ?hdr = "ucast (of_nat (4 * p) :: u32) :: u64"
  have b: "unat (rq_arg_head_len rqstp) + unat (rq_arg_page_len rqstp) + unat (rq_arg_tail_len rqstp) < 2 ^ 32"
    using assms(1) by (simp add: received_def)
  have h: "unat ?hdr = 4 * p"
  proof -
    have "unat (of_nat (4 * p) :: u32) = 4 * p" using b assms(2) by (simp only: unat_of_nat) simp
    then show ?thesis by (simp only: unat_ucast_up)
  qed
  have pl: "unat (ucast (rq_arg_page_len rqstp) :: u64) = unat (rq_arg_page_len rqstp)" by (rule unat_ucast_up)
  have s1: "unat (rq_arg_head_len rqstp + ucast (rq_arg_page_len rqstp)) =
      unat (rq_arg_head_len rqstp) + unat (rq_arg_page_len rqstp)"
    using b pl by (subst unat_add_lem [THEN iffD1]) simp_all
  have s2: "unat (rq_arg_head_len rqstp + ucast (rq_arg_page_len rqstp) + rq_arg_tail_len rqstp) = received rqstp"
    using b s1 by (subst unat_add_lem [THEN iffD1]) (simp_all add: received_def)
  have s3: "unat (rq_arg_head_len rqstp + ucast (rq_arg_page_len rqstp) + rq_arg_tail_len rqstp - ?hdr) =
      received rqstp - 4 * p"
    using s2 h assms(2) by (subst unat_sub) (simp_all add: word_le_nat_alt received_def)
  show "unat (ucast (rq_arg_head_len rqstp + ucast (rq_arg_page_len rqstp) + rq_arg_tail_len rqstp - ?hdr) :: u32) =
      received rqstp - 4 * p"
    using s3 assms(1) by (simp only: unsigned_ucast_eq) (simp add: take_bit_nat_eq_self)
  show "unat (rq_arg_head_len rqstp - ?hdr) = unat (rq_arg_head_len rqstp) - 4 * p"
    using h assms(2) by (subst unat_sub) (simp_all add: word_le_nat_alt)
qed

text \<open>
  C31: a \<open>WRITE\<close> whose announced length does not wrap the length check is accepted only with its data:
  the count equals the length, both are the announced length or the server's largest payload, and the
  request really holds the announced bytes with their padding after the header. The first buffer is
  the rest of the request head.
\<close>

theorem writeargs_data_received:
  assumes "nfs3svc_decode_writeargs K I rqstp p args h = (True, args', rqstp', h')"
    and "received rqstp < 2 ^ 32"
    and "announced = ntohl (rq_arg_head rqstp (fst (wa_first args') - 1))" and "announced < 0xFFFFFFFD"
  shows "wa_len args' = min announced (svc_max_payload K h) \<and> wa_count args' = wa_len args' \<and>
    4 * fst (wa_first args') + 4 * ((unat announced + 3) div 4) \<le> received rqstp \<and>
    unat (snd (wa_first args')) = unat (rq_arg_head_len rqstp) - 4 * fst (wa_first args')"
proof -
  obtain q fh g where f: "decode_file_handle I (rq_arg_head rqstp) p (wa_fh args) h = (Some q, fh, g)"
    using assms(1) by (auto simp: nfs3svc_decode_writeargs_def Let_def split: prod.splits option.splits)
  define p1 where "p1 = q + 2 + 3"
  have i: "p1 - 1 = q + 2 + 2" by (simp add: p1_def)
  have r: "fst (wa_first args') = p1" "4 * p1 \<le> unat (rq_arg_head_len rqstp)"
    "snd (wa_first args') = rq_arg_head_len rqstp - ucast (of_nat (4 * p1) :: u32)"
    "wa_count args' = wa_len args'"
    "\<not> ucast (rq_arg_head_len rqstp + ucast (rq_arg_page_len rqstp) + rq_arg_tail_len rqstp -
        ucast (of_nat (4 * p1) :: u32)) < XDR_QUADLEN (ntohl (rq_arg_head rqstp (q + 2 + 2))) * 4"
    "wa_len args' = (if ntohl (rq_arg_head rqstp (q + 2 + 2)) > svc_max_payload K h then svc_max_payload K h
       else ntohl (rq_arg_head rqstp (q + 2 + 2)))"
    using assms(1) f
    by (auto simp: nfs3svc_decode_writeargs_def xdr_decode_hyper_def Let_def p1_def split: if_splits)
  have a: "announced = ntohl (rq_arg_head rqstp (q + 2 + 2))" using assms(3) r(1) i by simp
  have q4: "unat (XDR_QUADLEN announced * 4) = 4 * ((unat announced + 3) div 4)"
  proof -
    have "unat announced < 2 ^ 32 - 3" using assms(4) by (simp add: word_less_nat_alt)
    then have "unat (XDR_QUADLEN announced) = (unat announced + 3) div 4" "4 * ((unat announced + 3) div 4) < 2 ^ 32"
      by (simp_all add: XDR_QUADLEN_unat)
    then show ?thesis by (simp add: unat_word_ariths mult.commute)
  qed
  show ?thesis
    using r(1-4,6) r(5) [folded a, unfolded word_less_nat_alt q4 write_dlen(1) [OF assms(2) r(2)]]
      write_dlen(2) [OF assms(2) r(2)] a
    by (auto simp: min_def received_def)
qed

theorem writeargs_data_received_witness:
  "case nfs3svc_decode_writeargs sample_kernel readme
      (sample_rqst\<lparr>rq_arg_head := mem_of (encode_fh [] (wire_fh (export_handle sample_kernel 1 2)) @
         xdr_encode_hyper 0 @ [htonl 6, htonl 2, htonl 6])\<rparr>) 0 zero_writeargs [] of
     (ok, args', rqstp', h') \<Rightarrow> ok \<and> wa_len args' = 6 \<and> fst (wa_first args') = 9"
proof -
  let ?rq = "sample_rqst\<lparr>rq_arg_head := mem_of (encode_fh [] (wire_fh (export_handle sample_kernel 1 2)) @
         xdr_encode_hyper 0 @ [htonl 6, htonl 2, htonl 6])\<rparr>"
  obtain ok args' rqstp' h' where r: "nfs3svc_decode_writeargs sample_kernel readme ?rq 0 zero_writeargs [] =
      (ok, args', rqstp', h')" by (metis prod_cases4)
  have "case nfs3svc_decode_writeargs sample_kernel readme ?rq 0 zero_writeargs [] of
      (ok, args', rqstp', h') \<Rightarrow> ok \<and> fst (wa_first args') = 9"
    by code_simp
  then have c: "ok" "fst (wa_first args') = 9" using r by simp_all
  have m: "6 = ntohl (rq_arg_head ?rq (9 - 1))" by code_simp
  have "received ?rq < 2 ^ 32" by (simp add: received_def sample_rqst_def)
  moreover have "svc_max_payload sample_kernel [] = 0x100000" by (simp add: sample_kernel_def)
  ultimately show ?thesis
    using writeargs_data_received [of sample_kernel readme ?rq 0 zero_writeargs "[]" args' rqstp' h' 6] r c m
    by simp
qed

text \<open>
  C38: the length check of \<open>WRITE\<close> wraps. A request that announces 4294967295 bytes and carries none is
  accepted, with the server's largest payload as its length: rounding the length up to a multiple of
  four overflows to zero, so the comparison with the received bytes never fails.
\<close>

theorem writeargs_length_wraps:
  assumes "wire_handle (fh_handle fhp)"
    and "ws = encode_fh [] fhp @ xdr_encode_hyper off @ [htonl 0xFFFFFFFF, htonl stbl, htonl 0xFFFFFFFF]"
    and "holds_at (rq_arg_head rqstp) 0 ws"
    and "received rqstp = 4 * length ws" and "unat (rq_arg_head_len rqstp) = 4 * length ws"
  shows "\<exists>args'. nfs3svc_decode_writeargs K readme rqstp 0 args h = (True, args', rqstp, h) \<and>
    wa_len args' = svc_max_payload K h \<and> wa_count args' = svc_max_payload K h \<and> snd (wa_first args') = 0"
proof -
  let ?mem = "rq_arg_head rqstp" and ?n = "length (encode_fh [] fhp)"
  have m: "holds_at ?mem 0 (encode_fh [] fhp)" "?mem (?n + 2) = htonl 0xFFFFFFFF" "?mem (?n + 2 + 2) = htonl 0xFFFFFFFF"
    using assms(3) by (simp_all add: assms(2) add.commute numeral_eq_Suc)
  have l: "length ws = ?n + 2 + 3" by (simp add: assms(2))
  have n: "?n \<le> 33" using assms(1) encode_fh_wire [OF assms(1), of "[]"] by (simp add: wire_handle_def fh_base_words_def)
  have b: "received rqstp < 2 ^ 32" using assms(4) n l by simp
  have "rq_arg_head_len rqstp - ucast (of_nat (4 * length ws) :: u32) = 0"
    using write_dlen(2) [OF b, of "length ws"] assms(5) by (simp add: unat_eq_zero [symmetric])
  moreover have "XDR_QUADLEN 0xFFFFFFFF * 4 = 0" by (simp add: XDR_QUADLEN_def)
  moreover have "unat (svc_max_payload K h) < 0x100000000"
    by (rule less_le_trans [OF unsigned_less]) simp
  then have "svc_max_payload K h \<le> 0xFFFFFFFF" by (simp add: word_le_nat_alt)
  ultimately show ?thesis
    using readme_file_handle_reads [OF m(1) assms(1)] m(2,3) assms(5) l
    by (simp add: nfs3svc_decode_writeargs_def xdr_decode_hyper_def Let_def not_less)
qed

theorem writeargs_length_wraps_witness:
  "\<exists>args'. nfs3svc_decode_writeargs sample_kernel readme
      (sample_rqst\<lparr>rq_arg_head := mem_of (encode_fh [] (wire_fh (export_handle sample_kernel 1 2)) @
         xdr_encode_hyper 0 @ [htonl 0xFFFFFFFF, htonl 2, htonl 0xFFFFFFFF]), rq_arg_head_len := 36\<rparr>) 0 zero_writeargs [] =
      (True, args', sample_rqst\<lparr>rq_arg_head := mem_of (encode_fh [] (wire_fh (export_handle sample_kernel 1 2)) @
         xdr_encode_hyper 0 @ [htonl 0xFFFFFFFF, htonl 2, htonl 0xFFFFFFFF]), rq_arg_head_len := 36\<rparr>, []) \<and>
    wa_len args' = 0x100000 \<and> snd (wa_first args') = 0"
proof -
  let ?ws = "encode_fh [] (wire_fh (export_handle sample_kernel 1 2)) @
         xdr_encode_hyper 0 @ [htonl 0xFFFFFFFF, htonl 2, htonl 0xFFFFFFFF]"
  let ?rq = "sample_rqst\<lparr>rq_arg_head := mem_of ?ws, rq_arg_head_len := 36\<rparr>"
  have w: "wire_handle (fh_handle (wire_fh (export_handle sample_kernel 1 2)))"
    by (simp add: wire_handle_def fh_simps) (simp add: export_handle_def)
  have l: "length ?ws = 9" by code_simp
  have "holds_at (rq_arg_head ?rq) 0 ?ws" by (simp del: holds_at_append)
  moreover have "received ?rq = 4 * length ?ws" "unat (rq_arg_head_len ?rq) = 4 * length ?ws"
    unfolding l by (simp_all add: received_def sample_rqst_def)
  moreover have "svc_max_payload sample_kernel [] = 0x100000" by (simp add: sample_kernel_def)
  ultimately show ?thesis
    using writeargs_length_wraps [OF w, of ?ws 0 2 ?rq sample_kernel zero_writeargs "[]"]
    by (auto simp del: holds_at_append)
qed

end
