(* ===== verification/Xdr_Encode.thy ===== *)
theory Xdr_Encode
  imports Xdr_Decode
begin

text \<open>
  The result encoders of \<open>xdr.c\<close> (\<open>nfs3svc_encode_*\<close>), the result structures of \<open>xdr.h\<close> and the
  release functions. An encoder gets the cells \<open>p\<close> written so far from the start of the reply head
  and appends to them; \<open>xdr_ressize_check\<close> then records the length reached. The encoding of directory
  entries is in \<open>Readdir\<close>.
\<close>

section \<open>Result structures\<close>

record nfsd3_attrstat =
  as_status :: be32
  as_fh :: svc_fh
  as_stat :: kstat

record nfsd3_diropres =
  dr_status :: be32
  dr_dirfh :: svc_fh
  dr_fh :: svc_fh

record nfsd3_accessres =
  acr_status :: be32
  acr_fh :: svc_fh
  acr_access :: u32
  acr_stat :: kstat

record nfsd3_readres =
  rr_status :: be32
  rr_fh :: svc_fh
  rr_count :: u64
  rr_eof :: bool

record nfsd3_writeres =
  wr_status :: be32
  wr_fh :: svc_fh
  wr_count :: u64
  wr_committed :: u32

text \<open>
  Pointers of a directory reply point into its pages: a page and a cell in it. \<open>common.err\<close> is
  \<open>rd_err\<close>; the back pointer to the request is the request itself, passed along.
\<close>

type_synonym page_ptr = "nat \<times> nat"

record nfsd3_readdirres =
  rd_status :: be32
  rd_fh :: svc_fh
  rd_scratch :: svc_fh
  rd_count :: int
  rd_verf :: "be32 \<times> be32"
  rd_err :: be32
  rd_buffer :: "page_ptr option"
  rd_buflen :: int
  rd_offset :: "page_ptr option"
  rd_offset1 :: "page_ptr option"

record nfsd3_fsstatres =
  fs_status :: be32
  fs_stats :: kstatfs
  fs_invarsec :: u32

record nfsd3_fsinfores =
  fi_status :: be32
  f_rtmax :: u32
  f_rtpref :: u32
  f_rtmult :: u32
  f_wtmax :: u32
  f_wtpref :: u32
  f_wtmult :: u32
  f_dtpref :: u32
  f_maxfilesize :: u64
  f_properties :: u32

record nfsd3_fhandle_pair =
  pair_fh1 :: svc_fh
  pair_fh2 :: svc_fh

section \<open>Encoders\<close>

definition ressize_check :: "kernel \<Rightarrow> svc_rqst \<Rightarrow> be32 list \<Rightarrow> bool \<times> svc_rqst" where
  "ressize_check K rqstp p =
     (let (ok, iov_len) = xdr_ressize_check K (length p)
      in (ok, rqstp\<lparr>rq_res_head := p, rq_res_head_len := iov_len\<rparr>))"

definition encode_post_op_attr ::
  "kernel \<Rightarrow> xdr_impl \<Rightarrow> svc_rqst \<Rightarrow> be32 list \<Rightarrow> svc_fh \<Rightarrow> hist \<Rightarrow> be32 list \<times> hist" where
  "encode_post_op_attr K I rqstp p fhp h =
     (case fh_dentry fhp of
        None \<Rightarrow> (p @ [xdr_zero], h)
      | Some dentry \<Rightarrow>
          if d_inode K h dentry = None then (p @ [xdr_zero], h)
          else
            let (exp, h) = deref (fh_export fhp) h;
                (r, h) = call_vfs_getattr K \<lparr>p_mnt = p_mnt (export_path K exp), p_dentry = dentry\<rparr> h
            in (case r of
                  Inl _ \<Rightarrow> (p @ [xdr_zero], h)
                | Inr stat \<Rightarrow>
                    let (ino, h) = inode_of K dentry h;
                        (mtime, h) = call_lease_get_mtime K ino (st_mtime stat) h
                    in encode_fattr3 I K rqstp (p @ [xdr_one]) fhp (stat\<lparr>st_mtime := mtime\<rparr>) h))"

definition nfs3svc_encode_voidres ::
  "kernel \<Rightarrow> svc_rqst \<Rightarrow> be32 list \<Rightarrow> hist \<Rightarrow> bool \<times> svc_rqst \<times> hist" where
  "nfs3svc_encode_voidres K rqstp p h =
     (let (ok, rqstp) = ressize_check K rqstp p in (ok, rqstp, h))"

definition nfs3svc_encode_attrstat ::
  "kernel \<Rightarrow> xdr_impl \<Rightarrow> svc_rqst \<Rightarrow> be32 list \<Rightarrow> nfsd3_attrstat \<Rightarrow> hist \<Rightarrow>
   bool \<times> nfsd3_attrstat \<times> svc_rqst \<times> hist" where
  "nfs3svc_encode_attrstat K I rqstp p resp h =
     (let (resp, p, h) =
            (if as_status resp = 0 then
               let (dentry, h) = deref (fh_dentry (as_fh resp)) h;
                   (ino, h) = inode_of K dentry h;
                   (mtime, h) = call_lease_get_mtime K ino (st_mtime (as_stat resp)) h;
                   resp = resp\<lparr>as_stat := (as_stat resp)\<lparr>st_mtime := mtime\<rparr>\<rparr>;
                   (p, h) = encode_fattr3 I K rqstp p (as_fh resp) (as_stat resp) h
               in (resp, p, h)
             else (resp, p, h));
          (ok, rqstp) = ressize_check K rqstp p
      in (ok, resp, rqstp, h))"

definition nfs3svc_encode_wccstat ::
  "kernel \<Rightarrow> xdr_impl \<Rightarrow> svc_rqst \<Rightarrow> be32 list \<Rightarrow> nfsd3_attrstat \<Rightarrow> hist \<Rightarrow> bool \<times> svc_rqst \<times> hist" where
  "nfs3svc_encode_wccstat K I rqstp p resp h =
     (let p = p @ [xdr_zero];
          (p, h) = encode_post_op_attr K I rqstp p (as_fh resp) h;
          (ok, rqstp) = ressize_check K rqstp p
      in (ok, rqstp, h))"

definition nfs3svc_encode_diropres ::
  "kernel \<Rightarrow> xdr_impl \<Rightarrow> svc_rqst \<Rightarrow> be32 list \<Rightarrow> nfsd3_diropres \<Rightarrow> hist \<Rightarrow> bool \<times> svc_rqst \<times> hist" where
  "nfs3svc_encode_diropres K I rqstp p resp h =
     (let (p, h) = (if dr_status resp = 0 then
                      encode_post_op_attr K I rqstp (encode_fh p (dr_fh resp)) (dr_fh resp) h
                    else (p, h));
          (p, h) = encode_post_op_attr K I rqstp p (dr_dirfh resp) h;
          (ok, rqstp) = ressize_check K rqstp p
      in (ok, rqstp, h))"

definition nfs3svc_encode_accessres ::
  "kernel \<Rightarrow> xdr_impl \<Rightarrow> svc_rqst \<Rightarrow> be32 list \<Rightarrow> nfsd3_accessres \<Rightarrow> hist \<Rightarrow> bool \<times> svc_rqst \<times> hist" where
  "nfs3svc_encode_accessres K I rqstp p resp h =
     (let (p, h) = encode_post_op_attr K I rqstp p (acr_fh resp) h;
          p = (if acr_status resp = 0 then p @ [htonl (acr_access resp)] else p);
          (ok, rqstp) = ressize_check K rqstp p
      in (ok, rqstp, h))"

definition nfs3svc_encode_readres ::
  "kernel \<Rightarrow> xdr_impl \<Rightarrow> svc_rqst \<Rightarrow> be32 list \<Rightarrow> nfsd3_readres \<Rightarrow> hist \<Rightarrow> bool \<times> svc_rqst \<times> hist" where
  "nfs3svc_encode_readres K I rqstp p resp h =
     (let (p, h) = encode_post_op_attr K I rqstp p (rr_fh resp) h
      in if rr_status resp = 0 then
           let p = p @ [htonl (ucast (rr_count resp)), htonl (of_bool (rr_eof resp)), htonl (ucast (rr_count resp))];
               (_, rqstp) = ressize_check K rqstp p;
               rqstp = rqstp\<lparr>rq_res_page_len := unat (ucast (rr_count resp) :: u32)\<rparr>;
               rqstp = (if rr_count resp AND 3 \<noteq> 0 then
                          rqstp\<lparr>rq_res_tail := [0], rq_res_tail_len := 4 - unat (rr_count resp AND 3)\<rparr>
                        else rqstp)
           in (True, rqstp, h)
         else
           let (ok, rqstp) = ressize_check K rqstp p in (ok, rqstp, h))"

text \<open>The write verifier is the time the server was started, kept per network namespace.\<close>

definition nfs3svc_encode_writeres ::
  "kernel \<Rightarrow> xdr_impl \<Rightarrow> timespec \<Rightarrow> svc_rqst \<Rightarrow> be32 list \<Rightarrow> nfsd3_writeres \<Rightarrow> hist \<Rightarrow>
   bool \<times> svc_rqst \<times> hist" where
  "nfs3svc_encode_writeres K I nfssvc_boot rqstp p resp h =
     (let p = p @ [xdr_zero];
          (p, h) = encode_post_op_attr K I rqstp p (wr_fh resp) h;
          p = (if wr_status resp = 0 then
                 p @ [htonl (ucast (wr_count resp)), htonl (wr_committed resp),
                      htonl (ucast (tv_sec nfssvc_boot)), htonl (ucast (tv_nsec nfssvc_boot))]
               else p);
          (ok, rqstp) = ressize_check K rqstp p
      in (ok, rqstp, h))"

definition nfs3svc_encode_createres ::
  "kernel \<Rightarrow> xdr_impl \<Rightarrow> svc_rqst \<Rightarrow> be32 list \<Rightarrow> nfsd3_diropres \<Rightarrow> hist \<Rightarrow> bool \<times> svc_rqst \<times> hist" where
  "nfs3svc_encode_createres K I rqstp p resp h =
     (let (p, h) = (if dr_status resp = 0 then
                      encode_post_op_attr K I rqstp (encode_fh (p @ [xdr_one]) (dr_fh resp)) (dr_fh resp) h
                    else (p, h));
          p = p @ [xdr_zero];
          (p, h) = encode_post_op_attr K I rqstp p (dr_dirfh resp) h;
          (ok, rqstp) = ressize_check K rqstp p
      in (ok, rqstp, h))"

definition nfs3svc_encode_readdirres ::
  "kernel \<Rightarrow> xdr_impl \<Rightarrow> svc_rqst \<Rightarrow> be32 list \<Rightarrow> nfsd3_readdirres \<Rightarrow> hist \<Rightarrow> bool \<times> svc_rqst \<times> hist" where
  "nfs3svc_encode_readdirres K I rqstp p resp h =
     (let (p, h) = encode_post_op_attr K I rqstp p (rd_fh resp) h
      in if rd_status resp = 0 then
           let p = p @ [fst (rd_verf resp), snd (rd_verf resp)];
               (_, rqstp) = ressize_check K rqstp p
           in if rq_res_head_len rqstp + 8 > PAGE_SIZE then (True, rqstp, h)
              else (True, rqstp\<lparr>rq_res_page_len := nat (rd_count resp * 4),
                      rq_res_tail := [0, htonl (of_bool (rd_err resp = nfserr_eof))], rq_res_tail_len := 8\<rparr>, h)
         else
           let (ok, rqstp) = ressize_check K rqstp p in (ok, rqstp, h))"

definition nfs3svc_encode_fsstatres ::
  "kernel \<Rightarrow> svc_rqst \<Rightarrow> be32 list \<Rightarrow> nfsd3_fsstatres \<Rightarrow> hist \<Rightarrow> bool \<times> svc_rqst \<times> hist" where
  "nfs3svc_encode_fsstatres K rqstp p resp h =
     (let s = fs_stats resp;
          bs = f_bsize s;
          p = p @ [xdr_zero];
          p = (if fs_status resp = 0 then
                 p @ xdr_encode_hyper (bs * f_blocks s) @ xdr_encode_hyper (bs * f_bfree s) @
                 xdr_encode_hyper (bs * f_bavail s) @ xdr_encode_hyper (f_files s) @
                 xdr_encode_hyper (f_ffree s) @ xdr_encode_hyper (f_ffree s) @ [htonl (fs_invarsec resp)]
               else p);
          (ok, rqstp) = ressize_check K rqstp p
      in (ok, rqstp, h))"

definition nfs3svc_encode_fsinfores ::
  "kernel \<Rightarrow> svc_rqst \<Rightarrow> be32 list \<Rightarrow> nfsd3_fsinfores \<Rightarrow> hist \<Rightarrow> bool \<times> svc_rqst \<times> hist" where
  "nfs3svc_encode_fsinfores K rqstp p resp h =
     (let p = p @ [xdr_zero];
          p = (if fi_status resp = 0 then
                 p @ [htonl (f_rtmax resp), htonl (f_rtpref resp), htonl (f_rtmult resp), htonl (f_wtmax resp),
                      htonl (f_wtpref resp), htonl (f_wtmult resp), htonl (f_dtpref resp)] @
                 xdr_encode_hyper (f_maxfilesize resp) @ [xdr_one, xdr_zero, htonl (f_properties resp)]
               else p);
          (ok, rqstp) = ressize_check K rqstp p
      in (ok, rqstp, h))"

section \<open>Release\<close>

definition nfs3svc_release_fhandle :: "kernel \<Rightarrow> svc_fh \<Rightarrow> hist \<Rightarrow> svc_fh \<times> hist" where
  "nfs3svc_release_fhandle K fh h = fh_put K fh h"

definition nfs3svc_release_fhandle2 :: "kernel \<Rightarrow> nfsd3_fhandle_pair \<Rightarrow> hist \<Rightarrow> nfsd3_fhandle_pair \<times> hist" where
  "nfs3svc_release_fhandle2 K resp h =
     (let (fh1, h) = fh_put K (pair_fh1 resp) h;
          (fh2, h) = fh_put K (pair_fh2 resp) h
      in (\<lparr>pair_fh1 = fh1, pair_fh2 = fh2\<rparr>, h))"

section \<open>What the encoders promise\<close>

text \<open>
  The attribute encoder appends at most the 21 cells of \<open>fattr3\<close>, touches no reference and does not
  look at the pages of the request. Every
  encoder then appends to the reply at most what the procedure table allows for it (\<open>AT\<close>, \<open>pAT\<close>, \<open>WC\<close>
  and \<open>FH\<close> in \<open>proc.c\<close>) and touches no reference either.
\<close>

definition appends :: "be32 list \<Rightarrow> be32 list \<Rightarrow> nat \<Rightarrow> bool" where
  "appends p p' n \<longleftrightarrow> (\<exists>ws. p' = p @ ws \<and> length ws \<le> n)"

lemma appends_refl [simp]: "appends p p n"
  by (simp add: appends_def)

lemma appends_append [simp]: "appends p (p @ ws) n \<longleftrightarrow> length ws \<le> n"
  by (auto simp: appends_def)

lemma appends_trans: "appends p q m \<Longrightarrow> appends q r n \<Longrightarrow> m + n \<le> k \<Longrightarrow> appends p r k"
  by (auto simp: appends_def)

lemma appends_mono: "appends p q m \<Longrightarrow> m \<le> k \<Longrightarrow> appends p q k"
  by (auto simp: appends_def)

lemma appends_encode_fh: "fh_size (fh_handle fh) \<le> 64 \<Longrightarrow> appends p (encode_fh p fh) 17"
  by (simp add: encode_fh_def word_le_nat_alt)

lemma ressize_check_head [simp]: "rq_res_head (snd (ressize_check K rqstp p)) = p"
  by (simp add: ressize_check_def split: prod.split)

lemma ressize_checkD: "ressize_check K rqstp p = (ok, rq) \<Longrightarrow> rq_res_head rq = p"
  by (metis ressize_check_head snd_conv)

locale fattr_encoder =
  fixes I :: xdr_impl
  assumes encoded: "encode_fattr3 I K rqstp p fhp stat h = (p', h') \<Longrightarrow>
      appends p p' 21 \<and> (\<forall>x. refs x h' = refs x h)"
    and page_free: "encode_fattr3 I K (rqstp\<lparr>rq_page := m\<rparr>) = encode_fattr3 I K rqstp"
begin

lemma post_op_attr:
  assumes "encode_post_op_attr K I rqstp p fhp h = (p', h')"
  shows "appends p p' 22 \<and> (\<forall>x. refs x h' = refs x h)"
proof -
  have "appends p q 22" if "appends (p @ [w]) q 21" for w q
    using appends_trans [of p "p @ [w]" 1 q 21 22] that by simp
  then show ?thesis
    using assms encoded
    by (fastforce simp: encode_post_op_attr_def Let_def call_simps ledger_simps
        split: option.splits if_splits prod.splits sum.splits dest!: refs_frame)
qed

lemma attrstat_reply:
  assumes "nfs3svc_encode_attrstat K I rqstp p resp h = (ok, resp', rq, h')"
  shows "appends p (rq_res_head rq) 21 \<and> as_fh resp' = as_fh resp \<and> (\<forall>x. refs x h' = refs x h)"
  using assms encoded
  by (fastforce simp: nfs3svc_encode_attrstat_def Let_def call_simps ledger_simps
      split: if_splits prod.splits dest!: refs_frame ressize_checkD)

lemma wccstat_reply:
  assumes "nfs3svc_encode_wccstat K I rqstp p resp h = (ok, rq, h')"
  shows "appends p (rq_res_head rq) 23 \<and> (\<forall>x. refs x h' = refs x h)"
  using assms post_op_attr appends_trans [of p "p @ [xdr_zero]" 1 _ 22 23]
  by (fastforce simp: nfs3svc_encode_wccstat_def Let_def split: prod.splits dest!: ressize_checkD)

lemma diropres_reply:
  assumes "nfs3svc_encode_diropres K I rqstp p resp h = (ok, rq, h')" and "fh_size (fh_handle (dr_fh resp)) \<le> 64"
  shows "appends p (rq_res_head rq) 61 \<and> (\<forall>x. refs x h' = refs x h)"
proof -
  obtain q g where q: "(if dr_status resp = 0
        then encode_post_op_attr K I rqstp (encode_fh p (dr_fh resp)) (dr_fh resp) h else (p, h)) = (q, g)"
    by fastforce
  have 1: "appends p q 39 \<and> (\<forall>x. refs x g = refs x h)"
  proof (cases "dr_status resp = 0")
    case True
    then have "encode_post_op_attr K I rqstp (encode_fh p (dr_fh resp)) (dr_fh resp) h = (q, g)" using q by simp
    from post_op_attr [OF this] show ?thesis
      using appends_trans [OF appends_encode_fh [OF assms(2)], of p q 22 39] by simp
  qed (use q in simp)
  obtain r g' where r: "encode_post_op_attr K I rqstp q (dr_dirfh resp) g = (r, g')" by fastforce
  then show ?thesis
    using assms(1) q 1 post_op_attr [OF r] appends_trans [of p q 39 r 22 61]
    by (auto simp: nfs3svc_encode_diropres_def Let_def split: prod.splits dest!: ressize_checkD)
qed

lemma accessres_reply:
  assumes "nfs3svc_encode_accessres K I rqstp p resp h = (ok, rq, h')"
  shows "appends p (rq_res_head rq) 23 \<and> (\<forall>x. refs x h' = refs x h)"
proof -
  obtain q g where q: "encode_post_op_attr K I rqstp p (acr_fh resp) h = (q, g)" by fastforce
  show ?thesis
    using assms q post_op_attr [OF q] appends_trans [of p q 22 "q @ [htonl (acr_access resp)]" 1 23]
      appends_mono [of p q 22 23]
    by (auto simp: nfs3svc_encode_accessres_def Let_def split: prod.splits if_splits dest!: ressize_checkD)
qed

lemma readres_reply:
  assumes "nfs3svc_encode_readres K I rqstp p resp h = (ok, rq, h')"
  shows "appends p (rq_res_head rq) 25 \<and> (\<forall>x. refs x h' = refs x h)"
proof -
  obtain q g where q: "encode_post_op_attr K I rqstp p (rr_fh resp) h = (q, g)" by fastforce
  have "appends p (q @ [a, b, c]) 25" for a b c
    using post_op_attr [OF q] appends_trans [of p q 22 _ 3 25] by simp
  then show ?thesis
    using assms q post_op_attr [OF q] appends_mono [of p q 22 25]
    by (auto simp: nfs3svc_encode_readres_def Let_def split: prod.splits if_splits dest!: ressize_checkD)
qed

lemma writeres_reply:
  assumes "nfs3svc_encode_writeres K I boot rqstp p resp h = (ok, rq, h')"
  shows "appends p (rq_res_head rq) 27 \<and> (\<forall>x. refs x h' = refs x h)"
proof -
  obtain q g where q: "encode_post_op_attr K I rqstp (p @ [xdr_zero]) (wr_fh resp) h = (q, g)" by fastforce
  have 1: "appends p q 23"
    using post_op_attr [OF q] appends_trans [of p "p @ [xdr_zero]" 1 q 22 23] by simp
  have "appends p (q @ [a, b, c, d]) 27" for a b c d
    using 1 appends_trans [of p q 23 _ 4 27] by simp
  then show ?thesis
    using assms q post_op_attr [OF q] appends_mono [OF 1, of 27]
    by (auto simp: nfs3svc_encode_writeres_def Let_def split: prod.splits if_splits dest!: ressize_checkD)
qed

lemma createres_reply:
  assumes "nfs3svc_encode_createres K I rqstp p resp h = (ok, rq, h')" and "fh_size (fh_handle (dr_fh resp)) \<le> 64"
  shows "appends p (rq_res_head rq) 63 \<and> (\<forall>x. refs x h' = refs x h)"
proof -
  obtain q g where q: "(if dr_status resp = 0
        then encode_post_op_attr K I rqstp (encode_fh (p @ [xdr_one]) (dr_fh resp)) (dr_fh resp) h else (p, h)) = (q, g)"
    by fastforce
  have e: "appends p (encode_fh (p @ [xdr_one]) (dr_fh resp)) 18"
    using appends_trans [OF _ appends_encode_fh [OF assms(2)], of p "p @ [xdr_one]" 1 18] by simp
  have 1: "appends p q 40 \<and> (\<forall>x. refs x g = refs x h)"
  proof (cases "dr_status resp = 0")
    case True
    then have "encode_post_op_attr K I rqstp (encode_fh (p @ [xdr_one]) (dr_fh resp)) (dr_fh resp) h = (q, g)"
      using q by simp
    from post_op_attr [OF this] show ?thesis using e appends_trans [of p _ 18 q 22 40] by simp
  qed (use q in simp)
  obtain r g' where r: "encode_post_op_attr K I rqstp (q @ [xdr_zero]) (dr_dirfh resp) g = (r, g')" by fastforce
  have "appends q r 23" using post_op_attr [OF r] appends_trans [of q "q @ [xdr_zero]" 1 r 22 23] by simp
  then show ?thesis
    using assms(1) q 1 r post_op_attr [OF r] appends_trans [of p q 40 r 23 63]
    by (auto simp: nfs3svc_encode_createres_def Let_def split: prod.splits dest!: ressize_checkD)
qed

lemma readdirres_reply:
  assumes "nfs3svc_encode_readdirres K I rqstp p resp h = (ok, rq, h')"
  shows "appends p (rq_res_head rq) 24 \<and> (\<forall>x. refs x h' = refs x h)"
proof -
  obtain q g where q: "encode_post_op_attr K I rqstp p (rd_fh resp) h = (q, g)" by fastforce
  have "appends p (q @ [a, b]) 24" for a b
    using post_op_attr [OF q] appends_trans [of p q 22 _ 2 24] by simp
  then show ?thesis
    using assms q post_op_attr [OF q] appends_mono [of p q 22 24]
    by (auto simp: nfs3svc_encode_readdirres_def Let_def split: prod.splits if_splits dest!: ressize_checkD)
qed

end

lemma fsstatres_reply:
  "nfs3svc_encode_fsstatres K rqstp p resp h = (ok, rq, h') \<Longrightarrow> appends p (rq_res_head rq) 14 \<and> h' = h"
  by (auto simp: nfs3svc_encode_fsstatres_def Let_def split: prod.splits if_splits dest!: ressize_checkD)

lemma fsinfores_reply:
  "nfs3svc_encode_fsinfores K rqstp p resp h = (ok, rq, h') \<Longrightarrow> appends p (rq_res_head rq) 13 \<and> h' = h"
  by (auto simp: nfs3svc_encode_fsinfores_def Let_def split: prod.splits if_splits dest!: ressize_checkD)

lemma voidres_reply:
  "nfs3svc_encode_voidres K rqstp p h = (ok, rq, h') \<Longrightarrow> appends p (rq_res_head rq) 0 \<and> h' = h"
  by (auto simp: nfs3svc_encode_voidres_def split: prod.splits dest!: ressize_checkD)

interpretation shipped_encoder: fattr_encoder shipped
  by unfold_locales (auto simp: shipped_def shipped_fattr3_def fun_eq_iff)

interpretation readme_encoder: fattr_encoder readme
  by unfold_locales
     (auto simp: readme_def readme_fattr3_def time3_words_def Let_def fun_eq_iff split: prod.splits
        dest!: refs_frame)

end
