(* ===== verification/Readdir.thy ===== *)
theory Readdir
  imports Xdr_Encode
begin

text \<open>
  Reading directories: the buffered reader of \<open>vfs.c\<close> (\<open>nfsd_buffered_filldir\<close>,
  \<open>nfsd_buffered_readdir\<close>, \<open>nfsd_readdir\<close>) and the entry encoder of \<open>xdr.c\<close> (\<open>encode_entry\<close> and what it
  calls). Entries are encoded as they are read, into pages of the request; an entry that does not fit
  the current page is built in the next one and moved back in two pieces. The outer loop of the
  reader is a partial function whose value \<open>None\<close> is a loop that never ends.
\<close>

section \<open>Pages\<close>

text \<open>
  Stores to cells of a page. A run that leaves its page is a fault. Reads of a run of cells.
\<close>

definition ptr_add :: "page_ptr \<Rightarrow> nat \<Rightarrow> page_ptr" where
  "ptr_add p n = (fst p, snd p + n)"

definition store :: "svc_rqst \<Rightarrow> page_ptr \<Rightarrow> be32 list \<Rightarrow> hist \<Rightarrow> svc_rqst \<times> hist" where
  "store rqstp p ws h =
     (rqstp\<lparr>rq_page := (\<lambda>pg i. if pg = fst p \<and> snd p \<le> i \<and> i < snd p + length ws then ws ! (i - snd p)
                             else rq_page rqstp pg i)\<rparr>,
      if snd p + length ws \<le> 1024 then h else Fault OOPS # h)"

definition load :: "svc_rqst \<Rightarrow> page_ptr \<Rightarrow> nat \<Rightarrow> be32 list" where
  "load rqstp p n = map (rq_page rqstp (fst p)) [snd p..<snd p + n]"

definition deref_ptr :: "page_ptr option \<Rightarrow> hist \<Rightarrow> page_ptr \<times> hist" where
  "deref_ptr p h = (case p of Some x \<Rightarrow> (x, h) | None \<Rightarrow> ((0, 0), Fault OOPS # h))"

section \<open>Entries\<close>

definition char_of_list :: "u8 list \<Rightarrow> char_p" where
  "char_of_list bs = (\<lambda>i. if i < length bs then bs ! i else 0)"

definition encode_entry_baggage ::
  "nfsd3_readdirres \<Rightarrow> svc_rqst \<Rightarrow> page_ptr \<Rightarrow> u8 list \<Rightarrow> u64 \<Rightarrow> hist \<Rightarrow>
   page_ptr \<times> nfsd3_readdirres \<times> svc_rqst \<times> hist" where
  "encode_entry_baggage cd rqstp p name ino h =
     (let ws = xdr_one # xdr_encode_hyper ino @ xdr_encode_array name;
          cd = cd\<lparr>rd_offset := Some (ptr_add p (length ws))\<rparr>;
          ws = ws @ xdr_encode_hyper NFS_OFFSET_MAX;
          (rqstp, h) = store rqstp p ws h
      in (ptr_add p (length ws), cd, rqstp, h))"

text \<open>\<open>compose_entry_fh\<close>, first from the child dentry to the label \<open>out\<close>.\<close>

definition compose_entry_child ::
  "kernel \<Rightarrow> nfsd3_readdirres \<Rightarrow> svc_fh \<Rightarrow> export_p \<Rightarrow> dentry_p \<Rightarrow> u64 \<Rightarrow> hist \<Rightarrow> be32 \<times> svc_fh \<times> hist" where
  "compose_entry_child K cd fhp exp dchild ino h =
     (let (rv, fhp, h) =
            (if d_mountpoint K h dchild then (nfserr_noent, fhp, h)
             else (case d_inode K h dchild of
                     None \<Rightarrow> (nfserr_noent, fhp, h)
                   | Some i \<Rightarrow>
                       if i_ino (inode_at K h i) \<noteq> ino then (nfserr_noent, fhp, h)
                       else fh_compose K fhp exp dchild (Ref_other (rd_fh cd)) h))
      in (rv, fhp, Ref (Dput dchild) # h))"

definition compose_entry_fh ::
  "kernel \<Rightarrow> nfsd3_readdirres \<Rightarrow> svc_fh \<Rightarrow> u8 list \<Rightarrow> u64 \<Rightarrow> hist \<Rightarrow> be32 \<times> svc_fh \<times> hist" where
  "compose_entry_fh K cd fhp name ino h =
     (let (dparent, h) = deref (fh_dentry (rd_fh cd)) h;
          (exp, h) = deref (fh_export (rd_fh cd)) h;
          (dot, h) = isdotent (Some (char_of_list name)) (int (length name)) h
      in if dot then
           if length name = 2 then
             let (dchild, h) = call_dget_parent K dparent h
             in if dchild = dparent then (nfserr_noent, fhp, Ref (Dput dchild) # h)
                else compose_entry_child K cd fhp exp dchild ino h
           else compose_entry_child K cd fhp exp dparent ino (Ref (Dget dparent) # h)
         else
           let (dchild, h) = call_lookup_one_len K name dparent h
           in (case dchild of
                 Inl _ \<Rightarrow> (nfserr_noent, fhp, h)
               | Inr dchild \<Rightarrow> compose_entry_child K cd fhp exp dchild ino h))"

text \<open>The cells \<open>encode_entryplus_baggage\<close> writes, with the scratch handle it leaves, and the function.\<close>

definition entryplus_words ::
  "kernel \<Rightarrow> xdr_impl \<Rightarrow> nfsd3_readdirres \<Rightarrow> svc_rqst \<Rightarrow> u8 list \<Rightarrow> u64 \<Rightarrow> hist \<Rightarrow> be32 list \<times> svc_fh \<times> hist" where
  "entryplus_words K I cd rqstp name ino h =
     (let (err, fh, h) = compose_entry_fh K cd (fh_init NFS3_FHSIZE) name ino h;
          (ws, h) = (if err \<noteq> 0 then ([0, 0], h)
                     else
                       let (ws, h) = encode_post_op_attr K I rqstp [] fh h
                       in (encode_fh (ws @ [xdr_one]) fh, h));
          (fh, h) = fh_put K fh h
      in (ws, fh, h))"

definition encode_entryplus_baggage ::
  "kernel \<Rightarrow> xdr_impl \<Rightarrow> nfsd3_readdirres \<Rightarrow> svc_rqst \<Rightarrow> page_ptr \<Rightarrow> u8 list \<Rightarrow> u64 \<Rightarrow> hist \<Rightarrow>
   page_ptr \<times> nfsd3_readdirres \<times> svc_rqst \<times> hist" where
  "encode_entryplus_baggage K I cd rqstp p name ino h =
     (let (ws, fh, h) = entryplus_words K I cd rqstp name ino h;
          (rqstp, h) = store rqstp p ws h
      in (ptr_add p (length ws), cd\<lparr>rd_scratch := fh\<rparr>, rqstp, h))"

definition encode_baggage ::
  "kernel \<Rightarrow> xdr_impl \<Rightarrow> bool \<Rightarrow> nfsd3_readdirres \<Rightarrow> svc_rqst \<Rightarrow> page_ptr \<Rightarrow> u8 list \<Rightarrow> u64 \<Rightarrow> hist \<Rightarrow>
   page_ptr \<times> nfsd3_readdirres \<times> svc_rqst \<times> hist" where
  "encode_baggage K I pl cd rqstp p name ino h =
     (let (p, cd, rqstp, h) = encode_entry_baggage cd rqstp p name ino h
      in if pl then encode_entryplus_baggage K I cd rqstp p name ino h else (p, cd, rqstp, h))"

text \<open>The offset of the previous entry is filled in when the next one arrives.\<close>

definition encode_offset ::
  "nfsd3_readdirres \<Rightarrow> svc_rqst \<Rightarrow> u64 \<Rightarrow> hist \<Rightarrow> nfsd3_readdirres \<times> svc_rqst \<times> hist" where
  "encode_offset cd rqstp offset h =
     (case rd_offset cd of
        None \<Rightarrow> (cd, rqstp, h)
      | Some p \<Rightarrow>
          (case rd_offset1 cd of
             Some p1 \<Rightarrow>
               let (rqstp, h) = store rqstp p [htonl (ucast (drop_bit 32 offset))] h;
                   (rqstp, h) = store rqstp p1 [htonl (ucast offset)] h
               in (cd\<lparr>rd_offset1 := None\<rparr>, rqstp, h)
           | None \<Rightarrow>
               let (rqstp, h) = store rqstp p (xdr_encode_hyper offset) h
               in (cd, rqstp, h)))"

text \<open>
  The search for the page that is being filled: it returns the page it stopped at, and the last one
  whose address it took.
\<close>

function find_page :: "page_ptr \<Rightarrow> nat \<Rightarrow> nat \<Rightarrow> nat option \<Rightarrow> nat \<times> nat option" where
  "find_page buffer page next_page cur =
     (if page < next_page then
        if fst buffer = page \<and> snd buffer < 1024 then (page, Some page)
        else find_page buffer (page + 1) next_page (Some page)
      else (page, cur))"
  by pat_completeness auto

termination find_page
  by (relation "measure (\<lambda>(_, page, next_page, _). next_page - page)") auto

declare find_page.simps [simp del]

text \<open>
  Whether the estimated entry ends before the current page does; comparing addresses of different
  pages has no meaning, and is shown as a fault.
\<close>

definition fits_page :: "page_ptr \<Rightarrow> nat option \<Rightarrow> nat \<Rightarrow> hist \<Rightarrow> bool \<times> hist" where
  "fits_page buffer cur elen h =
     (if cur = Some (fst buffer) then (snd buffer + elen < 1024, h) else (True, Fault OOPS # h))"

abbreviation (input) NFS3_MAXNAMLEN :: nat where "NFS3_MAXNAMLEN \<equiv> 255"
abbreviation (input) NFS3_ENTRY_BAGGAGE :: nat where "NFS3_ENTRY_BAGGAGE \<equiv> 6"
abbreviation (input) NFS3_ENTRYPLUS_BAGGAGE :: nat where "NFS3_ENTRYPLUS_BAGGAGE \<equiv> 39"

text \<open>
  An entry that may not fit: it was built in the page after the current one, from cell 0 on, with
  \<open>num_entry_words\<close> cells. It is moved back as a whole when it fits after all, and else split; the
  pointer to its offset, a 64-bit quantity, is then entirely in the first page, entirely in the
  second, or in both.
\<close>

definition split_offset ::
  "nfsd3_readdirres \<Rightarrow> page_ptr \<Rightarrow> nat \<Rightarrow> nat \<Rightarrow> nat \<Rightarrow> hist \<Rightarrow> nfsd3_readdirres \<times> hist" where
  "split_offset cd p tmp off len1 h =
     (if off + 2 \<le> len1 then (cd\<lparr>rd_offset := Some (ptr_add p off)\<rparr>, h)
      else if off \<ge> len1 then (cd\<lparr>rd_offset := Some (tmp, off - len1)\<rparr>, h)
      else (cd\<lparr>rd_offset := Some (ptr_add p off), rd_offset1 := Some (tmp, 0)\<rparr>,
            if off \<noteq> len1 - 1 then Fault BUG # h else h))"

definition split_entry ::
  "nfsd3_readdirres \<Rightarrow> svc_rqst \<Rightarrow> page_ptr \<Rightarrow> nat \<Rightarrow> nat \<Rightarrow> hist \<Rightarrow>
   page_ptr \<times> nfsd3_readdirres \<times> svc_rqst \<times> hist" where
  "split_entry cd rqstp p tmp num_entry_words h =
     (let len1 = 1024 - snd p;
          (offset, h) = deref_ptr (rd_offset cd) h;
          off = snd offset
      in if num_entry_words < len1 then
           let (rqstp, h) = store rqstp p (load rqstp (tmp, 0) num_entry_words) h
           in (ptr_add p num_entry_words, cd\<lparr>rd_offset := Some (ptr_add p off)\<rparr>, rqstp, h)
         else
           let (cd, h) = split_offset cd p tmp off len1 h;
               len2 = num_entry_words - len1;
               (rqstp, h) = store rqstp p (load rqstp (tmp, 0) len1) h;
               (rqstp, h) = store rqstp (tmp, 0) (load rqstp (tmp, len1) len2) h
           in ((tmp, len2), cd, rqstp, h))"

definition encode_entry ::
  "kernel \<Rightarrow> xdr_impl \<Rightarrow> bool \<Rightarrow> nfsd3_readdirres \<Rightarrow> svc_rqst \<Rightarrow> dirent \<Rightarrow> hist \<Rightarrow>
   int \<times> nfsd3_readdirres \<times> svc_rqst \<times> hist" where
  "encode_entry K I pl cd rqstp de h =
     (let (cd, rqstp, h) = encode_offset cd rqstp (de_off de) h;
          name = take NFS3_MAXNAMLEN (de_name de);
          slen = (length name + 3) div 4;
          elen = slen + NFS3_ENTRY_BAGGAGE + (if pl then NFS3_ENTRYPLUS_BAGGAGE else 0)
      in if rd_buflen cd < int elen then (- EINVAL, cd\<lparr>rd_err := nfserr_toosmall\<rparr>, rqstp, h)
         else
           let (buffer, h) = deref_ptr (rd_buffer cd) h;
               (page, cur) = find_page buffer 1 (rq_next_page rqstp) None;
               (fits, h) = fits_page buffer cur elen h
           in if fits then
                let (p, cd, rqstp, h) = encode_baggage K I pl cd rqstp buffer name (de_ino de) h;
                    num_entry_words = snd p - snd buffer
                in (0, cd\<lparr>rd_buflen := rd_buflen cd - int num_entry_words, rd_buffer := Some p, rd_err := nfs_ok\<rparr>,
                    rqstp, h)
              else if page + 1 < rq_npages rqstp then
                let (p1, cd, rqstp, h) = encode_baggage K I pl cd rqstp (page + 1, 0) name (de_ino de) h;
                    num_entry_words = snd p1;
                    (p, cd, rqstp, h) = split_entry cd rqstp buffer (page + 1) num_entry_words h
                in (0, cd\<lparr>rd_buflen := rd_buflen cd - int num_entry_words, rd_buffer := Some p, rd_err := nfs_ok\<rparr>,
                    rqstp, h)
              else (- EINVAL, cd\<lparr>rd_err := nfserr_toosmall\<rparr>, rqstp, h))"

definition nfs3svc_encode_entry ::
  "kernel \<Rightarrow> xdr_impl \<Rightarrow> nfsd3_readdirres \<Rightarrow> svc_rqst \<Rightarrow> dirent \<Rightarrow> hist \<Rightarrow>
   int \<times> nfsd3_readdirres \<times> svc_rqst \<times> hist" where
  "nfs3svc_encode_entry K I cd rqstp de h = encode_entry K I False cd rqstp de h"

definition nfs3svc_encode_entry_plus ::
  "kernel \<Rightarrow> xdr_impl \<Rightarrow> nfsd3_readdirres \<Rightarrow> svc_rqst \<Rightarrow> dirent \<Rightarrow> hist \<Rightarrow>
   int \<times> nfsd3_readdirres \<times> svc_rqst \<times> hist" where
  "nfs3svc_encode_entry_plus K I cd rqstp de h = encode_entry K I True cd rqstp de h"

section \<open>The buffered reader\<close>

text \<open>\<open>struct readdir_data\<close>: the entries stored so far, the bytes they use, and whether one was refused.\<close>

record readdir_data =
  rdd_dirent :: "dirent list"
  rdd_used :: nat
  rdd_full :: bool

text \<open>A record is 24 bytes and the name, rounded up to a multiple of eight.\<close>

definition dirent_reclen :: "nat \<Rightarrow> nat" where
  "dirent_reclen namlen = (24 + namlen + 7) div 8 * 8"

definition nfsd_buffered_filldir :: "readdir_data \<Rightarrow> dirent \<Rightarrow> int \<times> readdir_data" where
  "nfsd_buffered_filldir buf de =
     (let reclen = dirent_reclen (length (de_name de))
      in if rdd_used buf + reclen > PAGE_SIZE then (- EINVAL, buf\<lparr>rdd_full := True\<rparr>)
         else (0, buf\<lparr>rdd_dirent := rdd_dirent buf @ [de], rdd_used := rdd_used buf + reclen\<rparr>))"

text \<open>\<open>iterate_dir\<close> offers entries to its actor until the actor refuses one.\<close>

fun iterate_actor :: "dirent list \<Rightarrow> readdir_data \<Rightarrow> readdir_data" where
  "iterate_actor [] buf = buf"
| "iterate_actor (de # des) buf =
     (let (r, buf) = nfsd_buffered_filldir buf de in if r \<noteq> 0 then buf else iterate_actor des buf)"

type_synonym filldir = "nfsd3_readdirres \<Rightarrow> svc_rqst \<Rightarrow> dirent \<Rightarrow> hist \<Rightarrow>
   int \<times> nfsd3_readdirres \<times> svc_rqst \<times> hist"

text \<open>The inner loop hands the stored entries on, and tells whether it bailed out early.\<close>

fun emit_entries ::
  "filldir \<Rightarrow> dirent list \<Rightarrow> u64 \<Rightarrow> nfsd3_readdirres \<Rightarrow> svc_rqst \<Rightarrow> hist \<Rightarrow>
   bool \<times> u64 \<times> nfsd3_readdirres \<times> svc_rqst \<times> hist" where
  "emit_entries func [] offset cdp rqstp h = (False, offset, cdp, rqstp, h)"
| "emit_entries func (de # des) offset cdp rqstp h =
     (let offset = de_off de;
          (r, cdp, rqstp, h) = func cdp rqstp de h
      in if r \<noteq> 0 then (True, offset, cdp, rqstp, h)
         else if rd_err cdp \<noteq> nfs_ok then (True, offset, cdp, rqstp, h)
         else emit_entries func des offset cdp rqstp h)"

partial_function (option) readdir_loop ::
  "kernel \<Rightarrow> filldir \<Rightarrow> file_p \<Rightarrow> u64 \<Rightarrow> nfsd3_readdirres \<Rightarrow> svc_rqst \<Rightarrow> hist \<Rightarrow>
   (int \<times> u64 \<times> nfsd3_readdirres \<times> svc_rqst \<times> hist) option" where
  "readdir_loop K func file offset cdp rqstp h =
     (let cdp = cdp\<lparr>rd_err := nfserr_eof\<rparr>;
          (entries, rc) = iterate_dir K h file;
          buf = iterate_actor entries \<lparr>rdd_dirent = [], rdd_used = 0, rdd_full = False\<rparr>;
          h = File (Iterate_dir file (length (rdd_dirent buf)) rc) # h;
          host_err = (if rdd_full buf then 0 else rc)
      in if host_err < 0 then Some (host_err, offset, cdp, rqstp, h)
         else if rdd_used buf = 0 then Some (host_err, offset, cdp, rqstp, h)
         else
           let (bailed, offset, cdp, rqstp, h) = emit_entries func (rdd_dirent buf) offset cdp rqstp h
           in if bailed then Some (host_err, offset, cdp, rqstp, h)
              else
                let (r, h) = call_vfs_llseek K file 0 False h
                in readdir_loop K func file (word_of_int r) cdp rqstp h)"

declare readdir_loop.simps [code]

definition nfsd_buffered_readdir ::
  "kernel \<Rightarrow> file_p \<Rightarrow> filldir \<Rightarrow> nfsd3_readdirres \<Rightarrow> svc_rqst \<Rightarrow> u64 \<Rightarrow> hist \<Rightarrow>
   (be32 \<times> u64 \<times> nfsd3_readdirres \<times> svc_rqst \<times> hist) option" where
  "nfsd_buffered_readdir K file func cdp rqstp offsetp h =
     (let (ok, h) = call_get_free_page K h
      in if \<not> ok then Some (nfserrno (- ENOMEM), offsetp, cdp, rqstp, h)
         else (case readdir_loop K func file offsetp cdp rqstp h of
                 None \<Rightarrow> None
               | Some (host_err, offset, cdp, rqstp, h) \<Rightarrow>
                   let h = Sys Free_page # h
                   in if host_err \<noteq> 0 then Some (nfserrno host_err, offsetp, cdp, rqstp, h)
                      else Some (rd_err cdp, offset, cdp, rqstp, h)))"

definition nfsd_readdir ::
  "kernel \<Rightarrow> svc_rqst \<Rightarrow> u64 \<Rightarrow> nfsd3_readdirres \<Rightarrow> filldir \<Rightarrow> hist \<Rightarrow>
   (be32 \<times> u64 \<times> nfsd3_readdirres \<times> svc_rqst \<times> hist) option" where
  "nfsd_readdir K rqstp offsetp cdp func h =
     (let (err, file, fhp, h) = nfsd_open K rqstp (rd_fh cdp) S_IFDIR NFSD_MAY_READ h;
          cdp = cdp\<lparr>rd_fh := fhp\<rparr>
      in if err \<noteq> 0 then Some (err, offsetp, cdp, rqstp, h)
         else
           let (file, h) = deref file h;
               (offset, h) = call_vfs_llseek K file offsetp True h
           in if offset < 0 then Some (nfserrno offset, offsetp, cdp, rqstp, File (Fput file) # h)
              else (case nfsd_buffered_readdir K file func cdp rqstp offsetp h of
                      None \<Rightarrow> None
                    | Some (err, offsetp, cdp, rqstp, h) \<Rightarrow>
                        let err = (if err = nfserr_eof \<or> err = nfserr_toosmall then nfs_ok else err)
                        in Some (err, offsetp, cdp, rqstp, File (Fput file) # h)))"

end
