(* ===== verification/Proc.thy ===== *)
theory Proc
  imports Readdir
begin

text \<open>
  The procedures of NFS version 3 (\<open>proc.c\<close>): each takes its decoded arguments and its cleared result
  structure and returns the status, the result and the history. The two directory procedures run
  the reader, so their value is an option. The procedure table and the dispatcher are in \<open>Dispatch\<close>.
  What the procedures print is not modelled.
\<close>

section \<open>Procedures\<close>

definition nfsd3_proc_null :: be32 where
  "nfsd3_proc_null = nfs_ok"

definition nfsd3_proc_getattr ::
  "kernel \<Rightarrow> svc_rqst \<Rightarrow> nfsd_fhandle \<Rightarrow> nfsd3_attrstat \<Rightarrow> hist \<Rightarrow> be32 \<times> nfsd3_attrstat \<times> hist" where
  "nfsd3_proc_getattr K rqstp argp resp h =
     (let (fh, h) = fh_copy (fha_fh argp) h;
          (nfserr, fh, h) = fh_verify K rqstp fh h;
          resp = resp\<lparr>as_fh := fh\<rparr>
      in if nfserr \<noteq> 0 then (nfserr, resp\<lparr>as_status := nfserr\<rparr>, h)
         else
           let (nfserr, stat, h) = fh_getattr K fh (as_stat resp) h
           in (nfserr, resp\<lparr>as_stat := stat, as_status := nfserr\<rparr>, h))"

definition nfsd3_proc_setattr ::
  "kernel \<Rightarrow> svc_rqst \<Rightarrow> nfsd3_sattrargs \<Rightarrow> nfsd3_attrstat \<Rightarrow> hist \<Rightarrow> be32 \<times> nfsd3_attrstat \<times> hist" where
  "nfsd3_proc_setattr K rqstp argp resp h =
     (let (fh, h) = fh_copy (sa_fh argp) h;
          (nfserr, fh, h) = nfsd_setattr K rqstp fh (sa_attrs argp) (sa_check_guard argp \<noteq> 0) (sa_guardtime argp) h
      in (nfserr, resp\<lparr>as_fh := fh, as_status := nfserr\<rparr>, h))"

definition nfsd3_proc_lookup ::
  "kernel \<Rightarrow> svc_rqst \<Rightarrow> nfsd3_diropargs \<Rightarrow> nfsd3_diropres \<Rightarrow> hist \<Rightarrow> be32 \<times> nfsd3_diropres \<times> hist" where
  "nfsd3_proc_lookup K rqstp argp resp h =
     (let (dirfh, h) = fh_copy (da_fh argp) h;
          fh = fh_init NFS3_FHSIZE;
          (nfserr, dirfh, fh, h) = nfsd_lookup K rqstp dirfh (da_name argp) (da_len argp) fh h
      in (nfserr, resp\<lparr>dr_dirfh := dirfh, dr_fh := fh, dr_status := nfserr\<rparr>, h))"

definition nfsd3_proc_access ::
  "kernel \<Rightarrow> svc_rqst \<Rightarrow> nfsd3_accessargs \<Rightarrow> nfsd3_accessres \<Rightarrow> hist \<Rightarrow> be32 \<times> nfsd3_accessres \<times> hist" where
  "nfsd3_proc_access K rqstp argp resp h =
     (let (fh, h) = fh_copy (aa_fh argp) h
      in (0, resp\<lparr>acr_fh := fh, acr_access := aa_access argp, acr_status := 0\<rparr>, h))"

abbreviation (input) NFS3_POST_OP_ATTR_WORDS :: nat where "NFS3_POST_OP_ATTR_WORDS \<equiv> 22"

definition nfsd3_proc_read ::
  "kernel \<Rightarrow> svc_rqst \<Rightarrow> nfsd3_readargs \<Rightarrow> nfsd3_readres \<Rightarrow> hist \<Rightarrow> be32 \<times> nfsd3_readres \<times> hist" where
  "nfsd3_proc_read K rqstp argp resp h =
     (let max_blocksize = svc_max_payload K h;
          cnt = (ucast (min (ra_count argp) max_blocksize) :: u64);
          h = Sys (Reserve_auth ((1 + NFS3_POST_OP_ATTR_WORDS + 3) * 4 + unat cnt + 4)) # h;
          (fh, h) = fh_copy (ra_fh argp) h;
          (nfserr, count, fh, h) =
            nfsd_read K rqstp fh (ra_offset argp) (map snd (take (ra_vlen argp) (rq_vec rqstp))) cnt h;
          resp = resp\<lparr>rr_count := count, rr_fh := fh\<rparr>
      in if nfserr = 0 then
           let (dentry, h) = deref (fh_dentry fh) h;
               (ino, h) = inode_of K dentry h;
               eof = nfsd_eof_on_read cnt count (ra_offset argp) (i_size (inode_at K h ino))
           in (nfserr, resp\<lparr>rr_eof := eof, rr_status := nfserr\<rparr>, h)
         else (nfserr, resp\<lparr>rr_status := nfserr\<rparr>, h))"

definition nfsd3_proc_write ::
  "kernel \<Rightarrow> svc_rqst \<Rightarrow> nfsd3_writeargs \<Rightarrow> nfsd3_writeres \<Rightarrow> hist \<Rightarrow> be32 \<times> nfsd3_writeres \<times> hist" where
  "nfsd3_proc_write K rqstp argp resp h =
     (let cnt = (ucast (wa_len argp) :: u64);
          (fh, h) = fh_copy (wa_fh argp) h;
          resp = resp\<lparr>wr_fh := fh, wr_committed := wa_stable argp\<rparr>;
          vec = svc_fill_write_vector K h (wa_first argp) cnt
      in if vec = [] then (nfserr_io, resp\<lparr>wr_status := nfserr_io\<rparr>, h)
         else
           let (nfserr, cnt, fh, h) = nfsd_write K rqstp fh (wa_offset argp) vec cnt (wr_committed resp) h
           in (nfserr, resp\<lparr>wr_fh := fh, wr_count := cnt, wr_status := nfserr\<rparr>, h))"

definition nfsd3_proc_create ::
  "kernel \<Rightarrow> svc_rqst \<Rightarrow> nfsd3_createargs \<Rightarrow> nfsd3_diropres \<Rightarrow> hist \<Rightarrow> be32 \<times> nfsd3_diropres \<times> hist" where
  "nfsd3_proc_create K rqstp argp resp h =
     (let (dirfh, h) = fh_copy (ca_fh argp) h;
          newfh = fh_init NFS3_FHSIZE;
          attr = (ca_attrs argp)\<lparr>ia_mode := ia_mode (ca_attrs argp) AND NOT S_IFMT\<rparr>;
          attr = (if ia_valid attr AND ATTR_MODE = 0 then
                    attr\<lparr>ia_valid := ia_valid attr OR ATTR_MODE, ia_mode := S_IFREG\<rparr>
                  else attr\<lparr>ia_mode := (ia_mode attr AND NOT S_IFMT) OR S_IFREG\<rparr>);
          (nfserr, dirfh, newfh, _, _, h) =
            do_nfsd_create K rqstp dirfh (ca_name argp) (ca_len argp) attr newfh (ca_createmode argp) None None h
      in (nfserr, resp\<lparr>dr_dirfh := dirfh, dr_fh := newfh, dr_status := nfserr\<rparr>, h))"

definition nfsd3_proc_mkdir ::
  "kernel \<Rightarrow> svc_rqst \<Rightarrow> nfsd3_createargs \<Rightarrow> nfsd3_diropres \<Rightarrow> hist \<Rightarrow> be32 \<times> nfsd3_diropres \<times> hist" where
  "nfsd3_proc_mkdir K rqstp argp resp h =
     (let attr = (ca_attrs argp)\<lparr>ia_valid := ia_valid (ca_attrs argp) AND NOT ATTR_SIZE\<rparr>;
          (dirfh, h) = fh_copy (ca_fh argp) h;
          fh = fh_init NFS3_FHSIZE;
          (nfserr, dirfh, fh, h) = nfsd_create K rqstp dirfh (ca_name argp) (ca_len argp) attr S_IFDIR fh h
      in (nfserr, resp\<lparr>dr_dirfh := dirfh, dr_fh := fh, dr_status := nfserr\<rparr>, h))"

definition nfsd3_proc_remove ::
  "kernel \<Rightarrow> svc_rqst \<Rightarrow> nfsd3_diropargs \<Rightarrow> nfsd3_attrstat \<Rightarrow> hist \<Rightarrow> be32 \<times> nfsd3_attrstat \<times> hist" where
  "nfsd3_proc_remove K rqstp argp resp h =
     (let (fh, h) = fh_copy (da_fh argp) h;
          (nfserr, fh, h) = nfsd_unlink K rqstp fh (- 0x4000) (da_name argp) (da_len argp) h
      in (nfserr, resp\<lparr>as_fh := fh, as_status := nfserr\<rparr>, h))"

definition nfsd3_proc_rmdir ::
  "kernel \<Rightarrow> svc_rqst \<Rightarrow> nfsd3_diropargs \<Rightarrow> nfsd3_attrstat \<Rightarrow> hist \<Rightarrow> be32 \<times> nfsd3_attrstat \<times> hist" where
  "nfsd3_proc_rmdir K rqstp argp resp h =
     (let (fh, h) = fh_copy (da_fh argp) h;
          (nfserr, fh, h) = nfsd_unlink K rqstp fh 0x4000 (da_name argp) (da_len argp) h
      in (nfserr, resp\<lparr>as_fh := fh, as_status := nfserr\<rparr>, h))"

section \<open>Directory procedures\<close>

text \<open>The two cells of the cookie verifier, copied from the request.\<close>

definition copy_verf :: "svc_rqst \<Rightarrow> nat option \<Rightarrow> hist \<Rightarrow> (be32 \<times> be32) \<times> hist" where
  "copy_verf rqstp verf h =
     (let (v, h) = deref verf h in ((rq_arg_head rqstp v, rq_arg_head rqstp (v + 1)), h))"

text \<open>The distance of two pointers, in cells; only pointers into one page can be subtracted.\<close>

definition ptr_diff :: "page_ptr \<Rightarrow> page_ptr \<Rightarrow> hist \<Rightarrow> int \<times> hist" where
  "ptr_diff p q h = (int (snd p) - int (snd q), if fst p = fst q then h else Fault OOPS # h)"

definition page_start :: "nat option \<Rightarrow> page_ptr option" where
  "page_start = map_option (\<lambda>pg. (pg, 0))"

text \<open>The count in words, less two for the trailer, as the \<open>int\<close> the C arithmetic gives.\<close>

definition dir_words :: "u32 \<Rightarrow> int" where
  "dir_words count = sint (drop_bit 2 count - 2)"

definition nfsd3_proc_readdir ::
  "kernel \<Rightarrow> xdr_impl \<Rightarrow> svc_rqst \<Rightarrow> nfsd3_readdirargs \<Rightarrow> nfsd3_readdirres \<Rightarrow> hist \<Rightarrow>
   (be32 \<times> svc_rqst \<times> nfsd3_readdirargs \<times> nfsd3_readdirres \<times> hist) option" where
  "nfsd3_proc_readdir K I rqstp argp resp h =
     (let count = dir_words (rda_count argp);
          (fh, h) = fh_copy (rda_fh argp) h;
          resp = resp\<lparr>rd_fh := fh, rd_buflen := count, rd_err := nfs_ok, rd_buffer := page_start (rda_buffer argp)\<rparr>
      in (case nfsd_readdir K rqstp (rda_cookie argp) resp (nfs3svc_encode_entry K I) h of
            None \<Rightarrow> None
          | Some (nfserr, cookie, resp, rqstp, h) \<Rightarrow>
              let argp = argp\<lparr>rda_cookie := cookie\<rparr>;
                  (verf, h) = copy_verf rqstp (rda_verf argp) h;
                  (buffer, h) = deref_ptr (rd_buffer resp) h;
                  (start, h) = deref_ptr (page_start (rda_buffer argp)) h;
                  (used, h) = ptr_diff buffer start h;
                  resp = resp\<lparr>rd_verf := verf, rd_count := used\<rparr>;
                  (rqstp, h) = (case rd_offset resp of
                                  None \<Rightarrow> (rqstp, h)
                                | Some p \<Rightarrow> store rqstp p (xdr_encode_hyper cookie) h)
              in Some (nfserr, rqstp, argp, resp\<lparr>rd_status := nfserr\<rparr>, h)))"

text \<open>The bytes in the pages up to the one the buffer ends in.\<close>

function count_pages :: "page_ptr option \<Rightarrow> nat \<Rightarrow> nat \<Rightarrow> nat \<Rightarrow> nat" where
  "count_pages buffer page next_page count =
     (if page < next_page then
        case buffer of
          Some (pg, w) \<Rightarrow>
            if pg = page \<and> w < 1024 then count + 4 * w
            else count_pages buffer (page + 1) next_page (count + PAGE_SIZE)
        | None \<Rightarrow> count_pages buffer (page + 1) next_page (count + PAGE_SIZE)
      else count)"
  by pat_completeness auto

termination count_pages
  by (relation "measure (\<lambda>(_, page, next_page, _). next_page - page)") auto

declare count_pages.simps [simp del]

definition nfsd3_proc_readdirplus ::
  "kernel \<Rightarrow> xdr_impl \<Rightarrow> svc_rqst \<Rightarrow> nfsd3_readdirargs \<Rightarrow> nfsd3_readdirres \<Rightarrow> hist \<Rightarrow>
   (be32 \<times> svc_rqst \<times> nfsd3_readdirargs \<times> nfsd3_readdirres \<times> hist) option" where
  "nfsd3_proc_readdirplus K I rqstp argp resp h =
     (let count = dir_words (rda_count argp);
          (fh, h) = fh_copy (rda_fh argp) h;
          resp = resp\<lparr>rd_count := count, rd_err := nfs_ok, rd_buffer := page_start (rda_buffer argp),
                      rd_buflen := count\<rparr>;
          (nfserr, fh, h) = fh_verify K rqstp fh h;
          resp = resp\<lparr>rd_fh := fh\<rparr>
      in if nfserr \<noteq> 0 then Some (nfserr, rqstp, argp, resp\<lparr>rd_status := nfserr\<rparr>, h)
         else (case nfsd_readdir K rqstp (rda_cookie argp) resp (nfs3svc_encode_entry_plus K I) h of
                 None \<Rightarrow> None
               | Some (nfserr, offset, resp, rqstp, h) \<Rightarrow>
                   let (verf, h) = copy_verf rqstp (rda_verf argp) h;
                       count = count_pages (rd_buffer resp) 1 (rq_next_page rqstp) 0;
                       resp = resp\<lparr>rd_verf := verf, rd_count := int (count div 4)\<rparr>;
                       (resp, rqstp, h) = encode_offset resp rqstp offset h
                   in Some (nfserr, rqstp, argp, resp\<lparr>rd_status := nfserr\<rparr>, h)))"

section \<open>File system procedures\<close>

definition nfsd3_proc_fsstat ::
  "kernel \<Rightarrow> svc_rqst \<Rightarrow> nfsd_fhandle \<Rightarrow> nfsd3_fsstatres \<Rightarrow> hist \<Rightarrow>
   be32 \<times> nfsd_fhandle \<times> nfsd3_fsstatres \<times> hist" where
  "nfsd3_proc_fsstat K rqstp argp resp h =
     (let (nfserr, fh, stats, h) = nfsd_statfs K rqstp (fha_fh argp) (fs_stats resp) h;
          (fh, h) = fh_put K fh h
      in (nfserr, argp\<lparr>fha_fh := fh\<rparr>, resp\<lparr>fs_stats := stats, fs_status := nfserr\<rparr>, h))"

abbreviation (input) NFS3_FSF_DEFAULT :: u32 where "NFS3_FSF_DEFAULT \<equiv> 0x1B"
abbreviation (input) NFS3_FSF_BILLYBOY :: u32 where "NFS3_FSF_BILLYBOY \<equiv> 0x18"
abbreviation (input) MSDOS_SUPER_MAGIC :: u64 where "MSDOS_SUPER_MAGIC \<equiv> 0x4d44"

definition nfsd3_proc_fsinfo ::
  "kernel \<Rightarrow> svc_rqst \<Rightarrow> nfsd_fhandle \<Rightarrow> nfsd3_fsinfores \<Rightarrow> hist \<Rightarrow>
   be32 \<times> nfsd_fhandle \<times> nfsd3_fsinfores \<times> hist" where
  "nfsd3_proc_fsinfo K rqstp argp resp h =
     (let max_blocksize = svc_max_payload K h;
          resp = resp\<lparr>f_rtmax := max_blocksize, f_rtpref := max_blocksize, f_rtmult := 4096,
                      f_wtmax := max_blocksize, f_wtpref := max_blocksize, f_wtmult := 4096,
                      f_dtpref := 4096, f_maxfilesize := 0xFFFFFFFF, f_properties := NFS3_FSF_DEFAULT\<rparr>;
          (nfserr, fh, h) = fh_verify K rqstp (fha_fh argp) h;
          (resp, h) =
            (if nfserr = 0 then
               let (dentry, h) = deref (fh_dentry fh) h;
                   (ino, h) = inode_of K dentry h;
                   sb = inode_at K h ino;
                   resp = (if s_magic sb = MSDOS_SUPER_MAGIC then resp\<lparr>f_properties := NFS3_FSF_BILLYBOY\<rparr> else resp)
               in (resp\<lparr>f_maxfilesize := s_maxbytes sb\<rparr>, h)
             else (resp, h));
          (fh, h) = fh_put K fh h
      in (nfserr, argp\<lparr>fha_fh := fh\<rparr>, resp\<lparr>fi_status := nfserr\<rparr>, h))"

end
