(* ===== verification/Dispatch.thy ===== *)
theory Dispatch
  imports Proc
begin

text \<open>
  The procedure table (\<open>nfsd_procedures3\<close> of \<open>proc.c\<close>) and the dispatcher (\<open>nfsd_dispatch\<close> of
  \<open>nfssvc.c\<close>): decode the arguments, run the procedure, write the status, encode the result. The RPC
  layer calls the dispatcher with the argument and result structures cleared and calls the
  procedure's release function afterwards. The structures behind the \<open>void *\<close> of the RPC layer are
  tagged unions; a table entry reads and writes one member of each.
\<close>

section \<open>Arguments and results\<close>

datatype xdr_args =
    Args_void
  | Args_fhandle nfsd_fhandle
  | Args_sattr nfsd3_sattrargs
  | Args_dirop nfsd3_diropargs
  | Args_access nfsd3_accessargs
  | Args_read nfsd3_readargs
  | Args_write nfsd3_writeargs
  | Args_create nfsd3_createargs
  | Args_readdir nfsd3_readdirargs

datatype xdr_res =
    Res_void
  | Res_attrstat nfsd3_attrstat
  | Res_dirop nfsd3_diropres
  | Res_access nfsd3_accessres
  | Res_read nfsd3_readres
  | Res_write nfsd3_writeres
  | Res_readdir nfsd3_readdirres
  | Res_fsstat nfsd3_fsstatres
  | Res_fsinfo nfsd3_fsinfores

definition zero_attrstat :: nfsd3_attrstat where
  "zero_attrstat = \<lparr>as_status = 0, as_fh = zero_fh, as_stat = zero_kstat\<rparr>"

definition zero_diropres :: nfsd3_diropres where
  "zero_diropres = \<lparr>dr_status = 0, dr_dirfh = zero_fh, dr_fh = zero_fh\<rparr>"

definition zero_accessres :: nfsd3_accessres where
  "zero_accessres = \<lparr>acr_status = 0, acr_fh = zero_fh, acr_access = 0, acr_stat = zero_kstat\<rparr>"

definition zero_readres :: nfsd3_readres where
  "zero_readres = \<lparr>rr_status = 0, rr_fh = zero_fh, rr_count = 0, rr_eof = False\<rparr>"

definition zero_writeres :: nfsd3_writeres where
  "zero_writeres = \<lparr>wr_status = 0, wr_fh = zero_fh, wr_count = 0, wr_committed = 0\<rparr>"

definition zero_readdirres :: nfsd3_readdirres where
  "zero_readdirres = \<lparr>rd_status = 0, rd_fh = zero_fh, rd_scratch = zero_fh, rd_count = 0, rd_verf = (0, 0),
     rd_err = 0, rd_buffer = None, rd_buflen = 0, rd_offset = None, rd_offset1 = None\<rparr>"

definition zero_fsstatres :: nfsd3_fsstatres where
  "zero_fsstatres = \<lparr>fs_status = 0, fs_stats = zero_kstatfs, fs_invarsec = 0\<rparr>"

definition zero_fsinfores :: nfsd3_fsinfores where
  "zero_fsinfores = \<lparr>fi_status = 0, f_rtmax = 0, f_rtpref = 0, f_rtmult = 0, f_wtmax = 0, f_wtpref = 0,
     f_wtmult = 0, f_dtpref = 0, f_maxfilesize = 0, f_properties = 0\<rparr>"

section \<open>Table entries\<close>

text \<open>
  \<open>pc_args0\<close> and \<open>pc_res0\<close> are the cleared structures of sizes \<open>pc_argsize\<close> and \<open>pc_ressize\<close>. The
  functions of an entry are the source's, applied to the union member they cast their argument to.
  A cast to another member reads memory of the wrong shape, which is a fault.
\<close>

type_synonym decode_fn = "svc_rqst \<Rightarrow> nat \<Rightarrow> xdr_args \<Rightarrow> hist \<Rightarrow> bool \<times> xdr_args \<times> svc_rqst \<times> hist"
type_synonym proc_fn = "svc_rqst \<Rightarrow> xdr_args \<Rightarrow> xdr_res \<Rightarrow> hist \<Rightarrow>
   (be32 \<times> svc_rqst \<times> xdr_args \<times> xdr_res \<times> hist) option"
type_synonym encode_fn = "svc_rqst \<Rightarrow> be32 list \<Rightarrow> xdr_res \<Rightarrow> hist \<Rightarrow> bool \<times> xdr_res \<times> svc_rqst \<times> hist"
type_synonym release_fn = "xdr_res \<Rightarrow> hist \<Rightarrow> xdr_res \<times> hist"

record svc_procedure =
  pc_func :: proc_fn
  pc_decode :: "decode_fn option"
  pc_encode :: "encode_fn option"
  pc_release :: "release_fn option"
  pc_args0 :: xdr_args
  pc_res0 :: xdr_res
  pc_xdrressize :: nat

definition bad_decode :: decode_fn where
  "bad_decode rqstp p argp h = (False, argp, rqstp, Fault OOPS # h)"

definition bad_proc :: proc_fn where
  "bad_proc rqstp argp resp h = Some (nfserr_serverfault, rqstp, argp, resp, Fault OOPS # h)"

definition bad_encode :: encode_fn where
  "bad_encode rqstp p resp h = (False, resp, rqstp, Fault OOPS # h)"

text \<open>The functions of the table on the unions.\<close>

definition decode_fhandleargs :: "kernel \<Rightarrow> xdr_impl \<Rightarrow> decode_fn" where
  "decode_fhandleargs K I rqstp p argp h = (case argp of
     Args_fhandle a \<Rightarrow> (let (ok, a, rqstp, h) = nfs3svc_decode_fhandle K I rqstp p a h in (ok, Args_fhandle a, rqstp, h))
   | _ \<Rightarrow> bad_decode rqstp p argp h)"

definition decode_sattrargs :: "kernel \<Rightarrow> xdr_impl \<Rightarrow> decode_fn" where
  "decode_sattrargs K I rqstp p argp h = (case argp of
     Args_sattr a \<Rightarrow> (let (ok, a, rqstp, h) = nfs3svc_decode_sattrargs K I rqstp p a h in (ok, Args_sattr a, rqstp, h))
   | _ \<Rightarrow> bad_decode rqstp p argp h)"

definition decode_diropargs :: "kernel \<Rightarrow> xdr_impl \<Rightarrow> decode_fn" where
  "decode_diropargs K I rqstp p argp h = (case argp of
     Args_dirop a \<Rightarrow> (let (ok, a, rqstp, h) = nfs3svc_decode_diropargs K I rqstp p a h in (ok, Args_dirop a, rqstp, h))
   | _ \<Rightarrow> bad_decode rqstp p argp h)"

definition decode_accessargs :: "kernel \<Rightarrow> xdr_impl \<Rightarrow> decode_fn" where
  "decode_accessargs K I rqstp p argp h = (case argp of
     Args_access a \<Rightarrow> (let (ok, a, rqstp, h) = nfs3svc_decode_accessargs K I rqstp p a h in (ok, Args_access a, rqstp, h))
   | _ \<Rightarrow> bad_decode rqstp p argp h)"

definition decode_readargs :: "kernel \<Rightarrow> xdr_impl \<Rightarrow> decode_fn" where
  "decode_readargs K I rqstp p argp h = (case argp of
     Args_read a \<Rightarrow> (let (ok, a, rqstp, h) = nfs3svc_decode_readargs K I rqstp p a h in (ok, Args_read a, rqstp, h))
   | _ \<Rightarrow> bad_decode rqstp p argp h)"

definition decode_writeargs :: "kernel \<Rightarrow> xdr_impl \<Rightarrow> decode_fn" where
  "decode_writeargs K I rqstp p argp h = (case argp of
     Args_write a \<Rightarrow> (let (ok, a, rqstp, h) = nfs3svc_decode_writeargs K I rqstp p a h in (ok, Args_write a, rqstp, h))
   | _ \<Rightarrow> bad_decode rqstp p argp h)"

definition decode_createargs :: "kernel \<Rightarrow> xdr_impl \<Rightarrow> decode_fn" where
  "decode_createargs K I rqstp p argp h = (case argp of
     Args_create a \<Rightarrow> (let (ok, a, rqstp, h) = nfs3svc_decode_createargs K I rqstp p a h in (ok, Args_create a, rqstp, h))
   | _ \<Rightarrow> bad_decode rqstp p argp h)"

definition decode_mkdirargs :: "kernel \<Rightarrow> xdr_impl \<Rightarrow> decode_fn" where
  "decode_mkdirargs K I rqstp p argp h = (case argp of
     Args_create a \<Rightarrow> (let (ok, a, rqstp, h) = nfs3svc_decode_mkdirargs K I rqstp p a h in (ok, Args_create a, rqstp, h))
   | _ \<Rightarrow> bad_decode rqstp p argp h)"

definition decode_readdirargs :: "kernel \<Rightarrow> xdr_impl \<Rightarrow> decode_fn" where
  "decode_readdirargs K I rqstp p argp h = (case argp of
     Args_readdir a \<Rightarrow>
       (let (ok, a, rqstp, h) = nfs3svc_decode_readdirargs K I rqstp p a h in (ok, Args_readdir a, rqstp, h))
   | _ \<Rightarrow> bad_decode rqstp p argp h)"

definition decode_readdirplusargs :: "kernel \<Rightarrow> xdr_impl \<Rightarrow> decode_fn" where
  "decode_readdirplusargs K I rqstp p argp h = (case argp of
     Args_readdir a \<Rightarrow>
       (let (ok, a, rqstp, h) = nfs3svc_decode_readdirplusargs K I rqstp p a h in (ok, Args_readdir a, rqstp, h))
   | _ \<Rightarrow> bad_decode rqstp p argp h)"

definition proc_null :: proc_fn where
  "proc_null rqstp argp resp h = Some (nfsd3_proc_null, rqstp, argp, resp, h)"

definition proc_getattr :: "kernel \<Rightarrow> proc_fn" where
  "proc_getattr K rqstp argp resp h = (case (argp, resp) of
     (Args_fhandle a, Res_attrstat r) \<Rightarrow>
       (let (err, r, h) = nfsd3_proc_getattr K rqstp a r h in Some (err, rqstp, argp, Res_attrstat r, h))
   | _ \<Rightarrow> bad_proc rqstp argp resp h)"

definition proc_setattr :: "kernel \<Rightarrow> proc_fn" where
  "proc_setattr K rqstp argp resp h = (case (argp, resp) of
     (Args_sattr a, Res_attrstat r) \<Rightarrow>
       (let (err, r, h) = nfsd3_proc_setattr K rqstp a r h in Some (err, rqstp, argp, Res_attrstat r, h))
   | _ \<Rightarrow> bad_proc rqstp argp resp h)"

definition proc_lookup :: "kernel \<Rightarrow> proc_fn" where
  "proc_lookup K rqstp argp resp h = (case (argp, resp) of
     (Args_dirop a, Res_dirop r) \<Rightarrow>
       (let (err, r, h) = nfsd3_proc_lookup K rqstp a r h in Some (err, rqstp, argp, Res_dirop r, h))
   | _ \<Rightarrow> bad_proc rqstp argp resp h)"

definition proc_access :: "kernel \<Rightarrow> proc_fn" where
  "proc_access K rqstp argp resp h = (case (argp, resp) of
     (Args_access a, Res_access r) \<Rightarrow>
       (let (err, r, h) = nfsd3_proc_access K rqstp a r h in Some (err, rqstp, argp, Res_access r, h))
   | _ \<Rightarrow> bad_proc rqstp argp resp h)"

definition proc_read :: "kernel \<Rightarrow> proc_fn" where
  "proc_read K rqstp argp resp h = (case (argp, resp) of
     (Args_read a, Res_read r) \<Rightarrow>
       (let (err, r, h) = nfsd3_proc_read K rqstp a r h in Some (err, rqstp, argp, Res_read r, h))
   | _ \<Rightarrow> bad_proc rqstp argp resp h)"

definition proc_write :: "kernel \<Rightarrow> proc_fn" where
  "proc_write K rqstp argp resp h = (case (argp, resp) of
     (Args_write a, Res_write r) \<Rightarrow>
       (let (err, r, h) = nfsd3_proc_write K rqstp a r h in Some (err, rqstp, argp, Res_write r, h))
   | _ \<Rightarrow> bad_proc rqstp argp resp h)"

definition proc_create :: "kernel \<Rightarrow> proc_fn" where
  "proc_create K rqstp argp resp h = (case (argp, resp) of
     (Args_create a, Res_dirop r) \<Rightarrow>
       (let (err, r, h) = nfsd3_proc_create K rqstp a r h in Some (err, rqstp, argp, Res_dirop r, h))
   | _ \<Rightarrow> bad_proc rqstp argp resp h)"

definition proc_mkdir :: "kernel \<Rightarrow> proc_fn" where
  "proc_mkdir K rqstp argp resp h = (case (argp, resp) of
     (Args_create a, Res_dirop r) \<Rightarrow>
       (let (err, r, h) = nfsd3_proc_mkdir K rqstp a r h in Some (err, rqstp, argp, Res_dirop r, h))
   | _ \<Rightarrow> bad_proc rqstp argp resp h)"

definition proc_remove :: "kernel \<Rightarrow> proc_fn" where
  "proc_remove K rqstp argp resp h = (case (argp, resp) of
     (Args_dirop a, Res_attrstat r) \<Rightarrow>
       (let (err, r, h) = nfsd3_proc_remove K rqstp a r h in Some (err, rqstp, argp, Res_attrstat r, h))
   | _ \<Rightarrow> bad_proc rqstp argp resp h)"

definition proc_rmdir :: "kernel \<Rightarrow> proc_fn" where
  "proc_rmdir K rqstp argp resp h = (case (argp, resp) of
     (Args_dirop a, Res_attrstat r) \<Rightarrow>
       (let (err, r, h) = nfsd3_proc_rmdir K rqstp a r h in Some (err, rqstp, argp, Res_attrstat r, h))
   | _ \<Rightarrow> bad_proc rqstp argp resp h)"

definition proc_readdir :: "kernel \<Rightarrow> xdr_impl \<Rightarrow> proc_fn" where
  "proc_readdir K I rqstp argp resp h = (case (argp, resp) of
     (Args_readdir a, Res_readdir r) \<Rightarrow>
       (case nfsd3_proc_readdir K I rqstp a r h of
          None \<Rightarrow> None
        | Some (err, rqstp, a, r, h) \<Rightarrow> Some (err, rqstp, Args_readdir a, Res_readdir r, h))
   | _ \<Rightarrow> bad_proc rqstp argp resp h)"

definition proc_readdirplus :: "kernel \<Rightarrow> xdr_impl \<Rightarrow> proc_fn" where
  "proc_readdirplus K I rqstp argp resp h = (case (argp, resp) of
     (Args_readdir a, Res_readdir r) \<Rightarrow>
       (case nfsd3_proc_readdirplus K I rqstp a r h of
          None \<Rightarrow> None
        | Some (err, rqstp, a, r, h) \<Rightarrow> Some (err, rqstp, Args_readdir a, Res_readdir r, h))
   | _ \<Rightarrow> bad_proc rqstp argp resp h)"

definition proc_fsstat :: "kernel \<Rightarrow> proc_fn" where
  "proc_fsstat K rqstp argp resp h = (case (argp, resp) of
     (Args_fhandle a, Res_fsstat r) \<Rightarrow>
       (let (err, a, r, h) = nfsd3_proc_fsstat K rqstp a r h in Some (err, rqstp, Args_fhandle a, Res_fsstat r, h))
   | _ \<Rightarrow> bad_proc rqstp argp resp h)"

definition proc_fsinfo :: "kernel \<Rightarrow> proc_fn" where
  "proc_fsinfo K rqstp argp resp h = (case (argp, resp) of
     (Args_fhandle a, Res_fsinfo r) \<Rightarrow>
       (let (err, a, r, h) = nfsd3_proc_fsinfo K rqstp a r h in Some (err, rqstp, Args_fhandle a, Res_fsinfo r, h))
   | _ \<Rightarrow> bad_proc rqstp argp resp h)"

definition encode_voidres :: "kernel \<Rightarrow> encode_fn" where
  "encode_voidres K rqstp p resp h =
     (let (ok, rqstp, h) = nfs3svc_encode_voidres K rqstp p h in (ok, resp, rqstp, h))"

definition encode_attrstatres :: "kernel \<Rightarrow> xdr_impl \<Rightarrow> encode_fn" where
  "encode_attrstatres K I rqstp p resp h = (case resp of
     Res_attrstat r \<Rightarrow> (let (ok, r, rqstp, h) = nfs3svc_encode_attrstat K I rqstp p r h in (ok, Res_attrstat r, rqstp, h))
   | _ \<Rightarrow> bad_encode rqstp p resp h)"

definition encode_wccstatres :: "kernel \<Rightarrow> xdr_impl \<Rightarrow> encode_fn" where
  "encode_wccstatres K I rqstp p resp h = (case resp of
     Res_attrstat r \<Rightarrow> (let (ok, rqstp, h) = nfs3svc_encode_wccstat K I rqstp p r h in (ok, resp, rqstp, h))
   | _ \<Rightarrow> bad_encode rqstp p resp h)"

definition encode_diropres :: "kernel \<Rightarrow> xdr_impl \<Rightarrow> encode_fn" where
  "encode_diropres K I rqstp p resp h = (case resp of
     Res_dirop r \<Rightarrow> (let (ok, rqstp, h) = nfs3svc_encode_diropres K I rqstp p r h in (ok, resp, rqstp, h))
   | _ \<Rightarrow> bad_encode rqstp p resp h)"

definition encode_accessres :: "kernel \<Rightarrow> xdr_impl \<Rightarrow> encode_fn" where
  "encode_accessres K I rqstp p resp h = (case resp of
     Res_access r \<Rightarrow> (let (ok, rqstp, h) = nfs3svc_encode_accessres K I rqstp p r h in (ok, resp, rqstp, h))
   | _ \<Rightarrow> bad_encode rqstp p resp h)"

definition encode_readres :: "kernel \<Rightarrow> xdr_impl \<Rightarrow> encode_fn" where
  "encode_readres K I rqstp p resp h = (case resp of
     Res_read r \<Rightarrow> (let (ok, rqstp, h) = nfs3svc_encode_readres K I rqstp p r h in (ok, resp, rqstp, h))
   | _ \<Rightarrow> bad_encode rqstp p resp h)"

definition encode_writeres :: "kernel \<Rightarrow> xdr_impl \<Rightarrow> timespec \<Rightarrow> encode_fn" where
  "encode_writeres K I boot rqstp p resp h = (case resp of
     Res_write r \<Rightarrow> (let (ok, rqstp, h) = nfs3svc_encode_writeres K I boot rqstp p r h in (ok, resp, rqstp, h))
   | _ \<Rightarrow> bad_encode rqstp p resp h)"

definition encode_createres :: "kernel \<Rightarrow> xdr_impl \<Rightarrow> encode_fn" where
  "encode_createres K I rqstp p resp h = (case resp of
     Res_dirop r \<Rightarrow> (let (ok, rqstp, h) = nfs3svc_encode_createres K I rqstp p r h in (ok, resp, rqstp, h))
   | _ \<Rightarrow> bad_encode rqstp p resp h)"

definition encode_readdirres :: "kernel \<Rightarrow> xdr_impl \<Rightarrow> encode_fn" where
  "encode_readdirres K I rqstp p resp h = (case resp of
     Res_readdir r \<Rightarrow> (let (ok, rqstp, h) = nfs3svc_encode_readdirres K I rqstp p r h in (ok, resp, rqstp, h))
   | _ \<Rightarrow> bad_encode rqstp p resp h)"

definition encode_fsstatres :: "kernel \<Rightarrow> encode_fn" where
  "encode_fsstatres K rqstp p resp h = (case resp of
     Res_fsstat r \<Rightarrow> (let (ok, rqstp, h) = nfs3svc_encode_fsstatres K rqstp p r h in (ok, resp, rqstp, h))
   | _ \<Rightarrow> bad_encode rqstp p resp h)"

definition encode_fsinfores :: "kernel \<Rightarrow> encode_fn" where
  "encode_fsinfores K rqstp p resp h = (case resp of
     Res_fsinfo r \<Rightarrow> (let (ok, rqstp, h) = nfs3svc_encode_fsinfores K rqstp p r h in (ok, resp, rqstp, h))
   | _ \<Rightarrow> bad_encode rqstp p resp h)"

text \<open>
  The release functions cast every result to the structure that starts with a status and one or
  two handles.
\<close>

definition release_fhandle :: "kernel \<Rightarrow> release_fn" where
  "release_fhandle K resp h = (case resp of
     Res_attrstat r \<Rightarrow> (let (fh, h) = nfs3svc_release_fhandle K (as_fh r) h in (Res_attrstat (r\<lparr>as_fh := fh\<rparr>), h))
   | Res_access r \<Rightarrow> (let (fh, h) = nfs3svc_release_fhandle K (acr_fh r) h in (Res_access (r\<lparr>acr_fh := fh\<rparr>), h))
   | Res_read r \<Rightarrow> (let (fh, h) = nfs3svc_release_fhandle K (rr_fh r) h in (Res_read (r\<lparr>rr_fh := fh\<rparr>), h))
   | Res_write r \<Rightarrow> (let (fh, h) = nfs3svc_release_fhandle K (wr_fh r) h in (Res_write (r\<lparr>wr_fh := fh\<rparr>), h))
   | Res_readdir r \<Rightarrow> (let (fh, h) = nfs3svc_release_fhandle K (rd_fh r) h in (Res_readdir (r\<lparr>rd_fh := fh\<rparr>), h))
   | _ \<Rightarrow> (resp, Fault OOPS # h))"

definition release_fhandle2 :: "kernel \<Rightarrow> release_fn" where
  "release_fhandle2 K resp h = (case resp of
     Res_dirop r \<Rightarrow>
       (let (pair, h) = nfs3svc_release_fhandle2 K \<lparr>pair_fh1 = dr_dirfh r, pair_fh2 = dr_fh r\<rparr> h
        in (Res_dirop (r\<lparr>dr_dirfh := pair_fh1 pair, dr_fh := pair_fh2 pair\<rparr>), h))
   | _ \<Rightarrow> (resp, Fault OOPS # h))"

section \<open>The table\<close>

abbreviation (input) ST :: nat where "ST \<equiv> 1"
abbreviation (input) FH :: nat where "FH \<equiv> 17"
abbreviation (input) AT :: nat where "AT \<equiv> 21"
abbreviation (input) pAT :: nat where "pAT \<equiv> 1 + AT"
abbreviation (input) WC :: nat where "WC \<equiv> 7 + pAT"

text \<open>The numbers of the procedures (RFC 1813), and the largest payload of the RPC server in words.\<close>

datatype nfs3proc =
    NFS3PROC_NULL | NFS3PROC_GETATTR | NFS3PROC_SETATTR | NFS3PROC_LOOKUP | NFS3PROC_ACCESS
  | NFS3PROC_READ | NFS3PROC_WRITE | NFS3PROC_CREATE | NFS3PROC_MKDIR | NFS3PROC_REMOVE
  | NFS3PROC_RMDIR | NFS3PROC_READDIR | NFS3PROC_READDIRPLUS | NFS3PROC_FSSTAT | NFS3PROC_FSINFO

primrec proc_number :: "nfs3proc \<Rightarrow> u32" where
  "proc_number NFS3PROC_NULL = 0"
| "proc_number NFS3PROC_GETATTR = 1"
| "proc_number NFS3PROC_SETATTR = 2"
| "proc_number NFS3PROC_LOOKUP = 3"
| "proc_number NFS3PROC_ACCESS = 4"
| "proc_number NFS3PROC_READ = 6"
| "proc_number NFS3PROC_WRITE = 7"
| "proc_number NFS3PROC_CREATE = 8"
| "proc_number NFS3PROC_MKDIR = 9"
| "proc_number NFS3PROC_REMOVE = 12"
| "proc_number NFS3PROC_RMDIR = 13"
| "proc_number NFS3PROC_READDIR = 16"
| "proc_number NFS3PROC_READDIRPLUS = 17"
| "proc_number NFS3PROC_FSSTAT = 18"
| "proc_number NFS3PROC_FSINFO = 19"

primrec nfsd_procedures3 :: "kernel \<Rightarrow> xdr_impl \<Rightarrow> timespec \<Rightarrow> nat \<Rightarrow> nfs3proc \<Rightarrow> svc_procedure" where
  "nfsd_procedures3 K I boot maxblk NFS3PROC_NULL = \<lparr>pc_func = proc_null, pc_decode = None,
     pc_encode = Some (encode_voidres K), pc_release = None, pc_args0 = Args_void, pc_res0 = Res_void,
     pc_xdrressize = ST\<rparr>"
| "nfsd_procedures3 K I boot maxblk NFS3PROC_GETATTR = \<lparr>pc_func = proc_getattr K, pc_decode = Some (decode_fhandleargs K I),
     pc_encode = Some (encode_attrstatres K I), pc_release = Some (release_fhandle K),
     pc_args0 = Args_fhandle \<lparr>fha_fh = zero_fh\<rparr>, pc_res0 = Res_attrstat zero_attrstat, pc_xdrressize = ST + AT\<rparr>"
| "nfsd_procedures3 K I boot maxblk NFS3PROC_SETATTR = \<lparr>pc_func = proc_setattr K, pc_decode = Some (decode_sattrargs K I),
     pc_encode = Some (encode_wccstatres K I), pc_release = Some (release_fhandle K),
     pc_args0 = Args_sattr zero_sattrargs, pc_res0 = Res_attrstat zero_attrstat, pc_xdrressize = ST + WC\<rparr>"
| "nfsd_procedures3 K I boot maxblk NFS3PROC_LOOKUP = \<lparr>pc_func = proc_lookup K, pc_decode = Some (decode_diropargs K I),
     pc_encode = Some (encode_diropres K I), pc_release = Some (release_fhandle2 K),
     pc_args0 = Args_dirop zero_diropargs, pc_res0 = Res_dirop zero_diropres, pc_xdrressize = ST + FH + pAT + pAT\<rparr>"
| "nfsd_procedures3 K I boot maxblk NFS3PROC_ACCESS = \<lparr>pc_func = proc_access K, pc_decode = Some (decode_accessargs K I),
     pc_encode = Some (encode_accessres K I), pc_release = Some (release_fhandle K),
     pc_args0 = Args_access \<lparr>aa_fh = zero_fh, aa_access = 0\<rparr>, pc_res0 = Res_access zero_accessres,
     pc_xdrressize = ST + pAT + 1\<rparr>"
| "nfsd_procedures3 K I boot maxblk NFS3PROC_READ = \<lparr>pc_func = proc_read K, pc_decode = Some (decode_readargs K I),
     pc_encode = Some (encode_readres K I), pc_release = Some (release_fhandle K),
     pc_args0 = Args_read zero_readargs, pc_res0 = Res_read zero_readres, pc_xdrressize = ST + pAT + 4 + maxblk div 4\<rparr>"
| "nfsd_procedures3 K I boot maxblk NFS3PROC_WRITE = \<lparr>pc_func = proc_write K, pc_decode = Some (decode_writeargs K I),
     pc_encode = Some (encode_writeres K I boot), pc_release = Some (release_fhandle K),
     pc_args0 = Args_write zero_writeargs, pc_res0 = Res_write zero_writeres, pc_xdrressize = ST + WC + 4\<rparr>"
| "nfsd_procedures3 K I boot maxblk NFS3PROC_CREATE = \<lparr>pc_func = proc_create K, pc_decode = Some (decode_createargs K I),
     pc_encode = Some (encode_createres K I), pc_release = Some (release_fhandle2 K),
     pc_args0 = Args_create zero_createargs, pc_res0 = Res_dirop zero_diropres, pc_xdrressize = ST + (1 + FH + pAT) + WC\<rparr>"
| "nfsd_procedures3 K I boot maxblk NFS3PROC_MKDIR = \<lparr>pc_func = proc_mkdir K, pc_decode = Some (decode_mkdirargs K I),
     pc_encode = Some (encode_createres K I), pc_release = Some (release_fhandle2 K),
     pc_args0 = Args_create zero_createargs, pc_res0 = Res_dirop zero_diropres, pc_xdrressize = ST + (1 + FH + pAT) + WC\<rparr>"
| "nfsd_procedures3 K I boot maxblk NFS3PROC_REMOVE = \<lparr>pc_func = proc_remove K, pc_decode = Some (decode_diropargs K I),
     pc_encode = Some (encode_wccstatres K I), pc_release = Some (release_fhandle K),
     pc_args0 = Args_dirop zero_diropargs, pc_res0 = Res_attrstat zero_attrstat, pc_xdrressize = ST + WC\<rparr>"
| "nfsd_procedures3 K I boot maxblk NFS3PROC_RMDIR = \<lparr>pc_func = proc_rmdir K, pc_decode = Some (decode_diropargs K I),
     pc_encode = Some (encode_wccstatres K I), pc_release = Some (release_fhandle K),
     pc_args0 = Args_dirop zero_diropargs, pc_res0 = Res_attrstat zero_attrstat, pc_xdrressize = ST + WC\<rparr>"
| "nfsd_procedures3 K I boot maxblk NFS3PROC_READDIR = \<lparr>pc_func = proc_readdir K I, pc_decode = Some (decode_readdirargs K I),
     pc_encode = Some (encode_readdirres K I), pc_release = Some (release_fhandle K),
     pc_args0 = Args_readdir zero_readdirargs, pc_res0 = Res_readdir zero_readdirres, pc_xdrressize = 0\<rparr>"
| "nfsd_procedures3 K I boot maxblk NFS3PROC_READDIRPLUS = \<lparr>pc_func = proc_readdirplus K I,
     pc_decode = Some (decode_readdirplusargs K I),
     pc_encode = Some (encode_readdirres K I), pc_release = Some (release_fhandle K),
     pc_args0 = Args_readdir zero_readdirargs, pc_res0 = Res_readdir zero_readdirres, pc_xdrressize = 0\<rparr>"
| "nfsd_procedures3 K I boot maxblk NFS3PROC_FSSTAT = \<lparr>pc_func = proc_fsstat K, pc_decode = Some (decode_fhandleargs K I),
     pc_encode = Some (encode_fsstatres K), pc_release = None,
     pc_args0 = Args_fhandle \<lparr>fha_fh = zero_fh\<rparr>, pc_res0 = Res_fsstat zero_fsstatres, pc_xdrressize = ST + pAT + 2 * 6 + 1\<rparr>"
| "nfsd_procedures3 K I boot maxblk NFS3PROC_FSINFO = \<lparr>pc_func = proc_fsinfo K, pc_decode = Some (decode_fhandleargs K I),
     pc_encode = Some (encode_fsinfores K), pc_release = None,
     pc_args0 = Args_fhandle \<lparr>fha_fh = zero_fh\<rparr>, pc_res0 = Res_fsinfo zero_fsinfores, pc_xdrressize = ST + pAT + 12\<rparr>"

section \<open>The dispatcher\<close>

datatype rpc_stat = rpc_success | rpc_garbage_args | rpc_system_err

definition map_new_errors :: "be32 \<Rightarrow> be32" where
  "map_new_errors nfserr = (if nfserr = nfserr_wrongsec then nfserr_acces else nfserr)"

text \<open>
  The result: whether a reply is to be sent, the RPC status, and the structures. The status cell is
  written at the position the reply head had before the procedure ran.
\<close>

definition nfsd_dispatch ::
  "svc_procedure \<Rightarrow> svc_rqst \<Rightarrow> xdr_args \<Rightarrow> xdr_res \<Rightarrow> rpc_stat \<Rightarrow> hist \<Rightarrow>
   (bool \<times> rpc_stat \<times> svc_rqst \<times> xdr_res \<times> hist) option" where
  "nfsd_dispatch proc rqstp argp resp statp h =
     (let (ok, argp, rqstp, h) = (case pc_decode proc of
            None \<Rightarrow> (True, argp, rqstp, h)
          | Some xdr \<Rightarrow> xdr rqstp 0 argp h)
      in if \<not> ok then Some (True, rpc_garbage_args, rqstp, resp, h)
         else
           let nfserrp = take (rq_res_head_len rqstp div 4) (rq_res_head rqstp);
               rqstp = rqstp\<lparr>rq_res_head_len := rq_res_head_len rqstp + 4\<rparr>
           in (case pc_func proc rqstp argp resp h of
                 None \<Rightarrow> None
               | Some (nfserr, rqstp, argp, resp, h) \<Rightarrow>
                   let nfserr = map_new_errors nfserr
                   in if nfserr = nfserr_dropit \<or> rq_dropme rqstp then Some (False, statp, rqstp, resp, h)
                      else
                        let nfserrp = (if rq_proc rqstp \<noteq> 0 then nfserrp @ [nfserr] else nfserrp)
                        in (case pc_encode proc of
                              None \<Rightarrow> Some (True, statp, rqstp, resp, h)
                            | Some xdr \<Rightarrow>
                                let (ok, resp, rqstp, h) = xdr rqstp nfserrp resp h
                                in Some (True, if ok then statp else rpc_system_err, rqstp, resp, h))))"

end
