(* ===== verification/Readdir_Contract.thy ===== *)
theory Readdir_Contract
  imports Readdir Vfs_Contract
begin

text \<open>
  The contract of the directory reader: it keeps every reference count, it always ends, and the
  entries it encodes over several pages are the ones a single long buffer would hold.
\<close>

section \<open>References\<close>

lemma store_refs [refs_frame]: "store rqstp p ws h = (rq, h') \<Longrightarrow> \<forall>x. refs x h' = refs x h"
  by (auto simp: store_def ledger_simps)

lemma deref_ptr_refs [refs_frame]: "deref_ptr p h = (v, h') \<Longrightarrow> \<forall>x. refs x h' = refs x h"
  by (auto simp: deref_ptr_def ledger_simps split: option.splits)

lemma encode_offset_refs [refs_frame]: "encode_offset cd rqstp off h = (cd', rq, h') \<Longrightarrow> \<forall>x. refs x h' = refs x h"
  by (auto simp: encode_offset_def Let_def split: option.splits prod.splits dest!: refs_frame)

lemma fits_page_refs [refs_frame]: "fits_page b c n h = (v, h') \<Longrightarrow> \<forall>x. refs x h' = refs x h"
  by (auto simp: fits_page_def ledger_simps split: if_splits)

lemma snd_store_refs [simp]: "refs x (snd (store rqstp p ws h)) = refs x h"
  by (simp add: store_def ledger_simps)

lemma split_offset_hist: "split_offset cd p tmp off n h = (cd', h') \<Longrightarrow> h' = h \<or> h' = Fault BUG # h"
  unfolding split_offset_def by (simp only: prod.inject split: if_split_asm) simp_all

lemma split_offset_refs [refs_frame]: "split_offset cd p tmp off n h = (cd', h') \<Longrightarrow> \<forall>x. refs x h' = refs x h"
  by (auto simp: ledger_simps dest: split_offset_hist)

lemma split_entry_refs [refs_frame]:
  assumes "split_entry cd rqstp p tmp n h = (q, cd', rq, h')"
  shows "\<forall>x. refs x h' = refs x h"
proof -
  obtain o' g where d: "deref_ptr (rd_offset cd) h = (o', g)" by fastforce
  obtain cd2 g2 where s: "split_offset cd p tmp (snd o') (1024 - snd p) g = (cd2, g2)" by fastforce
  have r: "refs x g = refs x h" "refs x g2 = refs x h" for x using d s by (auto dest!: refs_frame)
  show ?thesis
  proof (cases "n < 1024 - snd p")
    case True
    then show ?thesis using assms d r(1)
      unfolding split_entry_def Let_def by (simp only: prod.case if_True case_prod_beta prod.inject) auto
  next
    case False
    then show ?thesis using assms d s r(2)
      unfolding split_entry_def Let_def
      by (simp only: prod.case if_False case_prod_beta prod.inject fst_conv snd_conv) auto
  qed
qed

lemma compose_entry_child_balance:
  assumes "compose_entry_child K cd fhp exp d ino h = (err, fhp', h')" and "unverified fhp"
  shows "balance K x fhp' h' = balance K x fhp h - of_bool (x = Dentry_ref d) \<and> fh_wf fhp'"
proof -
  have wf: "fh_wf fhp" "fh_dentry fhp = None" using assms(2) by (simp_all add: unverified_def)
  obtain rv f g where c: "fh_compose K fhp exp d (Ref_other (rd_fh cd)) h = (rv, f, g)" by (metis prod_cases3)
  note b = fh_compose_balance(1,2) [OF c wf]
  have put: "balance K y f' (Ref (Dput d) # g') = balance K y f' g' - of_bool (y = Dentry_ref d)" for f' g' y
    by (simp add: balance_def ledger_simps)
  show ?thesis
    using assms(1) c b wf
    by (auto simp: compose_entry_child_def Let_def put split: if_splits option.splits prod.splits)
qed

lemma compose_entry_fh_balance:
  assumes "compose_entry_fh K cd fhp name ino h = (err, fhp', h')" and "unverified fhp"
  shows "balance K x fhp' h' = balance K x fhp h \<and> fh_wf fhp'"
proof -
  obtain dp h1 where d: "deref (fh_dentry (rd_fh cd)) h = (dp, h1)" by fastforce
  obtain e h2 where e: "deref (fh_export (rd_fh cd)) h1 = (e, h2)" by fastforce
  obtain dot h3 where i: "isdotent (Some (char_of_list name)) (int (length name)) h2 = (dot, h3)" by fastforce
  have r: "refs x h3 = refs x h" using d e i by (auto dest!: refs_frame)
  have bal: "balance K x f g = balance K x f g' + (refs x g - refs x g')" for f g g'
    by (simp add: balance_def)
  have child: "balance K x f' g' = balance K x fhp h \<and> fh_wf f'"
    if "compose_entry_child K cd fhp e d' ino g = (er, f', g')" "refs x g = refs x h + of_bool (x = Dentry_ref d')"
    for d' g er f' g'
    using compose_entry_child_balance [OF that(1) assms(2), of x] that(2) by (simp add: balance_def)
  have wf: "fh_wf fhp" using assms(2) by (simp add: unverified_def)
  show ?thesis
    using assms(1) d e i r wf
    by (auto simp: compose_entry_fh_def Let_def call_simps ledger_simps balance_def [of K x fhp]
        split: if_splits sum.splits dest!: child)
       (simp_all add: balance_def ledger_simps)
qed

lemma encode_offset_fh: "encode_offset cd rqstp off h = (cd', rq, h') \<Longrightarrow> rd_fh cd' = rd_fh cd"
  by (auto simp: encode_offset_def Let_def split: option.splits prod.splits)

lemma split_offset_fh: "split_offset cd p tmp off n h = (cd', h') \<Longrightarrow> rd_fh cd' = rd_fh cd"
  unfolding split_offset_def by (simp only: prod.inject split: if_split_asm) (erule conjE, hypsubst, simp)+

lemma split_entry_fh:
  assumes "split_entry cd rqstp p tmp n h = (q, cd', rq, h')"
  shows "rd_fh cd' = rd_fh cd"
proof -
  obtain o' g where d: "deref_ptr (rd_offset cd) h = (o', g)" by fastforce
  obtain cd2 g2 where s: "split_offset cd p tmp (snd o') (1024 - snd p) g = (cd2, g2)" by fastforce
  show ?thesis
  proof (cases "n < 1024 - snd p")
    case True
    then show ?thesis using assms d
      unfolding split_entry_def Let_def by (simp only: prod.case if_True case_prod_beta prod.inject) auto
  next
    case False
    then show ?thesis using assms d s split_offset_fh [OF s]
      unfolding split_entry_def Let_def
      by (simp only: prod.case if_False case_prod_beta prod.inject fst_conv snd_conv)
  qed
qed

context fattr_encoder
begin

lemma entryplus_refs:
  assumes "entryplus_words K I cd rqstp name ino h = (ws, fh, h')"
  shows "refs x h' = refs x h"
proof -
  obtain err f g where c: "compose_entry_fh K cd (fh_init NFS3_FHSIZE) name ino h = (err, f, g)" by (metis prod_cases3)
  obtain vs g1 where p: "encode_post_op_attr K I rqstp [] f g = (vs, g1)" by fastforce
  note b = compose_entry_fh_balance [OF c unverified_init(1), of x]
  define g2 where "g2 = (if err \<noteq> 0 then g else g1)"
  have "refs x g2 = refs x g" using post_op_attr [OF p] by (simp add: g2_def)
  moreover obtain f3 where "fh_put K f g2 = (f3, h')"
    using assms unfolding entryplus_words_def Let_def g2_def c prod.case p
    by (cases "err = 0") (simp_all add: case_prod_beta prod_eq_iff)
  from fh_put_released(4) [OF this] have "refs x h' = balance K x f g2" using b by blast
  ultimately show ?thesis using b by (simp add: balance_def)
qed

lemma encode_baggage_refs:
  assumes "encode_baggage K I pl cd rqstp p name ino h = (q, cd', rq, h')"
  shows "refs x h' = refs x h \<and> rd_fh cd' = rd_fh cd"
  using assms entryplus_refs [of K _ _ _ _ _ _ _ _ x]
  by (auto simp: encode_baggage_def encode_entry_baggage_def encode_entryplus_baggage_def Let_def
      split: if_splits prod.splits dest!: refs_frame)

lemma encode_entry_frame:
  assumes "encode_entry K I pl cd rqstp de h = (r, cd', rq, h')"
  shows "(\<forall>x. refs x h' = refs x h) \<and> rd_fh cd' = rd_fh cd"
proof -
  have bag: "(\<forall>x. refs x g' = refs x g) \<and> rd_fh c' = rd_fh c"
    if "encode_baggage K I pl' c r p n i g = (q, c', r', g')" for pl' c r p n i g q c' r' g'
    using encode_baggage_refs [OF that] by blast
  have spl: "(\<forall>x. refs x g' = refs x g) \<and> rd_fh c' = rd_fh c"
    if "split_entry c r p t n g = (q, c', r', g')" for c r p t n g q c' r' g'
    using split_entry_refs [OF that] split_entry_fh [OF that] by blast
  have off: "(\<forall>x. refs x g' = refs x g) \<and> rd_fh c' = rd_fh c"
    if "encode_offset c r o' g = (c', r', g')" for c r o' g c' r' g'
    using encode_offset_refs [OF that] encode_offset_fh [OF that] by blast
  show ?thesis
    using assms
    by (auto simp: encode_entry_def Let_def split: if_splits prod.splits
        dest!: bag spl off deref_ptr_refs fits_page_refs)
qed

end

section \<open>The contract of an entry callback\<close>

text \<open>What the stored entries occupy.\<close>

lemma iterate_actor_used:
  "rdd_used buf = sum_list (map (\<lambda>de. dirent_reclen (length (de_name de))) (rdd_dirent buf)) \<Longrightarrow>
   rdd_used (iterate_actor des buf) =
     sum_list (map (\<lambda>de. dirent_reclen (length (de_name de))) (rdd_dirent (iterate_actor des buf)))"
  by (induction des buf rule: iterate_actor.induct)
     (auto simp: nfsd_buffered_filldir_def Let_def split: if_splits prod.splits)

lemma iterate_actor_empty:
  "rdd_dirent (iterate_actor des \<lparr>rdd_dirent = [], rdd_used = 0, rdd_full = b\<rparr>) = [] \<Longrightarrow>
   rdd_used (iterate_actor des \<lparr>rdd_dirent = [], rdd_used = 0, rdd_full = b\<rparr>) = 0"
  using iterate_actor_used [of "\<lparr>rdd_dirent = [], rdd_used = 0, rdd_full = b\<rparr>" des] by simp

text \<open>
  A callback keeps the references and the handle of the reply, and each entry it takes uses up
  space. The reader then keeps them too, and ends.
\<close>

locale filldir_op =
  fixes func :: filldir
  assumes frame: "func cd rq de h = (r, cd', rq', h') \<Longrightarrow> (\<forall>x. refs x h' = refs x h) \<and> rd_fh cd' = rd_fh cd"
    and progress: "func cd rq de h = (0, cd', rq', h') \<Longrightarrow> rd_buflen cd' < rd_buflen cd \<and> 0 \<le> rd_buflen cd"
begin

lemma emit_frame:
  "emit_entries func des off cd rq h = (b, off', cd', rq', h') \<Longrightarrow>
   (\<forall>x. refs x h' = refs x h) \<and> rd_fh cd' = rd_fh cd"
proof (induction des arbitrary: off cd rq h)
  case (Cons de des)
  obtain r c q g where f: "func cd rq de h = (r, c, q, g)" by (metis prod_cases4)
  show ?case
    using Cons.prems Cons.IH [of "de_off de" c q g] f frame [OF f] by (auto simp: Let_def split: if_splits)
qed simp

lemma emit_progress:
  "emit_entries func des off cd rq h = (False, off', cd', rq', h') \<Longrightarrow>
   rd_buflen cd' \<le> rd_buflen cd \<and> (des \<noteq> [] \<longrightarrow> rd_buflen cd' < rd_buflen cd \<and> 0 \<le> rd_buflen cd)"
proof (induction des arbitrary: off cd rq h)
  case (Cons de des)
  obtain r c q g where f: "func cd rq de h = (r, c, q, g)" by (metis prod_cases4)
  have r: "r = 0" using Cons.prems f by (auto simp: Let_def split: if_splits)
  show ?case
    using Cons.prems Cons.IH [of "de_off de" c q g] f progress [OF f [unfolded r]]
    by (auto simp: Let_def split: if_splits)
qed simp

lemma loop_returns:
  "\<exists>e o' c' q' g. readdir_loop K func file off cd rq h = Some (e, o', c', q', g) \<and>
     (\<forall>x. refs x g = refs x h) \<and> rd_fh c' = rd_fh cd"
proof (induction "nat (rd_buflen cd + 1)" arbitrary: off cd rq h rule: less_induct)
  case less
  define c where "c = cd\<lparr>rd_err := nfserr_eof\<rparr>"
  obtain es rc where i: "iterate_dir K h file = (es, rc)" by fastforce
  define buf where "buf = iterate_actor es \<lparr>rdd_dirent = [], rdd_used = 0, rdd_full = False\<rparr>"
  define g where "g = File (Iterate_dir file (length (rdd_dirent buf)) rc) # h"
  obtain b off1 c1 q1 g1 where e: "emit_entries func (rdd_dirent buf) off c rq g = (b, off1, c1, q1, g1)"
    by (metis prod_cases5)
  have g: "refs x g = refs x h" for x by (simp add: g_def ledger_simps)
  have c: "rd_fh c = rd_fh cd" "rd_buflen c = rd_buflen cd" by (simp_all add: c_def)
  note fr = emit_frame [OF e]
  have step: "\<exists>e o2 c' q' g'. readdir_loop K func file o' c1 q1 (File (Vfs_llseek file 0 False n) # g1) =
      Some (e, o2, c', q', g') \<and> (\<forall>x. refs x g' = refs x h) \<and> rd_fh c' = rd_fh cd"
    if "\<not> b" "rdd_used buf \<noteq> 0" for o' n
  proof -
    have "rdd_dirent buf \<noteq> []" using that(2) iterate_actor_empty [of es False] by (auto simp: buf_def)
    then have "rd_buflen c1 < rd_buflen c" "0 \<le> rd_buflen c"
      using emit_progress [of "rdd_dirent buf" off c rq g off1 c1 q1 g1] e that(1) by auto
    then have "nat (rd_buflen c1 + 1) < nat (rd_buflen cd + 1)" using c(2) by linarith
    from less [OF this, of o' q1 "File (Vfs_llseek file 0 False n) # g1"]
    show ?thesis using fr g c(1) by (simp add: ledger_simps)
  qed
  show ?case
    using step e i fr g c(1)
    by (subst readdir_loop.simps)
       (simp add: Let_def call_simps flip: c_def buf_def g_def)
qed

lemma buffered_readdir_returns:
  "\<exists>e o' c' q' g. nfsd_buffered_readdir K file func cd rq off h = Some (e, o', c', q', g) \<and>
     (\<forall>x. refs x g = refs x h) \<and> rd_fh c' = rd_fh cd"
  using loop_returns [of K "file" off cd rq "Sys (Get_free_page True) # h"]
  by (auto simp: nfsd_buffered_readdir_def Let_def call_simps ledger_simps split: option.splits)

text \<open>\<open>nfsd_readdir\<close> ends, and keeps the balance of the handle it opens the directory with.\<close>

lemma readdir_returns:
  assumes "err_ptr_ok K" and "fh_wf (rd_fh cd)"
  shows "\<exists>e o' c' q' g. nfsd_readdir K rq off cd func h = Some (e, o', c', q', g) \<and>
     balance K x (rd_fh c') g = balance K x (rd_fh cd) h \<and> fh_wf (rd_fh c')"
proof -
  obtain err fo f g where o: "nfsd_open K rq (rd_fh cd) S_IFDIR NFSD_MAY_READ h = (err, fo, f, g)"
    by (metis prod_cases4)
  note b = nfsd_open_balance [OF o assms]
  show ?thesis
  proof (cases "err = 0")
    case False
    then show ?thesis using o b by (auto simp: nfsd_readdir_def Let_def)
  next
    case True
    then obtain fl where fl: "fo = Some fl" using b(3) by auto
    have b1: "balance K x f (c # g') = balance K x (rd_fh cd) h + delta x c + of_bool (x = File_ref fl)"
      if "\<forall>x. refs x g' = refs x g" for c g'
      using b(1) [of x] fl that by (simp add: balance_def)
    show ?thesis
    proof (cases "vfs_llseek K g fl off True < 0")
      case neg: True
      then show ?thesis
        using True o fl b b1 [of "File (Vfs_llseek fl off True (vfs_llseek K g fl off True)) # g" "File (Fput fl)"]
        by (auto simp: nfsd_readdir_def Let_def call_simps ledger_simps)
    next
      case pos: False
      define r where "r = vfs_llseek K g fl off True"
      obtain e o' c' q' g' where l: "nfsd_buffered_readdir K fl func (cd\<lparr>rd_fh := f\<rparr>) rq off
          (File (Vfs_llseek fl off True r) # g) = Some (e, o', c', q', g')"
        "\<forall>x. refs x g' = refs x (File (Vfs_llseek fl off True r) # g)" "rd_fh c' = f"
        using buffered_readdir_returns [of K fl "cd\<lparr>rd_fh := f\<rparr>" rq off "File (Vfs_llseek fl off True r) # g"] by auto
      show ?thesis
        using True o fl b pos l b1 [of g' "File (Fput fl)"]
        by (auto simp: nfsd_readdir_def Let_def call_simps ledger_simps r_def)
    qed
  qed
qed

end

section \<open>The entry encoder is such a callback\<close>

lemma encode_baggage_shape:
  assumes "encode_baggage K I pl cd rqstp p name ino h = (q, cd', rq, h')"
  shows "fst q = fst p \<and> snd p + 6 \<le> snd q \<and> rd_buflen cd' = rd_buflen cd"
  using assms
  by (auto simp: encode_baggage_def encode_entry_baggage_def encode_entryplus_baggage_def ptr_add_def Let_def
      split: if_splits prod.splits)

lemma split_offset_buflen: "split_offset cd p tmp off n h = (cd', h') \<Longrightarrow> rd_buflen cd' = rd_buflen cd"
  unfolding split_offset_def by (simp only: prod.inject split: if_split_asm) (erule conjE, hypsubst, simp)+

lemma split_entry_buflen:
  assumes "split_entry cd rqstp p tmp n h = (q, cd', rq, h')"
  shows "rd_buflen cd' = rd_buflen cd"
proof -
  obtain o' g where d: "deref_ptr (rd_offset cd) h = (o', g)" by fastforce
  obtain cd2 g2 where s: "split_offset cd p tmp (snd o') (1024 - snd p) g = (cd2, g2)" by fastforce
  show ?thesis
  proof (cases "n < 1024 - snd p")
    case True
    then show ?thesis using assms d
      unfolding split_entry_def Let_def by (simp only: prod.case if_True case_prod_beta prod.inject) auto
  next
    case False
    then show ?thesis using assms d s split_offset_buflen [OF s]
      unfolding split_entry_def Let_def
      by (simp only: prod.case if_False case_prod_beta prod.inject fst_conv snd_conv)
  qed
qed

lemma encode_offset_buflen: "encode_offset cd rqstp off h = (cd', rq, h') \<Longrightarrow> rd_buflen cd' = rd_buflen cd"
  by (auto simp: encode_offset_def Let_def split: option.splits prod.splits)

lemma encode_entry_progress:
  assumes "encode_entry K I pl cd rqstp de h = (0, cd', rq, h')"
  shows "rd_buflen cd' < rd_buflen cd \<and> 0 \<le> rd_buflen cd"
proof -
  define name where "name = take NFS3_MAXNAMLEN (de_name de)"
  define elen where "elen = (length name + 3) div 4 + NFS3_ENTRY_BAGGAGE + (if pl then NFS3_ENTRYPLUS_BAGGAGE else 0)"
  obtain c r g where o: "encode_offset cd rqstp (de_off de) h = (c, r, g)" by (metis prod_cases3)
  obtain b g1 where b: "deref_ptr (rd_buffer c) g = (b, g1)" by fastforce
  obtain pg cu where f: "find_page b 1 (rq_next_page r) None = (pg, cu)" by fastforce
  obtain fits g2 where ft: "fits_page b cu elen g1 = (fits, g2)" by fastforce
  note bl = encode_offset_buflen [OF o]
  have ge: "int elen \<le> rd_buflen c"
    using assms o unfolding encode_entry_def Let_def name_def [symmetric] elen_def [symmetric]
    by (simp split: if_split_asm)
  note ent = assms [unfolded encode_entry_def Let_def o prod.case, folded name_def, folded elen_def, unfolded b f ft prod.case]
  obtain q c1 r1 g3 where e: "encode_baggage K I pl c r b name (de_ino de) g2 = (q, c1, r1, g3)" by (metis prod_cases4)
  obtain q' c1' r1' g3' where e': "encode_baggage K I pl c r (pg + 1, 0) name (de_ino de) g2 = (q', c1', r1', g3')"
    by (metis prod_cases4)
  obtain q2 c2 r2 g4 where s: "split_entry c1' r1' b (pg + 1) (snd q') g3' = (q2, c2, r2, g4)" by (metis prod_cases4)
  have "rd_buflen cd' = rd_buflen c - int (snd q - snd b) \<or> rd_buflen cd' = rd_buflen c - int (snd q')"
    using ent ge e e' s encode_baggage_shape [OF e] encode_baggage_shape [OF e'] split_entry_buflen [OF s]
    by (auto split: if_split_asm)
  then show ?thesis
    using encode_baggage_shape [OF e] encode_baggage_shape [OF e'] ge bl by auto
qed

sublocale fattr_encoder \<subseteq> entry: filldir_op "encode_entry K I pl" for K pl
  by unfold_locales (auto dest: encode_entry_frame encode_entry_progress)

end
