(* ===== verification/Dispatch_Contract.thy ===== *)
theory Dispatch_Contract
  imports Dispatch Readdir_Contract
begin

text \<open>
  From procedures to requests: every procedure keeps the balance of the handles in its result, so
  dispatching a request and releasing its result leaves every reference count as it was. The
  locale \<open>nfs_procedure\<close> is the contract of a table entry, met by every entry of the table.
\<close>

section \<open>Procedures keep the balance of their result\<close>

lemma unverifiedD: "unverified fh \<Longrightarrow> fh_wf fh" "unverified fh \<Longrightarrow> fh_dentry fh = None"
  "unverified fh \<Longrightarrow> \<not> fh_want_write fh" "unverified fh \<Longrightarrow> balance K x fh h = refs x h"
  "unverified fh \<Longrightarrow> held K x fh = 0"
  using fh_wf_unverified [of fh] held_unverified [of fh K x] by (auto simp: unverified_def balance_def)

lemma fh_copy_unverified: "unverified fh \<Longrightarrow> fh_copy fh h = (fh, h)"
  by (simp add: fh_copy_def unverified_def)

lemma fh_getattr_refs [refs_frame]: "fh_getattr K fh st h = (e, st', h') \<Longrightarrow> \<forall>x. refs x h' = refs x h"
  by (auto simp: fh_getattr_def Let_def call_simps ledger_simps split: prod.splits sum.splits dest!: refs_frame)

lemma balance_frame: "\<forall>x. refs x h' = refs x h \<Longrightarrow> balance K x fh h' = balance K x fh h"
  by (simp add: balance_def)

lemma getattr_balance:
  assumes "nfsd3_proc_getattr K rqstp a r h = (err, r', h')" and "unverified (fha_fh a)"
  shows "balance K x (as_fh r') h' = refs x h \<and> fh_wf (as_fh r')"
proof -
  obtain e f g where v: "fh_verify K rqstp (fha_fh a) h = (e, f, g)" by (metis prod_cases3)
  note b = fh_verify_balance(1,2) [OF v unverifiedD(1) [OF assms(2)]]
  obtain e2 st g2 where ga: "fh_getattr K f (as_stat r) g = (e2, st, g2)" by (metis prod_cases3)
  show ?thesis
    using assms(1) v ga b balance_frame [OF fh_getattr_refs [OF ga], of K x f] unverifiedD(4) [OF assms(2), of K x h]
    by (auto simp: nfsd3_proc_getattr_def fh_copy_unverified [OF assms(2)] Let_def split: if_splits)
qed

lemma setattr_balance:
  assumes "nfsd3_proc_setattr K rqstp a r h = (err, r', h')" and "unverified (sa_fh a)" and "err_ptr_ok K"
  shows "balance K x (as_fh r') h' = refs x h \<and> fh_wf (as_fh r')"
  using assms(1) nfsd_setattr_balance [OF _ assms(3) unverifiedD(1) [OF assms(2)]] unverifiedD(4) [OF assms(2)]
  by (fastforce simp: nfsd3_proc_setattr_def fh_copy_unverified [OF assms(2)] Let_def split: prod.splits)

lemma access_balance:
  assumes "nfsd3_proc_access K rqstp a r h = (err, r', h')" and "unverified (aa_fh a)"
  shows "balance K x (acr_fh r') h' = refs x h \<and> fh_wf (acr_fh r')"
  using assms unverifiedD [OF assms(2)]
  by (auto simp: nfsd3_proc_access_def fh_copy_unverified [OF assms(2)] Let_def)

lemma read_balance:
  assumes "nfsd3_proc_read K rqstp a r h = (err, r', h')" and "unverified (ra_fh a)" and "err_ptr_ok K"
  shows "balance K x (rr_fh r') h' = refs x h \<and> fh_wf (rr_fh r')"
proof -
  define cnt where "cnt = (ucast (min (ra_count a) (svc_max_payload K h)) :: u64)"
  define g0 where "g0 = Sys (Reserve_auth ((1 + NFS3_POST_OP_ATTR_WORDS + 3) * 4 + unat cnt + 4)) # h"
  define vec where "vec = map snd (take (ra_vlen a) (rq_vec rqstp))"
  obtain e c f g where rd: "nfsd_read K rqstp (ra_fh a) (ra_offset a) vec cnt g0 = (e, c, f, g)" by (metis prod_cases4)
  note b = nfsd_read_balance [OF rd assms(3) unverifiedD(1) [OF assms(2)], of x]
  obtain d g1 where d: "deref (fh_dentry f) g = (d, g1)" by fastforce
  obtain i g2 where i: "inode_of K d g1 = (i, g2)" by fastforce
  have "\<forall>x. refs x g2 = refs x g" using d i by (auto dest!: refs_frame)
  from balance_frame [OF this] have g2: "balance K x f g2 = balance K x f g" by blast
  have "balance K x (ra_fh a) g0 = refs x h"
    using unverifiedD(4) [OF assms(2)] by (simp add: g0_def ledger_simps)
  moreover have "rr_fh r' = f \<and> (h' = g \<or> h' = g2)"
    using assms(1) rd d i
    unfolding nfsd3_proc_read_def Let_def cnt_def [symmetric] g0_def [symmetric] vec_def [symmetric]
      fh_copy_unverified [OF assms(2)] prod.case
    by (auto split: if_splits)
  ultimately show ?thesis using b g2 by auto
qed

lemma write_balance:
  assumes "nfsd3_proc_write K rqstp a r h = (err, r', h')" and "unverified (wa_fh a)" and "err_ptr_ok K"
  shows "balance K x (wr_fh r') h' = refs x h \<and> fh_wf (wr_fh r')"
  using assms(1) nfsd_write_balance [OF _ assms(3) unverifiedD(1) [OF assms(2)]] unverifiedD [OF assms(2)]
  by (fastforce simp: nfsd3_proc_write_def fh_copy_unverified [OF assms(2)] Let_def split: prod.splits if_splits)

lemma remove_balance:
  assumes "nfsd3_proc_remove K rqstp a r h = (err, r', h')" and "unverified (da_fh a)" and "err_ptr_ok K"
  shows "balance K x (as_fh r') h' = refs x h \<and> fh_wf (as_fh r')"
  using assms(1) nfsd_unlink_balance [OF _ assms(3) unverifiedD(1,3) [OF assms(2)]] unverifiedD(4) [OF assms(2)]
  by (fastforce simp: nfsd3_proc_remove_def fh_copy_unverified [OF assms(2)] Let_def split: prod.splits)

lemma rmdir_balance:
  assumes "nfsd3_proc_rmdir K rqstp a r h = (err, r', h')" and "unverified (da_fh a)" and "err_ptr_ok K"
  shows "balance K x (as_fh r') h' = refs x h \<and> fh_wf (as_fh r')"
  using assms(1) nfsd_unlink_balance [OF _ assms(3) unverifiedD(1,3) [OF assms(2)]] unverifiedD(4) [OF assms(2)]
  by (fastforce simp: nfsd3_proc_rmdir_def fh_copy_unverified [OF assms(2)] Let_def split: prod.splits)

text \<open>The procedures with two handles start the second one fresh.\<close>

lemma balance2_fresh: "unverified a \<Longrightarrow> balance2 K x a (fh_init m) h = refs x h"
  by (simp add: balance2_def unverifiedD(5))

lemma lookup_balance:
  assumes "nfsd3_proc_lookup K rqstp a r h = (err, r', h')" and "unverified (da_fh a)"
  shows "balance2 K x (dr_dirfh r') (dr_fh r') h' = refs x h \<and> fh_wf (dr_dirfh r') \<and> fh_wf (dr_fh r')"
proof -
  obtain e f1 f2 g where l: "nfsd_lookup K rqstp (da_fh a) (da_name a) (da_len a) (fh_init NFS3_FHSIZE) h = (e, f1, f2, g)"
    by (metis prod_cases4)
  show ?thesis
    using assms(1) l nfsd_lookup_balance [OF l unverifiedD(1) [OF assms(2)], of x] balance2_fresh [OF assms(2)]
    by (auto simp: nfsd3_proc_lookup_def fh_copy_unverified [OF assms(2)] Let_def)
qed

lemma mkdir_balance:
  assumes "nfsd3_proc_mkdir K rqstp a r h = (err, r', h')" and "unverified (ca_fh a)" and "err_ptr_ok K"
  shows "balance2 K x (dr_dirfh r') (dr_fh r') h' = refs x h \<and> fh_wf (dr_dirfh r') \<and> fh_wf (dr_fh r')"
proof -
  obtain iap e f1 f2 where l: "nfsd_create K rqstp (ca_fh a) (ca_name a) (ca_len a) iap S_IFDIR
      (fh_init NFS3_FHSIZE) h = (e, f1, f2, h')" and r: "dr_dirfh r' = f1" "dr_fh r' = f2"
    using assms(1) unfolding nfsd3_proc_mkdir_def Let_def fh_copy_unverified [OF assms(2)] prod.case
    by (clarsimp split: prod.splits)
  show ?thesis
    using nfsd_create_balance [OF l assms(3) unverifiedD(1,3) [OF assms(2)], of x] balance2_fresh [OF assms(2)] r
    by simp
qed

lemma create_balance:
  assumes "nfsd3_proc_create K rqstp a r h = (err, r', h')" and "unverified (ca_fh a)" and "err_ptr_ok K"
  shows "balance2 K x (dr_dirfh r') (dr_fh r') h' = refs x h \<and> fh_wf (dr_dirfh r') \<and> fh_wf (dr_fh r')"
proof -
  obtain iap e f1 f2 t c where l: "do_nfsd_create K rqstp (ca_fh a) (ca_name a) (ca_len a) iap (fh_init NFS3_FHSIZE)
      (ca_createmode a) None None h = (e, f1, f2, t, c, h')" and r: "dr_dirfh r' = f1" "dr_fh r' = f2"
    using assms(1) unfolding nfsd3_proc_create_def Let_def fh_copy_unverified [OF assms(2)] prod.case
    by (clarsimp split: prod.splits)
  show ?thesis
    using do_nfsd_create_balance [OF l assms(3) unverifiedD(1,3) [OF assms(2)], of x] balance2_fresh [OF assms(2)] r
    by simp
qed

lemma fsstat_balance:
  assumes "nfsd3_proc_fsstat K rqstp a r h = (err, a', r', h')" and "unverified (fha_fh a)"
  shows "refs x h' = refs x h"
proof -
  obtain e f st g where s: "nfsd_statfs K rqstp (fha_fh a) (fs_stats r) h = (e, f, st, g)" by (metis prod_cases4)
  note b = nfsd_statfs_balance [OF s unverifiedD(1) [OF assms(2)], of x]
  obtain f2 g2 where p: "fh_put K f g = (f2, g2)" by fastforce
  have "h' = g2" using assms(1) s p by (simp add: nfsd3_proc_fsstat_def Let_def)
  then show ?thesis using fh_put_released(4) [OF p, of x] b unverifiedD(4) [OF assms(2)] by simp
qed

lemma fsinfo_balance:
  assumes "nfsd3_proc_fsinfo K rqstp a r h = (err, a', r', h')" and "unverified (fha_fh a)"
  shows "refs x h' = refs x h"
proof -
  obtain e f g where v: "fh_verify K rqstp (fha_fh a) h = (e, f, g)" by (metis prod_cases3)
  note b = fh_verify_balance(1,2) [OF v unverifiedD(1) [OF assms(2)]]
  obtain d g1 where d: "deref (fh_dentry f) g = (d, g1)" by fastforce
  obtain i g2 where i: "inode_of K d g1 = (i, g2)" by fastforce
  have g2: "refs x g2 = refs x g" using d i by (auto dest!: refs_frame)
  have "h' = snd (fh_put K f (if e = 0 then g2 else g))"
    using assms(1) v d i by (auto simp: nfsd3_proc_fsinfo_def Let_def split: if_splits prod.splits)
  then obtain f3 where p: "fh_put K f (if e = 0 then g2 else g) = (f3, h')" by (metis surjective_pairing)
  show ?thesis
    using fh_put_released(4) [OF p b(2), of x] b(1) [of x] unverifiedD(4) [OF assms(2), of K x h] g2
    by (simp add: balance_def split: if_splits)
qed

lemma copy_verf_refs [refs_frame]: "copy_verf rqstp v h = (w, h') \<Longrightarrow> \<forall>x. refs x h' = refs x h"
  by (auto simp: copy_verf_def Let_def split: prod.splits dest!: refs_frame)

lemma ptr_diff_refs [refs_frame]: "ptr_diff p q h = (n, h') \<Longrightarrow> \<forall>x. refs x h' = refs x h"
  by (auto simp: ptr_diff_def ledger_simps)

context fattr_encoder
begin

lemma readdir_balance:
  assumes "unverified (rda_fh a)" and "err_ptr_ok K"
  shows "\<exists>err rq a' r' h'. nfsd3_proc_readdir K I rqstp a r h = Some (err, rq, a', r', h') \<and>
    balance K x (rd_fh r') h' = refs x h \<and> fh_wf (rd_fh r')"
proof -
  define r0 where "r0 = r\<lparr>rd_fh := rda_fh a, rd_buflen := dir_words (rda_count a), rd_err := nfs_ok,
    rd_buffer := page_start (rda_buffer a)\<rparr>"
  have f: "nfs3svc_encode_entry K I = encode_entry K I False" by (simp add: nfs3svc_encode_entry_def fun_eq_iff)
  have fh: "rd_fh r0 = rda_fh a" by (simp add: r0_def)
  obtain e c r1 q1 g1 where rd: "nfsd_readdir K rqstp (rda_cookie a) r0 (encode_entry K I False) h = Some (e, c, r1, q1, g1)"
    and b: "balance K x (rd_fh r1) g1 = balance K x (rda_fh a) h" "fh_wf (rd_fh r1)"
  proof -
    have "fh_wf (rd_fh r0)" using unverifiedD(1) [OF assms(1)] fh by simp
    from entry.readdir_returns [OF assms(2) this, of rqstp "rda_cookie a" K False h x] show thesis
      using that fh by auto
  qed
  obtain vf g2 where v: "copy_verf q1 (rda_verf a) g1 = (vf, g2)" by fastforce
  obtain bf g3 where d1: "deref_ptr (rd_buffer r1) g2 = (bf, g3)" by fastforce
  obtain bs g4 where d2: "deref_ptr (page_start (rda_buffer a)) g3 = (bs, g4)" by fastforce
  obtain n g5 where pd: "ptr_diff bf bs g4 = (n, g5)" by fastforce
  obtain q2 g6 where st: "(case rd_offset r1 of None \<Rightarrow> (q1, g5) | Some p \<Rightarrow> store q1 p (xdr_encode_hyper c) g5) = (q2, g6)"
    by fastforce
  have "\<forall>x. refs x g6 = refs x g1"
    using v d1 d2 pd st by (auto split: option.splits dest!: refs_frame)
  from balance_frame [OF this] have "balance K x (rd_fh r1) g6 = refs x h"
    using b(1) unverifiedD(4) [OF assms(1)] by simp
  then show ?thesis
    using rd v d1 d2 pd st b(2)
    by (simp add: nfsd3_proc_readdir_def fh_copy_unverified [OF assms(1)] Let_def f flip: r0_def)
qed

lemma readdirplus_balance:
  assumes "unverified (rda_fh a)" and "err_ptr_ok K"
  shows "\<exists>err rq a' r' h'. nfsd3_proc_readdirplus K I rqstp a r h = Some (err, rq, a', r', h') \<and>
    balance K x (rd_fh r') h' = refs x h \<and> fh_wf (rd_fh r')"
proof -
  obtain e0 f0 g0 where v: "fh_verify K rqstp (rda_fh a) h = (e0, f0, g0)" by (metis prod_cases3)
  note b0 = fh_verify_balance(1,2) [OF v unverifiedD(1) [OF assms(1)]]
  define r0 where "r0 = r\<lparr>rd_count := dir_words (rda_count a), rd_err := nfs_ok,
    rd_buffer := page_start (rda_buffer a), rd_buflen := dir_words (rda_count a), rd_fh := f0\<rparr>"
  have f: "nfs3svc_encode_entry_plus K I = encode_entry K I True" by (simp add: nfs3svc_encode_entry_plus_def fun_eq_iff)
  have fh: "rd_fh r0 = f0" by (simp add: r0_def)
  show ?thesis
  proof (cases "e0 = 0")
    case False
    then show ?thesis
      using v b0 unverifiedD(4) [OF assms(1)]
      by (simp add: nfsd3_proc_readdirplus_def fh_copy_unverified [OF assms(1)] Let_def)
  next
    case True
    obtain e c r1 q1 g1 where rd: "nfsd_readdir K rqstp (rda_cookie a) r0 (encode_entry K I True) g0 = Some (e, c, r1, q1, g1)"
      and b: "balance K x (rd_fh r1) g1 = balance K x f0 g0" "fh_wf (rd_fh r1)"
    proof -
      have "fh_wf (rd_fh r0)" using b0(2) fh by simp
      from entry.readdir_returns [OF assms(2) this, of rqstp "rda_cookie a" K True g0 x] show thesis
        using that fh by auto
    qed
    obtain vf g2 where cv: "copy_verf q1 (rda_verf a) g1 = (vf, g2)" by fastforce
    define r2 where "r2 = r1\<lparr>rd_verf := vf, rd_count := int (count_pages (rd_buffer r1) (Suc 0) (rq_next_page q1) 0 div 4)\<rparr>"
    obtain r3 q3 g3 where eo: "encode_offset r2 q1 c g2 = (r3, q3, g3)" by (metis prod_cases3)
    have "\<forall>x. refs x g3 = refs x g1" using cv eo by (auto dest!: copy_verf_refs encode_offset_refs)
    from balance_frame [OF this] have "balance K x (rd_fh r1) g3 = refs x h"
      using b(1) b0(1) [of x] unverifiedD(4) [OF assms(1)] by simp
    moreover have "rd_fh r3 = rd_fh r1" using encode_offset_fh [OF eo] by (simp add: r2_def)
    ultimately show ?thesis
      using v True rd cv eo b(2)
      by (simp add: nfsd3_proc_readdirplus_def fh_copy_unverified [OF assms(1)] Let_def f flip: r0_def r2_def)
  qed
qed

end

section \<open>The contract of a procedure\<close>

text \<open>Which member of a union is in use, and the handles a result holds.\<close>

primrec args_tag :: "xdr_args \<Rightarrow> nat" where
  "args_tag Args_void = 0"
| "args_tag (Args_fhandle _) = 1"
| "args_tag (Args_sattr _) = 2"
| "args_tag (Args_dirop _) = 3"
| "args_tag (Args_access _) = 4"
| "args_tag (Args_read _) = 5"
| "args_tag (Args_write _) = 6"
| "args_tag (Args_create _) = 7"
| "args_tag (Args_readdir _) = 8"

primrec res_tag :: "xdr_res \<Rightarrow> nat" where
  "res_tag Res_void = 0"
| "res_tag (Res_attrstat _) = 1"
| "res_tag (Res_dirop _) = 2"
| "res_tag (Res_access _) = 3"
| "res_tag (Res_read _) = 4"
| "res_tag (Res_write _) = 5"
| "res_tag (Res_readdir _) = 6"
| "res_tag (Res_fsstat _) = 7"
| "res_tag (Res_fsinfo _) = 8"

primrec args_handles :: "xdr_args \<Rightarrow> svc_fh list" where
  "args_handles Args_void = []"
| "args_handles (Args_fhandle a) = [fha_fh a]"
| "args_handles (Args_sattr a) = [sa_fh a]"
| "args_handles (Args_dirop a) = [da_fh a]"
| "args_handles (Args_access a) = [aa_fh a]"
| "args_handles (Args_read a) = [ra_fh a]"
| "args_handles (Args_write a) = [wa_fh a]"
| "args_handles (Args_create a) = [ca_fh a]"
| "args_handles (Args_readdir a) = [rda_fh a]"

primrec res_handles :: "xdr_res \<Rightarrow> svc_fh list" where
  "res_handles Res_void = []"
| "res_handles (Res_attrstat r) = [as_fh r]"
| "res_handles (Res_dirop r) = [dr_dirfh r, dr_fh r]"
| "res_handles (Res_access r) = [acr_fh r]"
| "res_handles (Res_read r) = [rr_fh r]"
| "res_handles (Res_write r) = [wr_fh r]"
| "res_handles (Res_readdir r) = [rd_fh r]"
| "res_handles (Res_fsstat _) = []"
| "res_handles (Res_fsinfo _) = []"

definition res_balance :: "kernel \<Rightarrow> resource \<Rightarrow> xdr_res \<Rightarrow> hist \<Rightarrow> int" where
  "res_balance K x r h = refs x h - sum_list (map (held K x) (res_handles r))"

definition args_ok :: "xdr_args \<Rightarrow> xdr_args \<Rightarrow> bool" where
  "args_ok a0 a \<longleftrightarrow> args_tag a = args_tag a0 \<and> list_all unverified (args_handles a)"

definition res_ok :: "xdr_res \<Rightarrow> xdr_res \<Rightarrow> bool" where
  "res_ok r0 r \<longleftrightarrow> res_tag r = res_tag r0 \<and> list_all fh_wf (res_handles r)"

text \<open>What happens to a request in the RPC layer: dispatch, then release.\<close>

definition svc_release :: "svc_procedure \<Rightarrow> xdr_res \<Rightarrow> hist \<Rightarrow> xdr_res \<times> hist" where
  "svc_release p r h = (case pc_release p of None \<Rightarrow> (r, h) | Some rel \<Rightarrow> rel r h)"

locale nfs_procedure =
  fixes K :: kernel and p :: svc_procedure
  assumes args0: "args_ok (pc_args0 p) (pc_args0 p)" and res0: "res_ok (pc_res0 p) (pc_res0 p)"
      "list_all unverified (res_handles (pc_res0 p))"
    and decode: "pc_decode p = Some d \<Longrightarrow> d rq n (pc_args0 p) h = (ok, a, rq', h') \<Longrightarrow>
      args_ok (pc_args0 p) a \<and> (\<forall>x. refs x h' = refs x h)"
    and func: "err_ptr_ok K \<Longrightarrow> args_ok (pc_args0 p) a \<Longrightarrow>
      \<exists>err rq' a' r h'. pc_func p rq a (pc_res0 p) h = Some (err, rq', a', r, h') \<and>
        res_ok (pc_res0 p) r \<and> res_balance K x r h' = refs x h"
    and encode: "pc_encode p = Some e \<Longrightarrow> res_ok (pc_res0 p) r \<Longrightarrow> e rq l r h = (ok, r', rq', h') \<Longrightarrow>
      res_ok (pc_res0 p) r' \<and> res_balance K x r' h' = res_balance K x r h"
    and release: "res_ok (pc_res0 p) r \<Longrightarrow> svc_release p r h = (r', h') \<Longrightarrow> refs x h' = res_balance K x r h"
begin

text \<open>The three steps of a request: decoding, the fresh result, and what is left when a result is handed on.\<close>

lemma decoded:
  assumes d: "(case pc_decode p of None \<Rightarrow> (True, pc_args0 p, rq, h) | Some xdr \<Rightarrow> xdr rq 0 (pc_args0 p) h) =
      (okd, a, rq1, h1)"
  shows "args_ok (pc_args0 p) a \<and> (\<forall>x. refs x h1 = refs x h)"
proof (cases "pc_decode p")
  case None
  with d args0 show ?thesis by simp
next
  case (Some xdr)
  with d have "xdr rq 0 (pc_args0 p) h = (okd, a, rq1, h1)" by simp
  from decode [OF Some this] show ?thesis .
qed

lemma fresh_balance: "res_balance K x (pc_res0 p) h = refs x h"
proof -
  have "sum_list (map (held K x) fs) = 0" if "list_all unverified fs" for fs
    using that by (induction fs) (simp_all add: unverifiedD(5))
  then show ?thesis using res0(2) by (simp add: res_balance_def)
qed

lemma handed_on:
  assumes "res_ok (pc_res0 p) r" "res_balance K x r g = refs x h"
  shows "\<exists>reply stat rq' r' g' r'' h''. Some (b, st, q, r, g) = Some (reply, stat, rq', r', g') \<and>
    res_ok (pc_res0 p) r' \<and> svc_release p r' g' = (r'', h'') \<and> refs x h'' = refs x h"
proof -
  obtain r'' h'' where s: "svc_release p r g = (r'', h'')" by fastforce
  from release [OF assms(1) s, of x] assms s show ?thesis by simp
qed

lemma dispatch_released:
  assumes ok: "err_ptr_ok K"
  shows "\<exists>reply stat rq' r h' r' h''. nfsd_dispatch p rq (pc_args0 p) (pc_res0 p) statp h = Some (reply, stat, rq', r, h') \<and>
    res_ok (pc_res0 p) r \<and> svc_release p r h' = (r', h'') \<and> refs x h'' = refs x h"
proof -
  obtain okd a rq1 h1 where d: "(case pc_decode p of None \<Rightarrow> (True, pc_args0 p, rq, h) | Some xdr \<Rightarrow> xdr rq 0 (pc_args0 p) h) =
      (okd, a, rq1, h1)" by (metis prod_cases4)
  note a = decoded [OF d]
  define rq2 where "rq2 = rq1\<lparr>rq_res_head_len := rq_res_head_len rq1 + 4\<rparr>"
  define np0 where "np0 = take (rq_res_head_len rq1 div 4) (rq_res_head rq1)"
  obtain err rq3 a3 r3 h3 where f: "pc_func p rq2 a (pc_res0 p) h1 = Some (err, rq3, a3, r3, h3)"
      and r3: "res_ok (pc_res0 p) r3" "res_balance K x r3 h3 = refs x h1"
    using func [OF ok conjunct1 [OF a], of rq2 h1 x] by blast
  define np where "np = (if rq_proc rq3 \<noteq> 0 then np0 @ [map_new_errors err] else np0)"
  have r0: "res_balance K x (pc_res0 p) h1 = refs x h" using fresh_balance a by simp
  have eq: "nfsd_dispatch p rq (pc_args0 p) (pc_res0 p) statp h =
    (if \<not> okd then Some (True, rpc_garbage_args, rq1, pc_res0 p, h1)
     else if map_new_errors err = nfserr_dropit \<or> rq_dropme rq3 then Some (False, statp, rq3, r3, h3)
     else case pc_encode p of None \<Rightarrow> Some (True, statp, rq3, r3, h3)
        | Some xdr \<Rightarrow> (case xdr rq3 np r3 h3 of (ok, r, q, g) \<Rightarrow> Some (True, if ok then statp else rpc_system_err, q, r, g)))"
    unfolding nfsd_dispatch_def d prod.case Let_def rq2_def [symmetric] np0_def [symmetric] f option.case np_def [symmetric] ..
  have r3': "res_balance K x r3 h3 = refs x h" using r3(2) a by simp
  show ?thesis
  proof (cases "\<not> okd")
    case True
    show ?thesis unfolding eq if_P [OF True] by (rule handed_on [OF res0(1) r0])
  next
    case okd: False
    show ?thesis
    proof (cases "map_new_errors err = nfserr_dropit \<or> rq_dropme rq3")
      case True
      show ?thesis unfolding eq if_not_P [OF okd] if_P [OF True] by (rule handed_on [OF r3(1) r3'])
    next
      case False
      note eq' = eq [unfolded if_not_P [OF okd] if_not_P [OF False]]
      show ?thesis
      proof (cases "pc_encode p")
        case None
        show ?thesis unfolding eq' None option.case by (rule handed_on [OF r3(1) r3'])
      next
        case (Some e)
        obtain oke r4 rq4 h4 where e: "e rq3 np r3 h3 = (oke, r4, rq4, h4)" by (metis prod_cases4)
        have "res_ok (pc_res0 p) r4" "res_balance K x r4 h4 = refs x h"
          using encode [OF Some r3(1) e] r3' by simp_all
        then show ?thesis unfolding eq' Some option.case e prod.case by (rule handed_on)
      qed
    qed
  qed
qed

end

section \<open>Every entry of the table meets it\<close>

locale xdr_impl_ok = fh_decoder I + fattr_encoder I for I :: xdr_impl

lemmas decode_unions = decode_fhandleargs_def decode_sattrargs_def decode_diropargs_def decode_accessargs_def
  decode_readargs_def decode_writeargs_def decode_createargs_def decode_mkdirargs_def decode_readdirargs_def
  decode_readdirplusargs_def

lemmas encode_unions = encode_voidres_def encode_attrstatres_def encode_wccstatres_def encode_diropres_def
  encode_accessres_def encode_readres_def encode_writeres_def encode_createres_def encode_readdirres_def
  encode_fsstatres_def encode_fsinfores_def

lemmas proc_unions = proc_null_def proc_getattr_def proc_setattr_def proc_lookup_def proc_access_def proc_read_def
  proc_write_def proc_create_def proc_mkdir_def proc_remove_def proc_rmdir_def proc_fsstat_def proc_fsinfo_def

lemmas zero_args = zero_sattrargs_def zero_diropargs_def zero_readargs_def zero_writeargs_def zero_createargs_def
  zero_readdirargs_def

lemmas zero_results = zero_attrstat_def zero_diropres_def zero_accessres_def zero_readres_def zero_writeres_def
  zero_readdirres_def

context xdr_impl_ok
begin

lemma table_decode:
  assumes "pc_decode (nfsd_procedures3 K I boot m pr) = Some d" and "d rq n (pc_args0 (nfsd_procedures3 K I boot m pr)) h = (ok, a, rq', h')"
  shows "args_ok (pc_args0 (nfsd_procedures3 K I boot m pr)) a \<and> (\<forall>x. refs x h' = refs x h)"
  using assms
  by (cases pr)
     (auto simp: args_ok_def decode_unions zero_args Let_def split: prod.splits
       dest!: fhandle_args sattr_args dirop_args access_args read_args write_args create_args mkdir_args readdir_args
         readdirplus_args)

lemma post_op_attr_refs: "encode_post_op_attr K I rqstp p fhp h = (p', h') \<Longrightarrow> \<forall>x. refs x h' = refs x h"
  using post_op_attr by blast

lemma diropres_refs: "nfs3svc_encode_diropres K I rqstp p r h = (ok, rq, h') \<Longrightarrow> \<forall>x. refs x h' = refs x h"
  by (auto simp: nfs3svc_encode_diropres_def Let_def split: prod.splits if_splits dest!: post_op_attr_refs)

lemma createres_refs: "nfs3svc_encode_createres K I rqstp p r h = (ok, rq, h') \<Longrightarrow> \<forall>x. refs x h' = refs x h"
  by (auto simp: nfs3svc_encode_createres_def Let_def split: prod.splits if_splits dest!: post_op_attr_refs)

lemma table_encode:
  assumes "pc_encode (nfsd_procedures3 K I boot m pr) = Some e" and "res_ok (pc_res0 (nfsd_procedures3 K I boot m pr)) r"
    and "e rq l r h = (ok, r', rq', h')"
  shows "res_handles r' = res_handles r \<and> res_tag r' = res_tag r \<and> (\<forall>x. refs x h' = refs x h)"
  using assms
  by (cases pr; cases r)
     (auto simp: res_ok_def encode_unions Let_def split: prod.splits
       dest!: voidres_reply attrstat_reply wccstat_reply diropres_refs accessres_reply readres_reply writeres_reply
         createres_refs readdirres_reply fsstatres_reply fsinfores_reply)

lemma release_balance:
  assumes "fh_put K fh h = (fh', h')" and "fh_wf fh"
  shows "refs x h' = refs x h - held K x fh"
  using fh_put_released(4) [OF assms] by (simp add: balance_def)

lemma table_release:
  assumes "res_ok (pc_res0 (nfsd_procedures3 K I boot m pr)) r" and "svc_release (nfsd_procedures3 K I boot m pr) r h = (r', h')"
  shows "refs x h' = res_balance K x r h"
  using assms
  by (cases pr; cases r)
     (auto simp: res_ok_def svc_release_def res_balance_def release_fhandle_def release_fhandle2_def
       nfs3svc_release_fhandle_def nfs3svc_release_fhandle2_def Let_def split: prod.splits
       dest!: release_balance [where x = x])

lemma table_func:
  assumes "err_ptr_ok K" and "args_ok (pc_args0 (nfsd_procedures3 K I boot m pr)) a"
  shows "\<exists>err rq' a' r h'. pc_func (nfsd_procedures3 K I boot m pr) rq a (pc_res0 (nfsd_procedures3 K I boot m pr)) h =
      Some (err, rq', a', r, h') \<and>
    res_ok (pc_res0 (nfsd_procedures3 K I boot m pr)) r \<and> res_balance K x r h' = refs x h"
proof (cases "pr = NFS3PROC_READDIR \<or> pr = NFS3PROC_READDIRPLUS")
  case True
  then obtain b where b: "a = Args_readdir b" "unverified (rda_fh b)"
    using assms(2) by (cases a) (auto simp: args_ok_def)
  show ?thesis
    using readdir_balance [OF b(2) assms(1), of rq zero_readdirres h x]
      readdirplus_balance [OF b(2) assms(1), of rq zero_readdirres h x] True b(1)
    by (auto simp: proc_readdir_def proc_readdirplus_def res_ok_def res_balance_def balance_def)
next
  case False
  with assms show ?thesis
    by (cases pr; cases a)
       (auto simp: args_ok_def res_ok_def res_balance_def balance_def balance2_def proc_unions Let_def split: prod.splits
         dest!: getattr_balance [where x = x] setattr_balance [where x = x] lookup_balance [where x = x]
           access_balance [where x = x] read_balance [where x = x] write_balance [where x = x]
           create_balance [where x = x] mkdir_balance [where x = x] remove_balance [where x = x]
           rmdir_balance [where x = x] fsstat_balance [where x = x] fsinfo_balance [where x = x])
qed

end

sublocale xdr_impl_ok \<subseteq> entry: nfs_procedure K "nfsd_procedures3 K I boot m pr" for K boot m pr
proof unfold_locales
  show "args_ok (pc_args0 (nfsd_procedures3 K I boot m pr)) (pc_args0 (nfsd_procedures3 K I boot m pr))"
    by (cases pr) (simp_all add: args_ok_def zero_args)
  show "res_ok (pc_res0 (nfsd_procedures3 K I boot m pr)) (pc_res0 (nfsd_procedures3 K I boot m pr))"
    by (cases pr) (simp_all add: res_ok_def zero_results zero_fh_def fh_wf_def)
  show "list_all unverified (res_handles (pc_res0 (nfsd_procedures3 K I boot m pr)))"
    by (cases pr) (simp_all add: zero_results)
next
  fix e r rq l h ok r' rq' h' x
  assume "pc_encode (nfsd_procedures3 K I boot m pr) = Some e" and r: "res_ok (pc_res0 (nfsd_procedures3 K I boot m pr)) r"
    and "e rq l r h = (ok, r', rq', h')"
  from table_encode [OF this] r
  show "res_ok (pc_res0 (nfsd_procedures3 K I boot m pr)) r' \<and> res_balance K x r' h' = res_balance K x r h"
    by (simp add: res_ok_def res_balance_def)
qed (rule table_decode table_func table_release; assumption)+

interpretation shipped_impl: xdr_impl_ok shipped ..

interpretation readme_impl: xdr_impl_ok readme ..

end
