(* ===== verification/Dispatch_Properties.thy ===== *)
theory Dispatch_Properties
  imports Dispatch_Contract Vfs_Properties
begin

text \<open>
  What every request is promised, whatever its procedure: it ends, keeps the reference counts, fills
  the result its encoder expects, and its reply stays within the size the table declares. Then what
  the procedures do with the three functions of \<open>xdr.c\<close> as they are shipped, what \<open>ACCESS\<close> checks, and
  which handles \<open>READDIRPLUS\<close> hands out.
\<close>

section \<open>Every request\<close>

lemma dispatch_ends:
  assumes "I \<in> {shipped, readme}" and "err_ptr_ok K" and "p = nfsd_procedures3 K I boot m pr"
  obtains reply stat rq' r h' r' h'' where
    "nfsd_dispatch p rq (pc_args0 p) (pc_res0 p) statp h = Some (reply, stat, rq', r, h')"
    "res_ok (pc_res0 p) r" "svc_release p r h' = (r', h'')" "\<And>x. refs x h'' = refs x h"
proof -
  have d: "\<exists>reply stat rq' r h' r' h''. nfsd_dispatch p rq (pc_args0 p) (pc_res0 p) statp h = Some (reply, stat, rq', r, h') \<and>
      res_ok (pc_res0 p) r \<and> svc_release p r h' = (r', h'') \<and> refs x h'' = refs x h" for x
    using assms(1) shipped_impl.entry.dispatch_released [OF assms(2), of boot m pr rq statp h x]
      readme_impl.entry.dispatch_released [OF assms(2), of boot m pr rq statp h x]
    unfolding assms(3) insert_iff empty_iff by (elim disjE) simp_all
  from d obtain reply stat rq' r h' r' h'' where
    e: "nfsd_dispatch p rq (pc_args0 p) (pc_res0 p) statp h = Some (reply, stat, rq', r, h')"
      "res_ok (pc_res0 p) r" "svc_release p r h' = (r', h'')" by blast
  show ?thesis by (rule that [OF e]) (use d e in fastforce)
qed

text \<open>
  C2: a request leaves nothing behind. Whatever the procedure, the request and the state of the kernel,
  the dispatcher returns, with the handlers as shipped and with those of \<open>README.md\<close>; and once the RPC
  layer has called the release function of the procedure, every reference to a dentry, an export, an
  open file and every write access is back where it was.
\<close>

theorem dispatch_balanced:
  assumes "I \<in> {shipped, readme}" and "err_ptr_ok K" and "p = nfsd_procedures3 K I boot m pr"
  shows "\<exists>reply stat rq' r h' r' h''.
    nfsd_dispatch p rq (pc_args0 p) (pc_res0 p) statp h = Some (reply, stat, rq', r, h') \<and>
    svc_release p r h' = (r', h'') \<and> (\<forall>x. refs x h'' = refs x h)"
  by (rule dispatch_ends [OF assms, of rq statp h]) blast

theorem dispatch_balanced_witness:
  "\<exists>reply stat rq' r h' r' h''.
    nfsd_dispatch (nfsd_procedures3 sample_kernel readme \<lparr>tv_sec = 0, tv_nsec = 0\<rparr> 0x100000 NFS3PROC_READDIRPLUS)
      sample_rqst (Args_readdir zero_readdirargs) (Res_readdir zero_readdirres) rpc_success [] = Some (reply, stat, rq', r, h') \<and>
    svc_release (nfsd_procedures3 sample_kernel readme \<lparr>tv_sec = 0, tv_nsec = 0\<rparr> 0x100000 NFS3PROC_READDIRPLUS) r h' = (r', h'') \<and>
    (\<forall>x. refs x h'' = refs x [])"
  using dispatch_balanced [where I = readme and pr = NFS3PROC_READDIRPLUS and m = "0x100000" and
    boot = "\<lparr>tv_sec = 0, tv_nsec = 0\<rparr>", OF _ sample_kernel_ok(1) refl, of sample_rqst rpc_success "[]"] by simp



section \<open>Replies\<close>

context xdr_impl_ok
begin

lemmas replies = voidres_reply attrstat_reply wccstat_reply diropres_reply accessres_reply readres_reply writeres_reply
  createres_reply readdirres_reply fsstatres_reply fsinfores_reply

lemma table_reply:
  assumes "pc_encode (nfsd_procedures3 K I boot m pr) = Some e" and "res_tag r = res_tag (pc_res0 (nfsd_procedures3 K I boot m pr))"
    and "list_all (\<lambda>fh. fh_size (fh_handle fh) \<le> 64) (res_handles r)" and "e rq l r h = (ok, r', rq', h')"
  shows "appends l (rq_res_head rq')
    (if pr \<in> {NFS3PROC_READDIR, NFS3PROC_READDIRPLUS} then 24 else pc_xdrressize (nfsd_procedures3 K I boot m pr) - ST)"
  using assms
  by (cases pr; cases r) (auto simp: encode_unions Let_def split: prod.splits dest!: replies intro: appends_mono)

end

text \<open>
  C17: replies keep to the table. What an encoder puts into the head of the reply buffer after the
  status cell is never longer than the \<open>pc_xdrressize\<close> of its row of the procedure table allows, when the
  handle to be returned has at most 64 bytes, which is what \<open>fh_compose\<close> guarantees. The directory
  procedures declare no size; the head of their reply has at most 24 cells after the status.
\<close>

theorem reply_fits_table:
  assumes "I \<in> {shipped, readme}" and "p = nfsd_procedures3 K I boot m pr"
    and "res_tag r = res_tag (pc_res0 p)" and "list_all (\<lambda>fh. fh_size (fh_handle fh) \<le> 64) (res_handles r)"
    and "pc_encode p = Some e" and "e rq l r h = (ok, r', rq', h')"
  shows "\<exists>ws. rq_res_head rq' = l @ ws \<and>
    length ws \<le> (if pr \<in> {NFS3PROC_READDIR, NFS3PROC_READDIRPLUS} then 24 else pc_xdrressize p - ST)"
proof -
  have "xdr_impl_ok I"
    using assms(1) shipped_impl.xdr_impl_ok_axioms readme_impl.xdr_impl_ok_axioms by auto
  from xdr_impl_ok.table_reply [OF this assms(5,3) [unfolded assms(2)] assms(4,6)] show ?thesis
    unfolding assms(2) appends_def .
qed

theorem reply_fits_table_witness:
  "case encode_diropres sample_kernel readme sample_rqst [0]
      (Res_dirop (zero_diropres\<lparr>dr_fh := wire_fh (export_handle sample_kernel 1 2)\<rparr>)) [] of
     (ok, r', rq', h') \<Rightarrow> length (rq_res_head rq') \<le> 62"
proof -
  let ?p = "nfsd_procedures3 sample_kernel readme \<lparr>tv_sec = 0, tv_nsec = 0\<rparr> 0x100000 NFS3PROC_LOOKUP"
  let ?r = "Res_dirop (zero_diropres\<lparr>dr_fh := wire_fh (export_handle sample_kernel 1 2)\<rparr>)"
  obtain ok r' rq' h' where e: "encode_diropres sample_kernel readme sample_rqst [0] ?r [] = (ok, r', rq', h')"
    by (metis prod_cases4)
  have s: "list_all (\<lambda>fh. fh_size (fh_handle fh) \<le> 64) (res_handles ?r)"
    by (simp add: zero_diropres_def fh_simps zero_fh_def zero_knfsd_fh_def)
  from reply_fits_table [where I = readme and e = "encode_diropres sample_kernel readme", OF _ refl _ s _ e,
      of sample_kernel "\<lparr>tv_sec = 0, tv_nsec = 0\<rparr>" "0x100000" NFS3PROC_LOOKUP]
  show ?thesis using e by auto
qed

section \<open>The procedures as shipped\<close>

lemma zero_handle_refused [simp]: "fh_verify K rqstp zero_fh h = (nfserr_badhandle, zero_fh, h)"
  by (simp add: fh_verify_def nfsd_set_fh_dentry_def zero_fh_def zero_knfsd_fh_def Let_def)

lemma shipped_decodes:
  assumes "pc_decode (nfsd_procedures3 K shipped boot m pr) = Some d"
    and "d rq n (pc_args0 (nfsd_procedures3 K shipped boot m pr)) h = (True, a, rq', h')"
  shows "args_handles a = [zero_fh] \<and> args_tag a = args_tag (pc_args0 (nfsd_procedures3 K shipped boot m pr)) \<and> h' = h \<and>
    (case a of Args_dirop b \<Rightarrow> da_len b = 0 \<and> da_name b = None | Args_create b \<Rightarrow> ca_len b = 0 \<and> ca_name b = None | _ \<Rightarrow> True)"
  using assms
  by (cases pr)
     (auto simp: decode_unions zero_args Let_def shipped_def shipped_file_handle_def shipped_file_name_def
       nfs3svc_decode_fhandle_def nfs3svc_decode_sattrargs_def nfs3svc_decode_diropargs_def nfs3svc_decode_accessargs_def
       nfs3svc_decode_readargs_def nfs3svc_decode_writeargs_def nfs3svc_decode_createargs_def nfs3svc_decode_mkdirargs_def
       nfs3svc_decode_readdirargs_def nfs3svc_decode_readdirplusargs_def split: prod.splits if_splits option.splits)

lemma badhandle_nonzero [simp]: "nfserr_badhandle \<noteq> 0" "nfserr_perm \<noteq> 0" "nfserr_acces \<noteq> 0" "nfserr_io \<noteq> 0"
  by (simp_all add: nfserr_badhandle_def nfserr_perm_def nfserr_acces_def nfserr_io_def)

lemma zero_handle_ops:
  "nfsd_open K rqstp zero_fh t may h = (nfserr_badhandle, None, zero_fh, h)"
  "nfsd_setattr K rqstp zero_fh iap g gt h = (nfserr_badhandle, zero_fh, h)"
  "nfsd_lookup K rqstp zero_fh name len resfh h = (nfserr_badhandle, zero_fh, resfh, h)"
  "nfsd_create K rqstp zero_fh name 0 iap type resfh h = (nfserr_perm, zero_fh, resfh, h)"
  "nfsd_unlink K rqstp zero_fh k name 0 h = (nfserr_acces, zero_fh, h)"
  "nfsd_statfs K rqstp zero_fh st h = (nfserr_badhandle, zero_fh, st, h)"
  "do_nfsd_create K rqstp zero_fh name 0 iap resfh cm tr cr h = do_create_out K nfserr_perm zero_fh resfh tr cr None h"
  by (simp_all add: nfsd_open_def nfsd_setattr_def nfsd_lookup_def nfsd_create_def nfsd_unlink_def nfsd_statfs_def
      do_nfsd_create_def Let_def)

lemma zero_handle_ops2:
  "nfsd_read K rqstp zero_fh off vec cnt h = (nfserr_badhandle, cnt, zero_fh, h)"
  "nfsd_write K rqstp zero_fh off vec cnt stbl h = (nfserr_badhandle, cnt, zero_fh, h)"
  "nfsd_readdir K rqstp off (cd\<lparr>rd_fh := zero_fh\<rparr>) func h = Some (nfserr_badhandle, off, cd\<lparr>rd_fh := zero_fh\<rparr>, rqstp, h)"
  by (simp_all add: nfsd_read_def nfsd_write_def nfsd_readdir_def zero_handle_ops Let_def)

lemma zero_handle_put: "fh_drop_write K zero_fh h = (zero_fh, h)" "snd (fh_put K zero_fh h) = h"
  by (simp_all add: fh_drop_write_def fh_put_def zero_fh_def Let_def)

lemma copy_verf_changes: "copy_verf rqstp v h = (r, h') \<Longrightarrow> changes h' = changes h"
  by (auto simp: copy_verf_def Let_def split: prod.splits dest: deref_changes)

lemma deref_ptr_changes: "deref_ptr p h = (r, h') \<Longrightarrow> changes h' = changes h"
  by (auto simp: deref_ptr_def split: option.splits)

lemma ptr_diff_changes: "ptr_diff p q h = (r, h') \<Longrightarrow> changes h' = changes h"
  by (auto simp: ptr_diff_def)

lemmas zero_handle = zero_handle_ops zero_handle_ops2 zero_handle_put

lemma zero_handle_readdir:
  assumes "rda_fh b = zero_fh"
  shows "\<exists>err rq' a' r h'. nfsd3_proc_readdir K I rq b zero_readdirres h = Some (err, rq', a', r, h') \<and>
    err \<noteq> nfs_ok \<and> changes h' = changes h"
proof -
  have z: "fh_copy zero_fh g = (zero_fh, g)" for g by (simp add: fh_copy_unverified)
  define r0 where "r0 = zero_readdirres\<lparr>rd_buflen := dir_words (rda_count b), rd_err := nfs_ok,
        rd_buffer := page_start (rda_buffer b)\<rparr>"
  have r0: "zero_readdirres\<lparr>rd_fh := zero_fh, rd_buflen := dir_words (rda_count b), rd_err := nfs_ok,
        rd_buffer := page_start (rda_buffer b)\<rparr> = r0\<lparr>rd_fh := zero_fh\<rparr>" by (simp add: r0_def)
  have off: "rd_offset (r0\<lparr>rd_fh := zero_fh, rd_verf := v, rd_count := c\<rparr>) = None" for v c
    by (simp add: r0_def zero_readdirres_def)
  obtain vf g1 where v: "copy_verf rq (rda_verf b) h = (vf, g1)" by fastforce
  obtain bf g2 where p: "deref_ptr (rd_buffer (r0\<lparr>rd_fh := zero_fh\<rparr>)) g1 = (bf, g2)" by fastforce
  obtain st g3 where q: "deref_ptr (page_start (rda_buffer b)) g2 = (st, g3)" by fastforce
  obtain us g4 where u: "ptr_diff bf st g3 = (us, g4)" by fastforce
  have "changes g4 = changes h"
    using v p q u by (simp add: copy_verf_changes deref_ptr_changes ptr_diff_changes)
  moreover have "rda_verf (b\<lparr>rda_cookie := c\<rparr>) = rda_verf b" "rda_buffer (b\<lparr>rda_cookie := c\<rparr>) = rda_buffer b" for c
    by simp_all
  ultimately show ?thesis
    unfolding nfsd3_proc_readdir_def Let_def assms z prod.case r0 zero_handle option.case
    by (simp only: v p q u off prod.case option.case) (simp add: nfs_ok_def)
qed

lemma shipped_func:
  assumes "pr \<notin> {NFS3PROC_NULL, NFS3PROC_ACCESS}"
    and "args_handles a = [zero_fh]" and "args_tag a = args_tag (pc_args0 (nfsd_procedures3 K shipped boot m pr))"
    and "(case a of Args_dirop b \<Rightarrow> da_len b = 0 \<and> da_name b = None | Args_create b \<Rightarrow> ca_len b = 0 \<and> ca_name b = None | _ \<Rightarrow> True)"
  shows "\<exists>err rq' a' r h'. pc_func (nfsd_procedures3 K shipped boot m pr) rq a (pc_res0 (nfsd_procedures3 K shipped boot m pr)) h =
      Some (err, rq', a', r, h') \<and> err \<noteq> nfs_ok \<and> changes h' = changes h"
proof -
  have z: "fh_copy zero_fh g = (zero_fh, g)" for g by (simp add: fh_copy_unverified)
  show ?thesis
  proof (cases "pr = NFS3PROC_READDIR")
    case True
    then obtain b where b: "a = Args_readdir b" "rda_fh b = zero_fh" using assms(2,3) by (cases a) auto
    from zero_handle_readdir [OF b(2), of K shipped rq h] show ?thesis
      using True b(1) by (auto simp: proc_readdir_def)
  next
    case False
    then show ?thesis
      using assms
      by (cases pr; cases a)
         (simp_all add: proc_unions proc_readdirplus_def nfsd3_proc_getattr_def nfsd3_proc_setattr_def
           nfsd3_proc_lookup_def nfsd3_proc_read_def nfsd3_proc_write_def nfsd3_proc_create_def nfsd3_proc_mkdir_def
           nfsd3_proc_remove_def nfsd3_proc_rmdir_def nfsd3_proc_readdirplus_def nfsd3_proc_fsstat_def
           nfsd3_proc_fsinfo_def do_create_out_def z zero_handle Let_def case_prod_beta nfs_ok_def)
  qed
qed

text \<open>
  C40: as shipped, the server serves nothing. With the empty handle and name decoders of \<open>xdr.c\<close> every
  procedure that takes a handle, \<open>ACCESS\<close> excepted, returns an error status and changes nothing on the
  file system: the handle it verifies is the cleared one, which is refused.
\<close>

theorem shipped_refuses:
  assumes "p = nfsd_procedures3 K shipped boot m pr" and "pr \<notin> {NFS3PROC_NULL, NFS3PROC_ACCESS}"
    and "pc_decode p = Some d" and "d rq n (pc_args0 p) h = (True, a, rq', h')"
  shows "\<exists>err rq'' a' r h''. pc_func p rq' a (pc_res0 p) h' = Some (err, rq'', a', r, h'') \<and>
    err \<noteq> nfs_ok \<and> changes h'' = changes h"
proof -
  note s = shipped_decodes [OF assms(3,4) [unfolded assms(1)]]
  from s have "h' = h" "args_handles a = [zero_fh]" by simp_all
  with shipped_func [OF assms(2), of a K boot m rq' h] s assms(1) show ?thesis by blast
qed

theorem shipped_refuses_witness:
  "case decode_fhandleargs sample_kernel shipped sample_rqst 0 (Args_fhandle \<lparr>fha_fh = zero_fh\<rparr>) [] of
     (ok, a, rq', h') \<Rightarrow> ok \<and>
       (\<exists>err rq'' a' r h''. proc_getattr sample_kernel rq' a (Res_attrstat zero_attrstat) h' = Some (err, rq'', a', r, h'') \<and>
          err \<noteq> nfs_ok \<and> changes h'' = [])"
proof -
  let ?p = "nfsd_procedures3 sample_kernel shipped \<lparr>tv_sec = 0, tv_nsec = 0\<rparr> 0x100000 NFS3PROC_GETATTR"
  obtain ok a rq' h' where d: "decode_fhandleargs sample_kernel shipped sample_rqst 0 (pc_args0 ?p) [] = (ok, a, rq', h')"
    by (metis prod_cases4)
  then have ok: ok
    by (simp add: decode_fhandleargs_def nfs3svc_decode_fhandle_def shipped_def shipped_file_handle_def argsize_check_def
        sample_kernel_def Let_def split: prod.splits)
  show ?thesis
    using shipped_refuses [where p = ?p and d = "decode_fhandleargs sample_kernel shipped", OF refl _ _ d [unfolded eqTrueI [OF ok]]]
      d ok by simp
qed

text \<open>
  \<open>ACCESS\<close> grants whatever is asked, for any handle a client sends, also one that stands for no file:
  it never verifies the handle, asks nothing of the kernel, and answers success with the requested bits.
\<close>

theorem access_grants_all:
  "\<exists>r. nfsd3_proc_access K rqstp \<lparr>aa_fh = wire_fh fh, aa_access = bits\<rparr> resp h = (nfs_ok, r, h) \<and>
    acr_access r = bits \<and> acr_status r = nfs_ok \<and> fh_dentry (acr_fh r) = None"
  using unverified_wire [of fh] by (simp add: nfsd3_proc_access_def fh_copy_unverified nfs_ok_def unverified_def)

section \<open>The entry \<open>..\<close>\<close>


text \<open>A kernel whose export is a subdirectory: the parent of dentry 1 is dentry 2.\<close>

definition nested_kernel :: kernel where
  "nested_kernel = sample_kernel\<lparr>d_parent := (\<lambda>h d. 2)\<rparr>"

lemma nested_kernel_ok: "encode_fh_ok nested_kernel" "fh_codec_ok nested_kernel" "exported nested_kernel 9 dev_key 5"
  using sample_kernel_ok(2,3) sample_kernel_ok(4) [of dev_key]
  by (simp_all add: nested_kernel_def encode_fh_ok_def fh_codec_ok_def exported_def)

definition nested_dir :: nfsd3_readdirres where
  "nested_dir = zero_readdirres\<lparr>rd_fh := zero_fh\<lparr>fh_dentry := Some 1, fh_export := Some 5\<rparr>\<rparr>"


end
