(* ===== verification/Readdir_Pages.thy ===== *)
theory Readdir_Pages
  imports Readdir_Contract
begin

text \<open>
  The entry encoder of \<open>xdr.c\<close> refines an encoder into one long buffer: \<open>encode_entry\<close> keeps the pages
  of a request equal to the cells of a directory list, whether an entry fits its page or is built in
  the next one and moved back in two pieces, and wherever its cookie falls.
\<close>

section \<open>One long buffer\<close>

text \<open>
  The pages from \<open>b\<close> on, read as one buffer of cells, and where a cell of that buffer is. A run
  written at a position, in one buffer.
\<close>

definition flat :: "svc_rqst \<Rightarrow> nat \<Rightarrow> nat \<Rightarrow> be32" where
  "flat rqstp b i = rq_page rqstp (b + i div 1024) (i mod 1024)"

definition page_at :: "nat \<Rightarrow> nat \<Rightarrow> page_ptr" where
  "page_at b i = (b + i div 1024, i mod 1024)"

definition written :: "(nat \<Rightarrow> be32) \<Rightarrow> nat \<Rightarrow> be32 list \<Rightarrow> nat \<Rightarrow> be32" where
  "written m s ws = (\<lambda>i. if s \<le> i \<and> i < s + length ws then ws ! (i - s) else m i)"

lemma holds_written_end: "holds_at m 0 cells \<Longrightarrow> holds_at (written m (length cells) ws) 0 (cells @ ws)"
  by (auto simp: holds_at_def written_def nth_append)

lemma holds_written_beyond: "holds_at m 0 cells \<Longrightarrow> length cells \<le> s \<Longrightarrow> holds_at (written m s ws) 0 cells"
  by (auto simp: holds_at_def written_def)

lemma holds_written_inside:
  "holds_at m 0 cells \<Longrightarrow> c + length ws \<le> length cells \<Longrightarrow> holds_at (written m c ws) 0 (overwrite c ws cells)"
  by (auto simp: holds_at_def written_def overwrite_def nth_append min_def)

lemma written_written: "written (written m s u) (s + length u) v = written m s (u @ v)"
  by (auto simp: written_def fun_eq_iff nth_append)

lemma page_span:
  assumes "s mod 1024 + n \<le> (1024 :: nat)"
  shows "i div 1024 = s div 1024 \<and> s mod 1024 \<le> i mod 1024 \<and> i mod 1024 < s mod 1024 + n \<longleftrightarrow> s \<le> i \<and> i < s + n"
proof (cases "i div 1024 = s div 1024")
  case True
  then have "i mod 1024 + s = s mod 1024 + i"
    using div_mult_mod_eq [of i 1024] div_mult_mod_eq [of s 1024] by linarith
  then show ?thesis using True by linarith
next
  case False
  then have "i div 1024 + 1 \<le> s div 1024 \<or> s div 1024 + 1 \<le> i div 1024" by linarith
  moreover have "i < (i div 1024 + 1) * 1024" "s div 1024 * 1024 \<le> s" "i div 1024 * 1024 \<le> i"
    by (simp_all add: dividend_less_div_times)
  moreover have "s + n \<le> (s div 1024 + 1) * 1024"
    using add_left_mono [OF assms, of "s div 1024 * 1024"] by (simp add: add.assoc [symmetric])
  ultimately have "\<not> (s \<le> i \<and> i < s + n)"
    by (meson leD le_less_trans less_le_trans mult_le_mono1 order_trans)
  with False show ?thesis by simp
qed

lemma page_offset: "i div 1024 = s div 1024 \<Longrightarrow> s \<le> i \<Longrightarrow> i mod 1024 - s mod 1024 = i - (s :: nat)"
  using div_mult_mod_eq [of i 1024] div_mult_mod_eq [of s 1024] by linarith

lemma page_step:
  assumes "n mod 1024 + k < (1024 :: nat)"
  shows "(n + k) div 1024 = n div 1024" "(n + k) mod 1024 = n mod 1024 + k"
proof -
  have "n mod 1024 + Suc k \<le> 1024" using assms by simp
  from page_span [OF this, of "n + k"]
  have d: "(n + k) div 1024 = n div 1024" "n mod 1024 \<le> (n + k) mod 1024" by simp_all
  then show "(n + k) div 1024 = n div 1024" by simp
  show "(n + k) mod 1024 = n mod 1024 + k"
    using page_offset [OF d(1)] le_add_diff_inverse [OF d(2)] by simp
qed

lemma flat_store:
  assumes "s mod 1024 + length ws \<le> 1024"
  shows "flat (fst (store rqstp (page_at b s) ws h)) b = written (flat rqstp b) s ws"
    "snd (store rqstp (page_at b s) ws h) = h"
proof -
  have "flat (fst (store rqstp (page_at b s) ws h)) b i = written (flat rqstp b) s ws i" for i
    using page_span [OF assms, of i] page_offset [of i s]
    by (auto simp: flat_def store_def page_at_def written_def)
  then show "flat (fst (store rqstp (page_at b s) ws h)) b = written (flat rqstp b) s ws" by blast
  show "snd (store rqstp (page_at b s) ws h) = h" using assms by (simp add: store_def page_at_def)
qed

lemma load_flat:
  assumes "s mod 1024 + n \<le> 1024"
  shows "load rqstp (page_at b s) n = map (flat rqstp b) [s..<s + n]"
proof (rule nth_equalityI)
  fix k assume "k < length (load rqstp (page_at b s) n)"
  then have k: "k < n" by (simp add: load_def)
  then have "s mod 1024 + k < 1024" using assms by linarith
  note d = page_step [OF this]
  from d show "load rqstp (page_at b s) n ! k = map (flat rqstp b) [s..<s + n] ! k"
    using k by (simp add: load_def page_at_def flat_def)
qed (simp add: load_def)

lemma map_written: "map (written m s ws) [s..<s + length ws] = ws"
  by (rule nth_equalityI) (auto simp: written_def)

section \<open>The directory list\<close>

text \<open>
  What the encoder is to produce: the cells of the list so far, the place of the cookie of the last
  entry, which is filled in when the next one arrives, and the room that is left. One entry is the
  marker, the file number, the name, the cookie and, for \<open>READDIRPLUS\<close>, attributes and handle.
\<close>

record dirlist =
  dl_cells :: "be32 list"
  dl_cookie :: "nat option"
  dl_room :: int

definition entry_cells :: "u8 list \<Rightarrow> u64 \<Rightarrow> be32 list \<Rightarrow> be32 list" where
  "entry_cells name ino plus_ws = xdr_one # xdr_encode_hyper ino @ xdr_encode_array name @
     xdr_encode_hyper NFS_OFFSET_MAX @ plus_ws"

definition cookie_at :: "u8 list \<Rightarrow> nat" where
  "cookie_at name = 4 + (length name + 3) div 4"

definition entry_estimate :: "bool \<Rightarrow> u8 list \<Rightarrow> nat" where
  "entry_estimate pl name = (length name + 3) div 4 + NFS3_ENTRY_BAGGAGE + (if pl then NFS3_ENTRYPLUS_BAGGAGE else 0)"

definition dl_patch :: "u64 \<Rightarrow> dirlist \<Rightarrow> dirlist" where
  "dl_patch off dl = (case dl_cookie dl of
     None \<Rightarrow> dl
   | Some c \<Rightarrow> dl\<lparr>dl_cells := overwrite c (xdr_encode_hyper off) (dl_cells dl)\<rparr>)"

definition dl_entry :: "bool \<Rightarrow> dirent \<Rightarrow> be32 list \<Rightarrow> dirlist \<Rightarrow> bool \<times> dirlist" where
  "dl_entry pl de plus_ws dl =
     (let dl = dl_patch (de_off de) dl;
          name = take NFS3_MAXNAMLEN (de_name de);
          ws = entry_cells name (de_ino de) plus_ws
      in if dl_room dl < int (entry_estimate pl name) then (False, dl)
         else (True, dl\<lparr>dl_cells := dl_cells dl @ ws, dl_cookie := Some (length (dl_cells dl) + cookie_at name),
                       dl_room := dl_room dl - int (length ws)\<rparr>))"

lemma length_entry_cells [simp]:
  "length (entry_cells name ino plus_ws) = (length name + 3) div 4 + NFS3_ENTRY_BAGGAGE + length plus_ws"
  by (simp add: entry_cells_def)

lemma dl_patch_simps [simp]:
  "dl_cookie (dl_patch off dl) = dl_cookie dl" "dl_room (dl_patch off dl) = dl_room dl"
  by (simp_all add: dl_patch_def split: option.split)

section \<open>The pages hold the list\<close>

text \<open>
  The pages of a request from \<open>b\<close> on hold a directory list: its cells are there, the reply points at its
  end, and the room that is left fits into the pages the request reserved. Between two entries the
  reply also points at the last cookie, in two halves when it lies across a page boundary.
\<close>

definition pages_hold :: "nat \<Rightarrow> nfsd3_readdirres \<Rightarrow> svc_rqst \<Rightarrow> dirlist \<Rightarrow> bool" where
  "pages_hold b cd rqstp dl \<longleftrightarrow>
     1 \<le> b \<and> b < rq_next_page rqstp \<and> rq_next_page rqstp \<le> rq_npages rqstp \<and>
     int (length (dl_cells dl)) + dl_room dl + 2 + 1024 * int b \<le> 1024 * int (rq_next_page rqstp) \<and>
     rd_buffer cd = Some (page_at b (length (dl_cells dl))) \<and> rd_buflen cd = dl_room dl \<and>
     holds_at (flat rqstp b) 0 (dl_cells dl)"

definition cookie_held :: "nat \<Rightarrow> nfsd3_readdirres \<Rightarrow> dirlist \<Rightarrow> bool" where
  "cookie_held b cd dl \<longleftrightarrow>
     (case dl_cookie dl of
        None \<Rightarrow> rd_offset cd = None \<and> rd_offset1 cd = None
      | Some c \<Rightarrow> c + 2 \<le> length (dl_cells dl) \<and> rd_offset cd = Some (page_at b c) \<and>
          rd_offset1 cd = (if c mod 1024 = 1023 then Some (page_at b (c + 1)) else None))"

lemma cookie_heldD:
  "cookie_held b cd dl \<Longrightarrow> dl_cookie dl = None \<Longrightarrow> rd_offset cd = None \<and> rd_offset1 cd = None"
  "cookie_held b cd dl \<Longrightarrow> dl_cookie dl = Some c \<Longrightarrow> c + 2 \<le> length (dl_cells dl) \<and> rd_offset cd = Some (page_at b c) \<and>
     rd_offset1 cd = (if c mod 1024 = 1023 then Some (page_at b (c + 1)) else None)"
  by (simp_all add: cookie_held_def)

lemma page_at_next: "c mod 1024 = 1023 \<Longrightarrow> page_at b (c + 1) = (b + c div 1024 + 1, 0)"
  by (simp add: page_at_def mod_Suc div_Suc)

lemma store_flat:
  assumes "s mod 1024 + length ws \<le> 1024"
  obtains m where "store rqstp (page_at b s) ws h = (rqstp\<lparr>rq_page := m\<rparr>, h)"
    "flat (rqstp\<lparr>rq_page := m\<rparr>) b = written (flat rqstp b) s ws"
proof -
  obtain m where s: "fst (store rqstp (page_at b s) ws h) = rqstp\<lparr>rq_page := m\<rparr>"
    by (simp add: store_def)
  show ?thesis
    using flat_store [OF assms, of rqstp b h] s by (intro that [of m]) (simp_all add: prod_eq_iff)
qed

lemma rd_offset1_None: "rd_offset1 cd = None \<Longrightarrow> cd\<lparr>rd_offset1 := None\<rparr> = cd"
  by (cases cd) simp

lemma encode_offset_flat:
  assumes "holds_at (flat rqstp b) 0 (dl_cells dl)" and "cookie_held b cd dl"
  obtains m where "encode_offset cd rqstp off h = (cd\<lparr>rd_offset1 := None\<rparr>, rqstp\<lparr>rq_page := m\<rparr>, h)"
    "holds_at (flat (rqstp\<lparr>rq_page := m\<rparr>) b) 0 (dl_cells (dl_patch off dl))"
proof (cases "dl_cookie dl")
  case None
  then show ?thesis using assms
    by (intro that [of "rq_page rqstp"]) (simp_all add: cookie_held_def encode_offset_def dl_patch_def rd_offset1_None)
next
  case (Some c)
  let ?m = "flat rqstp b" and ?hi = "htonl (ucast (drop_bit 32 off))" and ?lo = "htonl (ucast off)"
  have hy: "xdr_encode_hyper off = [?hi, ?lo]" by (simp add: xdr_encode_hyper_def)
  have c: "c + 2 \<le> length (dl_cells dl)" "rd_offset cd = Some (page_at b c)" and m: "holds_at ?m 0 (dl_cells dl)"
    using assms Some by (simp_all add: cookie_held_def)
  have patched: "holds_at (written ?m c [?hi, ?lo]) 0 (dl_cells (dl_patch off dl))"
    using holds_written_inside [OF m, of c "[?hi, ?lo]"] c(1) Some by (simp add: dl_patch_def hy)
  show ?thesis
  proof (cases "c mod 1024 = 1023")
    case False
    have "c mod 1024 < 1024" by simp
    with False have f: "c mod 1024 + length [?hi, ?lo] \<le> 1024" by simp
    obtain m' where s: "store rqstp (page_at b c) [?hi, ?lo] h = (rqstp\<lparr>rq_page := m'\<rparr>, h)"
      "flat (rqstp\<lparr>rq_page := m'\<rparr>) b = written ?m c [?hi, ?lo]" by (rule store_flat [OF f])
    have "rd_offset1 cd = None" using assms(2) Some False by (simp add: cookie_held_def)
    then show ?thesis
      using patched c(2) s by (intro that [of m']) (simp_all add: encode_offset_def hy rd_offset1_None)
  next
    case True
    have f1: "c mod 1024 + length [?hi] \<le> 1024" using True by simp
    have f2: "(c + 1) mod 1024 + length [?lo] \<le> 1024" using True by (simp add: mod_Suc)
    obtain m1 where s1: "store rqstp (page_at b c) [?hi] h = (rqstp\<lparr>rq_page := m1\<rparr>, h)"
      "flat (rqstp\<lparr>rq_page := m1\<rparr>) b = written ?m c [?hi]" by (rule store_flat [OF f1])
    obtain m2 where s2: "store (rqstp\<lparr>rq_page := m1\<rparr>) (page_at b (c + 1)) [?lo] h = (rqstp\<lparr>rq_page := m1, rq_page := m2\<rparr>, h)"
      "flat (rqstp\<lparr>rq_page := m1, rq_page := m2\<rparr>) b = written (flat (rqstp\<lparr>rq_page := m1\<rparr>) b) (c + 1) [?lo]"
      by (rule store_flat [OF f2])
    have "flat (rqstp\<lparr>rq_page := m2\<rparr>) b = written (written ?m c [?hi]) (c + 1) [?lo]"
      using s2(2) s1(2) by simp
    then have "flat (rqstp\<lparr>rq_page := m2\<rparr>) b = written ?m c [?hi, ?lo]"
      using written_written [of ?m c "[?hi]" "[?lo]"] by simp
    moreover have "rd_offset1 cd = Some (page_at b (c + 1))" using assms(2) Some True by (simp add: cookie_held_def)
    ultimately show ?thesis
      using patched c(2) s1 s2 by (intro that [of m2]) (simp_all add: encode_offset_def Let_def)
  qed
qed

section \<open>Building an entry\<close>

lemma find_page_found: "start \<le> pg \<Longrightarrow> pg < np \<Longrightarrow> w < 1024 \<Longrightarrow> find_page (pg, w) start np cur = (pg, Some pg)"
  by (induction "pg - start" arbitrary: start cur) (simp_all add: find_page.simps)

lemma store_append:
  "fst (store (fst (store rqstp p u g)) (ptr_add p (length u)) v h) = fst (store rqstp p (u @ v) g')"
proof -
  have "(if pg = fst p \<and> snd p + length u \<le> i \<and> i < snd p + length u + length v then v ! (i - (snd p + length u))
      else if pg = fst p \<and> snd p \<le> i \<and> i < snd p + length u then u ! (i - snd p) else m) =
    (if pg = fst p \<and> snd p \<le> i \<and> i < snd p + length (u @ v) then (u @ v) ! (i - snd p) else m)" for pg i m
    by (auto simp: nth_append)
  then show ?thesis by (simp add: store_def ptr_add_def cong: if_cong)
qed

text \<open>What \<open>READDIRPLUS\<close> adds to an entry, with the scratch handle and the history it leaves.\<close>

definition plus_part ::
  "kernel \<Rightarrow> xdr_impl \<Rightarrow> bool \<Rightarrow> nfsd3_readdirres \<Rightarrow> svc_rqst \<Rightarrow> dirent \<Rightarrow> hist \<Rightarrow> be32 list \<times> svc_fh \<times> hist" where
  "plus_part K I pl cd rqstp de h =
     (if pl then entryplus_words K I cd rqstp (take NFS3_MAXNAMLEN (de_name de)) (de_ino de) h else ([], rd_scratch cd, h))"

lemma compose_entry_fh_cong:
  assumes "rd_fh cd' = rd_fh cd"
  shows "compose_entry_fh K cd' = compose_entry_fh K cd"
proof -
  have c: "compose_entry_child K cd' = compose_entry_child K cd"
    unfolding compose_entry_child_def assms ..
  show ?thesis by (rule ext)+ (unfold compose_entry_fh_def assms c, rule refl)
qed

context fattr_encoder
begin

lemma entryplus_words_cong:
  assumes "rd_fh cd' = rd_fh cd"
  shows "entryplus_words K I cd' (rqstp\<lparr>rq_page := m\<rparr>) = entryplus_words K I cd rqstp"
  unfolding fun_eq_iff entryplus_words_def encode_post_op_attr_def page_free compose_entry_fh_cong [OF assms] by simp

lemma encode_baggage_cells:
  assumes "plus_part K I pl cd rqstp de h = (ps, sc, h')" and "name = take NFS3_MAXNAMLEN (de_name de)"
    and "rd_fh cd' = rd_fh cd" "rd_scratch cd' = rd_scratch cd"
    and "snd p + length (entry_cells name (de_ino de) ps) \<le> 1024"
  shows "encode_baggage K I pl cd' (rqstp\<lparr>rq_page := m\<rparr>) p name (de_ino de) h =
    (ptr_add p (length (entry_cells name (de_ino de) ps)),
     cd'\<lparr>rd_offset := Some (ptr_add p (cookie_at name)), rd_scratch := sc\<rparr>,
     fst (store (rqstp\<lparr>rq_page := m\<rparr>) p (entry_cells name (de_ino de) ps) h), h')"
proof -
  let ?rq = "rqstp\<lparr>rq_page := m\<rparr>"
  define ws where "ws = xdr_one # xdr_encode_hyper (de_ino de) @ xdr_encode_array name @ xdr_encode_hyper NFS_OFFSET_MAX"
  have e: "entry_cells name (de_ino de) ps = ws @ ps" by (simp add: entry_cells_def ws_def)
  have len: "length ws = cookie_at name + 2" by (simp add: ws_def cookie_at_def)
  have fit: "snd p + length ws + length ps \<le> 1024" using assms(5) e by simp
  obtain rq1 where s1: "store ?rq p ws h = (rq1, h)" using fit by (simp add: store_def)
  then have r1: "rq1 = rqstp\<lparr>rq_page := rq_page rq1\<rparr>" by (auto simp: store_def)
  have b: "encode_entry_baggage cd' ?rq p name (de_ino de) h =
      (ptr_add p (length ws), cd'\<lparr>rd_offset := Some (ptr_add p (cookie_at name))\<rparr>, rq1, h)"
  proof -
    have "length (xdr_one # xdr_encode_hyper (de_ino de) @ xdr_encode_array name) = cookie_at name"
      "(xdr_one # xdr_encode_hyper (de_ino de) @ xdr_encode_array name) @ xdr_encode_hyper NFS_OFFSET_MAX = ws"
      by (simp_all add: cookie_at_def ws_def)
    then show ?thesis unfolding encode_entry_baggage_def Let_def by (simp only: s1 prod.case)
  qed
  show ?thesis
  proof (cases pl)
    case False
    then have ps: "ps = []" "sc = rd_scratch cd'" "h' = h" using assms(1,4) by (auto simp: plus_part_def)
    have "cd'\<lparr>rd_offset := x, rd_scratch := rd_scratch cd'\<rparr> = cd'\<lparr>rd_offset := x\<rparr>" for x
      by (cases cd') simp
    then show ?thesis using False b s1 ps e by (simp add: encode_baggage_def)
  next
    case True
    then have "entryplus_words K I (cd'\<lparr>rd_offset := Some (ptr_add p (cookie_at name))\<rparr>) rq1 name (de_ino de) h = (ps, sc, h')"
      using assms(1,2,3) entryplus_words_cong [of "cd'\<lparr>rd_offset := Some (ptr_add p (cookie_at name))\<rparr>" cd K "rq_page rq1" rqstp]
        r1 [symmetric] by (simp add: plus_part_def)
    moreover have "store rq1 (ptr_add p (length ws)) ps h' = (fst (store ?rq p (ws @ ps) h), h')"
      using store_append [of ?rq p ws h ps h' h] s1 fit by (simp add: prod_eq_iff) (simp add: store_def ptr_add_def)
    moreover have "ptr_add (ptr_add p (length ws)) (length ps) = ptr_add p (length (ws @ ps))"
      by (simp add: ptr_add_def)
    ultimately show ?thesis
      using True b e unfolding encode_baggage_def encode_entryplus_baggage_def Let_def by simp
  qed
qed

end

section \<open>Splitting an entry\<close>

lemma page_at_add: "n mod 1024 + k < 1024 \<Longrightarrow> page_at b (n + k) = ptr_add (page_at b n) k"
  by (simp add: page_at_def ptr_add_def page_step)

lemma page_end: "(n :: nat) + (1024 - n mod 1024) = (n div 1024 + 1) * 1024"
proof -
  define q r where "q = n div 1024" and "r = n mod 1024"
  have "n = q * 1024 + r" "r < 1024" by (simp_all add: q_def r_def)
  then have "n + (1024 - r) = (q + 1) * 1024" by simp
  then show ?thesis unfolding q_def r_def .
qed

lemma page_at_end:
  assumes "1024 - n mod 1024 \<le> k" "k < 1024"
  shows "page_at b (n + k) = (b + n div 1024 + 1, k - (1024 - n mod 1024))"
proof -
  define r where "r = k - (1024 - n mod 1024)"
  have r: "r < 1024" using assms(2) by (simp add: r_def)
  have "n + k = r + (n div 1024 + 1) * 1024" using page_end [of n] assms(1) by (simp add: r_def)
  moreover have "(r + q * 1024) div 1024 = q" "(r + q * 1024) mod 1024 = r" for q using r by simp_all
  ultimately have "(n + k) div 1024 = n div 1024 + 1" "(n + k) mod 1024 = r" by presburger+
  then show ?thesis by (simp add: page_at_def r_def)
qed

lemma cookie_straddles: "k + 2 \<le> 1024 - n mod 1024 \<Longrightarrow> (n + k) mod 1024 \<noteq> (1023 :: nat)"
  using page_step(2) [of n k] by simp

lemma split_offset_flat:
  assumes "k < 1024" and "rd_offset1 cd = None" and "len1 = 1024 - n mod 1024"
  shows "split_offset cd (page_at b n) (b + n div 1024 + 1) k len1 h =
    (cd\<lparr>rd_offset := Some (page_at b (n + k)),
        rd_offset1 := (if (n + k) mod 1024 = 1023 then Some (page_at b (n + k + 1)) else None)\<rparr>, h)"
proof -
  have w: "n mod 1024 < 1024" by simp
  have none: "cd\<lparr>rd_offset := x, rd_offset1 := None\<rparr> = cd\<lparr>rd_offset := x\<rparr>" for x using assms(2) by (cases cd) simp
  consider (first) "k + 2 \<le> len1" | (second) "\<not> k + 2 \<le> len1" "k \<ge> len1" | (fence) "\<not> k + 2 \<le> len1" "k < len1" by linarith
  then show ?thesis
  proof cases
    case first
    then have "page_at b (n + k) = ptr_add (page_at b n) k" using page_at_add [of n k b] assms(3) w by simp
    then show ?thesis using first cookie_straddles [of k n] assms(3) none by (simp add: split_offset_def)
  next
    case second
    have "(n + k) mod 1024 = k - len1" "k - len1 \<noteq> 1023"
      using page_at_end [of n k 0] second assms(1,3) w by (auto simp: page_at_def)
    then show ?thesis using second page_at_end [of n k b] assms none by (simp add: split_offset_def)
  next
    case fence
    then have k: "k = len1 - 1" by linarith
    have "(n + k) mod 1024 = n mod 1024 + k"
      using page_at_add [of n k 0] fence assms(3) w by (simp add: page_at_def ptr_add_def)
    then have f: "(n + k) mod 1024 = 1023" using k assms(3) w by simp
    have "page_at b (n + k) = ptr_add (page_at b n) k" using page_at_add [of n k b] fence assms(3) w by simp
    moreover have "page_at b (n + k + 1) = (b + n div 1024 + 1, 0)"
    proof -
      have "n + k + 1 = n + len1" using k fence(2) by simp
      then have "n + k + 1 = (n div 1024 + 1) * 1024" using page_end [of n] assms(3) by simp
      then show ?thesis by (simp only: page_at_def nonzero_mult_div_cancel_right) simp
    qed
    ultimately show ?thesis using fence f k by (simp add: split_offset_def)
  qed
qed

text \<open>
  The entry is in the temporary page, behind the end of the current one. What is loaded from there is the
  entry, also the part of it that stays when the first part is moved back.
\<close>

lemma page_after:
  assumes "len1 = 1024 - n mod 1024"
  shows "page_at b (n + len1) = (b + n div 1024 + 1, 0)" "(n + len1) mod 1024 = 0"
  using page_end [of n] unfolding assms page_at_def by simp_all

lemma load_temp:
  assumes len1: "len1 = 1024 - n mod 1024" and f: "flat rqstp b = written m (n + len1) ws"
    and ws: "length ws < 1024" "l \<le> length ws"
  shows "load rqstp (b + n div 1024 + 1, 0) l = take l ws"
proof -
  note t = page_after(1) [OF len1, of b] page_after(2) [OF len1]
  have mem: "map (flat rqstp b) [n + len1..<n + len1 + length ws] = ws" unfolding f by (rule map_written)
  have "load rqstp (page_at b (n + len1)) l = map (flat rqstp b) [n + len1..<n + len1 + l]"
    by (rule load_flat) (use ws t(2) in simp)
  also have "\<dots> = take l (map (flat rqstp b) [n + len1..<n + len1 + length ws])"
    using ws(2) by (simp add: take_map)
  finally show ?thesis by (simp only: t(1) mem)
qed

lemma load_rest:
  assumes len1: "len1 = 1024 - n mod 1024" and f: "flat rqstp b = written m (n + len1) ws"
    and ws: "length ws < 1024" "len1 \<le> length ws"
    and moved: "flat rqstp' b = written (flat rqstp b) n (take len1 ws)"
  shows "load rqstp' (b + n div 1024 + 1, len1) (length ws - len1) = drop len1 ws"
proof -
  note t = page_after(1) [OF len1, of b] page_after(2) [OF len1]
  have mem: "map (flat rqstp b) [n + len1..<n + len1 + length ws] = ws" unfolding f by (rule map_written)
  have "load rqstp' (page_at b (n + len1 + len1)) (length ws - len1) =
      map (flat rqstp' b) [n + len1 + len1..<n + len1 + len1 + (length ws - len1)]"
    by (rule load_flat) (use t(2) ws page_step(2) [of "n + len1" len1] in simp)
  also have "\<dots> = map (flat rqstp b) [n + len1 + len1..<n + len1 + length ws]"
    unfolding moved using ws(2) by (intro map_cong) (auto simp: written_def add.assoc)
  also have "\<dots> = drop len1 (map (flat rqstp b) [n + len1..<n + len1 + length ws])" by (simp add: drop_map)
  finally show ?thesis
    using page_at_add [of "n + len1" len1 b] t ws mem by (simp add: ptr_add_def)
qed

text \<open>The entry fits the current page after all, or it does not.\<close>

lemma split_entry_whole:
  assumes n: "n = length cells" and len1: "len1 = 1024 - n mod 1024"
    and f: "flat rqstp b = written m (n + len1) ws" and hold: "holds_at (flat rqstp b) 0 cells"
    and ws: "length ws < 1024" "length ws < len1" and k: "k + 2 \<le> length ws"
    and cd: "rd_offset cd = Some (b + n div 1024 + 1, k)" "rd_offset1 cd = None"
  obtains m' where "split_entry cd rqstp (page_at b n) (b + n div 1024 + 1) (length ws) h =
      (page_at b (n + length ws),
       cd\<lparr>rd_offset := Some (page_at b (n + k)),
          rd_offset1 := (if (n + k) mod 1024 = 1023 then Some (page_at b (n + k + 1)) else None)\<rparr>,
       rqstp\<lparr>rq_page := m'\<rparr>, h)"
    "holds_at (flat (rqstp\<lparr>rq_page := m'\<rparr>) b) 0 (cells @ ws)"
proof -
  have fit: "n mod 1024 + length ws \<le> 1024" and lt: "n mod 1024 + length ws < 1024" using ws len1 by linarith+
  obtain m' where s: "store rqstp (page_at b n) ws h = (rqstp\<lparr>rq_page := m'\<rparr>, h)"
      "flat (rqstp\<lparr>rq_page := m'\<rparr>) b = written (flat rqstp b) n ws" by (rule store_flat [OF fit])
  have k1: "k + 2 \<le> 1024 - n mod 1024" using k ws len1 by simp
  have "holds_at (flat (rqstp\<lparr>rq_page := m'\<rparr>) b) 0 (cells @ ws)"
    unfolding s(2) n by (rule holds_written_end [OF hold])
  moreover have "ptr_add (page_at b n) k = page_at b (n + k)" "ptr_add (page_at b n) (length ws) = page_at b (n + length ws)"
    using page_at_add [of n k b] page_at_add [OF lt, of b] k lt by simp_all
  moreover have "cd\<lparr>rd_offset := x, rd_offset1 := None\<rparr> = cd\<lparr>rd_offset := x\<rparr>" for x using cd(2) by (cases cd) simp
  moreover have "snd (page_at b n) = n mod 1024" by (simp add: page_at_def)
  ultimately show ?thesis
    using ws(2) load_temp [OF len1 f ws(1) order_refl] s(1) cd(1) cookie_straddles [OF k1]
    by (intro that [of m']) (simp_all add: split_entry_def deref_ptr_def Let_def flip: len1)
qed

lemma split_entry_parts:
  assumes n: "n = length cells" and len1: "len1 = 1024 - n mod 1024"
    and f: "flat rqstp b = written m (n + len1) ws" and hold: "holds_at (flat rqstp b) 0 cells"
    and ws: "length ws < 1024" "len1 \<le> length ws" and k: "k + 2 \<le> length ws"
    and cd: "rd_offset cd = Some (b + n div 1024 + 1, k)" "rd_offset1 cd = None"
  obtains m' where "split_entry cd rqstp (page_at b n) (b + n div 1024 + 1) (length ws) h =
      (page_at b (n + length ws),
       cd\<lparr>rd_offset := Some (page_at b (n + k)),
          rd_offset1 := (if (n + k) mod 1024 = 1023 then Some (page_at b (n + k + 1)) else None)\<rparr>,
       rqstp\<lparr>rq_page := m'\<rparr>, h)"
    "holds_at (flat (rqstp\<lparr>rq_page := m'\<rparr>) b) 0 (cells @ ws)"
proof -
  note t = page_after(1) [OF len1, of b] page_after(2) [OF len1]
  have w: "n mod 1024 < 1024" by simp
  have fit1: "n mod 1024 + length (take len1 ws) \<le> 1024" using ws(2) len1 w by simp
  obtain m1 where s1: "store rqstp (page_at b n) (take len1 ws) h = (rqstp\<lparr>rq_page := m1\<rparr>, h)"
      "flat (rqstp\<lparr>rq_page := m1\<rparr>) b = written (flat rqstp b) n (take len1 ws)" by (rule store_flat [OF fit1])
  have h1: "holds_at (flat (rqstp\<lparr>rq_page := m1\<rparr>) b) 0 (cells @ take len1 ws)"
    unfolding s1(2) n by (rule holds_written_end [OF hold])
  have l: "length (take len1 ws) = len1" using ws(2) by simp
  have fit2: "(n + len1) mod 1024 + length (drop len1 ws) \<le> 1024" using t(2) ws by simp
  obtain m2 where s2: "store (rqstp\<lparr>rq_page := m1\<rparr>) (page_at b (n + len1)) (drop len1 ws) h = (rqstp\<lparr>rq_page := m1, rq_page := m2\<rparr>, h)"
      "flat (rqstp\<lparr>rq_page := m1, rq_page := m2\<rparr>) b = written (flat (rqstp\<lparr>rq_page := m1\<rparr>) b) (n + len1) (drop len1 ws)"
    by (rule store_flat [OF fit2])
  have "holds_at (flat (rqstp\<lparr>rq_page := m2\<rparr>) b) 0 ((cells @ take len1 ws) @ drop len1 ws)"
    using holds_written_end [OF h1, of "drop len1 ws"] s2(2) l n by simp
  then have "holds_at (flat (rqstp\<lparr>rq_page := m2\<rparr>) b) 0 (cells @ ws)" by (simp del: holds_at_append)
  moreover have "page_at b (n + length ws) = (b + n div 1024 + 1, length ws - len1)"
    using page_at_end [of n "length ws" b] ws len1 by simp
  moreover have "snd (page_at b n) = n mod 1024" by (simp add: page_at_def)
  moreover have "k < 1024" using k ws by simp
  note o = split_offset_flat [OF this cd(2) len1, of b h]
  ultimately show ?thesis
    using ws(2) cd(1) o s1(1) s2(1) load_temp [OF len1 f ws] load_rest [OF len1 f ws s1(2)] t(1)
    by (intro that [of m2]) (simp_all add: split_entry_def deref_ptr_def Let_def flip: len1)
qed

lemma split_entry_flat:
  assumes n: "n = length cells" and len1: "len1 = 1024 - n mod 1024"
    and f: "flat rqstp b = written m (n + len1) ws" and m: "holds_at m 0 cells"
    and ws: "length ws < 1024" and k: "k + 2 \<le> length ws"
    and cd: "rd_offset cd = Some (b + n div 1024 + 1, k)" "rd_offset1 cd = None"
  obtains m' where "split_entry cd rqstp (page_at b n) (b + n div 1024 + 1) (length ws) h =
      (page_at b (n + length ws),
       cd\<lparr>rd_offset := Some (page_at b (n + k)),
          rd_offset1 := (if (n + k) mod 1024 = 1023 then Some (page_at b (n + k + 1)) else None)\<rparr>,
       rqstp\<lparr>rq_page := m'\<rparr>, h)"
    "holds_at (flat (rqstp\<lparr>rq_page := m'\<rparr>) b) 0 (cells @ ws)"
proof -
  have hold: "holds_at (flat rqstp b) 0 cells" unfolding f by (rule holds_written_beyond [OF m]) (simp add: n)
  show ?thesis
  proof (cases "length ws < len1")
    case True
    show ?thesis by (rule split_entry_whole [OF n len1 f hold ws True k cd, of h]) (rule that)
  next
    case False
    then have "len1 \<le> length ws" by simp
    then show ?thesis by (rule split_entry_parts [OF n len1 f hold ws _ k cd, of h]) (rule that)
  qed
qed

section \<open>Refinement\<close>

lemma length_dl_patch:
  assumes "cookie_held b cd dl"
  shows "length (dl_cells (dl_patch off dl)) = length (dl_cells dl)"
  using assms by (cases "dl_cookie dl") (simp_all add: dl_patch_def cookie_held_def length_overwrite)

lemma encode_entry_refused:
  assumes hold: "pages_hold b cd rqstp dl" "cookie_held b cd dl"
    and room: "dl_room dl < int (entry_estimate pl (take NFS3_MAXNAMLEN (de_name de)))"
    and cd': "cd' = cd\<lparr>rd_offset1 := None, rd_err := nfserr_toosmall\<rparr>"
  obtains m where "encode_entry K I pl cd rqstp de h = (- EINVAL, cd', rqstp\<lparr>rq_page := m\<rparr>, h)"
    "pages_hold b cd' (rqstp\<lparr>rq_page := m\<rparr>) (dl_patch (de_off de) dl)"
proof -
  have m0: "holds_at (flat rqstp b) 0 (dl_cells dl)" using hold(1) by (simp add: pages_hold_def)
  obtain m where o: "encode_offset cd rqstp (de_off de) h = (cd\<lparr>rd_offset1 := None\<rparr>, rqstp\<lparr>rq_page := m\<rparr>, h)"
    "holds_at (flat (rqstp\<lparr>rq_page := m\<rparr>) b) 0 (dl_cells (dl_patch (de_off de) dl))"
    by (rule encode_offset_flat [OF m0 hold(2)])
  show ?thesis
  proof (rule that [of m])
    show "encode_entry K I pl cd rqstp de h = (- EINVAL, cd', rqstp\<lparr>rq_page := m\<rparr>, h)"
      using o(1) room hold(1) by (simp add: encode_entry_def Let_def pages_hold_def entry_estimate_def cd')
    show "pages_hold b cd' (rqstp\<lparr>rq_page := m\<rparr>) (dl_patch (de_off de) dl)"
      using hold(1) o(2) by (simp add: pages_hold_def length_dl_patch [OF hold(2)] cd')
  qed
qed

lemma page_room:
  assumes "int n + room + 2 + 1024 * int b \<le> 1024 * int np" and "int e \<le> room"
  shows "b + n div 1024 < np" "1024 \<le> n mod 1024 + e \<Longrightarrow> b + n div 1024 + 1 < np"
proof -
  have le: "n + e + 2 + 1024 * b \<le> 1024 * np" using assms by linarith
  define q r where "q = n div 1024" and "r = n mod 1024"
  have eq: "n = 1024 * q + r" by (simp add: q_def r_def)
  have "1024 * (b + q) < 1024 * np" using le eq by simp
  then show "b + n div 1024 < np" unfolding q_def by simp
  assume "1024 \<le> n mod 1024 + e"
  then have "1024 * (b + q + 1) < 1024 * np" using le eq unfolding r_def [symmetric] by simp
  then show "b + n div 1024 + 1 < np" unfolding q_def by simp
qed

lemma encode_entry_head:
  assumes hold: "pages_hold b cd rqstp dl" and name: "name = take NFS3_MAXNAMLEN (de_name de)"
    and room: "int (entry_estimate pl name) \<le> dl_room dl" and n: "n = length (dl_cells dl)" and e: "e = entry_estimate pl name"
    and o: "encode_offset cd rqstp (de_off de) h = (cd\<lparr>rd_offset1 := None\<rparr>, rqstp\<lparr>rq_page := m\<rparr>, h)"
  shows "encode_entry K I pl cd rqstp de h =
     (if n mod 1024 + e < 1024 then
        let (p, cd, rqstp, h) = encode_baggage K I pl (cd\<lparr>rd_offset1 := None\<rparr>) (rqstp\<lparr>rq_page := m\<rparr>) (page_at b n) name (de_ino de) h;
            num_entry_words = snd p - snd (page_at b n)
        in (0, cd\<lparr>rd_buflen := rd_buflen cd - int num_entry_words, rd_buffer := Some p, rd_err := nfs_ok\<rparr>, rqstp, h)
      else
        let (p1, cd, rqstp, h) = encode_baggage K I pl (cd\<lparr>rd_offset1 := None\<rparr>) (rqstp\<lparr>rq_page := m\<rparr>) (b + n div 1024 + 1, 0)
              name (de_ino de) h;
            num_entry_words = snd p1;
            (p, cd, rqstp, h) = split_entry cd rqstp (page_at b n) (b + n div 1024 + 1) num_entry_words h
        in (0, cd\<lparr>rd_buflen := rd_buflen cd - int num_entry_words, rd_buffer := Some p, rd_err := nfs_ok\<rparr>, rqstp, h))"
proof -
  have p: "rd_buffer cd = Some (page_at b n)" "rd_buflen cd = dl_room dl" "1 \<le> b"
    "int n + dl_room dl + 2 + 1024 * int b \<le> 1024 * int (rq_next_page rqstp)" "rq_next_page rqstp \<le> rq_npages rqstp"
    using hold n by (simp_all add: pages_hold_def)
  note pg = page_room [OF p(4) room]
  have found: "find_page (page_at b n) 1 (rq_next_page rqstp) None = (b + n div 1024, Some (b + n div 1024))"
    using find_page_found [of 1 "b + n div 1024" "rq_next_page rqstp" "n mod 1024" None] pg(1) p(3) by (simp add: page_at_def)
  have fits: "fits_page (page_at b n) (Some (b + n div 1024)) e h = (n mod 1024 + e < 1024, h)"
    by (simp add: fits_page_def page_at_def)
  have np: "b + n div 1024 + 1 < rq_npages rqstp" if "\<not> n mod 1024 + e < 1024"
    using pg(2) that p(5) by (simp add: e)
  show ?thesis
    unfolding encode_entry_def Let_def o prod.case name [symmetric]
    using room p(1,2) found fits np by (simp add: deref_ptr_def flip: e entry_estimate_def)
qed

text \<open>The cells of an entry are placed at the end of the list, in the current page or across its end.\<close>

context fattr_encoder
begin

lemma entry_in_page:
  assumes name: "name = take NFS3_MAXNAMLEN (de_name de)" and plus: "plus_part K I pl cd rqstp de h = (ps, sc, g)"
    and ws: "ws = entry_cells name (de_ino de) ps" and n: "n = length cells"
    and hold: "holds_at (flat (rqstp\<lparr>rq_page := m\<rparr>) b) 0 cells" and fit: "n mod 1024 + length ws < 1024"
  obtains m' where "encode_baggage K I pl (cd\<lparr>rd_offset1 := None\<rparr>) (rqstp\<lparr>rq_page := m\<rparr>) (page_at b n) name (de_ino de) h =
      (page_at b (n + length ws), cd\<lparr>rd_offset := Some (page_at b (n + cookie_at name)), rd_offset1 := None, rd_scratch := sc\<rparr>,
       rqstp\<lparr>rq_page := m'\<rparr>, g)"
    "holds_at (flat (rqstp\<lparr>rq_page := m'\<rparr>) b) 0 (cells @ ws)"
proof -
  have fit': "snd (page_at b n) + length ws \<le> 1024" "n mod 1024 + length ws \<le> 1024" "cookie_at name \<le> length ws"
    using fit by (simp_all add: page_at_def ws cookie_at_def)
  note bag = encode_baggage_cells [OF plus name, of "cd\<lparr>rd_offset1 := None\<rparr>" "page_at b n" m, folded ws, OF _ _ fit'(1)]
  obtain m' where s: "store (rqstp\<lparr>rq_page := m\<rparr>) (page_at b n) ws h = (rqstp\<lparr>rq_page := m, rq_page := m'\<rparr>, h)"
      "flat (rqstp\<lparr>rq_page := m, rq_page := m'\<rparr>) b = written (flat (rqstp\<lparr>rq_page := m\<rparr>) b) n ws"
    by (rule store_flat [OF fit'(2)])
  have "ptr_add (page_at b n) (length ws) = page_at b (n + length ws)"
    "ptr_add (page_at b n) (cookie_at name) = page_at b (n + cookie_at name)"
    using page_at_add [of n "length ws" b] page_at_add [of n "cookie_at name" b] fit fit'(3) by simp_all
  then show ?thesis
    using bag s holds_written_end [OF hold, of ws] n by (intro that [of m']) (simp_all del: holds_at_append)
qed

lemma entry_across:
  assumes name: "name = take NFS3_MAXNAMLEN (de_name de)" and plus: "plus_part K I pl cd rqstp de h = (ps, sc, g)"
    and ws: "ws = entry_cells name (de_ino de) ps" and n: "n = length cells"
    and hold: "holds_at (flat (rqstp\<lparr>rq_page := m\<rparr>) b) 0 cells" and len: "length ws < 1024"
  obtains cd1 m1 m' where
    "encode_baggage K I pl (cd\<lparr>rd_offset1 := None\<rparr>) (rqstp\<lparr>rq_page := m\<rparr>) (b + n div 1024 + 1, 0) name (de_ino de) h =
      ((b + n div 1024 + 1, length ws), cd1, rqstp\<lparr>rq_page := m1\<rparr>, g)"
    "split_entry cd1 (rqstp\<lparr>rq_page := m1\<rparr>) (page_at b n) (b + n div 1024 + 1) (length ws) g =
      (page_at b (n + length ws),
       cd\<lparr>rd_offset := Some (page_at b (n + cookie_at name)), rd_offset1 := (if (n + cookie_at name) mod 1024 = 1023
          then Some (page_at b (n + cookie_at name + 1)) else None), rd_scratch := sc\<rparr>, rqstp\<lparr>rq_page := m'\<rparr>, g)"
    "holds_at (flat (rqstp\<lparr>rq_page := m'\<rparr>) b) 0 (cells @ ws)"
proof -
  let ?t = "n + (1024 - n mod 1024)" and ?tmp = "b + n div 1024 + 1" and ?k = "cookie_at name"
  have tmp: "page_at b ?t = (?tmp, 0)" "?t mod 1024 = 0"
    using page_end [of n] unfolding page_at_def by simp_all
  have fit: "snd (?tmp, 0 :: nat) + length ws \<le> 1024" "?t mod 1024 + length ws \<le> 1024" and k: "?k + 2 \<le> length ws"
    using len unfolding tmp(2) by (simp_all add: ws cookie_at_def)
  note bag = encode_baggage_cells [OF plus name, of "cd\<lparr>rd_offset1 := None\<rparr>" "(?tmp, 0)" m, folded ws, OF _ _ fit(1)]
  obtain m1 where s: "store (rqstp\<lparr>rq_page := m\<rparr>) (page_at b ?t) ws h = (rqstp\<lparr>rq_page := m, rq_page := m1\<rparr>, h)"
      "flat (rqstp\<lparr>rq_page := m, rq_page := m1\<rparr>) b = written (flat (rqstp\<lparr>rq_page := m\<rparr>) b) ?t ws"
    by (rule store_flat [OF fit(2)])
  let ?cd1 = "cd\<lparr>rd_offset1 := None, rd_offset := Some (?tmp, ?k), rd_scratch := sc\<rparr>"
  obtain m' where sp: "split_entry ?cd1 (rqstp\<lparr>rq_page := m, rq_page := m1\<rparr>) (page_at b n) ?tmp (length ws) g =
      (page_at b (n + length ws),
       ?cd1\<lparr>rd_offset := Some (page_at b (n + ?k)), rd_offset1 := (if (n + ?k) mod 1024 = 1023
          then Some (page_at b (n + ?k + 1)) else None)\<rparr>,
       rqstp\<lparr>rq_page := m, rq_page := m1, rq_page := m'\<rparr>, g)"
    "holds_at (flat (rqstp\<lparr>rq_page := m, rq_page := m1, rq_page := m'\<rparr>) b) 0 (cells @ ws)"
    by (rule split_entry_flat [OF n refl s(2) hold len k, of ?cd1 g]) simp_all
  show ?thesis
  proof (rule that [of ?cd1 m1 m'])
    show "encode_baggage K I pl (cd\<lparr>rd_offset1 := None\<rparr>) (rqstp\<lparr>rq_page := m\<rparr>) (?tmp, 0) name (de_ino de) h =
        ((?tmp, length ws), ?cd1, rqstp\<lparr>rq_page := m1\<rparr>, g)"
      using bag s(1) [unfolded tmp(1)] by (simp add: ptr_add_def)
  qed (use sp in \<open>simp_all del: holds_at_append\<close>)
qed

lemma encode_entry_added:
  assumes hold: "pages_hold b cd rqstp dl" "cookie_held b cd dl"
    and name: "name = take NFS3_MAXNAMLEN (de_name de)" and room: "int (entry_estimate pl name) \<le> dl_room dl"
    and plus: "plus_part K I pl cd rqstp de h = (ps, sc, g)" and ps: "length ps \<le> (if pl then NFS3_ENTRYPLUS_BAGGAGE else 0)"
  obtains cd' m where "encode_entry K I pl cd rqstp de h = (0, cd', rqstp\<lparr>rq_page := m\<rparr>, g)"
    "rd_fh cd' = rd_fh cd" "rd_err cd' = nfs_ok"
    "pages_hold b cd' (rqstp\<lparr>rq_page := m\<rparr>) (snd (dl_entry pl de ps dl))" "cookie_held b cd' (snd (dl_entry pl de ps dl))"
proof -
  define cells where "cells = dl_cells (dl_patch (de_off de) dl)"
  define n where "n = length cells"
  define ws where "ws = entry_cells name (de_ino de) ps"
  define e where "e = entry_estimate pl name"
  let ?c = "n + cookie_at name"
  have n': "n = length (dl_cells dl)" by (simp add: n_def cells_def length_dl_patch [OF hold(2)])
  have m0: "holds_at (flat rqstp b) 0 (dl_cells dl)" using hold(1) by (simp add: pages_hold_def)
  obtain m where o: "encode_offset cd rqstp (de_off de) h = (cd\<lparr>rd_offset1 := None\<rparr>, rqstp\<lparr>rq_page := m\<rparr>, h)"
    "holds_at (flat (rqstp\<lparr>rq_page := m\<rparr>) b) 0 cells"
    unfolding cells_def by (rule encode_offset_flat [OF m0 hold(2)])
  have "(length name + 3) div 4 \<le> 64" by (simp add: name)
  then have le: "length ws \<le> e" "length ws < 1024" "cookie_at name + 2 \<le> length ws"
    using ps by (simp_all add: ws_def e_def entry_estimate_def cookie_at_def split: if_splits)
  note head = encode_entry_head [OF hold(1) name room n' e_def o(1), of K I]
  let ?cd' = "cd\<lparr>rd_offset := Some (page_at b ?c), rd_offset1 := (if ?c mod 1024 = 1023 then Some (page_at b (?c + 1)) else None),
    rd_scratch := sc, rd_buflen := rd_buflen cd - int (length ws), rd_buffer := Some (page_at b (n + length ws)), rd_err := nfs_ok\<rparr>"
  have "\<exists>m'. encode_entry K I pl cd rqstp de h = (0, ?cd', rqstp\<lparr>rq_page := m'\<rparr>, g) \<and>
    holds_at (flat (rqstp\<lparr>rq_page := m'\<rparr>) b) 0 (cells @ ws)"
  proof (cases "n mod 1024 + e < 1024")
    case True
    then have fit: "n mod 1024 + length ws < 1024" using le(1) by simp
    moreover have "?c mod 1024 \<noteq> 1023" using cookie_straddles [of "cookie_at name" n] fit le(3) by simp
    moreover have "snd (page_at b (n + length ws)) = n mod 1024 + length ws" using page_step(2) [OF fit] by (simp add: page_at_def)
    ultimately show ?thesis
      using True by (rule_tac entry_in_page [OF name plus ws_def n_def o(2)]) (auto simp: head Let_def page_at_def [of b n] simp del: holds_at_append)
  next
    case False
    then show ?thesis
      by (rule_tac entry_across [OF name plus ws_def n_def o(2) le(2)]) (auto simp: head Let_def simp del: holds_at_append)
  qed
  then obtain m' where m': "encode_entry K I pl cd rqstp de h = (0, ?cd', rqstp\<lparr>rq_page := m'\<rparr>, g)"
    "holds_at (flat (rqstp\<lparr>rq_page := m'\<rparr>) b) 0 (cells @ ws)" by blast
  have "snd (dl_entry pl de ps dl) = (dl_patch (de_off de) dl)\<lparr>dl_cells := cells @ ws, dl_cookie := Some ?c,
      dl_room := dl_room dl - int (length ws)\<rparr>"
    using room by (simp add: dl_entry_def Let_def cells_def n_def ws_def flip: name)
  then show ?thesis
    using m' hold(1) le(3) by (intro that [OF m'(1)]) (simp_all add: pages_hold_def cookie_held_def n_def [symmetric] n' [symmetric] del: holds_at_append)
qed

end

end
