(* ===== verification/Readdir_Reply.thy ===== *)
theory Readdir_Reply
  imports Readdir_Pages Proc
begin

text \<open>
  The replies of \<open>READDIR\<close> and \<open>READDIRPLUS\<close>: reading a directory with the entry encoder leaves in the
  pages of the request the RFC 1813 encoding of the entries taken, each with the cookie that continues
  after it, up to one page boundary that \<open>READDIRPLUS\<close> loses track of.
\<close>

section \<open>Directory lists\<close>

text \<open>
  The RFC 1813 encoding of a list of entries, each with what \<open>READDIRPLUS\<close> adds to it: the cookie of
  an entry is the offset of the next one, and the cookie of the last is where reading goes on.
\<close>

fun dirlist_cells :: "(dirent \<times> be32 list) list \<Rightarrow> u64 \<Rightarrow> be32 list" where
  "dirlist_cells [] off = []"
| "dirlist_cells ((de, ps) # es) off =
     xdr_one # xdr_encode_hyper (de_ino de) @ xdr_encode_array (take NFS3_MAXNAMLEN (de_name de)) @
     xdr_encode_hyper (case es of [] \<Rightarrow> off | (d, _) # _ \<Rightarrow> de_off d) @ ps @ dirlist_cells es off"

lemma dirlist_cells_snoc:
  "dirlist_cells (es @ [(de, ps)]) off = dirlist_cells es (de_off de) @
     (xdr_one # xdr_encode_hyper (de_ino de) @ xdr_encode_array (take NFS3_MAXNAMLEN (de_name de))) @
     xdr_encode_hyper off @ ps"
  by (induction es "de_off de" rule: dirlist_cells.induct) (auto split: list.split prod.split)

lemma length_dirlist_cells: "length (dirlist_cells es off) = length (dirlist_cells es off')"
  by (induction es off rule: dirlist_cells.induct) simp_all

text \<open>A list that is being built shows its entries, with some last cookie.\<close>

definition dl_shows :: "(dirent \<times> be32 list) list \<Rightarrow> u64 \<Rightarrow> dirlist \<Rightarrow> bool" where
  "dl_shows es off dl \<longleftrightarrow> dl_cells dl = dirlist_cells es off \<and>
     dl_cookie dl = (if es = [] then None else Some (length (dirlist_cells es off) - length (snd (last es)) - 2))"

lemma overwrite_middle: "length v = length w \<Longrightarrow> overwrite (length u) w (u @ v @ x) = u @ w @ x"
  by (simp add: overwrite_def)

lemma dl_patch_shows:
  assumes "dl_shows es off dl"
  shows "dl_shows es off' (dl_patch off' dl)"
proof (cases es rule: rev_exhaust)
  case Nil
  then show ?thesis using assms by (simp add: dl_shows_def dl_patch_def)
next
  case (snoc es' e)
  obtain de ps where e: "e = (de, ps)" by fastforce
  define u where "u = dirlist_cells es' (de_off de) @ (xdr_one # xdr_encode_hyper (de_ino de) @
    xdr_encode_array (take NFS3_MAXNAMLEN (de_name de)))"
  have c: "dirlist_cells es o' = u @ xdr_encode_hyper o' @ ps" for o'
    using dirlist_cells_snoc [of es' de ps o'] by (simp add: snoc e u_def)
  have "dl_cookie dl = Some (length u)" "dl_cells dl = u @ xdr_encode_hyper off @ ps"
    using assms c [of off] by (simp_all add: dl_shows_def snoc e)
  then show ?thesis
    using c [of off'] overwrite_middle [of "xdr_encode_hyper off" "xdr_encode_hyper off'" u ps]
    by (simp add: dl_shows_def dl_patch_def snoc e)
qed

lemma dl_entry_shows:
  assumes "dl_shows es off dl" and "int (entry_estimate pl (take NFS3_MAXNAMLEN (de_name de))) \<le> dl_room dl"
  shows "dl_shows (es @ [(de, ps)]) NFS_OFFSET_MAX (snd (dl_entry pl de ps dl))"
proof -
  have "dl_shows es (de_off de) (dl_patch (de_off de) dl)" by (rule dl_patch_shows [OF assms(1)])
  then have "dl_cells (dl_patch (de_off de) dl) = dirlist_cells es (de_off de)" by (simp add: dl_shows_def)
  then show ?thesis
    using assms(2) by (simp add: dl_entry_def dl_shows_def Let_def dirlist_cells_snoc entry_cells_def cookie_at_def)
qed

section \<open>Reading a directory into the pages\<close>

text \<open>
  The pages show the entries taken so far; the cells used and the room left add up to what the reply
  may hold. \<open>refused\<close> is the state after an entry that did not fit: the last cookie is written, and the
  reply no longer knows that it may lie across a page boundary.
\<close>

definition reading ::
  "nat \<Rightarrow> int \<Rightarrow> (dirent \<times> be32 list) list \<Rightarrow> u64 \<Rightarrow> nfsd3_readdirres \<Rightarrow> svc_rqst \<Rightarrow> dirlist \<Rightarrow> bool" where
  "reading b tot es off cd rqstp dl \<longleftrightarrow> pages_hold b cd rqstp dl \<and> dl_shows es off dl \<and>
     int (length (dl_cells dl)) + dl_room dl = tot \<and> (es = [] \<or> 0 \<le> dl_room dl)"

definition refused :: "nat \<Rightarrow> nfsd3_readdirres \<Rightarrow> dirlist \<Rightarrow> bool" where
  "refused b cd dl \<longleftrightarrow> rd_offset1 cd = None \<and> rd_offset cd = map_option (page_at b) (dl_cookie dl) \<and>
     (\<forall>c\<in>set_option (dl_cookie dl). c + 2 \<le> length (dl_cells dl))"

text \<open>What \<open>READDIRPLUS\<close> adds to an entry stays within the estimate \<open>NFS3_ENTRYPLUS_BAGGAGE\<close>.\<close>

definition plus_bounded :: "kernel \<Rightarrow> xdr_impl \<Rightarrow> bool \<Rightarrow> bool" where
  "plus_bounded K I pl \<longleftrightarrow>
     (\<forall>cd rqstp de h. length (fst (plus_part K I pl cd rqstp de h)) \<le> (if pl then NFS3_ENTRYPLUS_BAGGAGE else 0))"

lemma plus_bounded_plain [simp]: "plus_bounded K I False"
  by (simp add: plus_bounded_def plus_part_def)

lemma reading_err [simp]: "reading b tot es off (cd\<lparr>rd_err := e\<rparr>) rqstp dl = reading b tot es off cd rqstp dl"
  "cookie_held b (cd\<lparr>rd_err := e\<rparr>) dl = cookie_held b cd dl"
  by (simp_all add: reading_def pages_hold_def cookie_held_def split: option.split)

lemma entry_refused:
  assumes "reading b tot es off cd rqstp dl" and "cookie_held b cd dl"
    and "\<not> int (entry_estimate pl (take NFS3_MAXNAMLEN (de_name de))) \<le> dl_room dl"
  obtains cd' m where "encode_entry K I pl cd rqstp de h = (- EINVAL, cd', rqstp\<lparr>rq_page := m\<rparr>, h)"
    "reading b tot es (de_off de) cd' (rqstp\<lparr>rq_page := m\<rparr>) (dl_patch (de_off de) dl)"
    "refused b cd' (dl_patch (de_off de) dl)" "rd_err cd' = nfserr_toosmall"
proof -
  have l: "length (dl_cells (dl_patch (de_off de) dl)) = length (dl_cells dl)" by (rule length_dl_patch [OF assms(2)])
  show ?thesis
  proof (rule encode_entry_refused [of b cd rqstp dl pl de _ K I h, OF _ assms(2) _ refl])
    fix m assume m: "encode_entry K I pl cd rqstp de h = (- EINVAL, cd\<lparr>rd_offset1 := None, rd_err := nfserr_toosmall\<rparr>,
        rqstp\<lparr>rq_page := m\<rparr>, h)"
      "pages_hold b (cd\<lparr>rd_offset1 := None, rd_err := nfserr_toosmall\<rparr>) (rqstp\<lparr>rq_page := m\<rparr>) (dl_patch (de_off de) dl)"
    show thesis
      by (rule that [OF m(1)])
         (use m(2) assms l dl_patch_shows [of es off dl "de_off de"] in
           \<open>auto simp: reading_def refused_def cookie_held_def split: option.splits\<close>)
  qed (use assms in \<open>auto simp: reading_def\<close>)
qed

lemma iterate_actor_set: "set (rdd_dirent (iterate_actor des buf)) \<subseteq> set (rdd_dirent buf) \<union> set des"
proof (induction des arbitrary: buf)
  case (Cons de des)
  show ?case
    using Cons.IH [of "buf\<lparr>rdd_dirent := rdd_dirent buf @ [de], rdd_used := rdd_used buf + dirent_reclen (length (de_name de))\<rparr>"]
    by (auto simp: nfsd_buffered_filldir_def Let_def)
qed simp

context fattr_encoder
begin

lemma entry_taken:
  assumes r: "reading b tot es off cd rqstp dl" and c: "cookie_held b cd dl" and bd: "plus_bounded K I pl"
    and room: "int (entry_estimate pl (take NFS3_MAXNAMLEN (de_name de))) \<le> dl_room dl"
  obtains cd' m g ps dl' where "encode_entry K I pl cd rqstp de h = (0, cd', rqstp\<lparr>rq_page := m\<rparr>, g)" "rd_err cd' = nfs_ok"
    "reading b tot (es @ [(de, ps)]) NFS_OFFSET_MAX cd' (rqstp\<lparr>rq_page := m\<rparr>) dl'" "cookie_held b cd' dl'"
    "length ps \<le> (if pl then NFS3_ENTRYPLUS_BAGGAGE else 0)"
proof -
  obtain ps sc g where p: "plus_part K I pl cd rqstp de h = (ps, sc, g)" by (metis prod_cases3)
  then have ps: "length ps \<le> (if pl then NFS3_ENTRYPLUS_BAGGAGE else 0)"
    using bd unfolding plus_bounded_def by (metis fst_conv)
  have hold: "pages_hold b cd rqstp dl" "dl_shows es off dl" "int (length (dl_cells dl)) + dl_room dl = tot"
    using r by (simp_all add: reading_def)
  show ?thesis
  proof (rule encode_entry_added [OF hold(1) c refl room p ps])
    fix cd' m assume e: "encode_entry K I pl cd rqstp de h = (0, cd', rqstp\<lparr>rq_page := m\<rparr>, g)" "rd_err cd' = nfs_ok"
      "pages_hold b cd' (rqstp\<lparr>rq_page := m\<rparr>) (snd (dl_entry pl de ps dl))" "cookie_held b cd' (snd (dl_entry pl de ps dl))"
    have "reading b tot (es @ [(de, ps)]) NFS_OFFSET_MAX cd' (rqstp\<lparr>rq_page := m\<rparr>) (snd (dl_entry pl de ps dl))"
      using e(3) dl_entry_shows [OF hold(2) room, of ps] hold(3) room ps length_dl_patch [OF c, of "de_off de"]
      by (auto simp: reading_def dl_entry_def entry_estimate_def Let_def split: if_splits)
    from that [OF e(1,2) this e(4) ps] show thesis .
  qed
qed

lemma emit_reading:
  assumes "plus_bounded K I pl" and "reading b tot es v cd rqstp dl" and "cookie_held b cd dl"
    and "emit_entries (encode_entry K I pl) des off cd rqstp h = (bailed, off', cd', rq', h')"
  shows "\<exists>es' v' dl'. reading b tot (es @ es') v' cd' rq' dl' \<and> fst ` set es' \<subseteq> set des \<and>
    (\<forall>e\<in>set es'. length (snd e) \<le> (if pl then NFS3_ENTRYPLUS_BAGGAGE else 0)) \<and>
    (if bailed then v' = off' \<and> refused b cd' dl' \<and> rd_err cd' = nfserr_toosmall
     else cookie_held b cd' dl' \<and> map fst es' = des)"
  using assms(2-)
proof (induction des arbitrary: es v cd rqstp dl off h)
  case Nil
  then show ?case by (intro exI [of _ "[]"]) auto
next
  case (Cons de des)
  show ?case
  proof (cases "int (entry_estimate pl (take NFS3_MAXNAMLEN (de_name de))) \<le> dl_room dl")
    case False
    show ?thesis
      by (rule entry_refused [OF Cons.prems(1,2) False, of K I h])
         (use Cons.prems(3) in \<open>auto simp: Let_def intro!: exI [of _ "[]"]\<close>)
  next
    case True
    show ?thesis
    proof (rule entry_taken [OF Cons.prems(1,2) assms(1) True, of h])
      fix cd1 m g ps dl1
      assume e: "encode_entry K I pl cd rqstp de h = (0, cd1, rqstp\<lparr>rq_page := m\<rparr>, g)" "rd_err cd1 = nfs_ok"
        "reading b tot (es @ [(de, ps)]) NFS_OFFSET_MAX cd1 (rqstp\<lparr>rq_page := m\<rparr>) dl1" "cookie_held b cd1 dl1"
        and ps: "length ps \<le> (if pl then NFS3_ENTRYPLUS_BAGGAGE else 0)"
      have "emit_entries (encode_entry K I pl) des (de_off de) cd1 (rqstp\<lparr>rq_page := m\<rparr>) g = (bailed, off', cd', rq', h')"
        using Cons.prems(3) e(1,2) by (simp add: Let_def)
      from Cons.IH [OF e(3,4) this] obtain es' v' dl' where
        "reading b tot ((es @ [(de, ps)]) @ es') v' cd' rq' dl'" "fst ` set es' \<subseteq> set des"
        "\<forall>e\<in>set es'. length (snd e) \<le> (if pl then NFS3_ENTRYPLUS_BAGGAGE else 0)"
        "if bailed then v' = off' \<and> refused b cd' dl' \<and> rd_err cd' = nfserr_toosmall
         else cookie_held b cd' dl' \<and> map fst es' = des" by blast
      then show ?thesis using ps by (intro exI [of _ "(de, ps) # es'"]) (auto split: if_splits)
    qed
  qed
qed

end

lemma errtbl_search_found: "errtbl_search tbl e \<noteq> nfserr_io \<Longrightarrow> (errtbl_search tbl e, e) \<in> set tbl"
  by (induction tbl e rule: errtbl_search.induct) auto

lemma nfserrno_toosmall: "nfserrno e \<in> {nfserr_eof, nfserr_toosmall} \<Longrightarrow> e < 0"
  using errtbl_search_found [of nfs_errtbl e]
  by (auto simp: nfserrno_def nfs_errtbl_def nfserr_defs)

lemma nfserrno_nomem: "nfserrno (- ENOMEM) = nfserr_jukebox"
  by (simp add: nfserrno_def nfs_errtbl_def)

text \<open>
  Every entry taken was delivered by the file system when the directory was read, and what was added
  to it keeps to the estimate; nothing is added for \<open>READDIR\<close>.
\<close>

definition offered :: "kernel \<Rightarrow> bool \<Rightarrow> file_p \<Rightarrow> (dirent \<times> be32 list) list \<Rightarrow> bool" where
  "offered K pl fl es \<longleftrightarrow> (\<forall>e\<in>set es. (\<exists>g. fst e \<in> set (fst (iterate_dir K g fl))) \<and>
     length (snd e) \<le> (if pl then NFS3_ENTRYPLUS_BAGGAGE else 0))"

lemma offered_simps [simp]: "offered K pl fl []" "offered K pl fl (xs @ ys) \<longleftrightarrow> offered K pl fl xs \<and> offered K pl fl ys"
  by (auto simp: offered_def)

definition read_end :: "nat \<Rightarrow> u64 \<Rightarrow> u64 \<Rightarrow> nfsd3_readdirres \<Rightarrow> dirlist \<Rightarrow> bool" where
  "read_end b v off cd dl \<longleftrightarrow> cookie_held b cd dl \<or> refused b cd dl \<and> v = off \<and> rd_err cd = nfserr_toosmall"

context fattr_encoder
begin

lemma loop_reading:
  assumes "plus_bounded K I pl" and "reading b tot es v cd rqstp dl" and "cookie_held b cd dl"
    and "readdir_loop K (encode_entry K I pl) fl off cd rqstp h = Some (e, off', cd', rq', h')"
  shows "\<exists>es' v' dl'. reading b tot (es @ es') v' cd' rq' dl' \<and> offered K pl fl es' \<and> read_end b v' off' cd' dl' \<and>
    (e < 0 \<longrightarrow> cookie_held b cd' dl')"
  using assms(2-)
proof (induction "nat (rd_buflen cd + 1)" arbitrary: es v cd rqstp dl off h rule: less_induct)
  case less
  define c where "c = cd\<lparr>rd_err := nfserr_eof\<rparr>"
  obtain ds rc where i: "iterate_dir K h fl = (ds, rc)" by fastforce
  define buf where "buf = iterate_actor ds \<lparr>rdd_dirent = [], rdd_used = 0, rdd_full = False\<rparr>"
  define g where "g = File (Iterate_dir fl (length (rdd_dirent buf)) rc) # h"
  obtain bailed off1 c1 q1 g1 where em: "emit_entries (encode_entry K I pl) (rdd_dirent buf) off c rqstp g = (bailed, off1, c1, q1, g1)"
    by (metis prod_cases5)
  have c: "reading b tot es v c rqstp dl" "cookie_held b c dl" "rd_buflen c = rd_buflen cd"
    using less.prems(1,2) by (simp_all add: c_def)
  from emit_reading [OF assms(1) c(1,2) em] obtain es1 v1 dl1 where
    r: "reading b tot (es @ es1) v1 c1 q1 dl1" "fst ` set es1 \<subseteq> set (rdd_dirent buf)"
      "\<forall>e\<in>set es1. length (snd e) \<le> (if pl then NFS3_ENTRYPLUS_BAGGAGE else 0)"
      "if bailed then v1 = off1 \<and> refused b c1 dl1 \<and> rd_err c1 = nfserr_toosmall
       else cookie_held b c1 dl1 \<and> map fst es1 = rdd_dirent buf" by blast
  have of1: "offered K pl fl es1"
  proof -
    have "fst ` set es1 \<subseteq> set ds"
      using subset_trans [OF r(2)] iterate_actor_set [of ds "\<lparr>rdd_dirent = [], rdd_used = 0, rdd_full = False\<rparr>"]
      by (simp add: buf_def)
    then show ?thesis using i r(3) unfolding offered_def by (metis fst_conv imageI subsetD)
  qed
  consider (stop) "(if rdd_full buf then 0 else rc) < 0 \<or> rdd_used buf = 0" "cd' = c" "rq' = rqstp"
    | (bail) bailed "\<not> e < 0" "off' = off1" "cd' = c1" "rq' = q1"
    | (again) n where "\<not> bailed" "rdd_used buf \<noteq> 0"
        "readdir_loop K (encode_entry K I pl) fl (word_of_int n) c1 q1 (File (Vfs_llseek fl 0 False n) # g1) = Some (e, off', cd', rq', h')"
    using less.prems(3) i em
    by (subst (asm) readdir_loop.simps)
       (auto simp: Let_def call_simps simp flip: c_def buf_def g_def split: if_split_asm)
  then show ?case
  proof cases
    case stop
    then show ?thesis using c by (intro exI [of _ "[]"]) (auto simp: read_end_def)
  next
    case bail
    then show ?thesis using r of1 by (intro exI [of _ es1]) (auto simp: read_end_def)
  next
    case again
    have "rdd_dirent buf \<noteq> []" using again(2) iterate_actor_empty [of ds False] by (auto simp: buf_def)
    then have "rd_buflen c1 < rd_buflen c" "0 \<le> rd_buflen c"
      using entry.emit_progress [of K pl "rdd_dirent buf" off c rqstp g off1 c1 q1 g1] em again(1) by auto
    then have "nat (rd_buflen c1 + 1) < nat (rd_buflen cd + 1)" using c(3) by linarith
    from less.hyps [OF this r(1) _ again(3)] r(4) again(1) obtain es' v' dl' where
      "reading b tot ((es @ es1) @ es') v' cd' rq' dl'" "offered K pl fl es'" "read_end b v' off' cd' dl'"
      "e < 0 \<longrightarrow> cookie_held b cd' dl'" by auto
    then show ?thesis using of1 by (intro exI [of _ "es1 @ es'"]) auto
  qed
qed

lemma nfsd_readdir_reading:
  assumes bd: "plus_bounded K I pl" and r: "reading b tot [] v cd rqstp dl" "cookie_held b cd dl"
    and ok: "nfsd_readdir K rqstp off cd (encode_entry K I pl) h = Some (nfs_ok, off', cd', rq', h')"
  shows "\<exists>fl es v' dl'. reading b tot es v' cd' rq' dl' \<and> offered K pl fl es \<and> read_end b v' off' cd' dl'"
proof -
  obtain err fo f g where o: "nfsd_open K rqstp (rd_fh cd) S_IFDIR NFSD_MAY_READ h = (err, fo, f, g)" by (metis prod_cases4)
  obtain fl g1 where d: "deref fo g = (fl, g1)" by fastforce
  obtain n g2 where sk: "call_vfs_llseek K fl off True g1 = (n, g2)" by fastforce
  let ?cd = "cd\<lparr>rd_fh := f\<rparr>"
  have r': "reading b tot [] v ?cd rqstp dl" "cookie_held b ?cd dl"
    using r by (simp_all add: reading_def pages_hold_def cookie_held_def split: option.splits)
  have "err = 0" using ok o by (auto simp: nfsd_readdir_def Let_def nfs_ok_def split: if_splits)
  then have sk': "0 \<le> n" using ok o d sk by (auto simp: nfsd_readdir_def Let_def nfs_ok_def split: if_splits)
  obtain e2 where bf: "nfsd_buffered_readdir K fl (encode_entry K I pl) ?cd rqstp off g2 = Some (e2, off', cd', rq', tl h')"
    and e2: "e2 \<in> {nfs_ok, nfserr_eof, nfserr_toosmall}"
    using ok o d sk \<open>err = 0\<close> sk' by (auto simp: nfsd_readdir_def Let_def split: option.splits if_splits)
  have "get_free_page K g2"
    using bf e2 by (auto simp: nfsd_buffered_readdir_def call_simps Let_def nfserrno_nomem nfserr_defs split: if_splits)
  then obtain he off2 g3 where l: "readdir_loop K (encode_entry K I pl) fl off ?cd rqstp (Sys (Get_free_page True) # g2) =
      Some (he, off2, cd', rq', g3)" and he: "he = 0 \<and> off' = off2 \<or> he \<noteq> 0 \<and> e2 = nfserrno he"
    using bf by (auto simp: nfsd_buffered_readdir_def call_simps Let_def split: option.splits if_splits)
  have "he < 0 \<or> off' = off2"
    using he e2 nfserrno_toosmall [of he] by (auto simp: nfs_ok_def)
  with loop_reading [OF bd r' l] show ?thesis by (auto simp: read_end_def)
qed

end

section \<open>The reply of READDIR\<close>

lemma read_endD:
  assumes "read_end b v off cd dl"
  shows "rd_offset cd = map_option (page_at b) (dl_cookie dl)" "\<forall>c\<in>set_option (dl_cookie dl). c + 2 \<le> length (dl_cells dl)"
  using assms by (auto simp: read_end_def refused_def cookie_held_def split: option.splits)

lemma reading_start:
  assumes "rd_buffer cd = Some (b, 0)" "rd_offset cd = None" "rd_offset1 cd = None" "rd_buflen cd = tot"
    and "1 \<le> b" "b < rq_next_page rqstp" "rq_next_page rqstp \<le> rq_npages rqstp"
      "tot + 2 + 1024 * int b \<le> 1024 * int (rq_next_page rqstp)"
  shows "reading b tot [] v cd rqstp \<lparr>dl_cells = [], dl_cookie = None, dl_room = tot\<rparr> \<and>
    cookie_held b cd \<lparr>dl_cells = [], dl_cookie = None, dl_room = tot\<rparr>"
  using assms by (simp add: reading_def pages_hold_def cookie_held_def dl_shows_def page_at_def)

context fattr_encoder
begin

lemma readdir_lists:
  assumes "rda_buffer a = Some b" "1 \<le> b" "rq_next_page rqstp = b + 1" "b + 1 \<le> rq_npages rqstp"
    and "dir_words (rda_count a) \<le> 1022" and "rd_offset r = None" "rd_offset1 r = None"
    and ok: "nfsd3_proc_readdir K I rqstp a r h = Some (nfs_ok, rq', a', r', h')"
  shows "\<exists>fl es. rd_count r' = int (length (dirlist_cells es (rda_cookie a'))) \<and>
    load rq' (b, 0) (nat (rd_count r')) = dirlist_cells es (rda_cookie a') \<and> offered K False fl es \<and>
    (es = [] \<or> rd_count r' \<le> dir_words (rda_count a))"
proof -
  obtain fh g where fh: "fh_copy (rda_fh a) h = (fh, g)" by fastforce
  define r0 where "r0 = r\<lparr>rd_fh := fh, rd_buflen := dir_words (rda_count a), rd_err := nfs_ok, rd_buffer := Some (b, 0)\<rparr>"
  have e: "nfs3svc_encode_entry K I = encode_entry K I False" by (simp add: fun_eq_iff nfs3svc_encode_entry_def)
  obtain err off cd rq g1 where rd: "nfsd_readdir K rqstp (rda_cookie a) r0 (encode_entry K I False) g = Some (err, off, cd, rq, g1)"
    using ok fh assms(1) by (auto simp: nfsd3_proc_readdir_def r0_def e page_start_def Let_def split: option.splits)
  have err: "err = nfs_ok"
    using ok fh assms(1) rd by (auto simp: nfsd3_proc_readdir_def r0_def e page_start_def Let_def split: prod.splits)
  let ?dl = "\<lparr>dl_cells = [], dl_cookie = None, dl_room = dir_words (rda_count a)\<rparr>"
  have "reading b (dir_words (rda_count a)) [] 0 r0 rqstp ?dl \<and> cookie_held b r0 ?dl"
    using assms(2-7) by (intro reading_start) (simp_all add: r0_def)
  from nfsd_readdir_reading [OF plus_bounded_plain conjunct1 [OF this] conjunct2 [OF this] rd [unfolded err]]
  obtain fl es v dl where l: "reading b (dir_words (rda_count a)) es v cd rq dl" "offered K False fl es" "read_end b v off cd dl"
    by blast
  define n where "n = length (dl_cells dl)"
  have sh: "dl_shows es v dl" and room: "int n + dl_room dl = dir_words (rda_count a)" "es = [] \<or> 0 \<le> dl_room dl"
    and buf: "rd_buffer cd = Some (page_at b n)" and mem: "holds_at (flat rq b) 0 (dl_cells dl)"
    using l(1) by (simp_all add: reading_def pages_hold_def n_def)
  have n: "n \<le> 1022" "page_at b n = (b, n)"
  proof -
    show "n \<le> 1022" using room assms(5) sh by (cases "es = []") (auto simp: dl_shows_def n_def)
    then show "page_at b n = (b, n)" by (simp add: page_at_def)
  qed
  have fin: "rda_cookie a' = off" "rd_count r' = int n"
    "\<exists>g. rq' = (case rd_offset cd of None \<Rightarrow> rq | Some p \<Rightarrow> fst (store rq p (xdr_encode_hyper off) g))"
    using ok fh assms(1) rd buf n(2)
    by (auto simp: nfsd3_proc_readdir_def r0_def e page_start_def deref_ptr_def ptr_diff_def Let_def
        split: prod.splits option.splits)
       (metis fst_conv)
  have cells: "dl_shows es off (dl_patch off dl)" by (rule dl_patch_shows [OF sh])
  have len: "length (dirlist_cells es off) = n" using sh length_dirlist_cells [of es off v] by (simp add: dl_shows_def n_def)
  have "holds_at (flat rq' b) 0 (dl_cells (dl_patch off dl))"
  proof (cases "dl_cookie dl")
    case None
    then show ?thesis using fin(3) read_endD(1) [OF l(3)] mem by (simp add: dl_patch_def)
  next
    case (Some c)
    have c: "c + 2 \<le> n" using read_endD(2) [OF l(3)] Some by (simp add: n_def)
    obtain g' where g': "rq' = fst (store rq (page_at b c) (xdr_encode_hyper off) g')"
      using fin(3) read_endD(1) [OF l(3)] Some by auto
    have "c mod 1024 + length (xdr_encode_hyper off) \<le> 1024" using c n(1) by simp
    from flat_store(1) [OF this, of rq b g'] holds_written_inside [OF mem, of c "xdr_encode_hyper off"] c
    show ?thesis using Some g' by (simp add: dl_patch_def n_def)
  qed
  then have hold: "holds_at (flat rq' b) 0 (dirlist_cells es off)" using cells by (simp add: dl_shows_def)
  have "load rq' (b, 0) n = dirlist_cells es off"
    using load_flat [of 0 n rq' b] hold len n(1)
    by (auto simp: page_at_def holds_at_def intro!: nth_equalityI)
  then show ?thesis using fin l(2) len room by (intro exI [of _ fl] exI [of _ es]) auto
qed

end

lemma sint_small:
  assumes "unat (w :: u32) < 2 ^ 31"
  shows "sint w = int (unat w)"
proof -
  have "int (unat w) < int (2 ^ 31)" using assms by (simp only: of_nat_less_iff)
  then have "uint w < 2 ^ 31" by simp
  moreover have "- (2 ^ 31) \<le> uint w" by (rule order_trans [OF _ uint_ge_0]) simp
  ultimately have "signed_take_bit 31 (uint w) = uint w" by (rule signed_take_bit_int_eq_self [rotated])
  then show ?thesis by (simp add: sint_uint)
qed

lemma dir_words_bound:
  assumes "unat count < 2 ^ 31"
  shows "dir_words count \<le> int (unat count div 4) - 2"
proof -
  define q :: u32 where "q = drop_bit 2 count"
  have q: "unat q = unat count div 4" by (simp add: q_def drop_bit_eq_div unat_div)
  consider "q = 0" | "q = 1" | "2 \<le> unat q"
    by (metis One_nat_def Suc_1 Suc_leI less_one linorder_neqE_nat unat_1 unat_eq_zero word_unat_eq_iff)
  then show ?thesis
  proof cases
    case 3
    then have "unat (q - 2) = unat q - 2" by (simp add: unat_sub word_le_nat_alt)
    moreover have "sint (q - 2) = int (unat (q - 2))"
      using calculation q assms by (intro sint_small) simp
    ultimately show ?thesis using q 3 by (simp add: dir_words_def flip: q_def)
  qed (use q in \<open>simp_all add: dir_words_def flip: q_def\<close>)
qed

section \<open>The reply of READDIRPLUS\<close>

lemma count_pages_found:
  "start \<le> pg \<Longrightarrow> pg < np \<Longrightarrow> w < 1024 \<Longrightarrow> count_pages (Some (pg, w)) start np c = c + 4096 * (pg - start) + 4 * w"
proof (induction "pg - start" arbitrary: start c)
  case 0
  then show ?case by (simp add: count_pages.simps)
next
  case (Suc k)
  then have "start < pg" "k = pg - (start + 1)" by simp_all
  with Suc.hyps(1) [of "start + 1" "c + 4096"] Suc.prems show ?case
    by (subst count_pages.simps) (simp add: Suc_diff_Suc algebra_simps)
qed

lemma readdirplus_pages_taken:
  "0 < len \<Longrightarrow> readdirplus_pages len np None = (np + nat ((len + 4095) div 4096), Some np)"
proof -
  have "0 \<le> len + 4095 \<Longrightarrow> readdirplus_pages len np (Some b) = (np + nat ((len + 4095) div 4096), Some b)" for len np b
  proof (induction len np "Some b" rule: readdirplus_pages.induct)
    case (1 len np)
    show ?case
    proof (cases "len > 0")
      case True
      define x where "x = (len - 4096 + 4095) div 4096"
      have x: "0 \<le> x" "(len + 4095) div 4096 = x + 1" using True by (simp_all add: x_def pos_imp_zdiv_nonneg_iff)
      have "readdirplus_pages (len - 4096) (np + 1) (Some b) = (np + 1 + nat x, Some b)"
        unfolding x_def by (rule "1.hyps" [OF True]) (use True in simp_all)
      then show ?thesis using True x readdirplus_pages.simps [of len np "Some b"] by (simp add: nat_add_distrib)
    next
      case False
      then show ?thesis using "1.prems" readdirplus_pages.simps [of len np "Some b"] by simp
    qed
  qed
  note b = this [of "len - 4096" "np + 1" np]
  assume len: "0 < len"
  define x where "x = (len - 4096 + 4095) div 4096"
  have x: "0 \<le> x" "(len + 4095) div 4096 = x + 1" using len by (simp_all add: x_def pos_imp_zdiv_nonneg_iff)
  show ?thesis using len x b [folded x_def] readdirplus_pages.simps [of len np None] by (simp add: nat_add_distrib)
qed

text \<open>
  The closing cookie: after a refused entry it is written again, as it already is; across a page
  boundary its second half then falls behind the page, which the pages themselves do not show.
\<close>

lemma flat_store_over:
  assumes "s mod 1024 = 1023"
  shows "flat (fst (store rqstp (page_at b s) [u, v] h)) b = written (flat rqstp b) s [u]"
proof -
  have e: "flat (fst (store rqstp (page_at b s) [u] h)) b = written (flat rqstp b) s [u]"
    by (rule flat_store(1)) (use assms in simp)
  have "flat (fst (store rqstp (page_at b s) [u, v] h)) b i = flat (fst (store rqstp (page_at b s) [u] h)) b i" for i
    using assms mod_less_divisor [of 1024 i] by (auto simp: flat_def store_def page_at_def less_Suc_eq)
  then show ?thesis using e by (simp add: fun_eq_iff)
qed

lemma closing_cookie:
  assumes hold: "holds_at (flat rqstp b) 0 (dl_cells dl)" and sh: "dl_shows es v dl" and e: "read_end b v off cd dl"
    and enc: "encode_offset cd rqstp off h = (cd', rq', h')"
  shows "holds_at (flat rq' b) 0 (dirlist_cells es off)"
proof (cases "cookie_held b cd dl")
  case True
  show ?thesis
    by (rule encode_offset_flat [OF hold True, of off h])
       (use enc dl_patch_shows [OF sh, of off] in \<open>simp add: dl_shows_def\<close>)
next
  case False
  then have r: "refused b cd dl" "v = off" using e by (simp_all add: read_end_def)
  then have cells: "dl_cells dl = dirlist_cells es off" using sh by (simp add: dl_shows_def)
  show ?thesis
  proof (cases "dl_cookie dl")
    case None
    then show ?thesis using r enc hold cells by (simp add: refused_def encode_offset_def)
  next
    case (Some c)
    define u w where "u = htonl (ucast (drop_bit 32 off))" and "w = htonl (ucast off)"
    have hy: "xdr_encode_hyper off = [u, w]" by (simp add: xdr_encode_hyper_def u_def w_def)
    have c: "c + 2 \<le> length (dl_cells dl)" using r Some by (simp add: refused_def)
    have rq: "rq' = fst (store rqstp (page_at b c) [u, w] h)"
      using r Some enc hy by (auto simp: refused_def encode_offset_def Let_def split: prod.splits)
    have same: "overwrite c [u, w] (dl_cells dl) = dl_cells dl"
      using dl_patch_shows [OF sh, of off] cells Some hy by (simp add: dl_shows_def dl_patch_def)
    show ?thesis
    proof (cases "c mod 1024 = 1023")
      case True
      have "overwrite c [u, w] (dl_cells dl) ! c = u" using c by (simp add: overwrite_def nth_append)
      then have "dl_cells dl ! c = u" using same by simp
      then show ?thesis
        using hold unfolding rq flat_store_over [OF True] cells [symmetric] by (auto simp: holds_at_def written_def le_less_Suc_eq)
    next
      case False
      have "c mod 1024 < 1024" by simp
      with False have "c mod 1024 + length [u, w] \<le> 1024" by simp
      from flat_store(1) [OF this, of rqstp b h] holds_written_inside [OF hold, of c "[u, w]"] c same show ?thesis
        by (simp add: rq cells)
    qed
  qed
qed

context fattr_encoder
begin

lemma readdirplus_lists:
  assumes buf: "rda_buffer a = Some 1" and np: "2 \<le> rq_next_page rqstp" "rq_next_page rqstp \<le> rq_npages rqstp"
    and cnt: "dir_words (rda_count a) + 2 + 1024 \<le> 1024 * int (rq_next_page rqstp)"
    and r: "rd_offset r = None" "rd_offset1 r = None" and bd: "plus_bounded K I True"
    and ok: "nfsd3_proc_readdirplus K I rqstp a r h = Some (nfs_ok, rq', a', r', h')"
  shows "\<exists>fl es off. rd_count r' = int (length (dirlist_cells es off)) \<and> holds_at (flat rq' 1) 0 (dirlist_cells es off) \<and>
    offered K True fl es \<and> (es = [] \<or> rd_count r' \<le> dir_words (rda_count a))"
proof -
  obtain fh g where fh: "fh_copy (rda_fh a) h = (fh, g)" by fastforce
  obtain e0 f1 g1 where v: "fh_verify K rqstp fh g = (e0, f1, g1)" by (metis prod_cases3)
  define r0 where "r0 = r\<lparr>rd_count := dir_words (rda_count a), rd_err := nfs_ok, rd_buffer := Some (1, 0),
    rd_buflen := dir_words (rda_count a), rd_fh := f1\<rparr>"
  have e: "nfs3svc_encode_entry_plus K I = encode_entry K I True" by (simp add: fun_eq_iff nfs3svc_encode_entry_plus_def)
  note defs = nfsd3_proc_readdirplus_def r0_def e page_start_def Let_def
  have e0: "e0 = 0" using ok fh v buf by (auto simp: defs nfs_ok_def split: if_splits)
  obtain err off cd rq g2 where rd: "nfsd_readdir K rqstp (rda_cookie a) r0 (encode_entry K I True) g1 = Some (err, off, cd, rq, g2)"
    using ok fh v e0 buf by (auto simp: defs split: option.splits)
  have err: "err = nfs_ok" using ok fh v e0 buf rd by (auto simp: defs split: prod.splits)
  let ?dl = "\<lparr>dl_cells = [], dl_cookie = None, dl_room = dir_words (rda_count a)\<rparr>"
  have "reading 1 (dir_words (rda_count a)) [] 0 r0 rqstp ?dl \<and> cookie_held 1 r0 ?dl"
    using np cnt r by (intro reading_start) (simp_all add: r0_def)
  from nfsd_readdir_reading [OF bd conjunct1 [OF this] conjunct2 [OF this] rd [unfolded err]]
  obtain fl es v dl where l: "reading 1 (dir_words (rda_count a)) es v cd rq dl" "offered K True fl es" "read_end 1 v off cd dl"
    by blast
  define n where "n = length (dl_cells dl)"
  have sh: "dl_shows es v dl" and room: "int n + dl_room dl = dir_words (rda_count a)" "es = [] \<or> 0 \<le> dl_room dl"
    and bf: "rd_buffer cd = Some (page_at 1 n)" and mem: "holds_at (flat rq 1) 0 (dl_cells dl)"
    and lt: "1 < rq_next_page rq" and bud: "int n + dl_room dl + 2 + 1024 * int 1 \<le> 1024 * int (rq_next_page rq)"
    using l(1) by (simp_all add: reading_def pages_hold_def n_def)
  have len: "length (dirlist_cells es off) = n" using sh length_dirlist_cells [of es off v] by (simp add: dl_shows_def n_def)
  have pg: "1 + n div 1024 < rq_next_page rq"
  proof (cases "es = []")
    case True
    then have "n = 0" using sh by (simp add: dl_shows_def n_def)
    then show ?thesis using lt by simp
  next
    case False
    then show ?thesis using page_room(1) [OF bud, of 0] room(2) by simp
  qed
  have cp: "count_pages (rd_buffer cd) 1 (rq_next_page rq) 0 = 4 * n"
  proof -
    have "count_pages (Some (page_at 1 n)) 1 (rq_next_page rq) 0 = 4096 * (n div 1024) + 4 * (n mod 1024)"
      using count_pages_found [of 1 "1 + n div 1024" "rq_next_page rq" "n mod 1024" 0] pg by (simp add: page_at_def)
    moreover have "4096 * q + 4 * k = 4 * (q * 1024 + k)" for q k :: nat by simp
    ultimately show ?thesis by (simp only: bf div_mult_mod_eq)
  qed
  obtain vf g3 where vf: "copy_verf rq (rda_verf a) g2 = (vf, g3)" by fastforce
  define r1 where "r1 = cd\<lparr>rd_verf := vf, rd_count := int n\<rparr>"
  obtain r2 rq2 g4 where enc: "encode_offset r1 rq off g3 = (r2, rq2, g4)" by (metis prod_cases3)
  have "read_end 1 v off r1 dl"
    using l(3) by (auto simp: r1_def read_end_def refused_def cookie_held_def split: option.splits)
  note hold = closing_cookie [OF mem sh this enc]
  have "rd_count r2 = rd_count r1"
    using enc by (auto simp: encode_offset_def Let_def split: option.splits prod.splits)
  moreover have "rq' = rq2" "rd_count r' = rd_count r2"
    using ok fh v e0 buf rd vf cp enc by (auto simp: defs r1_def)
  ultimately show ?thesis using hold l(2) len room by (intro exI [of _ fl] exI [of _ es] exI [of _ off]) (auto simp: r1_def)
qed

end

text \<open>
  File systems whose file identifiers leave room in a handle: twelve words at most, which makes a
  handle of at most sixty bytes.
\<close>

definition short_fids :: "kernel \<Rightarrow> bool" where
  "short_fids K \<longleftrightarrow>
     (\<forall>h d maxsize t n ws. exportfs_encode_fh K h d maxsize True = (t, n, ws) \<longrightarrow> (ucast t :: u8) \<noteq> FILEID_INVALID \<longrightarrow> n \<le> 12)"

lemma short_handle:
  assumes "fh_compose K (fh_init NFS3_FHSIZE) exp dentry r h = (0, fhp', h')" and "d_inode K h dentry \<noteq> None"
    and "short_fids K"
  shows "unat (fh_size (fh_handle fhp')) \<le> 60"
  using assms(1,2)
proof (cases rule: fh_compose_init)
  case (at_file dev ino g t n ws)
  then have "n \<le> 12" using assms(3) unfolding short_fids_def by blast
  then have "12 + n * 4 \<le> 60" "n \<le> 13" by (simp_all add: word_le_nat_alt unat_word_ariths)
  then show ?thesis using at_file by (simp add: word_le_nat_alt)
qed (simp add: fh_simps)

context fattr_encoder
begin

lemma plus_bounded_short:
  assumes "short_fids K"
  shows "plus_bounded K I pl"
proof -
  have child: "unat (fh_size (fh_handle f')) \<le> 60"
    if "compose_entry_child K cd (fh_init NFS3_FHSIZE) exp d ino h = (0, f', h')" for cd exp d ino h f' h'
    using that short_handle [OF _ _ assms]
    by (auto simp: compose_entry_child_def Let_def nfserr_noent_def split: if_splits option.splits prod.splits)
  have fh: "unat (fh_size (fh_handle f)) \<le> 60"
    if "compose_entry_fh K cd (fh_init NFS3_FHSIZE) name ino h = (0, f, g)" for cd name ino h f g
    using that
    by (auto simp: compose_entry_fh_def Let_def nfserr_noent_def split: if_splits sum.splits prod.splits dest!: child)
  have "length (fst (entryplus_words K I cd rq name ino h)) \<le> 39" for cd rq name ino h
  proof -
    obtain ws sc h' where e: "entryplus_words K I cd rq name ino h = (ws, sc, h')" by (metis prod_cases3)
    obtain err f g where c: "compose_entry_fh K cd (fh_init NFS3_FHSIZE) name ino h = (err, f, g)" by (metis prod_cases3)
    obtain vs g1 where p: "encode_post_op_attr K I rq [] f g = (vs, g1)" by fastforce
    have v: "length vs \<le> 22" using post_op_attr [OF p] by (auto simp: appends_def)
    show ?thesis
    proof (cases "err = 0")
      case True
      then have "unat (fh_size (fh_handle f)) \<le> 60" using fh c by simp
      then have "length (encode_fh (vs @ [htonl 1]) f) \<le> 39" using v by (simp add: encode_fh_def)
      moreover have "ws = encode_fh (vs @ [htonl 1]) f"
        using e True c p by (simp add: entryplus_words_def Let_def split: prod.splits)
      ultimately show ?thesis using e by simp
    next
      case False
      then show ?thesis using e c by (auto simp: entryplus_words_def Let_def split: prod.splits)
    qed
  qed
  then show ?thesis by (simp add: plus_bounded_def plus_part_def)
qed

end

end
