(* ===== verification/Nfssvc.thy ===== *)
theory Nfssvc
  imports Structs
begin

text \<open>
  Starting and stopping the service (\<open>nfssvc.c\<close>): the per-namespace state \<open>struct nfsd_net\<close> of
  \<open>netns.h\<close>, the transports, the notifier, the life of the RPC service object, and the main loop of a
  server thread. The RPC library is a parameter, a record of the results of its functions, which may
  depend on everything that was called before; the calls themselves are a history, newest first. Of the
  service object the code reads the number of threads, the list of permanent sockets and the number of
  pools, which are observers of the library.
\<close>

section \<open>The RPC library\<close>

type_synonym serv_p = nat

datatype svc_call =
    Null_serv
  | Si_meminfo
  | Svc_create_pooled int "serv_p option"
  | Svc_get serv_p
  | Svc_bind serv_p int
  | Svc_destroy serv_p
  | Svc_create_xprt serv_p bool int
  | Svc_set_num_threads serv_p int int
  | Svc_close_net serv_p
  | Svc_rpcb_cleanup serv_p
  | Svc_age_temp_xprts_now serv_p u32
  | Register_inetaddr_notifier
  | Unregister_inetaddr_notifier
  | Wait_ntf int
  | Wake_up_ntf
  | Export_flush
  | Ktime_get_real timespec
  | Unshare_fs_struct int
  | Allow_signals
  | Svc_recv int
  | Svc_process
  | Flush_signals
  | Svc_exit_thread
  | Module_put

type_synonym svc_hist = "svc_call list"

text \<open>The library. A transport is the UDP one or the TCP one.\<close>

record rpclib =
  sv_nrthreads :: "svc_hist \<Rightarrow> serv_p \<Rightarrow> int"
  sv_no_permsocks :: "svc_hist \<Rightarrow> serv_p \<Rightarrow> bool"
  sv_nrpools :: "svc_hist \<Rightarrow> serv_p \<Rightarrow> int"
  si_meminfo :: "svc_hist \<Rightarrow> u64 \<times> u64"
  svc_create_pooled :: "svc_hist \<Rightarrow> int \<Rightarrow> serv_p option"
  svc_bind :: "svc_hist \<Rightarrow> serv_p \<Rightarrow> int"
  svc_create_xprt :: "svc_hist \<Rightarrow> serv_p \<Rightarrow> bool \<Rightarrow> int"
  svc_set_num_threads :: "svc_hist \<Rightarrow> serv_p \<Rightarrow> int \<Rightarrow> int"
  ktime_get_real_ts64 :: "svc_hist \<Rightarrow> timespec"
  unshare_fs_struct :: "svc_hist \<Rightarrow> int"
  svc_recv :: "svc_hist \<Rightarrow> int"

section \<open>State\<close>

text \<open>
  \<open>struct nfsd_net\<close> without the two caches, and the globals: the largest block size, the reference count
  of the notifier, and whether the program offers version 3.
\<close>

record nfsd_net =
  nfsd_net_up :: bool
  nfssvc_boot :: timespec
  nfsd_serv :: "serv_p option"
  ntf_refcnt :: int

record nfsd_state = nfsd_net +
  nfsd_max_blksize :: int
  nfsd_notifier_refcount :: int
  nfsd_vers3 :: bool
  svc_log :: svc_hist

definition svc_event :: "svc_call \<Rightarrow> nfsd_state \<Rightarrow> nfsd_state" where
  "svc_event c st = st\<lparr>svc_log := c # svc_log st\<rparr>"

text \<open>Following the pointer \<open>nn->nfsd_serv\<close>.\<close>

definition the_serv :: "nfsd_state \<Rightarrow> serv_p \<times> nfsd_state" where
  "the_serv st = (case nfsd_serv st of Some s \<Rightarrow> (s, st) | None \<Rightarrow> (0, svc_event Null_serv st))"

section \<open>Transports\<close>

definition call_svc_create_xprt :: "rpclib \<Rightarrow> serv_p \<Rightarrow> bool \<Rightarrow> nfsd_state \<Rightarrow> int \<times> nfsd_state" where
  "call_svc_create_xprt R s udp st =
     (let r = svc_create_xprt R (svc_log st) s udp in (r, svc_event (Svc_create_xprt s udp r) st))"

definition nfsd_init_socks :: "rpclib \<Rightarrow> nfsd_state \<Rightarrow> int \<times> nfsd_state" where
  "nfsd_init_socks R st =
     (let (s, st) = the_serv st
      in if \<not> sv_no_permsocks R (svc_log st) s then (0, st)
         else
           let (error, st) = call_svc_create_xprt R s True st
           in if error < 0 then (error, st)
              else
                let (error, st) = call_svc_create_xprt R s False st
                in if error < 0 then (error, st) else (0, st))"

definition nfsd_startup_net :: "rpclib \<Rightarrow> nfsd_state \<Rightarrow> int \<times> nfsd_state" where
  "nfsd_startup_net R st =
     (if nfsd_net_up st then (0, st)
      else
        let (ret, st) = nfsd_init_socks R st
        in if ret \<noteq> 0 then (ret, st) else (0, st\<lparr>nfsd_net_up := True\<rparr>))"

definition nfsd_shutdown_net :: "nfsd_state \<Rightarrow> nfsd_state" where
  "nfsd_shutdown_net st = st\<lparr>nfsd_net_up := False\<rparr>"

section \<open>The address notifier\<close>

definition nfsd_inetaddr_event :: "bool \<Rightarrow> u32 \<Rightarrow> nfsd_state \<Rightarrow> nfsd_state" where
  "nfsd_inetaddr_event netdev_down ifa_local st =
     (if \<not> netdev_down \<or> ntf_refcnt st = 0 then st
      else
        let st = st\<lparr>ntf_refcnt := ntf_refcnt st + 1\<rparr>;
            st = (case nfsd_serv st of
                    Some s \<Rightarrow> svc_event (Svc_age_temp_xprts_now s ifa_local) st
                  | None \<Rightarrow> st);
            st = st\<lparr>ntf_refcnt := ntf_refcnt st - 1\<rparr>
        in svc_event Wake_up_ntf st)"

definition nfsd_last_thread :: "serv_p \<Rightarrow> nfsd_state \<Rightarrow> nfsd_state" where
  "nfsd_last_thread s st =
     (let st = st\<lparr>ntf_refcnt := ntf_refcnt st - 1\<rparr>;
          st = st\<lparr>nfsd_notifier_refcount := nfsd_notifier_refcount st - 1\<rparr>;
          st = (if nfsd_notifier_refcount st = 0 then svc_event Unregister_inetaddr_notifier st else st);
          st = svc_event (Wait_ntf (ntf_refcnt st)) st;
          st = svc_event (Svc_rpcb_cleanup s) st
      in if \<not> nfsd_net_up st then st
         else svc_event Export_flush (nfsd_shutdown_net st))"

section \<open>The service object\<close>

definition nfsd_reset_versions :: "nfsd_state \<Rightarrow> nfsd_state" where
  "nfsd_reset_versions st = st\<lparr>nfsd_vers3 := True\<rparr>"

abbreviation (input) NFSSVC_MAXBLKSIZE :: u64 where "NFSSVC_MAXBLKSIZE \<equiv> 0x100000"

function halve_blksize :: "u64 \<Rightarrow> u64 \<Rightarrow> u64" where
  "halve_blksize target ret =
     (if ret > target \<and> ret \<ge> 8 * 1024 * 2 then halve_blksize target (ret div 2) else ret)"
  by pat_completeness auto

termination halve_blksize
proof (relation "measure (unat \<circ> snd)")
  fix target ret :: u64
  assume "ret > target \<and> ret \<ge> 8 * 1024 * 2"
  then show "((target, ret div 2), (target, ret)) \<in> measure (unat \<circ> snd)"
    by (simp add: unat_div word_le_nat_alt)
qed simp

declare halve_blksize.simps [simp del]

definition nfsd_get_default_max_blksize :: "rpclib \<Rightarrow> nfsd_state \<Rightarrow> int \<times> nfsd_state" where
  "nfsd_get_default_max_blksize R st =
     (let (totalram, totalhigh) = si_meminfo R (svc_log st);
          st = svc_event Si_meminfo st;
          target = drop_bit 12 (push_bit 12 (totalram - totalhigh))
      in (uint (halve_blksize target NFSSVC_MAXBLKSIZE), st))"

text \<open>
  \<open>nfsd_create_serv\<close> in three parts: making the service object, registering it and its notifier, and
  the function itself.
\<close>

definition nfsd_make_serv :: "rpclib \<Rightarrow> nfsd_state \<Rightarrow> nfsd_state" where
  "nfsd_make_serv R st =
     (let st = (if nfsd_max_blksize st = 0 then
                  let (b, st) = nfsd_get_default_max_blksize R st in st\<lparr>nfsd_max_blksize := b\<rparr>
                else st);
          st = nfsd_reset_versions st;
          serv = svc_create_pooled R (svc_log st) (nfsd_max_blksize st);
          st = svc_event (Svc_create_pooled (nfsd_max_blksize st) serv) st
      in st\<lparr>nfsd_serv := serv\<rparr>)"

definition nfsd_bind_serv :: "rpclib \<Rightarrow> serv_p \<Rightarrow> nfsd_state \<Rightarrow> int \<times> nfsd_state" where
  "nfsd_bind_serv R s st =
     (let error = svc_bind R (svc_log st) s;
          st = svc_event (Svc_bind s error) st
      in if error < 0 then (error, svc_event (Svc_destroy s) st)
         else
           let st = st\<lparr>nfsd_notifier_refcount := nfsd_notifier_refcount st + 1\<rparr>;
               st = (if nfsd_notifier_refcount st = 1 then svc_event Register_inetaddr_notifier st else st);
               st = st\<lparr>ntf_refcnt := ntf_refcnt st + 1\<rparr>;
               t = ktime_get_real_ts64 R (svc_log st)
           in (0, (svc_event (Ktime_get_real t) st)\<lparr>nfssvc_boot := t\<rparr>))"

definition nfsd_create_serv :: "rpclib \<Rightarrow> nfsd_state \<Rightarrow> int \<times> nfsd_state" where
  "nfsd_create_serv R st =
     (case nfsd_serv st of
        Some s \<Rightarrow> (0, svc_event (Svc_get s) st)
      | None \<Rightarrow>
          let st = nfsd_make_serv R st
          in (case nfsd_serv st of
                None \<Rightarrow> (- ENOMEM, st)
              | Some s \<Rightarrow> nfsd_bind_serv R s st))"

definition nfsd_nrpools :: "rpclib \<Rightarrow> nfsd_state \<Rightarrow> int" where
  "nfsd_nrpools R st = (case nfsd_serv st of None \<Rightarrow> 0 | Some s \<Rightarrow> sv_nrpools R (svc_log st) s)"

text \<open>
  \<open>svc_shutdown_net\<close> is a function of the library that closes the transports of the service and then
  calls the \<open>svo_shutdown\<close> operation of \<open>nfsd_thread_sv_ops\<close>, which is \<open>nfsd_last_thread\<close>.
\<close>

definition svc_shutdown_net :: "serv_p \<Rightarrow> nfsd_state \<Rightarrow> nfsd_state" where
  "svc_shutdown_net s st = nfsd_last_thread s (svc_event (Svc_close_net s) st)"

text \<open>
  \<open>nfsd_destroy\<close> reads the number of threads, then acts on what it read. The two parts are separate
  definitions because nothing in the code keeps another thread from running in between.
\<close>

definition nfsd_destroy_read :: "rpclib \<Rightarrow> nfsd_state \<Rightarrow> bool \<times> nfsd_state" where
  "nfsd_destroy_read R st =
     (let (s, st) = the_serv st in (sv_nrthreads R (svc_log st) s = 1, st))"

definition nfsd_destroy_act :: "bool \<Rightarrow> nfsd_state \<Rightarrow> nfsd_state" where
  "nfsd_destroy_act destroy st =
     (let st = (if destroy then let (s, st) = the_serv st in svc_shutdown_net s st else st);
          (s, st) = the_serv st;
          st = svc_event (Svc_destroy s) st
      in if destroy then st\<lparr>nfsd_serv := None\<rparr> else st)"

definition nfsd_destroy :: "rpclib \<Rightarrow> nfsd_state \<Rightarrow> nfsd_state" where
  "nfsd_destroy R st = (let (destroy, st) = nfsd_destroy_read R st in nfsd_destroy_act destroy st)"

abbreviation (input) NFSD_MAXSERVS :: int where "NFSD_MAXSERVS \<equiv> 8192"

text \<open>The end of \<open>nfsd_svc\<close>, from the label \<open>out_shutdown\<close> on.\<close>

definition nfsd_svc_out :: "rpclib \<Rightarrow> int \<Rightarrow> bool \<Rightarrow> nfsd_state \<Rightarrow> int \<times> nfsd_state" where
  "nfsd_svc_out R error nfsd_up_before st =
     (let st = (if error < 0 \<and> \<not> nfsd_up_before then nfsd_shutdown_net st else st)
      in (error, nfsd_destroy R st))"

definition nfsd_svc :: "rpclib \<Rightarrow> int \<Rightarrow> nfsd_state \<Rightarrow> int \<times> nfsd_state" where
  "nfsd_svc R nrservs st =
     (let nrservs = min (max nrservs 0) NFSD_MAXSERVS
      in if nrservs = 0 \<and> nfsd_serv st = None then (0, st)
         else
           let (error, st) = nfsd_create_serv R st
           in if error \<noteq> 0 then (error, st)
              else
                let nfsd_up_before = nfsd_net_up st;
                    (error, st) = nfsd_startup_net R st
                in if error \<noteq> 0 then (error, nfsd_destroy R st)
                   else
                     let (s, st) = the_serv st;
                         error = svc_set_num_threads R (svc_log st) s nrservs;
                         st = svc_event (Svc_set_num_threads s nrservs error) st
                     in if error \<noteq> 0 then nfsd_svc_out R error nfsd_up_before st
                        else nfsd_svc_out R (sv_nrthreads R (svc_log st) s - 1) nfsd_up_before st)"

section \<open>A server thread\<close>

text \<open>The main loop; \<open>None\<close> is a loop that never ends.\<close>

partial_function (option) nfsd_loop :: "rpclib \<Rightarrow> nfsd_state \<Rightarrow> nfsd_state option" where
  "nfsd_loop R st =
     (let err = svc_recv R (svc_log st);
          st = svc_event (Svc_recv err) st
      in if err = - EAGAIN then nfsd_loop R st
         else if err = - EINTR then Some st
         else nfsd_loop R (svc_event Svc_process st))"

declare nfsd_loop.simps [code]

definition nfsd_out :: "rpclib \<Rightarrow> nfsd_state \<Rightarrow> nfsd_state" where
  "nfsd_out R st = svc_event Module_put (nfsd_destroy R (svc_event Svc_exit_thread st))"

definition nfsd :: "rpclib \<Rightarrow> nfsd_state \<Rightarrow> nfsd_state option" where
  "nfsd R st =
     (let e = unshare_fs_struct R (svc_log st);
          st = svc_event (Unshare_fs_struct e) st
      in if e < 0 then Some (nfsd_out R st)
         else (case nfsd_loop R (svc_event Allow_signals st) of
                 None \<Rightarrow> None
               | Some st \<Rightarrow> Some (nfsd_out R (svc_event Flush_signals st))))"

end
