(* ===== verification/Nfssvc_Properties.thy ===== *)
theory Nfssvc_Properties
  imports Nfssvc
begin

text \<open>
  The life of the service: the states that starting, stopping and losing an address can reach, the
  block size it is created with, and what goes wrong where the code relies on a lock it does not take.
\<close>

section \<open>What the RPC library promises\<close>

text \<open>
  A new service counts one reference. \<open>svc_get\<close> adds one, \<open>svc_destroy\<close> drops one,
  \<open>svc_set_num_threads\<close> leaves the reference of its caller alone, and nothing else the module calls
  moves the count.
\<close>

definition moves_count :: "svc_call \<Rightarrow> bool" where
  "moves_count c = (case c of
     Svc_create_pooled _ _ \<Rightarrow> True | Svc_get _ \<Rightarrow> True | Svc_destroy _ \<Rightarrow> True
   | Svc_set_num_threads _ _ _ \<Rightarrow> True | _ \<Rightarrow> False)"

definition rpc_ok :: "rpclib \<Rightarrow> bool" where
  "rpc_ok R \<longleftrightarrow>
     (\<forall>h b s. sv_nrthreads R (Svc_create_pooled b (Some s) # h) s = 1) \<and>
     (\<forall>h s. sv_nrthreads R (Svc_get s # h) s = sv_nrthreads R h s + 1) \<and>
     (\<forall>h s. sv_nrthreads R (Svc_destroy s # h) s = sv_nrthreads R h s - 1) \<and>
     (\<forall>h s n r. 1 \<le> sv_nrthreads R h s \<longrightarrow> 1 \<le> sv_nrthreads R (Svc_set_num_threads s n r # h) s) \<and>
     (\<forall>h s c. \<not> moves_count c \<longrightarrow> sv_nrthreads R (c # h) s = sv_nrthreads R h s)"

lemma rpc_ok_counts:
  assumes "rpc_ok R"
  shows "sv_nrthreads R (Svc_create_pooled b (Some s) # h) s = 1"
    and "sv_nrthreads R (Svc_get s # h) s = sv_nrthreads R h s + 1"
    and "sv_nrthreads R (Svc_destroy s # h) s = sv_nrthreads R h s - 1"
    and "1 \<le> sv_nrthreads R h s \<Longrightarrow> 1 \<le> sv_nrthreads R (Svc_set_num_threads s n r # h) s"
    and "\<not> moves_count c \<Longrightarrow> sv_nrthreads R (c # h) s = sv_nrthreads R h s"
  using assms by (auto simp: rpc_ok_def)

lemma moves_count_simps [simp]:
  "\<not> moves_count Null_serv" "\<not> moves_count Si_meminfo" "\<not> moves_count (Svc_bind s r)"
  "\<not> moves_count (Svc_create_xprt s u r)" "\<not> moves_count (Svc_close_net s)"
  "\<not> moves_count (Svc_rpcb_cleanup s)" "\<not> moves_count (Svc_age_temp_xprts_now s a)"
  "\<not> moves_count Register_inetaddr_notifier" "\<not> moves_count Unregister_inetaddr_notifier"
  "\<not> moves_count (Wait_ntf n)" "\<not> moves_count Wake_up_ntf" "\<not> moves_count Export_flush"
  "\<not> moves_count (Ktime_get_real t)" "\<not> moves_count (Unshare_fs_struct r)"
  "\<not> moves_count Allow_signals" "\<not> moves_count (Svc_recv r)" "\<not> moves_count Svc_process"
  "\<not> moves_count Flush_signals" "\<not> moves_count Svc_exit_thread" "\<not> moves_count Module_put"
  by (simp_all add: moves_count_def)

section \<open>The invariant between operations\<close>

text \<open>How often the notifier is registered.\<close>

definition registered :: "svc_hist \<Rightarrow> int" where
  "registered h = sum_list (map (\<lambda>c. case c of Register_inetaddr_notifier \<Rightarrow> 1
     | Unregister_inetaddr_notifier \<Rightarrow> - 1 | _ \<Rightarrow> 0) h)"

text \<open>A call that must not occur: following a null service pointer, or a wait that would block.\<close>

definition bad_call :: "svc_call \<Rightarrow> bool" where
  "bad_call c = (case c of Null_serv \<Rightarrow> True | Wait_ntf n \<Rightarrow> n \<noteq> 0 | _ \<Rightarrow> False)"

definition stopped :: "nfsd_state \<Rightarrow> bool" where
  "stopped st \<longleftrightarrow> nfsd_serv st = None \<and> \<not> nfsd_net_up st \<and> ntf_refcnt st = 0 \<and>
     nfsd_notifier_refcount st = 0 \<and> registered (svc_log st) = 0"

definition running :: "rpclib \<Rightarrow> serv_p \<Rightarrow> nfsd_state \<Rightarrow> bool" where
  "running R s st \<longleftrightarrow> nfsd_serv st = Some s \<and> 1 \<le> sv_nrthreads R (svc_log st) s \<and>
     ntf_refcnt st = 1 \<and> nfsd_notifier_refcount st = 1 \<and> registered (svc_log st) = 1"

definition svc_inv :: "rpclib \<Rightarrow> nfsd_state \<Rightarrow> bool" where
  "svc_inv R st \<longleftrightarrow> (stopped st \<or> (\<exists>s. running R s st)) \<and> list_all (\<lambda>c. \<not> bad_call c) (svc_log st)"

lemma registered_simps [simp]:
  "registered [] = 0"
  "registered (c # h) = (case c of Register_inetaddr_notifier \<Rightarrow> 1
     | Unregister_inetaddr_notifier \<Rightarrow> - 1 | _ \<Rightarrow> 0) + registered h"
  by (simp_all add: registered_def)

lemma svc_event_simps [simp]:
  "svc_log (svc_event c st) = c # svc_log st" "nfsd_serv (svc_event c st) = nfsd_serv st"
  "nfsd_net_up (svc_event c st) = nfsd_net_up st" "ntf_refcnt (svc_event c st) = ntf_refcnt st"
  "nfsd_notifier_refcount (svc_event c st) = nfsd_notifier_refcount st"
  "nfsd_max_blksize (svc_event c st) = nfsd_max_blksize st"
  "nfssvc_boot (svc_event c st) = nfssvc_boot st" "nfsd_vers3 (svc_event c st) = nfsd_vers3 st"
  by (simp_all add: svc_event_def)

text \<open>
  An operation that runs between two others: a write to the threads file, the end of a server thread,
  or an interface losing its address. A thread ends only while there is a service to serve.
\<close>

inductive svc_step :: "rpclib \<Rightarrow> nfsd_state \<Rightarrow> nfsd_state \<Rightarrow> bool" for R where
  set_threads: "nfsd_svc R n st = (r, st') \<Longrightarrow> svc_step R st st'"
| thread_ends: "nfsd_serv st = Some s \<Longrightarrow> svc_step R st (nfsd_out R st)"
| address_lost: "svc_step R st (nfsd_inetaddr_event down a st)"

inductive_cases svc_stepE: "svc_step R st st'"

definition nfsd_loaded :: nfsd_state where
  "nfsd_loaded = \<lparr>nfsd_net_up = False, nfssvc_boot = \<lparr>tv_sec = 0, tv_nsec = 0\<rparr>, nfsd_serv = None,
     ntf_refcnt = 0, nfsd_max_blksize = 0, nfsd_notifier_refcount = 0, nfsd_vers3 = False, svc_log = []\<rparr>"

lemmas destroy_defs = nfsd_destroy_def nfsd_destroy_read_def nfsd_destroy_act_def the_serv_def
  svc_shutdown_net_def nfsd_last_thread_def nfsd_shutdown_net_def

text \<open>Dropping a reference keeps the service if others remain, and stops it if not.\<close>

lemma nfsd_destroy_shared:
  assumes "rpc_ok R" "running R s st" "sv_nrthreads R (svc_log st) s \<noteq> 1"
  shows "nfsd_destroy R st = svc_event (Svc_destroy s) st"
  using assms by (simp add: running_def destroy_defs)

lemma nfsd_destroy_last:
  assumes "running R s st" "sv_nrthreads R (svc_log st) s = 1"
  shows "stopped (nfsd_destroy R st)"
    and "svc_log (nfsd_destroy R st) = Svc_destroy s # (if nfsd_net_up st then [Export_flush] else []) @
      [Svc_rpcb_cleanup s, Wait_ntf 0, Unregister_inetaddr_notifier, Svc_close_net s] @ svc_log st"
  using assms by (auto simp: running_def stopped_def destroy_defs Let_def)

lemma nfsd_destroy_inv:
  assumes "rpc_ok R" "running R s st" "svc_inv R st"
  shows "svc_inv R (nfsd_destroy R st)"
proof (cases "sv_nrthreads R (svc_log st) s = 1")
  case True
  show ?thesis
    using nfsd_destroy_last [OF assms(2) True] assms(3) by (simp add: svc_inv_def bad_call_def)
next
  case False
  have "running R s (svc_event (Svc_destroy s) st)"
    using assms(1,2) False by (simp add: running_def rpc_ok_counts)
  then show ?thesis
    using nfsd_destroy_shared [OF assms(1,2) False] assms(3) by (auto simp: svc_inv_def bad_call_def)
qed

lemma running_event:
  assumes "rpc_ok R" "running R s st" "\<not> moves_count c"
    and "c \<noteq> Register_inetaddr_notifier" "c \<noteq> Unregister_inetaddr_notifier"
  shows "running R s (svc_event c st)"
  using assms by (cases c) (auto simp: running_def rpc_ok_counts)

lemma inv_event: "svc_inv R st \<Longrightarrow> running R s (svc_event c st) \<Longrightarrow> \<not> bad_call c \<Longrightarrow> svc_inv R (svc_event c st)"
  by (auto simp: svc_inv_def)

lemma nfsd_startup_net_inv:
  assumes ok: "rpc_ok R" and run: "running R s st" and inv: "svc_inv R st"
    and call: "nfsd_startup_net R st = (r, st')"
  shows "running R s st' \<and> svc_inv R st'"
proof -
  have serv: "nfsd_serv st = Some s" using run by (simp add: running_def)
  have up: "running R s (t\<lparr>nfsd_net_up := b\<rparr>) = running R s t"
    "svc_inv R (t\<lparr>nfsd_net_up := b\<rparr>) = svc_inv R t" if "nfsd_serv t = Some s" for t b
    using that by (auto simp: running_def svc_inv_def stopped_def)
  have ev: "running R s (svc_event (Svc_create_xprt s u e) t) \<and> svc_inv R (svc_event (Svc_create_xprt s u e) t)"
    if "running R s t" "svc_inv R t" for u e t
    using running_event [OF ok that(1), of "Svc_create_xprt s u e"] inv_event [OF that(2)]
    by (simp add: bad_call_def)
  show ?thesis
    using call serv run inv ev
    by (auto simp: nfsd_startup_net_def nfsd_init_socks_def the_serv_def call_svc_create_xprt_def Let_def up
        split: if_splits)
qed

text \<open>The registration with the port mapper never fails.\<close>

definition bind_ok :: "rpclib \<Rightarrow> bool" where
  "bind_ok R \<longleftrightarrow> (\<forall>h s. 0 \<le> svc_bind R h s)"

lemma nfsd_make_serv_frame:
  assumes "nfsd_make_serv R st = st'"
  shows "nfsd_net_up st' = nfsd_net_up st" "ntf_refcnt st' = ntf_refcnt st"
    "nfsd_notifier_refcount st' = nfsd_notifier_refcount st" "nfsd_vers3 st'"
    "\<exists>b mem. svc_log st' = Svc_create_pooled b (nfsd_serv st') # mem @ svc_log st \<and> set mem \<subseteq> {Si_meminfo} \<and>
       nfsd_max_blksize st' = b"
  using assms
  by (cases "si_meminfo R (svc_log st)"; cases "nfsd_max_blksize st = 0";
      force simp: nfsd_make_serv_def nfsd_get_default_max_blksize_def nfsd_reset_versions_def Let_def)+

lemma registered_append: "registered (xs @ h) = registered xs + registered h"
  by (simp add: registered_def)

lemma memory_calls:
  assumes "set mem \<subseteq> {Si_meminfo}"
  shows "registered mem = 0" "list_all (\<lambda>c. \<not> bad_call c) mem"
  using assms by (induction mem) (auto simp: bad_call_def)

lemma harmless_create [simp]: "\<not> bad_call (Svc_create_pooled b r)"
  by (simp add: bad_call_def)

lemma nfsd_make_serv_log:
  assumes "nfsd_make_serv R st = st'"
  shows "registered (svc_log st') = registered (svc_log st)"
    and "list_all (\<lambda>c. \<not> bad_call c) (svc_log st) \<Longrightarrow> list_all (\<lambda>c. \<not> bad_call c) (svc_log st')"
    and "rpc_ok R \<Longrightarrow> nfsd_serv st' = Some s \<Longrightarrow> sv_nrthreads R (svc_log st') s = 1"
  using nfsd_make_serv_frame(5) [OF assms]
  by (auto simp: registered_append memory_calls rpc_ok_counts)

lemma nfsd_bind_serv_running:
  assumes "rpc_ok R" "bind_ok R" "nfsd_serv st = Some s" "sv_nrthreads R (svc_log st) s = 1"
    and "ntf_refcnt st = 0" "nfsd_notifier_refcount st = 0" "registered (svc_log st) = 0"
    and "list_all (\<lambda>c. \<not> bad_call c) (svc_log st)" "nfsd_bind_serv R s st = (r, st')"
  shows "r = 0 \<and> running R s st' \<and> svc_inv R st'"
proof -
  have "\<not> svc_bind R (svc_log st) s < 0" using assms(2) by (simp add: bind_ok_def not_less)
  then show ?thesis
    using assms by (auto simp: nfsd_bind_serv_def Let_def running_def svc_inv_def bad_call_def rpc_ok_counts)
qed

lemma nfsd_create_serv_inv:
  assumes ok: "rpc_ok R" "bind_ok R" and inv: "svc_inv R st"
    and call: "nfsd_create_serv R st = (r, st')"
  shows "if r = 0 then \<exists>s. running R s st' \<and> svc_inv R st' else svc_inv R st'"
proof (cases "nfsd_serv st")
  case (Some s)
  then have run: "running R s st" using inv by (auto simp: svc_inv_def stopped_def running_def)
  then have "running R s (svc_event (Svc_get s) st)"
    using ok by (simp add: running_def rpc_ok_counts)
  then show ?thesis
    using call Some inv_event [OF inv] by (auto simp: nfsd_create_serv_def bad_call_def)
next
  case None
  then have stop: "stopped st" and log: "list_all (\<lambda>c. \<not> bad_call c) (svc_log st)"
    using inv by (auto simp: svc_inv_def running_def)
  define t where "t = nfsd_make_serv R st"
  note frame = nfsd_make_serv_frame(1-4) [OF t_def [symmetric]] nfsd_make_serv_log [OF t_def [symmetric]]
  show ?thesis
  proof (cases "nfsd_serv t")
    case None
    then show ?thesis
      using call stop log frame \<open>nfsd_serv st = None\<close>
      by (auto simp: nfsd_create_serv_def t_def [symmetric] Let_def svc_inv_def stopped_def)
  next
    case (Some s)
    then have "nfsd_bind_serv R s t = (r, st')"
      using call None by (simp add: nfsd_create_serv_def t_def [symmetric] Let_def)
    with nfsd_bind_serv_running [OF ok Some] have "r = 0 \<and> running R s st' \<and> svc_inv R st'"
      using stop log frame Some ok(1) by (simp add: stopped_def)
    then show ?thesis by auto
  qed
qed

lemma nfsd_svc_out_inv:
  assumes ok: "rpc_ok R" and run: "running R s st" and inv: "svc_inv R st"
    and call: "nfsd_svc_out R e up st = (r, st')"
  shows "svc_inv R st'"
proof -
  have "running R s (nfsd_shutdown_net st)" "svc_inv R (nfsd_shutdown_net st)"
    using run inv by (auto simp: nfsd_shutdown_net_def running_def svc_inv_def stopped_def)
  then show ?thesis
    using call nfsd_destroy_inv [OF ok] run inv by (auto simp: nfsd_svc_out_def Let_def split: if_splits)
qed

lemma nfsd_svc_inv:
  assumes ok: "rpc_ok R" "bind_ok R" and inv: "svc_inv R st" and call: "nfsd_svc R n st = (r, st')"
  shows "svc_inv R st'"
proof -
  obtain e1 t1 where t1: "nfsd_create_serv R st = (e1, t1)" by fastforce
  note c = nfsd_create_serv_inv [OF ok inv t1]
  show ?thesis
  proof (cases "(min (max n 0) NFSD_MAXSERVS = 0 \<and> nfsd_serv st = None) \<or> e1 \<noteq> 0")
    case True
    then show ?thesis using call inv c by (auto simp: nfsd_svc_def t1 Let_def split: if_splits)
  next
    case False
    then obtain s where run1: "running R s t1" and inv1: "svc_inv R t1" using c by auto
    obtain e2 t2 where t2: "nfsd_startup_net R t1 = (e2, t2)" by fastforce
    have run2: "running R s t2" and inv2: "svc_inv R t2"
      using nfsd_startup_net_inv [OF ok(1) run1 inv1 t2] by auto
    have serv: "nfsd_serv t2 = Some s" using run2 by (simp add: running_def)
    define m where "m = min (max n 0) NFSD_MAXSERVS"
    define e3 where "e3 = svc_set_num_threads R (svc_log t2) s m"
    define t3 where "t3 = svc_event (Svc_set_num_threads s m e3) t2"
    have run3: "running R s t3"
      using run2 ok(1) by (simp add: t3_def running_def rpc_ok_counts)
    have inv3: "svc_inv R t3"
      using inv_event [OF inv2] run3 by (simp add: t3_def bad_call_def)
    have "nfsd_svc R n st = (if e2 \<noteq> 0 then (e2, nfsd_destroy R t2)
        else nfsd_svc_out R (if e3 \<noteq> 0 then e3 else sv_nrthreads R (svc_log t3) s - 1) (nfsd_net_up t1) t3)"
      using False by (auto simp: nfsd_svc_def m_def [symmetric] t1 t2 serv Let_def the_serv_def e3_def t3_def)
    then show ?thesis
      using call nfsd_destroy_inv [OF ok(1) run2 inv2] nfsd_svc_out_inv [OF ok(1) run3 inv3]
      by (metis prod.inject)
  qed
qed

lemma nfsd_inetaddr_event_inv:
  assumes "rpc_ok R" "svc_inv R st"
  shows "svc_inv R (nfsd_inetaddr_event down a st)"
  using assms
  by (auto simp: nfsd_inetaddr_event_def Let_def svc_inv_def stopped_def running_def bad_call_def rpc_ok_counts
      split: option.splits)

lemma nfsd_out_inv:
  assumes ok: "rpc_ok R" and inv: "svc_inv R st" and serv: "nfsd_serv st = Some s"
  shows "svc_inv R (nfsd_out R st)"
proof -
  have run: "running R s st" using inv serv by (auto simp: svc_inv_def stopped_def running_def)
  have run': "running R s (svc_event Svc_exit_thread st)" using running_event [OF ok run] by simp
  have "svc_inv R (nfsd_destroy R (svc_event Svc_exit_thread st))"
    using nfsd_destroy_inv [OF ok run' inv_event [OF inv run']] by (simp add: bad_call_def)
  then show ?thesis
    using ok by (auto simp: nfsd_out_def svc_inv_def stopped_def running_def bad_call_def rpc_ok_counts)
qed

text \<open>
  The contract of an operation on the service: where it may run, it keeps the invariant. Any number of
  runs then finds and leaves the service stopped or running, without a bad call.
\<close>

locale service_op =
  fixes R :: rpclib and may_run :: "nfsd_state \<Rightarrow> bool" and run :: "nfsd_state \<Rightarrow> nfsd_state"
  assumes run_inv: "rpc_ok R \<Longrightarrow> bind_ok R \<Longrightarrow> svc_inv R st \<Longrightarrow> may_run st \<Longrightarrow> svc_inv R (run st)"
begin

lemma runs_inv:
  assumes "rpc_ok R" "bind_ok R" "svc_inv R st" "\<And>k. k < n \<Longrightarrow> may_run ((run ^^ k) st)"
  shows "svc_inv R ((run ^^ n) st)"
  using assms(4) by (induction n) (simp_all add: assms(1-3) run_inv)

end

interpretation set_threads: service_op R "\<lambda>st. True" "\<lambda>st. snd (nfsd_svc R n st)" for R n
  by unfold_locales (auto intro: nfsd_svc_inv prod.collapse [symmetric])

interpretation thread_ends: service_op R "\<lambda>st. nfsd_serv st \<noteq> None" "nfsd_out R" for R
  by unfold_locales (auto intro: nfsd_out_inv)

interpretation address_lost: service_op R "\<lambda>st. True" "nfsd_inetaddr_event down a" for R down a
  by unfold_locales (auto intro: nfsd_inetaddr_event_inv)

lemma svc_step_inv: "svc_step R st st' \<Longrightarrow> rpc_ok R \<Longrightarrow> bind_ok R \<Longrightarrow> svc_inv R st \<Longrightarrow> svc_inv R st'"
  using set_threads.run_inv [of R st] thread_ends.run_inv [of R st] address_lost.run_inv [of R st]
  by (auto elim!: svc_stepE) (metis snd_conv)

text \<open>
  A library with one service: the count is what the calls made of it, every call succeeds, and
  setting the number of threads makes it the number asked for plus the caller's reference.
\<close>

fun lib_count :: "svc_hist \<Rightarrow> serv_p \<Rightarrow> int" where
  "lib_count [] s = 0"
| "lib_count (c # h) s = (case c of
     Svc_create_pooled _ r \<Rightarrow> if r = Some s then 1 else lib_count h s
   | Svc_get s' \<Rightarrow> lib_count h s + of_bool (s' = s)
   | Svc_destroy s' \<Rightarrow> lib_count h s - of_bool (s' = s)
   | Svc_set_num_threads s' n r \<Rightarrow> if s' = s then max 0 n + 1 else lib_count h s
   | _ \<Rightarrow> lib_count h s)"

definition sample_lib :: rpclib where
  "sample_lib = \<lparr>sv_nrthreads = lib_count, sv_no_permsocks = (\<lambda>h s. True), sv_nrpools = (\<lambda>h s. 1),
     si_meminfo = (\<lambda>h. (0x8000, 0)), svc_create_pooled = (\<lambda>h b. Some 5), svc_bind = (\<lambda>h s. 0),
     svc_create_xprt = (\<lambda>h s u. 0), svc_set_num_threads = (\<lambda>h s n. 0),
     ktime_get_real_ts64 = (\<lambda>h. \<lparr>tv_sec = 77, tv_nsec = 5\<rparr>), unshare_fs_struct = (\<lambda>h. 0),
     svc_recv = (\<lambda>h. - EINTR)\<rparr>"

lemma sample_lib_ok: "rpc_ok sample_lib" "bind_ok sample_lib"
  by (auto simp: rpc_ok_def bind_ok_def sample_lib_def moves_count_def split: svc_call.splits)



section \<open>Starting and stopping\<close>

text \<open>
  Every call the start makes succeeds, and \<open>svc_set_num_threads\<close> brings a smaller service up to
  the number of threads asked for, next to the reference of its caller.
\<close>

definition starts_ok :: "rpclib \<Rightarrow> bool" where
  "starts_ok R \<longleftrightarrow> (\<forall>h s. svc_bind R h s = 0) \<and> (\<forall>h b. svc_create_pooled R h b \<noteq> None) \<and>
     (\<forall>h s u. 0 \<le> svc_create_xprt R h s u) \<and> (\<forall>h s n. svc_set_num_threads R h s n = 0) \<and>
     (\<forall>h s n. 0 \<le> n \<and> sv_nrthreads R h s \<le> n + 1 \<longrightarrow>
        sv_nrthreads R (Svc_set_num_threads s n 0 # h) s = n + 1)"

lemma starts_okD:
  assumes "starts_ok R"
  shows "svc_bind R h s = 0" "svc_create_pooled R h b \<noteq> None" "\<not> svc_create_xprt R h s u < 0"
    "svc_set_num_threads R h s n = 0"
    "0 \<le> n \<Longrightarrow> sv_nrthreads R h s \<le> n + 1 \<Longrightarrow> sv_nrthreads R (Svc_set_num_threads s n 0 # h) s = n + 1"
  using assms by (auto simp: starts_ok_def not_less)

lemma starts_ok_bind: "starts_ok R \<Longrightarrow> bind_ok R"
  by (simp add: starts_ok_def bind_ok_def)

lemma nfsd_startup_net_up:
  assumes "rpc_ok R" "starts_ok R" "nfsd_serv st = Some s" "nfsd_startup_net R st = (r, st')"
  shows "r = 0 \<and> nfsd_net_up st' \<and> sv_nrthreads R (svc_log st') s = sv_nrthreads R (svc_log st) s \<and>
    nfssvc_boot st' = nfssvc_boot st"
  using assms
  by (auto simp: nfsd_startup_net_def nfsd_init_socks_def the_serv_def call_svc_create_xprt_def starts_okD
      Let_def rpc_ok_counts split: if_splits)

lemma nfsd_create_serv_starts:
  assumes ok: "rpc_ok R" "starts_ok R" and stop: "stopped st" "svc_inv R st"
  shows "\<exists>s st'. nfsd_create_serv R st = (0, st') \<and> running R s st' \<and> sv_nrthreads R (svc_log st') s = 1 \<and>
    svc_inv R st'"
proof -
  define t where "t = nfsd_make_serv R st"
  note frame = nfsd_make_serv_frame(1-4) [OF t_def [symmetric]] nfsd_make_serv_log [OF t_def [symmetric]]
  have "nfsd_serv t \<noteq> None"
    using starts_okD(2) [OF ok(2)] by (simp add: t_def nfsd_make_serv_def Let_def)
  then obtain s where s: "nfsd_serv t = Some s" by blast
  obtain r st' where b: "nfsd_bind_serv R s t = (r, st')" by fastforce
  have log: "list_all (\<lambda>c. \<not> bad_call c) (svc_log st)" using stop(2) by (simp add: svc_inv_def)
  have "r = 0 \<and> running R s st' \<and> svc_inv R st'"
    using nfsd_bind_serv_running [OF ok(1) starts_ok_bind [OF ok(2)] s _ _ _ _ _ b] stop(1) log frame s ok(1)
    by (simp add: stopped_def)
  moreover have "sv_nrthreads R (svc_log st') s = 1"
    using b frame(7) [OF ok(1) s] ok by (auto simp: nfsd_bind_serv_def starts_okD Let_def rpc_ok_counts)
  ultimately show ?thesis
    using stop(1) b s by (auto simp: nfsd_create_serv_def t_def [symmetric] stopped_def Let_def)
qed

text \<open>The end of the last of \<open>n\<close> threads stops the service.\<close>

lemma nfsd_out_shared:
  assumes "rpc_ok R" "running R s st" "sv_nrthreads R (svc_log st) s = int (Suc (Suc n))"
  shows "running R s (nfsd_out R st)" "sv_nrthreads R (svc_log (nfsd_out R st)) s = int (Suc n)"
    "nfsd_net_up (nfsd_out R st) = nfsd_net_up st"
proof -
  have "running R s (svc_event Svc_exit_thread st)" using running_event [OF assms(1,2)] by simp
  from nfsd_destroy_shared [OF assms(1) this]
  have "nfsd_out R st = svc_event Module_put (svc_event (Svc_destroy s) (svc_event Svc_exit_thread st))"
    using assms by (simp add: nfsd_out_def rpc_ok_counts)
  then show "running R s (nfsd_out R st)" "sv_nrthreads R (svc_log (nfsd_out R st)) s = int (Suc n)"
    "nfsd_net_up (nfsd_out R st) = nfsd_net_up st"
    using assms by (auto simp: running_def rpc_ok_counts)
qed

lemma nfsd_out_last:
  assumes ok: "rpc_ok R" and run: "running R s st" and last: "sv_nrthreads R (svc_log st) s = 1"
    and up: "nfsd_net_up st"
  shows "stopped (nfsd_out R st) \<and> Export_flush \<in> set (svc_log (nfsd_out R st))"
proof -
  have "running R s (svc_event Svc_exit_thread st)" using running_event [OF ok run] by simp
  from nfsd_destroy_last [OF this] show ?thesis
    using ok last up by (simp add: nfsd_out_def stopped_def rpc_ok_counts)
qed

lemma threads_end:
  assumes "rpc_ok R" "running R s st" "sv_nrthreads R (svc_log st) s = int (Suc n)" "nfsd_net_up st"
  shows "stopped ((nfsd_out R ^^ Suc n) st) \<and> Export_flush \<in> set (svc_log ((nfsd_out R ^^ Suc n) st))"
  using assms
proof (induction n arbitrary: st)
  case 0
  then show ?case using nfsd_out_last by simp
next
  case (Suc n)
  from nfsd_out_shared [OF Suc.prems(1-3)] Suc.prems(4) Suc.IH [OF Suc.prems(1)]
  show ?case by (simp add: funpow_swap1)
qed

lemma nfsd_svc_starts:
  assumes ok: "rpc_ok R" "starts_ok R" and stop: "stopped st" "svc_inv R st"
    and n: "0 < n" "n \<le> NFSD_MAXSERVS"
  shows "\<exists>s st'. nfsd_svc R n st = (n, st') \<and> running R s st' \<and> nfsd_net_up st' \<and>
    sv_nrthreads R (svc_log st') s = n"
proof -
  obtain s t1 where t1: "nfsd_create_serv R st = (0, t1)" "running R s t1"
    "sv_nrthreads R (svc_log t1) s = 1" "svc_inv R t1"
    using nfsd_create_serv_starts [OF ok stop] by blast
  obtain e t2 where t2: "nfsd_startup_net R t1 = (e, t2)" by fastforce
  have "nfsd_serv t1 = Some s" using t1(2) by (simp add: running_def)
  note up = nfsd_startup_net_up [OF ok this t2]
  have run2: "running R s t2" using nfsd_startup_net_inv [OF ok(1) t1(2,4) t2] by simp
  define t3 where "t3 = svc_event (Svc_set_num_threads s n 0) t2"
  have cnt: "sv_nrthreads R (svc_log t3) s = n + 1"
    using starts_okD(5) [OF ok(2)] up t1(3) n by (simp add: t3_def)
  have run3: "running R s t3" using run2 cnt n by (simp add: running_def t3_def)
  have "nfsd_svc R n st = (n, nfsd_destroy R t3)"
    using n t1(1) t2 up run2 ok(2) cnt
    by (simp add: nfsd_svc_def the_serv_def running_def starts_okD nfsd_svc_out_def Let_def t3_def)
  then show ?thesis
    using nfsd_destroy_shared [OF ok(1) run3] cnt n run3 up ok(1)
    by (auto simp: running_def rpc_ok_counts t3_def)
qed

text \<open>
  C13: On a stopped service, writing a thread count between 1 and 8192 starts exactly that many
  threads when the library's calls succeed: \<open>nfsd_svc\<close> returns the count and leaves the transports up and a service
  whose only references are its threads'. When those threads have ended, one after the
  other, the service is gone again: the transports are down, the notifier is unregistered and the
  export table has been flushed.
\<close>

theorem service_lifecycle:
  assumes "rpc_ok R" "starts_ok R" "stopped st" "list_all (\<lambda>c. \<not> bad_call c) (svc_log st)"
    and "0 < n" "n \<le> 8192"
  shows "\<exists>s st'. nfsd_svc R n st = (n, st') \<and> running R s st' \<and> nfsd_net_up st' \<and>
    sv_nrthreads R (svc_log st') s = n \<and>
    stopped ((nfsd_out R ^^ nat n) st') \<and> Export_flush \<in> set (svc_log ((nfsd_out R ^^ nat n) st'))"
proof -
  have "svc_inv R st" using assms(3,4) by (simp add: svc_inv_def)
  from nfsd_svc_starts [OF assms(1-3) this assms(5,6)] obtain s st' where
    st': "nfsd_svc R n st = (n, st')" "running R s st'" "nfsd_net_up st'" "sv_nrthreads R (svc_log st') s = n"
    by blast
  obtain m where "nat n = Suc m" using assms(5) by (metis gr0_implies_Suc zero_less_nat_eq)
  with threads_end [OF assms(1) st'(2) _ st'(3), of m] st' show ?thesis by fastforce
qed

lemma sample_lib_starts: "starts_ok sample_lib"
  by (auto simp: starts_ok_def sample_lib_def)

theorem service_lifecycle_witness:
  "\<exists>s st'. nfsd_svc sample_lib 3 nfsd_loaded = (3, st') \<and> running sample_lib s st' \<and>
     stopped ((nfsd_out sample_lib ^^ 3) st')"
proof -
  have "stopped nfsd_loaded" "list_all (\<lambda>c. \<not> bad_call c) (svc_log nfsd_loaded)"
    by (simp_all add: stopped_def nfsd_loaded_def)
  from service_lifecycle [OF sample_lib_ok(1) sample_lib_starts this, of 3]
  show ?thesis by auto
qed

section \<open>The default block size\<close>

lemma unat_pow:
  assumes "k < 64"
  shows "unat ((2::u64) ^ k) = 2 ^ k"
proof -
  have "(2::nat) ^ k < 2 ^ 64" using assms by (intro power_strict_increasing) auto
  then show ?thesis using unat_of_nat [where 'a = 64, of "2 ^ k"] by simp
qed

lemma halve_blksize_pow:
  assumes "13 \<le> k" "k \<le> 20"
  shows "\<exists>j. 13 \<le> j \<and> j \<le> k \<and> halve_blksize t (2 ^ k) = 2 ^ j \<and> (2 ^ j \<le> unat t \<or> j = 13) \<and>
    (j = k \<or> unat t < 2 ^ Suc j)"
  using assms
proof (induction k rule: nat_induct_at_least)
  case base
  have "halve_blksize t (2 ^ 13) = 2 ^ 13" by (subst halve_blksize.simps) (simp add: word_le_nat_alt)
  then show ?case by auto
next
  case (Suc k)
  then have half: "(2::u64) ^ Suc k div 2 = 2 ^ k"
    by (intro iffD2 [OF word_unat_eq_iff]) (simp add: unat_div unat_pow del: power_Suc, simp)
  show ?case
  proof (cases "unat t < 2 ^ Suc k")
    case True
    have "(8 * 1024 * 2 :: nat) = 2 ^ 14" by simp
    also have "\<dots> \<le> 2 ^ Suc k" using Suc by (intro power_increasing) auto
    finally have "halve_blksize t (2 ^ Suc k) = halve_blksize t (2 ^ k)"
      using True Suc half
      by (subst halve_blksize.simps) (simp add: word_le_nat_alt word_less_nat_alt unat_pow del: power_Suc)
    with Suc True show ?thesis by (auto simp del: power_Suc)
  next
    case False
    then have "halve_blksize t (2 ^ Suc k) = 2 ^ Suc k"
      using Suc by (subst halve_blksize.simps) (simp add: word_less_nat_alt unat_pow del: power_Suc)
    with False Suc show ?thesis by (intro exI [of _ "Suc k"]) (simp del: power_Suc)
  qed
qed

text \<open>
  C27: The default block size is the largest power of two between 8 KiB and 1 MiB that is at most the
  machine's low memory in bytes divided by 4096, or 8 KiB when there is none. (A page is 4096 bytes, so that quotient is the number of pages of low
  memory; it is assumed to be below \<open>2\<^sup>5\<^sup>2\<close>, so that the byte count fits an unsigned
  long.) In particular the loop ends.
\<close>

theorem max_blksize_largest:
  assumes "si_meminfo R (svc_log st) = (totalram, totalhigh)" "unat (totalram - totalhigh) < 2 ^ 52"
  shows "\<exists>j st'. nfsd_get_default_max_blksize R st = (2 ^ j, st') \<and> 13 \<le> j \<and> j \<le> 20 \<and>
    (2 ^ j \<le> unat (totalram - totalhigh) \<or> j = 13) \<and> (j = 20 \<or> unat (totalram - totalhigh) < 2 ^ Suc j)"
proof -
  define t where "t = totalram - totalhigh"
  have "unat t * unat (4096::u64) < 2 ^ LENGTH(64)" using assms(2) by (simp add: t_def [symmetric])
  then have "unat (t * 4096) = unat t * 4096" using unat_mult_lem [of t "4096::u64"] by simp
  then have same: "drop_bit 12 (push_bit 12 t) = t"
    by (intro iffD2 [OF word_unat_eq_iff]) (simp add: push_bit_eq_mult drop_bit_eq_div unat_div)
  obtain j where j: "13 \<le> j" "j \<le> 20" "halve_blksize t (2 ^ 20) = 2 ^ j"
    "2 ^ j \<le> unat t \<or> j = 13" "j = 20 \<or> unat t < 2 ^ Suc j"
    using halve_blksize_pow [of 20 t] by auto
  have "uint (2 ^ j :: u64) = 2 ^ j" using j(2) arg_cong [OF unat_pow [of j], of int] by simp
  then show ?thesis
    using j by (auto simp: nfsd_get_default_max_blksize_def assms(1) t_def [symmetric] same Let_def)
qed

theorem max_blksize_largest_witness:
  "\<exists>st'. nfsd_get_default_max_blksize sample_lib nfsd_loaded = (32768, st')"
proof -
  have mem: "si_meminfo sample_lib (svc_log nfsd_loaded) = (0x8000, 0)" by (simp add: sample_lib_def)
  obtain j st' where j: "nfsd_get_default_max_blksize sample_lib nfsd_loaded = (2 ^ j, st')"
    "13 \<le> j" "j \<le> 20" "2 ^ j \<le> (2::nat) ^ 15 \<or> j = 13" "j = 20 \<or> (2::nat) ^ 15 < 2 ^ Suc j"
    using max_blksize_largest [OF mem] by auto
  then have "j = 15"
    using power_increasing_iff [of 2 j 15] power_strict_increasing_iff [of "2::nat" 15 "Suc j"] by fastforce
  with j(1) show ?thesis by simp
qed

section \<open>Where the service pointer dangles\<close>

text \<open>
  C37: When \<open>svc_bind\<close> fails for a new service, \<open>nfsd_create_serv\<close> drops the only reference, so the
  library frees the service, but leaves \<open>nn->nfsd_serv\<close> pointing at it. The
  next start takes the freed service for a live one.
\<close>

theorem create_serv_dangles:
  assumes "rpc_ok R" "nfsd_serv st = None" "nfsd_serv (nfsd_make_serv R st) = Some s"
    and "svc_bind R (svc_log (nfsd_make_serv R st)) s = e" "e < 0"
  shows "\<exists>st'. nfsd_create_serv R st = (e, st') \<and> nfsd_serv st' = Some s \<and>
    sv_nrthreads R (svc_log st') s = 0 \<and> nfsd_create_serv R st' = (0, svc_event (Svc_get s) st')"
proof -
  define t where "t = nfsd_make_serv R st"
  have "sv_nrthreads R (svc_log t) s = 1"
    using nfsd_make_serv_log(3) [OF t_def [symmetric] assms(1)] assms(3) by (simp add: t_def)
  then show ?thesis
    using assms
    by (auto simp: nfsd_create_serv_def nfsd_bind_serv_def t_def [symmetric] Let_def rpc_ok_counts)
qed

definition unbound_lib :: rpclib where
  "unbound_lib = sample_lib\<lparr>svc_bind := (\<lambda>h s. - EACCES)\<rparr>"

theorem create_serv_dangles_witness:
  "\<exists>st'. nfsd_create_serv unbound_lib nfsd_loaded = (- EACCES, st') \<and> nfsd_serv st' = Some 5 \<and>
     sv_nrthreads unbound_lib (svc_log st') 5 = 0"
proof -
  have "rpc_ok unbound_lib" using sample_lib_ok(1) by (simp add: rpc_ok_def unbound_lib_def)
  moreover have "nfsd_serv (nfsd_make_serv unbound_lib nfsd_loaded) = Some 5" by code_simp
  ultimately show ?thesis
    using create_serv_dangles [of unbound_lib nfsd_loaded 5 "- EACCES"]
    by (auto simp: nfsd_loaded_def unbound_lib_def)
qed

text \<open>
  C36: Two threads that end at the same time can both read a count of two before either drops its
  reference. Then neither shuts the service down: the last reference is dropped, so the library frees the
  service, while \<open>nn->nfsd_serv\<close> still points at it and the notifier stays registered. Run one after the
  other, the same two calls stop the service properly.
\<close>

theorem exits_race:
  assumes "rpc_ok R" "running R s st" "sv_nrthreads R (svc_log st) s = 2"
    and "nfsd_destroy_read R st = (d1, t1)" "nfsd_destroy_read R t1 = (d2, t2)"
    and "st' = nfsd_destroy_act d2 (nfsd_destroy_act d1 t2)"
  shows "nfsd_serv st' = Some s \<and> sv_nrthreads R (svc_log st') s = 0 \<and> registered (svc_log st') = 1 \<and>
    stopped (nfsd_destroy R (nfsd_destroy R st))"
proof -
  have st': "st' = svc_event (Svc_destroy s) (svc_event (Svc_destroy s) st)"
    using assms by (auto simp: nfsd_destroy_read_def nfsd_destroy_act_def the_serv_def running_def)
  have one: "nfsd_destroy R st = svc_event (Svc_destroy s) st"
    using nfsd_destroy_shared [OF assms(1,2)] assms(3) by simp
  have "running R s (svc_event (Svc_destroy s) st)" "sv_nrthreads R (Svc_destroy s # svc_log st) s = 1"
    using assms(1-3) by (simp_all add: running_def rpc_ok_counts)
  from nfsd_destroy_last(1) [OF this(1)] this(2) show ?thesis
    using st' one assms(1-3) by (simp add: running_def rpc_ok_counts)
qed

theorem exits_race_witness:
  "\<exists>st d1 t1 d2 t2. running sample_lib 5 st \<and> nfsd_destroy_read sample_lib st = (d1, t1) \<and>
     nfsd_destroy_read sample_lib t1 = (d2, t2) \<and>
     nfsd_serv (nfsd_destroy_act d2 (nfsd_destroy_act d1 t2)) = Some 5 \<and>
     sv_nrthreads sample_lib (svc_log (nfsd_destroy_act d2 (nfsd_destroy_act d1 t2))) 5 = 0"
proof -
  define st where "st = snd (nfsd_svc sample_lib 2 nfsd_loaded)"
  have run: "running sample_lib 5 st" unfolding st_def running_def by code_simp
  have two: "sv_nrthreads sample_lib (svc_log st) 5 = 2" unfolding st_def by code_simp
  obtain d1 t1 where 1: "nfsd_destroy_read sample_lib st = (d1, t1)" by fastforce
  obtain d2 t2 where 2: "nfsd_destroy_read sample_lib t1 = (d2, t2)" by fastforce
  show ?thesis using exits_race [OF sample_lib_ok(1) run two 1 2 refl] run 1 2 by blast
qed

section \<open>A server thread\<close>

text \<open>How many requests were received and processed.\<close>

definition recvs :: "svc_hist \<Rightarrow> nat" where
  "recvs h = length (filter (\<lambda>c. case c of Svc_recv _ \<Rightarrow> True | _ \<Rightarrow> False) h)"

definition processed :: "svc_hist \<Rightarrow> nat" where
  "processed h = length (filter (\<lambda>c. c = Svc_process) h)"

lemma recvs_simps [simp]:
  "recvs (Svc_recv e # h) = Suc (recvs h)" "recvs (Svc_process # h) = recvs h"
  "processed (Svc_recv e # h) = processed h" "processed (Svc_process # h) = Suc (processed h)"
  by (simp_all add: recvs_def processed_def)

text \<open>The outcomes of \<open>svc_recv\<close> from some point on.\<close>

definition receives :: "rpclib \<Rightarrow> nat \<Rightarrow> int list \<Rightarrow> bool" where
  "receives R n es \<longleftrightarrow> (\<forall>h. n \<le> recvs h \<and> recvs h < n + length es \<longrightarrow> svc_recv R h = es ! (recvs h - n))"

lemma receives_Cons:
  assumes "receives R n (e # es)"
  shows "recvs h = n \<Longrightarrow> svc_recv R h = e" and "receives R (Suc n) es"
proof -
  show "svc_recv R h = e" if "recvs h = n" using assms that by (simp add: receives_def)
  have "svc_recv R g = es ! (recvs g - Suc n)" if "Suc n \<le> recvs g" "recvs g < Suc n + length es" for g
  proof -
    have "recvs g - n = Suc (recvs g - Suc n)" using that by simp
    then show ?thesis using assms that by (simp add: receives_def)
  qed
  then show "receives R (Suc n) es" by (simp add: receives_def)
qed

text \<open>What the loop calls: nothing that moves a count.\<close>

definition serving :: "svc_call \<Rightarrow> bool" where
  "serving c = (case c of Svc_recv _ \<Rightarrow> True | Svc_process \<Rightarrow> True | _ \<Rightarrow> False)"

lemma serving_simps [simp]: "serving (Svc_recv e)" "serving Svc_process"
  by (simp_all add: serving_def)

lemma serving_running:
  assumes ok: "rpc_ok R" and run: "running R s st" and inv: "svc_inv R st"
    and st': "st'\<lparr>svc_log := svc_log st\<rparr> = st" "svc_log st' = xs @ svc_log st" "list_all serving xs"
  shows "running R s st' \<and> svc_inv R st'"
proof -
  have fields: "nfsd_serv st' = nfsd_serv st" "ntf_refcnt st' = ntf_refcnt st"
    "nfsd_notifier_refcount st' = nfsd_notifier_refcount st"
    using arg_cong [OF st'(1), of nfsd_serv] arg_cong [OF st'(1), of ntf_refcnt]
      arg_cong [OF st'(1), of nfsd_notifier_refcount] by simp_all
  have logs: "sv_nrthreads R (xs @ h) s = sv_nrthreads R h s \<and> registered xs = 0 \<and>
      list_all (\<lambda>c. \<not> bad_call c) xs" for h
    using st'(3) ok
    by (induction xs) (auto simp: serving_def rpc_ok_counts bad_call_def split: svc_call.splits)
  have "running R s st'" using run fields logs st'(2) by (simp add: running_def registered_append)
  then show ?thesis using inv logs st'(2) by (auto simp: svc_inv_def)
qed

lemma nfsd_loop_runs:
  assumes "receives R (recvs (svc_log st)) (es @ [- EINTR])" "- EINTR \<notin> set es"
  shows "\<exists>st' xs. nfsd_loop R st = Some st' \<and>
    processed (svc_log st') = processed (svc_log st) + length (filter (\<lambda>e. e \<noteq> - EAGAIN) es) \<and>
    st'\<lparr>svc_log := svc_log st\<rparr> = st \<and> svc_log st' = xs @ svc_log st \<and> list_all serving xs"
  using assms
proof (induction es arbitrary: st)
  case Nil
  then show ?case
    by (subst nfsd_loop.simps) (simp add: receives_def Let_def svc_event_def)
next
  case (Cons e es)
  then have e: "svc_recv R (svc_log st) = e" "receives R (Suc (recvs (svc_log st))) (es @ [- EINTR])"
    "e \<noteq> - EINTR" "- EINTR \<notin> set es"
    using receives_Cons [of R "recvs (svc_log st)" e "es @ [- EINTR]"] by auto
  define ys where "ys = (if e = - EAGAIN then [Svc_recv e] else [Svc_process, Svc_recv e])"
  define t where "t = st\<lparr>svc_log := ys @ svc_log st\<rparr>"
  have "nfsd_loop R st = nfsd_loop R t"
    using e by (subst nfsd_loop.simps) (simp add: t_def ys_def svc_event_def Let_def)
  moreover have "recvs (svc_log t) = Suc (recvs (svc_log st))" "list_all serving ys"
    "processed (svc_log t) = processed (svc_log st) + (if e = - EAGAIN then 0 else 1)"
    by (simp_all add: t_def ys_def)
  moreover have "st'\<lparr>svc_log := svc_log st\<rparr> = st" if "st'\<lparr>svc_log := svc_log t\<rparr> = t" for st'
  proof -
    have "st'\<lparr>svc_log := svc_log st\<rparr> = (st'\<lparr>svc_log := svc_log t\<rparr>)\<lparr>svc_log := svc_log st\<rparr>" by simp
    also have "\<dots> = st" using that by (simp add: t_def)
    finally show ?thesis .
  qed
  ultimately obtain st' xs where "nfsd_loop R st = Some st'" "list_all serving (xs @ ys)"
    "processed (svc_log st') = processed (svc_log st) + length (filter (\<lambda>e. e \<noteq> - EAGAIN) (e # es))"
    "st'\<lparr>svc_log := svc_log st\<rparr> = st" "svc_log st' = (xs @ ys) @ svc_log st"
    using Cons.IH [of t] e by (auto simp: t_def)
  then show ?case by blast
qed

lemma nfsd_out_processed:
  assumes ok: "rpc_ok R" and run: "running R s st"
  shows "processed (svc_log (nfsd_out R st)) = processed (svc_log st)"
proof -
  have run': "running R s (svc_event Svc_exit_thread st)" using running_event [OF ok run] by simp
  show ?thesis
    using nfsd_destroy_shared [OF ok run'] nfsd_destroy_last(2) [OF run']
    by (cases "sv_nrthreads R (svc_log (svc_event Svc_exit_thread st)) s = 1")
       (auto simp: nfsd_out_def processed_def)
qed

text \<open>
  C25: A server thread runs until it is interrupted and then ends: if \<open>svc_recv\<close> yields the outcomes
  \<open>es\<close> and then an interrupt, the thread returns, having processed exactly one request per outcome
  that is not a time-out, and after it has dropped its reference the service is again either stopped or
  running properly.
\<close>

theorem thread_serves:
  assumes "rpc_ok R" "running R s st" "list_all (\<lambda>c. \<not> bad_call c) (svc_log st)"
    and "0 \<le> unshare_fs_struct R (svc_log st)"
    and "receives R (recvs (svc_log st)) (es @ [- EINTR])" "- EINTR \<notin> set es"
  shows "\<exists>st'. nfsd R st = Some st' \<and>
    processed (svc_log st') = processed (svc_log st) + length (filter (\<lambda>e. e \<noteq> - EAGAIN) es) \<and>
    (stopped st' \<or> (\<exists>s. running R s st')) \<and> list_all (\<lambda>c. \<not> bad_call c) (svc_log st')"
proof -
  define u where "u = svc_event Allow_signals (svc_event (Unshare_fs_struct (unshare_fs_struct R (svc_log st))) st)"
  have inv: "svc_inv R st" using assms(2,3) by (auto simp: svc_inv_def)
  have run_u: "running R s u" using assms(1,2) by (simp add: u_def running_event)
  have inv_u: "svc_inv R u" using run_u assms(3) by (auto simp: svc_inv_def u_def bad_call_def)
  have u: "recvs (svc_log u) = recvs (svc_log st)" "processed (svc_log u) = processed (svc_log st)"
    by (simp_all add: u_def recvs_def processed_def)
  obtain t xs where t: "nfsd_loop R u = Some t" "t\<lparr>svc_log := svc_log u\<rparr> = u"
    "svc_log t = xs @ svc_log u" "list_all serving xs"
    "processed (svc_log t) = processed (svc_log st) + length (filter (\<lambda>e. e \<noteq> - EAGAIN) es)"
    using nfsd_loop_runs [of R u es] assms(5,6) u by auto
  define v where "v = svc_event Flush_signals t"
  have run_t: "running R s t" "svc_inv R t" using serving_running [OF assms(1) run_u inv_u t(2-4)] by auto
  have run_v: "running R s v" using assms(1) run_t by (simp add: v_def running_event)
  then have inv_v: "svc_inv R v" using inv_event [OF run_t(2)] by (simp add: v_def bad_call_def)
  have "nfsd R st = Some (nfsd_out R v)"
    using assms(4) t(1) by (simp add: nfsd_def u_def [symmetric] v_def Let_def)
  moreover have "svc_inv R (nfsd_out R v)"
    using nfsd_out_inv [OF assms(1) inv_v] run_v by (simp add: running_def)
  moreover have "processed (svc_log v) = processed (svc_log t)" by (simp add: v_def processed_def)
  ultimately show ?thesis
    using nfsd_out_processed [OF assms(1) run_v] t(5) by (simp add: svc_inv_def)
qed

text \<open>A library that delivers a request, a time-out, another request and an interrupt.\<close>

definition busy_lib :: rpclib where
  "busy_lib = sample_lib\<lparr>svc_recv := (\<lambda>h. case recvs h of 0 \<Rightarrow> 40 | Suc 0 \<Rightarrow> - EAGAIN
     | Suc (Suc 0) \<Rightarrow> 8 | _ \<Rightarrow> - EINTR)\<rparr>"

theorem thread_serves_witness:
  "\<exists>st st'. running busy_lib 5 st \<and> nfsd busy_lib st = Some st' \<and> processed (svc_log st') = 2"
proof -
  define st where "st = snd (nfsd_svc busy_lib 1 nfsd_loaded)"
  have ok: "rpc_ok busy_lib" using sample_lib_ok(1) by (simp add: rpc_ok_def busy_lib_def)
  have run: "running busy_lib 5 st" unfolding st_def running_def by code_simp
  have fresh: "recvs (svc_log st) = 0" "processed (svc_log st) = 0"
    "list_all (\<lambda>c. \<not> bad_call c) (svc_log st)" unfolding st_def by code_simp+
  have "receives busy_lib 0 ([40, - EAGAIN, 8] @ [- EINTR])"
    by (auto simp: receives_def busy_lib_def less_Suc_eq numeral_eq_Suc split: nat.splits)
  then show ?thesis
    using thread_serves [OF ok run fresh(3), of "[40, - EAGAIN, 8]"] fresh run
    by (auto simp: busy_lib_def sample_lib_def)
qed

end
