(* ===== verification/Export_Channel.thy ===== *)
theory Export_Channel
  imports Handle_Contract
begin

text \<open>
  The channels of the two export caches (\<open>export.c\<close>): the lines user space writes
  (\<open>expkey_parse\<close>, \<open>svc_export_parse\<close>), the requests the kernel sends (\<open>expkey_request\<close>,
  \<open>svc_export_request\<close>), the listings (\<open>expkey_show\<close>, \<open>svc_export_show\<close>), and the handle of an
  export's root (\<open>exp_rootfh\<close>). A line is the list of its bytes; the word readers of the
  RPC library (\<open>qword_get\<close>, \<open>get_int\<close>, \<open>get_expiry\<close>) are parameters that return what they
  read and the rest of the line. Reading before the start of an empty line is a fault.
\<close>

section \<open>Lines for the key cache\<close>

abbreviation (input) NEWLINE :: u8 where "NEWLINE \<equiv> 10"

text \<open>The label \<open>out\<close>: whatever is held is released.\<close>

definition expkey_out :: "expkey_p option \<Rightarrow> domain_p option \<Rightarrow> bool \<Rightarrow> int \<Rightarrow> hist \<Rightarrow> int \<times> hist" where
  "expkey_out ek domp buf err h =
     (let h = (case ek of Some e \<Rightarrow> Ref (Cache_put (Expkey_item e)) # h | None \<Rightarrow> h);
          h = (case domp of Some c \<Rightarrow> Ref (Domain_put c) # h | None \<Rightarrow> h)
      in (err, Sys (Kfree buf) # h))"

text \<open>The path, or an empty word meaning a negative entry.\<close>

definition expkey_parse_path ::
  "kernel \<Rightarrow> domain_p \<Rightarrow> svc_expkey \<Rightarrow> expkey_p \<Rightarrow> u8 list \<Rightarrow> hist \<Rightarrow> int \<times> hist" where
  "expkey_parse_path K domp key ek mesg h =
     (let (len, buf, mesg) = qword_get K mesg PAGE_SIZE
      in if len < 0 then expkey_out (Some ek) (Some domp) True (- EINVAL) h
         else if len = 0 then
           let key = key\<lparr>ek_h := (ek_h key)\<lparr>cache_negative := True\<rparr>\<rparr>;
               (ek, h) = svc_expkey_update K key ek h;
               err = (if ek = None then - ENOMEM else 0);
               h = Sys Cache_flush # h
           in expkey_out ek (Some domp) True err h
         else
           let (p, h) = call_kern_path K buf h
           in (case p of
                 Inl err \<Rightarrow> expkey_out (Some ek) (Some domp) True err h
               | Inr p \<Rightarrow>
                   let key = key\<lparr>ek_path := p\<rparr>;
                       (ek, h) = svc_expkey_update K key ek h;
                       err = (if ek = None then - ENOMEM else 0);
                       h = Ref (Path_put p) # h;
                       h = Sys Cache_flush # h
                   in expkey_out ek (Some domp) True err h))"

text \<open>The key: type, identifier and expiry.\<close>

definition expkey_parse_key :: "kernel \<Rightarrow> domain_p \<Rightarrow> u8 list \<Rightarrow> hist \<Rightarrow> int \<times> hist" where
  "expkey_parse_key K domp mesg h =
     (let (len, buf, mesg) = qword_get K mesg PAGE_SIZE
      in if len \<le> 0 then expkey_out None (Some domp) True (- EINVAL) h
         else
           let (fsidtype, ep) = simple_strtoul K buf
           in if ep \<noteq> [] then expkey_out None (Some domp) True (- EINVAL) h
              else if key_len fsidtype = 0 then expkey_out None (Some domp) True (- EINVAL) h
              else
                let (len, buf, mesg) = qword_get K mesg PAGE_SIZE
                in if len \<le> 0 then expkey_out None (Some domp) True (- EINVAL) h
                   else if len \<noteq> int (key_len fsidtype) then expkey_out None (Some domp) True (- EINVAL) h
                   else
                     let junk = stack_expkey K h;
                         (expiry, mesg) = get_expiry K h mesg
                     in if expiry = 0 then expkey_out None (Some domp) True (- EINVAL) h
                        else
                          let key = junk\<lparr>ek_h := \<lparr>cache_valid = False, cache_negative = False, expiry_time = expiry\<rparr>,
                                         ek_client := domp, ek_fsidtype := fsidtype,
                                         ek_fsid := overwrite 0 (words_of_bytes (take (nat len) buf)) (ek_fsid junk)\<rparr>;
                              (ek, h) = svc_expkey_lookup K key h
                          in (case ek of
                                None \<Rightarrow> expkey_out None (Some domp) True (- ENOMEM) h
                              | Some ek \<Rightarrow> expkey_parse_path K domp key ek mesg h))"

definition expkey_parse :: "kernel \<Rightarrow> u8 list \<Rightarrow> hist \<Rightarrow> int \<times> hist" where
  "expkey_parse K mesg h =
     (if mesg = [] then (- EINVAL, Fault OOPS # h)
      else if last mesg \<noteq> NEWLINE then (- EINVAL, h)
      else
        let mesg = butlast mesg;
            (buf_ok, h) = call_kmalloc K h
        in if \<not> buf_ok then expkey_out None None False (- ENOMEM) h
           else
             let (len, buf, mesg) = qword_get K mesg PAGE_SIZE
             in if len \<le> 0 then expkey_out None None True (- EINVAL) h
                else
                  let (domp, h) = call_auth_domain_find K buf h
                  in (case domp of
                        None \<Rightarrow> expkey_out None None True (- ENOENT) h
                      | Some c \<Rightarrow> expkey_parse_key K c mesg h))"

section \<open>Lines for the export cache\<close>

definition zero_export :: svc_export where
  "zero_export = \<lparr>ex_h = \<lparr>cache_valid = False, cache_negative = False, expiry_time = 0\<rparr>, ex_client = 0,
     ex_flags = 0, ex_path = \<lparr>p_mnt = 0, p_dentry = 0\<rparr>, ex_fsid = 0, ex_nflavors = 0, ex_flavors = []\<rparr>"

text \<open>The labels \<open>out1\<close> and \<open>out3\<close>.\<close>

definition export_out1 :: "domain_p \<Rightarrow> int \<Rightarrow> hist \<Rightarrow> int \<times> hist" where
  "export_out1 domp err h = (err, Sys (Kfree True) # Ref (Domain_put domp) # h)"

definition export_out3 :: "svc_export \<Rightarrow> int \<Rightarrow> hist \<Rightarrow> int \<times> hist" where
  "export_out3 exp err h = export_out1 (ex_client exp) err (Ref (Path_put (ex_path exp)) # h)"

text \<open>
  Storing the entry. The entry found by the lookup has the client looked for, so its hash is read with
  that client and the entry's own path.
\<close>

definition export_install :: "kernel \<Rightarrow> svc_export \<Rightarrow> hist \<Rightarrow> int \<times> hist" where
  "export_install K exp h =
     (let (expp, h) = svc_export_lookup K exp h;
          (expp, h) = (case expp of
             Some e \<Rightarrow> svc_export_update K exp (exp\<lparr>ex_path := export_path K e\<rparr>) e h
           | None \<Rightarrow> (None, h));
          h = Sys Cache_flush # h
      in (case expp of
            None \<Rightarrow> export_out3 exp (- ENOMEM) h
          | Some e \<Rightarrow> export_out3 exp 0 (exp_put e h)))"

text \<open>The fields after the flags: the two anonymous ids, which are read and dropped, and the fsid.\<close>

definition export_parse_fsid :: "kernel \<Rightarrow> svc_export \<Rightarrow> u8 list \<Rightarrow> hist \<Rightarrow> int \<times> hist" where
  "export_parse_fsid K exp mesg h =
     (let (err, an_int, mesg) = get_int K mesg
      in if err \<noteq> 0 then export_out3 exp err h
         else let (err, an_int, mesg) = get_int K mesg
              in if err \<noteq> 0 then export_out3 exp err h
                 else let (err, an_int, mesg) = get_int K mesg
                      in if err \<noteq> 0 then export_out3 exp err h
                         else
                           let exp = exp\<lparr>ex_fsid := word_of_int an_int\<rparr>;
                               (ino, h) = inode_of K (p_dentry (ex_path exp)) h;
                               err = check_export (inode_at K h ino)
                           in if err \<noteq> 0 then export_out3 exp err h
                              else if expiry_time (ex_h exp) < seconds_since_boot K h then export_out3 exp err h
                              else export_install K exp h)"

definition export_parse_flags :: "kernel \<Rightarrow> svc_export \<Rightarrow> u8 list \<Rightarrow> hist \<Rightarrow> int \<times> hist" where
  "export_parse_flags K exp mesg h =
     (let (expiry, mesg) = get_expiry K h mesg;
          exp = exp\<lparr>ex_h := (ex_h exp)\<lparr>expiry_time := expiry\<rparr>\<rparr>
      in if expiry = 0 then export_out3 exp (- EINVAL) h
         else
           let (err, an_int, mesg) = get_int K mesg
           in if err = - ENOENT then
                export_install K (exp\<lparr>ex_h := (ex_h exp)\<lparr>cache_negative := True\<rparr>\<rparr>) h
              else if err \<noteq> 0 \<or> an_int < 0 then export_out3 exp err h
              else export_parse_fsid K (exp\<lparr>ex_flags := word_of_int an_int\<rparr>) mesg h)"

definition svc_export_parse :: "kernel \<Rightarrow> u8 list \<Rightarrow> hist \<Rightarrow> int \<times> hist" where
  "svc_export_parse K mesg h =
     (if mesg = [] then (- EINVAL, Fault OOPS # h)
      else if last mesg \<noteq> NEWLINE then (- EINVAL, h)
      else
        let mesg = butlast mesg;
            (buf_ok, h) = call_kmalloc K h
        in if \<not> buf_ok then (- ENOMEM, h)
           else
             let (len, buf, mesg) = qword_get K mesg PAGE_SIZE
             in if len \<le> 0 then (- EINVAL, Sys (Kfree True) # h)
                else
                  let (domp, h) = call_auth_domain_find K buf h
                  in (case domp of
                        None \<Rightarrow> (- ENOENT, Sys (Kfree True) # h)
                      | Some c \<Rightarrow>
                          let (len, buf, mesg) = qword_get K mesg PAGE_SIZE
                          in if len \<le> 0 then export_out1 c (- EINVAL) h
                             else
                               let (p, h) = call_kern_path K buf h
                               in (case p of
                                     Inl err \<Rightarrow> export_out1 c err h
                                   | Inr p \<Rightarrow>
                                       export_parse_flags K (zero_export\<lparr>ex_path := p, ex_client := c\<rparr>) mesg h)))"

section \<open>The handle of an export's root\<close>

text \<open>The fuel is that of the walk to the nearest export; \<open>None\<close> is running out of it.\<close>

definition exp_rootfh ::
  "kernel \<Rightarrow> nat \<Rightarrow> domain_p \<Rightarrow> u8 list \<Rightarrow> u32 \<Rightarrow> hist \<Rightarrow> (int \<times> knfsd_fh option \<times> hist) option" where
  "exp_rootfh K fuel clp name maxsize h =
     (let (p, h) = call_kern_path K name h
      in case p of
           Inl e \<Rightarrow> Some (- EPERM, None, h)
         | Inr path \<Rightarrow>
             let (ino, h) = inode_of K (p_dentry path) h
             in (case exp_parent K fuel (Some clp) path h of
                   None \<Rightarrow> None
                 | Some (exp, h) \<Rightarrow>
                     (case exp of
                        Inl err \<Rightarrow> Some (err, None, Ref (Path_put path) # h)
                      | Inr exp \<Rightarrow>
                          let fh = fh_init maxsize;
                              (e, fh, h) = fh_compose K fh exp (p_dentry path) Ref_null h;
                              err = (if e \<noteq> 0 then - EINVAL else 0);
                              f = fh_handle fh;
                              (fh, h) = fh_put K fh h;
                              h = exp_put exp h;
                              h = Ref (Path_put path) # h
                          in Some (err, Some f, h))))"

section \<open>What user space reads\<close>

text \<open>
  Names, paths and the writers of quoted words are parameters. A buffer is the text written so far
  and the room left, which the writers make negative when a word does not fit.
\<close>

record textlib =
  domain_name :: "domain_p \<Rightarrow> u8 list"
  qword_add :: "u8 list \<times> int \<Rightarrow> u8 list \<Rightarrow> u8 list \<times> int"
  qword_addhex :: "u8 list \<times> int \<Rightarrow> u8 list \<Rightarrow> u8 list \<times> int"
  d_path :: "path \<Rightarrow> int \<Rightarrow> int + u8 list"
  seq_path :: "path \<Rightarrow> u8 list \<Rightarrow> u8 list"
  seq_escape :: "u8 list \<Rightarrow> u8 list \<Rightarrow> u8 list"

definition ascii :: "string \<Rightarrow> u8 list" where
  "ascii s = map of_char s"

text \<open>The conversions \<open>%d\<close> and \<open>%08x\<close>.\<close>

fun dec_nat :: "nat \<Rightarrow> u8 list" where
  "dec_nat n = (if n < 10 then [of_nat (48 + n)] else dec_nat (n div 10) @ [of_nat (48 + n mod 10)])"

declare dec_nat.simps [simp del]

definition dec_int :: "int \<Rightarrow> u8 list" where
  "dec_int i = (if i < 0 then 45 # dec_nat (nat (- i)) else dec_nat (nat i))"

definition hex_digit :: "u32 \<Rightarrow> u8" where
  "hex_digit d = (if d < 10 then ucast d + 48 else ucast d + 87)"

definition hex8 :: "u32 \<Rightarrow> u8 list" where
  "hex8 w = map (\<lambda>i. hex_digit (drop_bit (4 * i) w AND 0xF)) [7, 6, 5, 4, 3, 2, 1, 0]"

text \<open>Replacing the last character written by a newline.\<close>

definition end_line :: "u8 list \<times> int \<Rightarrow> u8 list \<times> int" where
  "end_line b = (butlast (fst b) @ [NEWLINE], snd b)"

definition expkey_request :: "textlib \<Rightarrow> svc_expkey \<Rightarrow> u8 list \<times> int \<Rightarrow> u8 list \<times> int" where
  "expkey_request T ek b =
     (let b = qword_add T b (domain_name T (ek_client ek));
          type = take 4 (dec_int (ek_fsidtype ek));
          b = qword_add T b type;
          b = qword_addhex T b (fsid_bytes (ek_fsidtype ek) (ek_fsid ek))
      in end_line b)"

text \<open>When the path does not fit, the newline is written behind the text, which does not grow.\<close>

definition svc_export_request :: "textlib \<Rightarrow> svc_export \<Rightarrow> u8 list \<times> int \<Rightarrow> u8 list \<times> int" where
  "svc_export_request T exp b =
     (let b = qword_add T b (domain_name T (ex_client exp))
      in case d_path T (ex_path exp) (snd b) of
           Inl e \<Rightarrow> b
         | Inr pth \<Rightarrow> end_line (qword_add T b pth))"

definition expkey_show :: "textlib \<Rightarrow> svc_expkey option \<Rightarrow> u8 list" where
  "expkey_show T h =
     (case h of
        None \<Rightarrow> ascii ''#domain fsidtype fsid [path]'' @ [NEWLINE]
      | Some ek \<Rightarrow>
          domain_name T (ek_client ek) @ ascii '' '' @ dec_int (ek_fsidtype ek) @ ascii '' 0x'' @
          concat (map (\<lambda>i. hex8 (ek_fsid ek ! i)) [0..<key_len (ek_fsidtype ek) div 4]) @
          (if cache_valid (ek_h ek) \<and> \<not> cache_negative (ek_h ek)
           then ascii '' '' @ seq_path T (ek_path ek) [92, 32, 9, 10] else []) @
          [NEWLINE])"

text \<open>The flags the kernel's export header knows.\<close>

abbreviation (input) NFSEXP_ALLFLAGS :: u32 where "NFSEXP_ALLFLAGS \<equiv> 0x3FEFF"

definition exp_flags :: "u32 \<Rightarrow> u32 \<Rightarrow> u8 list" where
  "exp_flags flag fsid = ascii (show_expflags flag NFSEXP_ALLFLAGS)"

definition svc_export_show :: "textlib \<Rightarrow> svc_export option \<Rightarrow> u8 list" where
  "svc_export_show T h =
     (case h of
        None \<Rightarrow> ascii ''#path domain(flags)'' @ [NEWLINE]
      | Some exp \<Rightarrow>
          seq_path T (ex_path exp) [32, 9, 10, 92] @ [9] @
          seq_escape T (domain_name T (ex_client exp)) [32, 9, 10, 92] @ ascii ''('' @
          (if cache_valid (ex_h exp) \<and> \<not> cache_negative (ex_h exp)
           then exp_flags (ex_flags exp) (ex_fsid exp) else []) @
          ascii '')'' @ [NEWLINE])"

text \<open>The text form of a handle (\<open>nfsfh.c\<close>): its size and its first six words.\<close>

definition SVCFH_fmt :: "svc_fh \<Rightarrow> u8 list" where
  "SVCFH_fmt fhp =
     (let fh = fh_handle fhp;
          pad = words_of_bytes (take 24 (fh_base_bytes fh))
      in dec_int (sint (fh_size fh)) @ ascii '':'' @ concat (map (\<lambda>i. ascii '' '' @ hex8 (pad ! i)) [0..<6]))"

end
