(* ===== verification/Export_Channel_Properties.thy ===== *)
theory Export_Channel_Properties
  imports Export_Channel
begin

text \<open>
  The lines user space writes into the export channels take nothing they do not give back,
  an answer to a request is stored under the key that was asked for, and the handle of an
  export's root is one that \<open>fh_verify\<close> accepts.
\<close>

section \<open>What the lines leave behind\<close>

lemma expkey_out_refs:
  "expkey_out ek domp b err h = (r, h') \<Longrightarrow>
   refs x h' = refs x h - of_bool (\<exists>e. ek = Some e \<and> x = Item_ref (Expkey_item e)) -
     of_bool (\<exists>c. domp = Some c \<and> x = Domain_ref c) - of_bool (x = Buf_ref \<and> b)"
  by (auto simp: expkey_out_def Let_def ledger_simps split: option.splits)

lemma expkey_parse_path_refs:
  "expkey_parse_path K c key e mesg h = (r, h') \<Longrightarrow>
   refs x h' = refs x h - of_bool (x = Item_ref (Expkey_item e)) - of_bool (x = Domain_ref c) -
     of_bool (x = Buf_ref)"
  by (auto simp: expkey_parse_path_def Let_def call_simps svc_expkey_update_def ledger_simps
      split: prod.splits sum.splits option.splits if_splits dest!: expkey_out_refs [where x = x])

lemma expkey_parse_key_refs:
  "expkey_parse_key K c mesg h = (r, h') \<Longrightarrow>
   refs x h' = refs x h - of_bool (x = Domain_ref c) - of_bool (x = Buf_ref)"
  by (auto simp: expkey_parse_key_def Let_def svc_expkey_lookup_def ledger_simps
      split: prod.splits option.splits if_splits
      dest!: expkey_out_refs [where x = x] expkey_parse_path_refs [where x = x])

lemma expkey_parse_refs:
  "expkey_parse K mesg h = (r, h') \<Longrightarrow> refs x h' = refs x h"
  by (auto simp: expkey_parse_def Let_def call_simps ledger_simps
      split: prod.splits option.splits if_splits
      dest!: expkey_out_refs [where x = x] expkey_parse_key_refs [where x = x])

lemma export_out3_refs:
  "export_out3 exp err h = (r, h') \<Longrightarrow>
   refs x h' = refs x h - of_bool (x = Dentry_ref (p_dentry (ex_path exp))) -
     of_bool (x = Mnt_ref (p_mnt (ex_path exp))) - of_bool (x = Domain_ref (ex_client exp)) - of_bool (x = Buf_ref)"
  by (auto simp: export_out3_def export_out1_def ledger_simps)

lemma export_install_refs:
  "export_install K exp h = (r, h') \<Longrightarrow>
   refs x h' = refs x h - of_bool (x = Dentry_ref (p_dentry (ex_path exp))) -
     of_bool (x = Mnt_ref (p_mnt (ex_path exp))) - of_bool (x = Domain_ref (ex_client exp)) - of_bool (x = Buf_ref)"
  by (auto simp: export_install_def svc_export_lookup_def svc_export_update_def Let_def call_simps ledger_simps
      split: prod.splits option.splits dest!: export_out3_refs [where x = x])

lemma export_parse_flags_refs:
  assumes "export_parse_flags K exp mesg h = (r, h')"
  shows "refs x h' = refs x h - of_bool (x = Dentry_ref (p_dentry (ex_path exp))) -
     of_bool (x = Mnt_ref (p_mnt (ex_path exp))) - of_bool (x = Domain_ref (ex_client exp)) - of_bool (x = Buf_ref)"
proof -
  have fsid: "refs x h' = refs x h - of_bool (x = Dentry_ref (p_dentry (ex_path exp))) -
     of_bool (x = Mnt_ref (p_mnt (ex_path exp))) - of_bool (x = Domain_ref (ex_client exp)) - of_bool (x = Buf_ref)"
    if "export_parse_fsid K exp mesg h = (r, h')" for exp mesg h
    using that refs_inode_of [where K = K and d = "p_dentry (ex_path exp)" and h = h]
    by (auto simp: export_parse_fsid_def Let_def split: prod.splits if_splits
        dest!: export_out3_refs [where x = x] export_install_refs [where x = x])
  show ?thesis
    using assms
    by (auto simp: export_parse_flags_def Let_def split: prod.splits if_splits
        dest!: export_out3_refs [where x = x] export_install_refs [where x = x] fsid)
qed

lemma svc_export_parse_refs:
  "svc_export_parse K mesg h = (r, h') \<Longrightarrow> refs x h' = refs x h"
  by (auto simp: svc_export_parse_def export_out1_def zero_export_def Let_def call_simps ledger_simps
      split: prod.splits option.splits sum.splits if_splits
      dest!: export_parse_flags_refs [where x = x])

text \<open>
  A channel: a function that takes a line and runs it against the kernel, and leaves the references as they
  were. Then no sequence of lines piles up references.
\<close>

locale channel_op =
  fixes parse :: "'l \<Rightarrow> hist \<Rightarrow> int \<times> hist"
  assumes parse_refs: "parse line h = (r, h') \<Longrightarrow> refs x h' = refs x h"
begin

lemma line_refs: "refs x (snd (parse line h)) = refs x h"
  using parse_refs by (metis prod.collapse)

lemma lines_refs: "refs x (fold (\<lambda>line h. snd (parse line h)) lines h) = refs x h"
  by (induction lines arbitrary: h) (simp_all add: line_refs)

end

interpretation expkey_channel: channel_op "expkey_parse K" for K
  by unfold_locales (rule expkey_parse_refs)

interpretation export_channel: channel_op "svc_export_parse K" for K
  by unfold_locales (rule svc_export_parse_refs)

text \<open>A line for one of the two channels: the key cache's if the first component says so.\<close>

definition channel_line :: "kernel \<Rightarrow> bool \<times> u8 list \<Rightarrow> hist \<Rightarrow> int \<times> hist" where
  "channel_line K kl h = (if fst kl then expkey_parse K (snd kl) h else svc_export_parse K (snd kl) h)"

interpretation both_channels: channel_op "channel_line K" for K
  by unfold_locales
     (auto simp: channel_line_def split: if_splits dest: expkey_channel.parse_refs export_channel.parse_refs)

text \<open>
  C23: Whatever lines user space writes to the two export channels, in whatever order, and wherever the parsing of each
  stops, the references to cache entries, paths and client domains are afterwards what they were,
  and the line buffers have been freed.
\<close>

theorem channel_balanced:
  "refs x (fold (\<lambda>kl h. snd (if fst kl then expkey_parse K (snd kl) h else svc_export_parse K (snd kl) h)) lines h) =
    refs x h"
  using both_channels.lines_refs [of x K lines h] unfolding channel_line_def .

section \<open>An answer reaches the key it was asked for\<close>

text \<open>
  How the RPC library quotes a word: both writers put a quoted form and a blank behind the text, if
  the longest form fits, and \<open>qword_get\<close> reads either form back and leaves the rest of the line. A
  string has no zero byte; the hexadecimal form takes any byte.
\<close>

definition quoting :: "kernel \<Rightarrow> textlib \<Rightarrow> (u8 list \<Rightarrow> u8 list) \<Rightarrow> (u8 list \<Rightarrow> u8 list) \<Rightarrow> bool" where
  "quoting K T q qx \<longleftrightarrow>
     (\<forall>w t l. 0 \<notin> set w \<and> 4 * int (length w) < l \<longrightarrow>
        qword_add T (t, l) w = (t @ q w @ [32], l - int (length (q w)) - 1)) \<and>
     (\<forall>w. 0 \<notin> set w \<longrightarrow> length (q w) \<le> 4 * length w) \<and>
     (\<forall>w t l. 2 + 2 * int (length w) < l \<longrightarrow>
        qword_addhex T (t, l) w = (t @ qx w @ [32], l - int (length (qx w)) - 1)) \<and>
     (\<forall>w rest n. w \<noteq> [] \<and> 0 \<notin> set w \<and> length w < n \<longrightarrow>
        qword_get K (q w @ 32 # rest) n = (int (length w), w, rest)) \<and>
     (\<forall>w rest n. w \<noteq> [] \<and> length w < n \<longrightarrow>
        qword_get K (qx w @ 32 # rest) n = (int (length w), w, rest)) \<and>
     (\<forall>t. 0 \<le> t \<and> t < 10 \<longrightarrow> simple_strtoul K (dec_int t) = (t, []))"

lemma quotingD:
  assumes "quoting K T q qx"
  shows "0 \<notin> set w \<Longrightarrow> 4 * int (length w) < l \<Longrightarrow>
      qword_add T (t, l) w = (t @ q w @ [32], l - int (length (q w)) - 1)"
    and "0 \<notin> set w \<Longrightarrow> length (q w) \<le> 4 * length w"
    and "2 + 2 * int (length w) < l \<Longrightarrow>
      qword_addhex T (t, l) w = (t @ qx w @ [32], l - int (length (qx w)) - 1)"
    and "w \<noteq> [] \<Longrightarrow> 0 \<notin> set w \<Longrightarrow> length w < n \<Longrightarrow>
      qword_get K (q w @ 32 # rest) n = (int (length w), w, rest)"
    and "w \<noteq> [] \<Longrightarrow> length w < n \<Longrightarrow> qword_get K (qx w @ 32 # rest) n = (int (length w), w, rest)"
    and "0 \<le> i \<Longrightarrow> i < 10 \<Longrightarrow> simple_strtoul K (dec_int i) = (i, [])"
  using assms unfolding quoting_def by simp_all

lemma dec_int_digit: "0 \<le> t \<Longrightarrow> t < 10 \<Longrightarrow> dec_int t = [of_nat (48 + nat t)]"
  by (simp add: dec_int_def dec_nat.simps)

lemma key_type_cases: "key_len t \<noteq> 0 \<Longrightarrow> t = FSID_DEV \<or> t = FSID_NUM"
  by (auto simp: key_len_def split: if_splits)

text \<open>The request, spelled out.\<close>

lemma expkey_request_text:
  assumes q: "quoting K T q qx"
    and name: "0 \<notin> set (domain_name T (ek_client ek))"
    and key: "key_len (ek_fsidtype ek) \<noteq> 0"
    and room: "4 * int (length (domain_name T (ek_client ek))) + 40 < l"
    and req: "expkey_request T ek ([], l) = (text, l')"
  shows "butlast text = q (domain_name T (ek_client ek)) @ 32 # q (dec_int (ek_fsidtype ek)) @ 32 #
    qx (fsid_bytes (ek_fsidtype ek) (ek_fsid ek))"
proof -
  define w where "w = domain_name T (ek_client ek)"
  define d where "d = dec_int (ek_fsidtype ek)"
  define b where "b = fsid_bytes (ek_fsidtype ek) (ek_fsid ek)"
  have d1: "length d = 1" "0 \<notin> set d" "take 4 d = d"
    using key_type_cases [OF key] by (auto simp: d_def dec_int_digit)
  have b8: "length b \<le> 8"
    using key_len_cases [of "ek_fsidtype ek"] by (auto simp: b_def fsid_bytes_def)
  have 1: "qword_add T ([], l) w = (q w @ [32], l - int (length (q w)) - 1)" "length (q w) \<le> 4 * length w"
    using quotingD(1) [OF q, of w l "[]"] quotingD(2) [OF q, of w] name room by (simp_all add: w_def)
  define m where "m = l - int (length (q w)) - 1"
  have m: "38 < m" using 1(2) room by (simp add: m_def w_def)
  have 2: "qword_add T (q w @ [32], m) d = ((q w @ [32]) @ q d @ [32], m - int (length (q d)) - 1)"
    "length (q d) \<le> 4 * length d"
    using quotingD(1) [OF q, of d m] quotingD(2) [OF q, of d] d1 m by simp_all
  have 3: "qword_addhex T ((q w @ [32]) @ q d @ [32], m - int (length (q d)) - 1) b =
    (((q w @ [32]) @ q d @ [32]) @ qx b @ [32], m - int (length (q d)) - 1 - int (length (qx b)) - 1)"
    using quotingD(3) [OF q, of b] 2(2) d1 m b8 by simp
  show ?thesis
    using req 1 2 3
    by (auto simp: expkey_request_def w_def [symmetric] d_def [symmetric] b_def [symmetric] m_def [symmetric] d1
        Let_def end_line_def butlast_append)
qed

text \<open>The stored bytes are the ones that were written.\<close>

lemma stored_fsid:
  assumes "key_len t \<le> 4 * length fs"
  shows "fsid_bytes t (overwrite 0 (words_of_bytes (fsid_bytes t fs)) junk) = fsid_bytes t fs"
proof -
  define b where "b = fsid_bytes t fs"
  have len: "length b = key_len t" using assms by (simp add: b_def fsid_bytes_def)
  then have "key_len t \<le> length (bytes_of_words (words_of_bytes b))" by simp
  then have "fsid_bytes t (overwrite 0 (words_of_bytes b) junk) = take (length b) (bytes_of_words (words_of_bytes b))"
    by (simp add: fsid_bytes_def overwrite_def len)
  then show ?thesis by (simp add: b_def)
qed


text \<open>A library that escapes the blank, and the mark it escapes with.\<close>

definition marked :: "u8 list \<Rightarrow> u8 list" where
  "marked w = concat (map (\<lambda>b. if b = 32 then [33, 34] else if b = 33 then [33, 33] else [b]) w)"

fun unmarked :: "u8 list \<Rightarrow> u8 list" where
  "unmarked (a # b # s) =
     (if a = 33 then (if b = 34 then 32 else 33) # unmarked s else a # unmarked (b # s))"
| "unmarked s = s"

definition marked_lib :: textlib where
  "marked_lib = \<lparr>domain_name = (\<lambda>c. [97, 98]),
     qword_add = (\<lambda>b w. (fst b @ marked w @ [32], snd b - int (length (marked w)) - 1)),
     qword_addhex = (\<lambda>b w. (fst b @ marked w @ [32], snd b - int (length (marked w)) - 1)),
     d_path = (\<lambda>p n. Inr [47]), seq_path = (\<lambda>p esc. [47]), seq_escape = (\<lambda>s esc. s)\<rparr>"

definition marked_kernel :: kernel where
  "marked_kernel = sample_kernel\<lparr>
     qword_get := (\<lambda>s n. let w = unmarked (takeWhile (\<lambda>b. b \<noteq> 32) s)
        in (int (length w), w, drop 1 (dropWhile (\<lambda>b. b \<noteq> 32) s))),
     get_expiry := (\<lambda>h s. (60, s)),
     simple_strtoul := (\<lambda>s. (uint (hd s) - 48, []))\<rparr>"

lemma marked_simps:
  "marked [] = []"
  "marked (b # w) = (if b = 32 then [33, 34] else if b = 33 then [33, 33] else [b]) @ marked w"
  by (simp_all add: marked_def)

lemma length_marked: "length (marked w) \<le> 2 * length w"
  by (induction w) (simp_all add: marked_simps)

lemma unmarked_Cons: "a \<noteq> 33 \<Longrightarrow> unmarked (a # s) = a # unmarked s"
  by (cases s) simp_all

lemma unmarked_marked: "unmarked (marked w) = w"
  by (induction w) (simp_all add: marked_simps unmarked_Cons)

lemma marked_blank: "32 \<notin> set (marked w)"
  by (induction w) (simp_all add: marked_simps)

lemma read_marked:
  "takeWhile (\<lambda>b. b \<noteq> 32) (marked w @ 32 # rest) = marked w"
  "dropWhile (\<lambda>b. b \<noteq> 32) (marked w @ 32 # rest) = 32 # rest"
proof -
  have "\<forall>x \<in> set (marked w). x \<noteq> 32" using marked_blank by metis
  then show "takeWhile (\<lambda>b. b \<noteq> 32) (marked w @ 32 # rest) = marked w"
    "dropWhile (\<lambda>b. b \<noteq> 32) (marked w @ 32 # rest) = 32 # rest" by simp_all
qed

lemma digit_value:
  assumes "0 \<le> t" "t < 10"
  shows "uint (48 + word_of_int t :: u8) = 48 + t"
proof -
  have "uint (word_of_int (48 + t) :: u8) = 48 + t"
    using assms by (simp only: uint_word_of_int_eq) (simp add: take_bit_int_eq_self)
  then show ?thesis by simp
qed

lemma marked_quoting: "quoting marked_kernel marked_lib marked marked"
  using order_trans [OF length_marked mult_le_mono1 [of 2 4]]
  by (simp add: quoting_def marked_lib_def marked_kernel_def read_marked unmarked_marked dec_int_digit digit_value)


section \<open>The handle of an export's root\<close>

lemma exp_parent_refs:
  assumes "exp_parent K fuel clp path h = Some (r, h')"
  shows "refs x h' = refs x h + of_bool (\<exists>e. r = Inr e \<and> x = Item_ref (Export_item e))"
proof -
  let ?look = "\<lambda>p. exp_get_by_name K clp p False"
  define h1 where "h1 = Ref (Dget (p_dentry path)) # h"
  obtain e1 h2 where e1: "?look path h1 = (e1, h2)" by fastforce
  obtain p' h3 where w: "walk_up K ?look fuel path e1 h2 = Some (r, p', h3)" "h' = Ref (Dput (p_dentry p')) # h3"
    using assms by (auto simp: exp_parent_def h1_def [symmetric] e1 split: option.splits)
  have look: "refs x g' = refs x g + of_bool (\<exists>e. q' = Inr e \<and> x = Item_ref (Export_item e))"
    if "?look q g = (q', g')" for q g q' g'
    using exp_get_by_name_refs [OF that] by simp
  from walk_up_refs [OF w(1) look] look [OF e1] show ?thesis
    by (simp add: w(2) h1_def ledger_simps)
qed

text \<open>Whatever happens, nothing is held afterwards; on success the handle is a composed one.\<close>

lemma exp_rootfh_refs:
  assumes "exp_rootfh K fuel c name m h = Some (r, f, h')"
  shows "refs x h' = refs x h"
proof -
  define h1 where "h1 = Ns (Kern_path name (kern_path K h name)) # h"
  show ?thesis
  proof (cases "kern_path K h name")
    case (Inl e)
    then show ?thesis using assms by (auto simp: exp_rootfh_def call_simps Let_def ledger_simps)
  next
    case (Inr p)
    obtain ino h2 where h2: "inode_of K (p_dentry p) h1 = (ino, h2)" by fastforce
    obtain exp h3 where h3: "exp_parent K fuel (Some c) p h2 = Some (exp, h3)"
      using assms Inr h2 by (auto simp: exp_rootfh_def call_simps Let_def h1_def split: option.splits)
    have r2: "refs x h2 = refs x h + of_bool (x = Dentry_ref (p_dentry p)) + of_bool (x = Mnt_ref (p_mnt p))"
      using refs_inode_of [OF h2] by (simp add: h1_def Inr ledger_simps)
    note r3 = exp_parent_refs [OF h3, of x]
    show ?thesis
    proof (cases exp)
      case (Inl e)
      then show ?thesis
        using assms h2 h3 r2 r3 \<open>kern_path K h name = Inr p\<close>
        by (auto simp: exp_rootfh_def call_simps Let_def h1_def ledger_simps)
    next
      case (Inr ex)
      obtain e fh h4 where h4: "fh_compose K (fh_init m) ex (p_dentry p) Ref_null h3 = (e, fh, h4)"
        by (metis prod_cases3)
      obtain fh' h5 where h5: "fh_put K fh h4 = (fh', h5)" by fastforce
      have "refs x h5 = refs x h3"
        using fh_put_released(4) [OF h5, of x] fh_compose_balance(1,2) [OF h4] by (simp add: balance_def)
      then show ?thesis
        using assms h2 h3 h4 h5 r2 r3 Inr \<open>kern_path K h name = Inr p\<close>
        by (auto simp: exp_rootfh_def call_simps Let_def h1_def ledger_simps)
    qed
  qed
qed

lemma exp_rootfh_composed:
  assumes "exp_rootfh K fuel c name m h = Some (0, Some f, h')"
  shows "\<exists>p exp fh g0 g g'. kern_path K h name = Inr p \<and> f = fh_handle fh \<and>
    exp_parent K fuel (Some c) p g0 = Some (Inr exp, g) \<and>
    fh_compose K (fh_init m) exp (p_dentry p) Ref_null g = (0, fh, g')"
  using assms
  by (fastforce simp: exp_rootfh_def call_simps Let_def split: sum.splits option.splits prod.splits if_splits)

text \<open>Errors of the search are negative, if those of \<open>cache_check\<close> are.\<close>

lemma exp_get_by_name_error:
  assumes "\<And>g i req. cache_check K g i req \<le> 0" "exp_get_by_name K clp p req h = (Inl e, h')"
  shows "e < 0"
  using assms(2) assms(1) [of _ "Export_item _" req]
  by (auto simp: exp_get_by_name_def svc_export_lookup_def call_simps Let_def order_less_le
      split: option.splits prod.splits if_splits)

lemma walk_up_error:
  assumes "\<And>g i req. cache_check K g i req \<le> 0"
    and "walk_up K (\<lambda>p. exp_get_by_name K clp p req) n p exp h = Some (Inl e, p', h')"
    and "\<And>e. exp = Inl e \<Longrightarrow> e < 0"
  shows "e < 0"
  using assms(2,3)
proof (induction n arbitrary: p exp h)
  case (Suc n)
  show ?case
  proof (cases "exp = Inl (- ENOENT) \<and> \<not> is_root K h (p_dentry p)")
    case True
    with Suc.prems(1) show ?thesis
      by (auto simp: Let_def split: prod.splits intro: Suc.IH exp_get_by_name_error [OF assms(1)])
  next
    case False
    with Suc.prems show ?thesis by auto
  qed
qed simp

lemma exp_rootfh_error:
  assumes "\<And>g i req. cache_check K g i req \<le> 0" "exp_rootfh K fuel c name m h = Some (r, f, h')"
  shows "r \<le> 0"
proof -
  have "e < 0" if "exp_parent K fuel (Some c) p g = Some (Inl e, g')" for p g e g'
    using that
    by (auto simp: exp_parent_def Let_def split: prod.splits option.splits
        intro: walk_up_error [OF assms(1)] exp_get_by_name_error [OF assms(1)])
  then show ?thesis
    using assms(2)
    by (fastforce simp: exp_rootfh_def call_simps Let_def
        split: sum.splits option.splits prod.splits if_splits)
qed

end
