(* ===== verification/Control.thy ===== *)
theory Control
  imports Export_Channel Nfssvc
begin

text \<open>
  The control files and the module's entry points (\<open>bmw_main.c\<close>, and the set-up of the export
  caches in \<open>export.c\<close>): what a write to \<open>filehandle\<close> and \<open>threads\<close> does, the transaction
  around it, and loading and unloading with the unwinding of each partial failure.
\<close>

section \<open>The control files\<close>

abbreviation (input) NFSD_Root :: nat where "NFSD_Root \<equiv> 1"
abbreviation (input) NFSD_Fh :: nat where "NFSD_Fh \<equiv> 2"
abbreviation (input) NFSD_Threads :: nat where "NFSD_Threads \<equiv> 3"

abbreviation (input) NFS_FHSIZE :: int where "NFS_FHSIZE \<equiv> 32"

text \<open>
  The transaction helpers of the kernel's \<open>libfs\<close>: the copy of the written data, unless it fails, and
  what a read returns of the response. \<open>SIMPLE_TRANSACTION_LIMIT\<close> is the room a page has for it.
\<close>

record txlib =
  transaction_limit :: int
  simple_transaction_get :: "u8 list option \<Rightarrow> u8 list \<Rightarrow> int + u8 list"
  simple_transaction_read :: "u8 list \<Rightarrow> nat \<Rightarrow> nat \<Rightarrow> int + u8 list"

text \<open>
  A command's outcome is the return value, the text left in the buffer, and the state it was run on.
  \<open>write_filehandle\<close> runs on the kernel history. The words are read in place, each from where
  the one before ended, and never grow, so the buffer is read as the rest of the line.
\<close>

definition write_filehandle ::
  "kernel \<Rightarrow> textlib \<Rightarrow> txlib \<Rightarrow> nat \<Rightarrow> u8 list \<Rightarrow> hist \<Rightarrow> (int \<times> u8 list \<times> hist) option" where
  "write_filehandle K T X fuel buf h =
     (let size = length buf
      in if size = 0 then Some (- EINVAL, buf, h)
         else if last buf \<noteq> NEWLINE then Some (- EINVAL, buf, h)
         else
           let mesg = butlast buf;
               (len, dname, mesg) = qword_get K mesg size
           in if len \<le> 0 then Some (- EINVAL, buf, h)
              else
                let (len, path, mesg) = qword_get K mesg size
                in if len \<le> 0 then Some (- EINVAL, buf, h)
                   else
                     let (len, maxsize, mesg) = get_int K mesg
                     in if len \<noteq> 0 then Some (len, buf, h)
                        else if maxsize < NFS_FHSIZE then Some (- EINVAL, buf, h)
                        else
                          let maxsize = min maxsize (uint (NFS3_FHSIZE :: u32));
                              (len, _, mesg) = qword_get K mesg size
                          in if len > 0 then Some (- EINVAL, buf, h)
                             else
                               let (clp, h) = call_unix_domain_find K dname h
                               in (case clp of
                                     None \<Rightarrow> Some (- ENOMEM, buf, h)
                                   | Some c \<Rightarrow>
                                       (case exp_rootfh K fuel c path (word_of_int maxsize) h of
                                          None \<Rightarrow> None
                                        | Some (len, f, h) \<Rightarrow>
                                            let h = Ref (Domain_put c) # h
                                            in if len \<noteq> 0 then Some (len, buf, h)
                                               else (case f of
                                                 None \<Rightarrow> Some (len, buf, h)
                                               | Some fh \<Rightarrow>
                                                   let b = qword_addhex T ([], transaction_limit X)
                                                             (take (unat (fh_size fh)) (fh_base_bytes fh));
                                                       text = fst (end_line b)
                                                   in Some (int (length text), text, h)))))"

text \<open>
  \<open>write_threads\<close> runs on the state of the service. \<open>scnprintf\<close> writes what fits before the
  terminating zero.
\<close>

definition threads_report :: "txlib \<Rightarrow> int \<Rightarrow> u8 list" where
  "threads_report X rv = take (nat (transaction_limit X - 1)) (dec_int rv @ [NEWLINE])"

definition write_threads :: "kernel \<Rightarrow> rpclib \<Rightarrow> txlib \<Rightarrow> u8 list \<Rightarrow> nfsd_state \<Rightarrow> int \<times> u8 list \<times> nfsd_state" where
  "write_threads K R X buf st =
     (if 0 < length buf then
        let (rv, newthreads, mesg) = get_int K buf
        in if rv \<noteq> 0 then (rv, buf, st)
           else if newthreads < 0 then (- EINVAL, buf, st)
           else
             let (rv, st) = nfsd_svc R newthreads st
             in if rv < 0 then (rv, buf, st)
                else (int (length (threads_report X rv)), threads_report X rv, st)
      else (int (length (threads_report X 1)), threads_report X 1, st))"

text \<open>
  The state of an open control file is its response, if it has been written. The table \<open>write_op\<close>
  has four slots, of which the first two are empty.
\<close>

record ctl_state =
  ctl_hist :: hist
  ctl_service :: nfsd_state
  private_data :: "u8 list option"

definition write_op ::
  "kernel \<Rightarrow> textlib \<Rightarrow> rpclib \<Rightarrow> txlib \<Rightarrow> nat \<Rightarrow> nat \<Rightarrow> (u8 list \<Rightarrow> ctl_state \<Rightarrow> (int \<times> u8 list \<times> ctl_state) option) option" where
  "write_op K T R X fuel ino =
     (if ino = NFSD_Fh then Some (\<lambda>buf cs.
        map_option (\<lambda>(rv, buf, h). (rv, buf, cs\<lparr>ctl_hist := h\<rparr>)) (write_filehandle K T X fuel buf (ctl_hist cs)))
      else if ino = NFSD_Threads then Some (\<lambda>buf cs.
        let (rv, buf, st) = write_threads K R X buf (ctl_service cs) in Some (rv, buf, cs\<lparr>ctl_service := st\<rparr>))
      else None)"

definition nfsctl_transaction_write ::
  "kernel \<Rightarrow> textlib \<Rightarrow> rpclib \<Rightarrow> txlib \<Rightarrow> nat \<Rightarrow> nat \<Rightarrow> u8 list \<Rightarrow> ctl_state \<Rightarrow> (int \<times> ctl_state) option" where
  "nfsctl_transaction_write K T R X fuel ino buf cs =
     (case write_op K T R X fuel ino of
        None \<Rightarrow> Some (- EINVAL, cs)
      | Some wop \<Rightarrow>
          (case simple_transaction_get X (private_data cs) buf of
             Inl e \<Rightarrow> Some (e, cs)
           | Inr data \<Rightarrow>
               let cs = cs\<lparr>private_data := Some []\<rparr>
               in (case wop data cs of
                     None \<Rightarrow> None
                   | Some (rv, data, cs) \<Rightarrow>
                       if rv \<ge> 0 then Some (int (length buf), cs\<lparr>private_data := Some (take (nat rv) data)\<rparr>)
                       else Some (rv, cs))))"

definition nfsctl_transaction_read ::
  "kernel \<Rightarrow> textlib \<Rightarrow> rpclib \<Rightarrow> txlib \<Rightarrow> nat \<Rightarrow> nat \<Rightarrow> nat \<Rightarrow> nat \<Rightarrow> ctl_state \<Rightarrow> ((int + u8 list) \<times> ctl_state) option" where
  "nfsctl_transaction_read K T R X fuel ino count pos cs =
     (case (if private_data cs = None then nfsctl_transaction_write K T R X fuel ino [] cs else Some (0, cs)) of
        None \<Rightarrow> None
      | Some (rv, cs) \<Rightarrow>
          if rv < 0 then Some (Inl rv, cs)
          else (case private_data cs of
                  None \<Rightarrow> Some (Inr [], cs)
                | Some resp \<Rightarrow> Some (simple_transaction_read X resp count pos, cs)))"

section \<open>Loading and unloading\<close>

text \<open>
  What the module has set up, as calls, newest first. The answers of the kernel are a parameter.
\<close>

datatype cache_name = Export_cache | Expkey_cache

datatype setup_call =
    Cache_create_net cache_name int
  | Cache_register_net cache_name int
  | Cache_unregister_net cache_name
  | Cache_destroy_net cache_name
  | Cache_purge cache_name
  | Svcauth_unix_purge
  | Register_pernet_subsys int
  | Unregister_pernet_subsys
  | Register_cld_notifier int
  | Unregister_cld_notifier
  | Register_filesystem int
  | Unregister_filesystem

type_synonym setup_hist = "setup_call list"

record setuplib =
  cache_create_net :: "setup_hist \<Rightarrow> cache_name \<Rightarrow> int"
  cache_register_net :: "setup_hist \<Rightarrow> cache_name \<Rightarrow> int"
  pernet_register :: "setup_hist \<Rightarrow> int"
  register_cld_notifier :: "setup_hist \<Rightarrow> int"
  register_filesystem :: "setup_hist \<Rightarrow> int"

text \<open>Creating a cache returns 0 or the error in the pointer.\<close>

definition nfsd_export_init :: "setuplib \<Rightarrow> setup_hist \<Rightarrow> int \<times> setup_hist" where
  "nfsd_export_init S h =
     (let e = cache_create_net S h Export_cache;
          h = Cache_create_net Export_cache e # h
      in if e \<noteq> 0 then (e, h)
         else
           let rv = cache_register_net S h Export_cache;
               h = Cache_register_net Export_cache rv # h
           in if rv \<noteq> 0 then (rv, Cache_destroy_net Export_cache # h)
              else
                let e = cache_create_net S h Expkey_cache;
                    h = Cache_create_net Expkey_cache e # h
                in if e \<noteq> 0 then
                     (e, Cache_destroy_net Export_cache # Cache_unregister_net Export_cache # h)
                   else
                     let rv = cache_register_net S h Expkey_cache;
                         h = Cache_register_net Expkey_cache rv # h
                     in if rv \<noteq> 0 then
                          (rv, Cache_destroy_net Export_cache # Cache_unregister_net Export_cache #
                               Cache_destroy_net Expkey_cache # h)
                        else (0, h))"

definition nfsd_export_flush :: "setup_hist \<Rightarrow> setup_hist" where
  "nfsd_export_flush h = Cache_purge Export_cache # Cache_purge Expkey_cache # h"

definition nfsd_export_shutdown :: "setup_hist \<Rightarrow> setup_hist" where
  "nfsd_export_shutdown h =
     Svcauth_unix_purge # Cache_destroy_net Export_cache # Cache_destroy_net Expkey_cache #
     Cache_unregister_net Export_cache # Cache_unregister_net Expkey_cache # h"

text \<open>The namespace's part of the state, and its set-up.\<close>

definition nfsd_init_net :: "setuplib \<Rightarrow> nfsd_state \<Rightarrow> setup_hist \<Rightarrow> int \<times> nfsd_state \<times> setup_hist" where
  "nfsd_init_net S nn h =
     (let (retval, h) = nfsd_export_init S h
      in if retval \<noteq> 0 then (retval, nn, h) else (0, nn\<lparr>ntf_refcnt := 0\<rparr>, h))"

definition nfsd_exit_net :: "setup_hist \<Rightarrow> setup_hist" where
  "nfsd_exit_net h = nfsd_export_shutdown h"

text \<open>
  \<open>register_pernet_subsys\<close> calls \<open>nfsd_init_net\<close> for the one namespace there is and reports its
  error, or its own; \<open>unregister_pernet_subsys\<close> calls \<open>nfsd_exit_net\<close>.
\<close>

definition register_pernet_subsys :: "setuplib \<Rightarrow> nfsd_state \<Rightarrow> setup_hist \<Rightarrow> int \<times> nfsd_state \<times> setup_hist" where
  "register_pernet_subsys S nn h =
     (let e = pernet_register S h
      in if e < 0 then (e, nn, Register_pernet_subsys e # h)
         else
           let (retval, nn, h) = nfsd_init_net S nn h
           in (retval, nn, Register_pernet_subsys retval # h))"

definition unregister_pernet_subsys :: "setup_hist \<Rightarrow> setup_hist" where
  "unregister_pernet_subsys h = Unregister_pernet_subsys # nfsd_exit_net h"

definition init_nfsd :: "setuplib \<Rightarrow> nfsd_state \<Rightarrow> setup_hist \<Rightarrow> int \<times> nfsd_state \<times> setup_hist" where
  "init_nfsd S nn h =
     (let (retval, nn, h) = register_pernet_subsys S nn h
      in if retval < 0 then (retval, nn, h)
         else
           let retval = register_cld_notifier S h;
               h = Register_cld_notifier retval # h
           in if retval \<noteq> 0 then (retval, nn, unregister_pernet_subsys h)
              else
                let retval = register_filesystem S h;
                    h = Register_filesystem retval # h
                in if retval \<noteq> 0 then (retval, nn, unregister_pernet_subsys (Unregister_cld_notifier # h))
                   else (0, nn, h))"

definition exit_nfsd :: "setup_hist \<Rightarrow> setup_hist" where
  "exit_nfsd h = unregister_pernet_subsys (Unregister_cld_notifier # Unregister_filesystem # h)"

text \<open>The files of the control file system: inode number, name and mode.\<close>

definition nfsd_files :: "(nat \<times> string \<times> u16) list" where
  "nfsd_files = [(NFSD_Fh, ''filehandle'', 0x180), (NFSD_Threads, ''threads'', 0x180)]"

end
