(* ===== verification/Control_Properties.thy ===== *)
theory Control_Properties
  imports Control Export_Channel_Properties Nfssvc_Properties
begin

text \<open>
  What the control files hand out is what the components behind them do: a handle that
  \<open>fh_verify\<close> accepts, the number of threads the service was started with. Loading the
  module leaves nothing behind where it fails, and unloading takes down what loading set up.
\<close>

section \<open>The file \<open>filehandle\<close>\<close>

lemma write_filehandle_success:
  assumes "write_filehandle K T X fuel buf h = Some (rv, txt, h')" "0 < rv"
    and "qword_get K (butlast buf) (length buf) = (l1, dname, m1)"
    and "qword_get K m1 (length buf) = (l2, name, m2)" "get_int K m2 = (0, maxsize, m3)" "64 \<le> maxsize"
    and "\<And>g i req. cache_check K g i req \<le> 0"
  shows "\<exists>c f h1. unix_domain_find K h dname = Some c \<and>
    exp_rootfh K fuel c name NFS3_FHSIZE (Sys (Domain_find dname (Some c)) # h) = Some (0, Some f, h1) \<and>
    h' = Ref (Domain_put c) # h1 \<and> rv = int (length txt) \<and>
    txt = fst (end_line (qword_addhex T ([], transaction_limit X) (take (unat (fh_size f)) (fh_base_bytes f))))"
proof -
  have m: "min maxsize 64 = 64" using assms(6) by simp
  obtain l4 w4 m4 where q4: "qword_get K m3 (length buf) = (l4, w4, m4)" by (metis prod_cases3)
  obtain c where c: "unix_domain_find K h dname = Some c"
    using assms(1-6) q4 m by (cases "unix_domain_find K h dname") (auto simp: write_filehandle_def call_simps Let_def split: if_splits)
  show ?thesis
    using assms(1-6) q4 m c exp_rootfh_error [OF assms(7)]
    by (fastforce simp: write_filehandle_def call_simps Let_def split: if_splits option.splits prod.splits)
qed

text \<open>
  C12: A successful write to \<open>filehandle\<close> of a client, a path and a size of at least 64 puts the
  quoted form of a file handle into the buffer, followed by a newline, and returns its length; the
  handle is one that the client can use: \<open>fh_verify\<close> accepts it and finds the named
  file through the nearest export above it. No reference is left behind. It assumes what is assumed of the encoding of file identifiers, and that
  the quoted form fits the buffer.
\<close>

theorem filehandle_file:
  assumes "write_filehandle K T X fuel buf h = Some (rv, txt, h')" "0 < rv"
    and "qword_get K (butlast buf) (length buf) = (l1, dname, m1)"
    and "qword_get K m1 (length buf) = (l2, name, m2)" "get_int K m2 = (0, maxsize, m3)" "64 \<le> maxsize"
    and "\<And>g i req. cache_check K g i req \<le> 0"
    and "quoting K T q qx" "130 < transaction_limit X"
    and "encode_fh_ok K" "fh_codec_ok K" "\<And>g. prepare_creds K g \<noteq> None"
    and "\<forall>g p g'. kern_path K g name = Inr p \<longrightarrow> d_inode K g' (p_dentry p) \<noteq> None"
  shows "\<exists>f c p exp g g0 g1. unix_domain_find K h dname = Some c \<and> kern_path K g name = Inr p \<and>
    exp_parent K fuel (Some c) p g0 = Some (Inr exp, g1) \<and> rv = int (length txt) \<and>
    txt = qx (take (unat (fh_size f)) (fh_base_bytes f)) @ [10] \<and> (\<forall>x. refs x h' = refs x h) \<and>
    (\<forall>rqstp cl g. rq_client rqstp = Some cl \<and> exported K cl (take 2 (fh_fsid f)) exp \<longrightarrow>
      (\<exists>fhq g'. fh_verify K rqstp (wire_fh f) g = (0, fhq, g') \<and> fh_dentry fhq = Some (p_dentry p) \<and>
        fh_export fhq = Some exp))"
proof -
  obtain c f h1 where s: "unix_domain_find K h dname = Some c"
    "exp_rootfh K fuel c name NFS3_FHSIZE (Sys (Domain_find dname (Some c)) # h) = Some (0, Some f, h1)"
    "h' = Ref (Domain_put c) # h1" "rv = int (length txt)"
    "txt = fst (end_line (qword_addhex T ([], transaction_limit X) (take (unat (fh_size f)) (fh_base_bytes f))))"
    using write_filehandle_success [OF assms(1-7)] by blast
  define h0 where "h0 = Sys (Domain_find dname (Some c)) # h"
  obtain p exp fh g0 g g' where e: "kern_path K h0 name = Inr p" "f = fh_handle fh"
    "fh_compose K (fh_init NFS3_FHSIZE) exp (p_dentry p) Ref_null g = (0, fh, g')"
    "exp_parent K fuel (Some c) p g0 = Some (Inr exp, g)"
    using exp_rootfh_composed [OF s(2)] by (auto simp: h0_def)
  have pos: "d_inode K g (p_dentry p) \<noteq> None" for g using assms(13) e(1) by blast
  have "fh_size f \<le> NFS3_FHSIZE" using fh_compose_fits(1) [OF e(3) pos assms(10)] e(2) by simp
  then have "length (take (unat (fh_size f)) (fh_base_bytes f)) \<le> 64" by (simp add: word_le_nat_alt)
  then have "txt = qx (take (unat (fh_size f)) (fh_base_bytes f)) @ [10]"
    using s(5) quotingD(3) [OF assms(8), of "take (unat (fh_size f)) (fh_base_bytes f)" "transaction_limit X"] assms(9)
    by (simp add: end_line_def butlast_append)
  moreover have "refs x h' = refs x h" for x
    using exp_rootfh_refs [OF s(2), of x] by (simp add: s(3) ledger_simps)
  moreover have "\<exists>fhq g'. fh_verify K rqstp (wire_fh f) g = (0, fhq, g') \<and> fh_dentry fhq = Some (p_dentry p) \<and>
      fh_export fhq = Some exp" if "rq_client rqstp = Some cl" "exported K cl (take 2 (fh_fsid f)) exp" for rqstp cl g
    using fh_compose_verifies [OF e(3) pos assms(10,11) that(1) _ assms(12) refl, of g] that(2) by (auto simp: e(2))
  ultimately show ?thesis using e(1,4) s(1,4) by blast
qed

text \<open>A kernel that reads the words of a line up to the next blank.\<close>

definition line_kernel :: kernel where
  "line_kernel = marked_kernel\<lparr>get_int := (\<lambda>s. (0, 64, []))\<rparr>"

definition sample_tx :: txlib where
  "sample_tx = \<lparr>transaction_limit = 4080, simple_transaction_get = (\<lambda>p d. if p = None then Inr d else Inl (- 16)),
     simple_transaction_read = (\<lambda>r n pos. Inr (take n (drop pos r)))\<rparr>"

theorem filehandle_file_witness:
  "\<exists>rv txt h' f. write_filehandle line_kernel marked_lib sample_tx 2 [97, 32, 47, 32, 54, 52, 10] [] =
       Some (rv, txt, h') \<and> 0 < rv \<and> refs (Dentry_ref 1) h' = 0 \<and>
     (\<exists>fhq g'. fh_verify line_kernel sample_rqst (wire_fh f) [] = (0, fhq, g') \<and> fh_dentry fhq = Some 1)"
proof -
  let ?buf = "[97, 32, 47, 32, 54, 52, 10] :: u8 list"
  obtain rv line h' where w: "write_filehandle line_kernel marked_lib sample_tx 2 ?buf [] = Some (rv, line, h')" "0 < rv"
  proof -
    have "case write_filehandle line_kernel marked_lib sample_tx 2 ?buf [] of
        Some (rv, txt, h') \<Rightarrow> 0 < rv | None \<Rightarrow> False" by code_simp
    then show ?thesis using that by (auto split: option.splits prod.splits)
  qed
  have words: "qword_get line_kernel (butlast ?buf) (length ?buf) = (1, [97], [47, 32, 54, 52])"
    "qword_get line_kernel [47, 32, 54, 52] (length ?buf) = (1, [47], [54, 52])"
    "get_int line_kernel [54, 52] = (0, 64, [])"
    by (simp_all add: line_kernel_def marked_kernel_def)
  have K: "cache_check line_kernel g i req \<le> 0" "prepare_creds line_kernel g \<noteq> None"
    "kern_path line_kernel g n = Inr sample_path" for g i req n
    by (simp_all add: line_kernel_def marked_kernel_def sample_kernel_def)
  have pos: "\<forall>g p g'. kern_path line_kernel g [47] = Inr p \<longrightarrow> d_inode line_kernel g' (p_dentry p) \<noteq> None"
    by (auto simp: line_kernel_def marked_kernel_def sample_kernel_def sample_d_inode_def sample_path_def)
  have q: "quoting line_kernel marked_lib marked marked"
    using marked_quoting by (simp add: quoting_def line_kernel_def)
  have codec: "encode_fh_ok line_kernel" "fh_codec_ok line_kernel" "exported line_kernel 9 key 5" for key
    using sample_kernel_ok(2,3,4)
    by (auto simp: encode_fh_ok_def fh_codec_ok_def exported_def line_kernel_def marked_kernel_def)
  have "130 < transaction_limit sample_tx" by (simp add: sample_tx_def)
  from filehandle_file [OF w words order_refl K(1) q this codec(1,2) K(2) pos]
  obtain f c p exp g g0 g1 where f: "kern_path line_kernel g [47] = Inr p"
    "exp_parent line_kernel 2 (Some c) p g0 = Some (Inr exp, g1)" "\<forall>x. refs x h' = refs x []"
    "\<forall>rqstp cl g. rq_client rqstp = Some cl \<and> exported line_kernel cl (take 2 (fh_fsid f)) exp \<longrightarrow>
      (\<exists>fhq g'. fh_verify line_kernel rqstp (wire_fh f) g = (0, fhq, g') \<and> fh_dentry fhq = Some (p_dentry p) \<and>
        fh_export fhq = Some exp)"
    by blast
  have "exp = 5"
    using f(2) by (simp add: exp_parent_def exp_get_by_name_def svc_export_lookup_def call_simps Let_def
        numeral_2_eq_2 line_kernel_def marked_kernel_def sample_kernel_def)
  moreover have "p_dentry p = 1" using f(1) K(3) by (auto simp: sample_path_def)
  moreover have "rq_client sample_rqst = Some 9" by (simp add: sample_rqst_def)
  ultimately have "\<exists>fhq g'. fh_verify line_kernel sample_rqst (wire_fh f) [] = (0, fhq, g') \<and> fh_dentry fhq = Some 1"
    using f(4) codec(3) by metis
  then show ?thesis using w f(3) by auto
qed

section \<open>The file \<open>threads\<close>\<close>

text \<open>The transaction helpers take any line that fits, once per open file, and give back the response.\<close>

definition tx_ok :: "txlib \<Rightarrow> bool" where
  "tx_ok X \<longleftrightarrow> 16 < transaction_limit X \<and>
     (\<forall>d. int (length d) < transaction_limit X \<longrightarrow> simple_transaction_get X None d = Inr d) \<and>
     (\<forall>r n. length r \<le> n \<longrightarrow> simple_transaction_read X r n 0 = Inr r)"

lemma length_dec_nat: "n < 10 ^ k \<Longrightarrow> 0 < k \<Longrightarrow> length (dec_nat n) \<le> k"
proof (induction k arbitrary: n)
  case (Suc k)
  show ?case
  proof (cases "n < 10")
    case False
    have "n div 10 < 10 ^ k" using Suc.prems(1) by (simp add: less_mult_imp_div_less)
    moreover have "0 < k" using Suc.prems(1) False by (cases k) auto
    ultimately show ?thesis using Suc.IH [of "n div 10"] False by (subst dec_nat.simps) simp
  qed (simp add: dec_nat.simps)
qed simp

lemma threads_report_fits:
  assumes "tx_ok X" "0 \<le> n" "n \<le> NFSD_MAXSERVS"
  shows "threads_report X n = dec_int n @ [10]" "length (dec_int n) \<le> 4"
proof -
  show len: "length (dec_int n) \<le> 4" using assms(2,3) length_dec_nat [of "nat n" 4] by (simp add: dec_int_def)
  have "16 < transaction_limit X" using assms(1) by (simp add: tx_ok_def)
  with len have "length (dec_int n @ [10]) \<le> nat (transaction_limit X - 1)" by simp
  then show "threads_report X n = dec_int n @ [10]" unfolding threads_report_def by (rule take_all)
qed

lemma threads_read:
  assumes "tx_ok X" "private_data cs = None" "2 \<le> count"
  shows "nfsctl_transaction_read K T R X fuel NFSD_Threads count 0 cs =
    Some (Inr [49, 10], cs\<lparr>private_data := Some [49, 10]\<rparr>)"
  using assms(2,3) assms(1) [unfolded tx_ok_def] threads_report_fits(1) [OF assms(1), of 1]
  by (simp add: nfsctl_transaction_read_def nfsctl_transaction_write_def write_op_def write_threads_def
      dec_int_digit Let_def)

lemma threads_written:
  assumes tx: "tx_ok X" "private_data cs = None" "int (length buf) < transaction_limit X" "buf \<noteq> []"
    and int: "get_int K buf = (0, n, mesg)" "0 < n" "n \<le> NFSD_MAXSERVS"
    and svc: "nfsd_svc R n (ctl_service cs) = (n, st')"
  shows "nfsctl_transaction_write K T R X fuel NFSD_Threads buf cs =
    Some (int (length buf), cs\<lparr>ctl_service := st', private_data := Some (dec_int n @ [10])\<rparr>)"
  using tx(2-4) tx(1) [unfolded tx_ok_def] int svc threads_report_fits(1) [OF tx(1), of n]
  by (simp add: nfsctl_transaction_write_def write_op_def write_threads_def Let_def)



section \<open>Loading and unloading\<close>

text \<open>What is set up, counted over the calls.\<close>

datatype setup_item = Cache_made cache_name | Cache_listed cache_name | Pernet | Cld_notifier | Filesystem

definition setup_delta :: "setup_item \<Rightarrow> setup_call \<Rightarrow> int" where
  "setup_delta x c = (case c of
     Cache_create_net n e \<Rightarrow> of_bool (x = Cache_made n \<and> e = 0)
   | Cache_destroy_net n \<Rightarrow> - of_bool (x = Cache_made n)
   | Cache_register_net n e \<Rightarrow> of_bool (x = Cache_listed n \<and> e = 0)
   | Cache_unregister_net n \<Rightarrow> - of_bool (x = Cache_listed n)
   | Register_pernet_subsys e \<Rightarrow> of_bool (x = Pernet \<and> e = 0)
   | Unregister_pernet_subsys \<Rightarrow> - of_bool (x = Pernet)
   | Register_cld_notifier e \<Rightarrow> of_bool (x = Cld_notifier \<and> e = 0)
   | Unregister_cld_notifier \<Rightarrow> - of_bool (x = Cld_notifier)
   | Register_filesystem e \<Rightarrow> of_bool (x = Filesystem \<and> e = 0)
   | Unregister_filesystem \<Rightarrow> - of_bool (x = Filesystem)
   | _ \<Rightarrow> 0)"

definition set_up :: "setup_item \<Rightarrow> setup_hist \<Rightarrow> int" where
  "set_up x h = sum_list (map (setup_delta x) h)"

lemma set_up_simps [simp]: "set_up x [] = 0" "set_up x (c # h) = setup_delta x c + set_up x h"
  by (simp_all add: set_up_def)

text \<open>The kernel's set-up functions return 0 or a negative error.\<close>

definition setup_ok :: "setuplib \<Rightarrow> bool" where
  "setup_ok S \<longleftrightarrow> (\<forall>h n. cache_create_net S h n \<le> 0) \<and> (\<forall>h n. cache_register_net S h n \<le> 0)"

abbreviation (input) cache_item_of :: "setup_item \<Rightarrow> bool" where
  "cache_item_of x \<equiv> \<exists>n. x = Cache_made n \<or> x = Cache_listed n"

lemma nfsd_export_init_set_up:
  assumes "nfsd_export_init S h = (r, h')" "setup_ok S"
  shows "r \<le> 0 \<and> set_up x h' = set_up x h + of_bool (r = 0 \<and> cache_item_of x)"
proof -
  have all: "(\<exists>n. x = Cache_made n \<or> x = Cache_listed n) \<longleftrightarrow>
      x \<in> {Cache_made Export_cache, Cache_made Expkey_cache, Cache_listed Export_cache, Cache_listed Expkey_cache}"
    by (auto intro: cache_name.exhaust)
  show ?thesis
    using assms unfolding all
    by (auto simp: nfsd_export_init_def setup_ok_def setup_delta_def Let_def split: if_splits)
qed

lemma exit_set_up:
  "set_up x (unregister_pernet_subsys h) = set_up x h - of_bool (cache_item_of x) - of_bool (x = Pernet)"
  by (cases x; (cases "case x of Cache_made n \<Rightarrow> n | Cache_listed n \<Rightarrow> n | _ \<Rightarrow> Export_cache")?)
     (auto simp: unregister_pernet_subsys_def nfsd_exit_net_def nfsd_export_shutdown_def setup_delta_def)

lemma register_pernet_set_up:
  assumes "register_pernet_subsys S nn h = (r, nn', h')" "setup_ok S"
  shows "r \<le> 0 \<and> set_up x h' = set_up x h + of_bool (r = 0 \<and> (cache_item_of x \<or> x = Pernet))"
proof -
  obtain e h1 where e: "nfsd_export_init S h = (e, h1)" by fastforce
  show ?thesis
    using assms(1) nfsd_export_init_set_up [OF e assms(2), of x]
    by (auto simp: register_pernet_subsys_def nfsd_init_net_def e setup_delta_def Let_def split: if_splits)
qed

text \<open>
  C24: Loading the module is all or nothing. If \<open>init_nfsd\<close> succeeds, both export caches exist and are
  registered, and the namespace operations, the notifier and the file system are registered, once each, and
  \<open>exit_nfsd\<close> takes all of it down again. If it fails, whichever step failed, nothing
  that it set up is left.
\<close>

theorem load_unwinds:
  assumes "init_nfsd S nn h = (r, nn', h')" "setup_ok S"
  shows "if r = 0 then set_up x h' = set_up x h + 1 \<and> set_up x (exit_nfsd h') = set_up x h
    else set_up x h' = set_up x h"
proof -
  obtain e nn1 h1 where e: "register_pernet_subsys S nn h = (e, nn1, h1)" by (metis prod_cases3)
  show ?thesis
    using assms(1) register_pernet_set_up [OF e assms(2), of x]
    by (cases x)
       (auto simp: init_nfsd_def exit_nfsd_def e exit_set_up setup_delta_def Let_def split: if_splits)
qed

definition full_setup :: setuplib where
  "full_setup = \<lparr>cache_create_net = (\<lambda>h n. 0), cache_register_net = (\<lambda>h n. if n = Expkey_cache then - ENOMEM else 0),
     pernet_register = (\<lambda>h. 0), register_cld_notifier = (\<lambda>h. 0), register_filesystem = (\<lambda>h. 0)\<rparr>"

theorem load_unwinds_witness:
  "fst (init_nfsd full_setup nfsd_loaded []) = - ENOMEM \<and>
   set_up (Cache_made Export_cache) (snd (snd (init_nfsd full_setup nfsd_loaded []))) = 0"
proof -
  obtain r nn h where i: "init_nfsd full_setup nfsd_loaded [] = (r, nn, h)" by (metis prod_cases3)
  have "fst (init_nfsd full_setup nfsd_loaded []) = - ENOMEM" by code_simp
  moreover have "setup_ok full_setup" by (simp add: setup_ok_def full_setup_def)
  ultimately show ?thesis
    using load_unwinds [OF i, of "Cache_made Export_cache"] i by simp
qed

end
